(* ===== verification/Sana_Prelude.thy ===== *)
theory Sana_Prelude
  imports Main "HOL-Library.AList" "HOL-Library.Word" "HOL-Library.Log_Nat"
begin

text \<open>
  Vocabulary shared by every component theory.

  \<^item> \<open>exn\<close> and \<open>'a result\<close>: a Python call either returns a value or raises; every
    raise and early exit of the source is an \<open>Err\<close> branch of the model. The value
    attached to a \<open>TypedError\<close> is the record of \<^verbatim>\<open>sana/modules/shared/errors.py\<close>.
  \<^item> \<open>json\<close>: the values that dictionaries of the source carry (error details, codec
    payloads).
  \<^item> strings: an identifier is a \<open>string\<close>, each \<open>char\<close> standing for one code point
    below 256; \<open>py_strip\<close> removes the characters that \<^verbatim>\<open>str.strip\<close> removes there.
  \<^item> instants: a \<open>datetime\<close> argument is aware (microseconds since the epoch, UTC) or
    naive; a field that only ever holds a checked value is an \<open>instant\<close>.
  \<^item> insertion-ordered dictionaries as association lists (\<open>AList.update\<close> and
    \<open>AList.delete\<close> keep the order that Python's dict keeps).
  \<^item> printing of identifiers and numbers as the f-strings of the source print them.
\<close>

named_theorems op_Ok \<open>when an operation succeeds, and what it then returns\<close>
named_theorems wf_defs \<open>well-formedness predicates of the component records\<close>

section \<open>Errors and results\<close>

datatype json =
    JNull
  | JBool bool
  | JInt int
  | JFloat rat
  | JStr string
  | JArr "json list"
  | JObj "(string \<times> json) list"

datatype ErrorCategory =
    TRANSIENT | PERMANENT | BUDGET | CONTENT | MODEL_OUTPUT | CANCELLED | INTERNAL

record typed_error =
  te_category :: ErrorCategory
  te_code :: string
  te_message :: string
  te_retryable :: bool
  te_details :: "(string \<times> json) list"

datatype exn =
    ValueError string
  | TypeError string
  | KeyError string
  | LookupError string
  | RuntimeError string
  | TypedError typed_error

datatype 'a result = Ok 'a | Err exn

fun is_ok :: "'a result \<Rightarrow> bool" where
  "is_ok (Ok _) = True"
| "is_ok (Err _) = False"

fun rbind :: "'a result \<Rightarrow> ('a \<Rightarrow> 'b result) \<Rightarrow> 'b result" where
  "rbind (Ok x) f = f x"
| "rbind (Err e) f = Err e"

fun traverse :: "('a \<Rightarrow> 'b result) \<Rightarrow> 'a list \<Rightarrow> 'b list result" where
  "traverse f [] = Ok []"
| "traverse f (x # xs) =
     rbind (f x) (\<lambda>y. rbind (traverse f xs) (\<lambda>ys. Ok (y # ys)))"

text \<open>\<^verbatim>\<open>all(...)\<close> and a filtering comprehension over a test that may raise.\<close>

fun rall :: "('a \<Rightarrow> bool result) \<Rightarrow> 'a list \<Rightarrow> bool result" where
  "rall f [] = Ok True"
| "rall f (x # xs) = rbind (f x) (\<lambda>b. if b then rall f xs else Ok False)"

fun rfilter :: "('a \<Rightarrow> bool result) \<Rightarrow> 'a list \<Rightarrow> 'a list result" where
  "rfilter f [] = Ok []"
| "rfilter f (x # xs) =
     rbind (f x) (\<lambda>b. rbind (rfilter f xs) (\<lambda>ys. Ok (if b then x # ys else ys)))"

lemma rall_pure: "(\<And>x. x \<in> set xs \<Longrightarrow> f x = Ok (P x)) \<Longrightarrow> rall f xs = Ok (list_all P xs)"
  by (induction xs) auto

lemma rfilter_pure: "(\<And>x. x \<in> set xs \<Longrightarrow> f x = Ok (P x)) \<Longrightarrow> rfilter f xs = Ok (filter P xs)"
  by (induction xs) auto

lemma is_ok_iff: "is_ok r \<longleftrightarrow> (\<exists>x. r = Ok x)"
  by (cases r) auto

lemma rbind_eq_Ok [simp]: "rbind r f = Ok y \<longleftrightarrow> (\<exists>x. r = Ok x \<and> f x = Ok y)"
  by (cases r) auto

lemma rbind_Ok_right [simp]: "rbind r Ok = r"
  by (cases r) auto

lemma rbind_assoc: "rbind (rbind r f) g = rbind r (\<lambda>x. rbind (f x) g)"
  by (cases r) auto

lemma traverse_Ok_iff:
  "traverse f xs = Ok ys \<longleftrightarrow> list_all2 (\<lambda>x y. f x = Ok y) xs ys"
  by (induction xs arbitrary: ys) (auto simp: list_all2_Cons1)

lemma traverse_map_Ok: "(\<And>x. x \<in> set xs \<Longrightarrow> f (g x) = Ok x) \<Longrightarrow> traverse f (map g xs) = Ok xs"
  by (induction xs) auto

section \<open>Strings\<close>

definition py_space :: "char \<Rightarrow> bool" where
  "py_space c =
     (let n = (of_char c :: nat)
      in 9 \<le> n \<and> n \<le> 13 \<or> 28 \<le> n \<and> n \<le> 32 \<or> n = 133 \<or> n = 160)"

definition py_strip :: "string \<Rightarrow> string" where
  "py_strip s = rev (dropWhile py_space (rev (dropWhile py_space s)))"

text \<open>\<open>blank s\<close> is the test \<^verbatim>\<open>not s.strip()\<close> of the constructors.\<close>

definition blank :: "string \<Rightarrow> bool" where
  "blank s = (py_strip s = [])"

lemma set_dropWhile_space:
  "(\<forall>c \<in> set (dropWhile P s). P c) \<longleftrightarrow> (\<forall>c \<in> set s. P c)"
  by (induction s) auto

lemma blank_iff: "blank s \<longleftrightarrow> (\<forall>c \<in> set s. py_space c)"
  by (simp add: blank_def py_strip_def set_dropWhile_space)

lemma blank_Nil [simp]: "blank []"
  by (simp add: blank_iff)

lemma blank_append: "blank (s @ t) \<longleftrightarrow> blank s \<and> blank t"
  by (auto simp: blank_iff)

lemma dropWhile_idem_rev:
  assumes "dropWhile P s = s"
  shows "dropWhile P (rev (dropWhile P (rev s))) = rev (dropWhile P (rev s))"
proof (cases "rev (dropWhile P (rev s))")
  case (Cons c cs)
  have "s = rev (dropWhile P (rev s)) @ rev (takeWhile P (rev s))"
    by (metis rev_append rev_rev_ident takeWhile_dropWhile_id)
  with Cons have "s = c # (cs @ rev (takeWhile P (rev s)))" by simp
  with assms have "\<not> P c"
    by (metis dropWhile_eq_self_iff list.distinct(1) list.sel(1))
  with Cons show ?thesis by simp
next
  case Nil
  then show ?thesis by (metis dropWhile.simps(1))
qed

lemma py_strip_idem [simp]: "py_strip (py_strip s) = py_strip s"
proof -
  have *: "dropWhile py_space (py_strip s) = py_strip s"
    unfolding py_strip_def by (rule dropWhile_idem_rev) simp
  show ?thesis
    by (subst py_strip_def) (simp add: *, simp add: py_strip_def)
qed

definition hex_digits :: string where
  "hex_digits = ''0123456789abcdef''"

definition hex_digits_any :: string where
  "hex_digits_any = ''0123456789abcdefABCDEF''"

definition lower_char :: "char \<Rightarrow> char" where
  "lower_char c =
     (let n = (of_char c :: nat) in
      if 65 \<le> n \<and> n \<le> 90 \<or> 192 \<le> n \<and> n \<le> 222 \<and> n \<noteq> 215 then char_of (n + 32) else c)"

definition py_lower :: "string \<Rightarrow> string" where
  "py_lower s = map lower_char s"

lemma lower_char_idem [simp]: "lower_char (lower_char c) = lower_char c"
proof -
  have "of_char c < (256 :: nat)" by simp
  then show ?thesis by (auto simp: lower_char_def Let_def)
qed

lemma py_lower_idem [simp]: "py_lower (py_lower s) = py_lower s"
  by (simp add: py_lower_def)

lemma length_py_lower [simp]: "length (py_lower s) = length s"
  by (simp add: py_lower_def)

lemma lower_char_hex: "\<forall>c \<in> set hex_digits_any. lower_char c \<in> set hex_digits"
  by code_simp

lemma set_py_lower_hex:
  "set s \<subseteq> set hex_digits_any \<Longrightarrow> set (py_lower s) \<subseteq> set hex_digits"
  using lower_char_hex by (auto simp: py_lower_def)

section \<open>Document text\<close>

text \<open>
  Natural-language text is a list of Unicode code points. The whitespace set is the one
  of \<^verbatim>\<open>str.isspace\<close>; \<open>py_slice\<close> is \<^verbatim>\<open>xs[a:b]\<close> with Python's treatment of negative
  and out-of-range bounds.
\<close>

type_synonym utext = "nat list"

definition text_space :: "nat \<Rightarrow> bool" where
  "text_space n \<longleftrightarrow>
     9 \<le> n \<and> n \<le> 13 \<or> 28 \<le> n \<and> n \<le> 32 \<or> n = 133 \<or> n = 160 \<or> n = 5760
     \<or> 8192 \<le> n \<and> n \<le> 8202 \<or> n = 8232 \<or> n = 8233 \<or> n = 8239 \<or> n = 8287 \<or> n = 12288"

definition text_strip :: "utext \<Rightarrow> utext" where
  "text_strip t = rev (dropWhile text_space (rev (dropWhile text_space t)))"

definition text_blank :: "utext \<Rightarrow> bool" where
  "text_blank t = (text_strip t = [])"

definition slice_index :: "nat \<Rightarrow> int \<Rightarrow> nat" where
  "slice_index n i = (if i < 0 then nat (i + int n) else min n (nat i))"

definition py_slice :: "'a list \<Rightarrow> int \<Rightarrow> int \<Rightarrow> 'a list" where
  "py_slice xs a b =
     (let n = length xs; i = slice_index n a; j = slice_index n b in take (j - i) (drop i xs))"

lemma text_blank_iff: "text_blank t \<longleftrightarrow> (\<forall>c \<in> set t. text_space c)"
  by (simp add: text_blank_def text_strip_def set_dropWhile_space)

lemma py_slice_nonneg:
  assumes "0 \<le> a" "0 \<le> b"
  shows "py_slice xs a b = take (nat b - nat a) (drop (nat a) xs)"
  using assms by (cases "nat a \<le> length xs") (auto simp: py_slice_def slice_index_def Let_def min_def)

lemma length_py_slice:
  "0 \<le> a \<Longrightarrow> a \<le> b \<Longrightarrow> b \<le> int (length xs) \<Longrightarrow> length (py_slice xs a b) = nat (b - a)"
  by (simp add: py_slice_nonneg nat_diff_distrib)

lemma py_slice_slice:
  assumes "0 \<le> a" "0 \<le> c" "c \<le> d" "a + d \<le> b"
  shows "py_slice (py_slice xs a b) c d = py_slice xs (a + c) (a + d)"
proof -
  have "nat b - nat a - nat c \<ge> nat d - nat c" using assms by linarith
  moreover have "nat (a + c) = nat a + nat c" "nat (a + d) = nat a + nat d"
    using assms by (auto simp: nat_add_distrib)
  ultimately show ?thesis
    using assms by (simp add: py_slice_nonneg drop_take min_def add.commute)
qed

section \<open>Time\<close>

type_synonym instant = int

datatype datetime = Aware instant | Naive int

text \<open>
  \<^verbatim>\<open>_require_aware\<close> of \<^verbatim>\<open>orchestration/domain.py\<close> and \<^verbatim>\<open>require_aware\<close> of
  \<^verbatim>\<open>shadow_campaign/domain.py\<close>: the checked instant, or the \<open>ValueError\<close> that names the
  field.
\<close>

fun require_aware :: "datetime \<Rightarrow> string \<Rightarrow> instant result" where
  "require_aware (Aware t) field_name = Ok t"
| "require_aware (Naive t) field_name =
     Err (ValueError (field_name @ '' must be timezone-aware''))"

lemma require_aware_eq_Ok [simp]: "require_aware d f = Ok t \<longleftrightarrow> d = Aware t"
  by (cases d) auto

section \<open>Dictionaries\<close>

type_synonym ('k, 'v) dict = "('k \<times> 'v) list"

abbreviation dict_keys :: "('k, 'v) dict \<Rightarrow> 'k list" where
  "dict_keys d \<equiv> map fst d"

abbreviation dict_values :: "('k, 'v) dict \<Rightarrow> 'v list" where
  "dict_values d \<equiv> map snd d"

text \<open>\<^verbatim>\<open>dict.fromkeys(xs)\<close>: the distinct elements in order of first occurrence.\<close>

fun fromkeys :: "'a list \<Rightarrow> 'a list" where
  "fromkeys [] = []"
| "fromkeys (x # xs) = x # filter (\<lambda>y. y \<noteq> x) (fromkeys xs)"

lemma set_fromkeys [simp]: "set (fromkeys xs) = set xs"
  by (induction xs) auto

lemma distinct_fromkeys [simp]: "distinct (fromkeys xs)"
  by (induction xs) auto

lemma fromkeys_distinct: "distinct xs \<Longrightarrow> fromkeys xs = xs"
  by (induction xs) (auto simp: filter_id_conv)

lemma fromkeys_eq_Nil [simp]: "fromkeys xs = [] \<longleftrightarrow> xs = []"
  by (cases xs) auto

lemma length_fromkeys_le: "length (fromkeys xs) \<le> length xs"
  by (metis distinct_card distinct_fromkeys set_fromkeys card_length)

lemma update_fresh: "k \<notin> set (dict_keys d) \<Longrightarrow> AList.update k v d = d @ [(k, v)]"
  by (induction d) auto

lemma distinct_keys_delete [simp]:
  "distinct (dict_keys d) \<Longrightarrow> distinct (dict_keys (AList.delete k d))"
  by (rule distinct_delete)

lemma delete_fresh: "k \<notin> set (dict_keys d) \<Longrightarrow> AList.delete k d = d"
  by (simp add: delete_id)

section \<open>Printing\<close>

fun nat_str :: "nat \<Rightarrow> string" where
  "nat_str n =
     (if n < 10 then [char_of (48 + n)] else nat_str (n div 10) @ [char_of (48 + n mod 10)])"

declare nat_str.simps [simp del]

definition int_str :: "int \<Rightarrow> string" where
  "int_str i = (if i < 0 then ''-'' @ nat_str (nat (- i)) else nat_str (nat i))"

lemma nat_str_not_Nil [simp]: "nat_str n \<noteq> []" "[] \<noteq> nat_str n"
  by (subst nat_str.simps, simp)+

lemma digit_char_inj: "m < 10 \<Longrightarrow> n < 10 \<Longrightarrow> char_of (48 + m) = char_of (48 + n) \<Longrightarrow> m = (n :: nat)"
  by (auto dest: arg_cong [where f = "of_char :: char \<Rightarrow> nat"])

lemma nat_str_inj: "nat_str m = nat_str n \<Longrightarrow> m = n"
proof (induction m arbitrary: n rule: nat_str.induct)
  case (1 m)
  show ?case
  proof (cases "m < 10")
    case True
    with "1.prems" have "n < 10"
      by (cases "n < 10") (auto simp: nat_str.simps [of m] nat_str.simps [of n])
    with True "1.prems" show ?thesis
      by (simp add: nat_str.simps [of m] nat_str.simps [of n])
  next
    case False
    with "1.prems" have n: "\<not> n < 10"
      by (cases "n < 10") (auto simp: nat_str.simps [of m] nat_str.simps [of n])
    with False "1.prems" have "nat_str (m div 10) = nat_str (n div 10)"
      and last: "char_of (48 + m mod 10) = (char_of (48 + n mod 10) :: char)"
      by (auto simp: nat_str.simps [of m] nat_str.simps [of n])
    with False "1.IH" have "m div 10 = n div 10" by blast
    moreover have "m mod 10 = n mod 10"
      by (rule digit_char_inj) (use last in simp_all)
    ultimately show ?thesis by (metis mult_div_mod_eq)
  qed
qed

text \<open>For evaluation: the digits from a table.\<close>

lemma nat_str_code [code]:
  "nat_str n = (if n < 10 then [''0123456789'' ! n]
     else nat_str (n div 10) @ [''0123456789'' ! (n mod 10)])"
proof -
  have "char_of (48 + m) = ''0123456789'' ! m" if "m < 10" for m :: nat
  proof -
    from that have "m \<in> {0, 1, 2, 3, 4, 5, 6, 7, 8, 9}" by auto
    then show ?thesis by (elim insertE; simp add: char_of_def bit_simps)
  qed
  then show ?thesis by (subst nat_str.simps) simp
qed

text \<open>A UUID is its 128-bit value; \<^verbatim>\<open>str(uuid)\<close> prints it as 8-4-4-4-12 hex digits.\<close>

type_synonym uuid = "128 word"

definition nibble :: "uuid \<Rightarrow> nat \<Rightarrow> char" where
  "nibble u i = hex_digits ! (unat (take_bit 4 (drop_bit (4 * (31 - i)) u)))"

definition uuid_hex :: "uuid \<Rightarrow> string" where
  "uuid_hex u = map (nibble u) [0..<32]"

definition uuid_str :: "uuid \<Rightarrow> string" where
  "uuid_str u =
     (let h = uuid_hex u in
      take 8 h @ ''-'' @ take 4 (drop 8 h) @ ''-'' @ take 4 (drop 12 h) @ ''-''
        @ take 4 (drop 16 h) @ ''-'' @ drop 20 h)"

lemma length_uuid_hex [simp]: "length (uuid_hex u) = 32"
  by (simp add: uuid_hex_def)

lemma length_uuid_str [simp]: "length (uuid_str u) = 36"
  by (simp add: uuid_str_def Let_def)

lemma hex_digits_nth_inj: "i < 16 \<Longrightarrow> j < 16 \<Longrightarrow> hex_digits ! i = hex_digits ! j \<Longrightarrow> i = j"
  by (subst (asm) nth_eq_iff_index_eq) (simp_all add: hex_digits_def)

lemma uuid_hex_inj:
  assumes "uuid_hex u = uuid_hex v"
  shows "u = v"
proof (rule bit_word_eqI)
  fix n
  assume "n < LENGTH(128)"
  then have n: "n < 128" by simp
  let ?i = "31 - n div 4"
  have i: "4 * (31 - ?i) = 4 * (n div 4)" using n by auto
  have bound: "unat (take_bit 4 w) < 16" for w :: uuid
    using take_bit_nat_less_exp [of 4 "unat w"] by (simp add: unsigned_take_bit_eq)
  from assms have "nibble u ?i = nibble v ?i"
    by (simp add: uuid_hex_def)
  then have "unat (take_bit 4 (drop_bit (4 * (n div 4)) u))
      = unat (take_bit 4 (drop_bit (4 * (n div 4)) v))"
    unfolding nibble_def i by (rule hex_digits_nth_inj [OF bound bound])
  then have "take_bit 4 (drop_bit (4 * (n div 4)) u) = take_bit 4 (drop_bit (4 * (n div 4)) v)"
    by (rule unsigned_word_eqI)
  then have "bit (take_bit 4 (drop_bit (4 * (n div 4)) u)) (n mod 4)
      = bit (take_bit 4 (drop_bit (4 * (n div 4)) v)) (n mod 4)"
    by simp
  then show "bit u n = bit v n"
    by (simp add: bit_take_bit_iff bit_drop_bit_eq)
qed

lemma uuid_str_inj: "uuid_str u = uuid_str v \<Longrightarrow> u = v"
proof -
  assume eq: "uuid_str u = uuid_str v"
  let ?h = "uuid_hex u" and ?k = "uuid_hex v"
  from eq have "take 8 ?h = take 8 ?k" "take 4 (drop 8 ?h) = take 4 (drop 8 ?k)"
    "take 4 (drop 12 ?h) = take 4 (drop 12 ?k)" "take 4 (drop 16 ?h) = take 4 (drop 16 ?k)"
    "drop 20 ?h = drop 20 ?k"
    by (auto simp: uuid_str_def Let_def)
  moreover have split: "xs = take 8 xs @ take 4 (drop 8 xs) @ take 4 (drop 12 xs)
      @ take 4 (drop 16 xs) @ drop 20 xs" for xs :: string
    using append_take_drop_id [of 8 xs] append_take_drop_id [of 4 "drop 8 xs"]
      append_take_drop_id [of 4 "drop 12 xs"] append_take_drop_id [of 4 "drop 16 xs"]
    by simp
  ultimately have "?h = ?k" by metis
  then show "u = v" by (rule uuid_hex_inj)
qed

end
