(* ===== verification/Py_Float.thy ===== *)
theory Py_Float
  imports Complex_Main "HOL-Library.Log_Nat"
begin

text \<open>
  Python floats and \<^verbatim>\<open>timedelta\<close>. A finite double is represented by the rational it
  denotes; \<open>fl\<close> rounds a rational to the nearest rational with a 53-bit significand,
  ties to even, so \<open>fadd\<close>, \<open>fmul\<close> and \<open>fdiv\<close> are the double operations the
  source performs on budgets, confidences and scores. Overflow to infinity, subnormal
  results and NaN are outside the model. \<open>td_us\<close> is the number of microseconds of
  \<^verbatim>\<open>timedelta(seconds=x)\<close>, computed as CPython computes it: whole seconds exactly, the
  fraction multiplied by a million in double arithmetic, then rounded half to even.
  The lemmas are the ones the components need: sign, monotonicity, and that small
  integers are representable.
\<close>

section \<open>Definitions\<close>

type_synonym pyfloat = rat

definition round_half_even :: "rat \<Rightarrow> int" where
  "round_half_even x =
     (let n = \<lfloor>x\<rfloor>; d = x - of_int n in
      if d < 1 / 2 then n else if 1 / 2 < d then n + 1 else if even n then n else n + 1)"

definition log2_floor :: "rat \<Rightarrow> int" where
  "log2_floor x =
     (let (p, q) = quotient_of x; b = bitlen p - bitlen q in
      if 2 powi b \<le> x then b else b - 1)"

definition fl :: "rat \<Rightarrow> pyfloat" where
  "fl x =
     (if x = 0 then 0
      else let e = log2_floor \<bar>x\<bar> - 52
           in sgn x * (of_int (round_half_even (\<bar>x\<bar> / 2 powi e)) * 2 powi e))"

definition fadd :: "pyfloat \<Rightarrow> pyfloat \<Rightarrow> pyfloat" where
  "fadd x y = fl (x + y)"

definition fmul :: "pyfloat \<Rightarrow> pyfloat \<Rightarrow> pyfloat" where
  "fmul x y = fl (x * y)"

definition fdiv :: "pyfloat \<Rightarrow> pyfloat \<Rightarrow> pyfloat" where
  "fdiv x y = fl (x / y)"

definition py_trunc :: "pyfloat \<Rightarrow> int" where
  "py_trunc x = (if 0 \<le> x then \<lfloor>x\<rfloor> else \<lceil>x\<rceil>)"

definition td_us :: "pyfloat \<Rightarrow> int" where
  "td_us x =
     (let i = py_trunc x
      in round_half_even (of_int (i * 1000000) + fmul 1000000 (x - of_int i)))"

definition total_seconds :: "int \<Rightarrow> pyfloat" where
  "total_seconds us = fdiv (of_int us) 1000000"

section \<open>Rounding to an integer\<close>

lemma round_half_even_of_int [simp]: "round_half_even (of_int n) = n"
  by (simp add: round_half_even_def)

lemma round_half_even_bounds: "\<lfloor>x\<rfloor> \<le> round_half_even x" "round_half_even x \<le> \<lfloor>x\<rfloor> + 1"
  by (auto simp: round_half_even_def Let_def)

lemma round_half_even_mono:
  assumes "x \<le> y"
  shows "round_half_even x \<le> round_half_even y"
proof (cases "\<lfloor>x\<rfloor> = \<lfloor>y\<rfloor>")
  case True
  with assms show ?thesis by (auto simp: round_half_even_def Let_def)
next
  case False
  with assms have "\<lfloor>x\<rfloor> + 1 \<le> \<lfloor>y\<rfloor>"
    by (metis floor_mono order_le_imp_less_or_eq zless_imp_add1_zle)
  then show ?thesis using round_half_even_bounds [of x] round_half_even_bounds [of y] by linarith
qed

lemma round_half_even_le: "x \<le> of_int n \<Longrightarrow> round_half_even x \<le> n"
  using round_half_even_mono [of x "of_int n"] by simp

lemma round_half_even_ge: "of_int n \<le> x \<Longrightarrow> n \<le> round_half_even x"
  using round_half_even_mono [of "of_int n" x] by simp

section \<open>The binade of a positive rational\<close>

lemma powi_le_powi: "m \<le> n \<Longrightarrow> (2 :: rat) powi m \<le> 2 powi n"
  by (rule power_int_increasing) auto

lemma bitlen_powi:
  assumes "0 < p"
  shows "(2 :: rat) powi (bitlen p - 1) \<le> of_int p" "of_int p < (2 :: rat) powi (bitlen p)"
proof -
  have b: "0 < bitlen p"
    using bitlen_bounds [OF assms] assms by (cases "0 < bitlen p") auto
  have "2 ^ nat (bitlen p - 1) \<le> p \<and> p < 2 ^ nat (bitlen p)"
    using bitlen_bounds [OF assms] .
  then have "(of_int (2 ^ nat (bitlen p - 1)) :: rat) \<le> of_int p"
    "(of_int p :: rat) < of_int (2 ^ nat (bitlen p))"
    by (auto simp only: of_int_le_iff of_int_less_iff)
  with b show "(2 :: rat) powi (bitlen p - 1) \<le> of_int p" "of_int p < (2 :: rat) powi (bitlen p)"
    by (auto simp: power_int_def)
qed

lemma log2_floor_bounds:
  assumes "0 < x"
  shows "2 powi (log2_floor x) \<le> x" "x < 2 powi (log2_floor x + 1)"
proof -
  obtain p q where pq: "quotient_of x = (p, q)" by (cases "quotient_of x")
  have q: "0 < q" and x: "x = of_int p / of_int q"
    using pq quotient_of_denom_pos quotient_of_div by auto
  with assms have p: "0 < p" by (simp add: zero_less_divide_iff)
  let ?b = "bitlen p - bitlen q"
  have "2 powi (bitlen p - 1) / 2 powi (bitlen q) \<le> (of_int p / of_int q :: rat)"
    using bitlen_powi [OF p] bitlen_powi [OF q] p q by (intro frac_le) auto
  then have low: "2 powi (?b - 1) \<le> x"
    by (simp add: x power_int_diff power_int_add algebra_simps)
  have "(of_int p / of_int q :: rat) < 2 powi (bitlen p) / 2 powi (bitlen q - 1)"
    using bitlen_powi [OF p] bitlen_powi [OF q] p by (intro frac_less) auto
  then have high: "x < 2 powi (?b + 1)"
    by (simp add: x power_int_diff power_int_add algebra_simps)
  show "2 powi (log2_floor x) \<le> x" "x < 2 powi (log2_floor x + 1)"
    using low high by (auto simp: log2_floor_def pq Let_def)
qed

lemma log2_floor_mono:
  assumes "0 < x" "x \<le> y"
  shows "log2_floor x \<le> log2_floor y"
proof (rule ccontr)
  assume "\<not> ?thesis"
  then have "log2_floor y + 1 \<le> log2_floor x" by simp
  then have "(2 :: rat) powi (log2_floor y + 1) \<le> 2 powi (log2_floor x)"
    by (rule powi_le_powi)
  with log2_floor_bounds [of x] log2_floor_bounds [of y] assms show False by linarith
qed

section \<open>Rounding to a double\<close>

lemma fl_0 [simp]: "fl 0 = 0"
  by (simp add: fl_def)

lemma fl_pos_eq:
  "0 < x \<Longrightarrow> fl x = of_int (round_half_even (x / 2 powi (log2_floor x - 52))) * 2 powi (log2_floor x - 52)"
  by (simp add: fl_def Let_def)

lemma fl_minus: "fl (- x) = - fl x"
  by (simp add: fl_def Let_def sgn_minus)

lemma fl_binade:
  assumes "0 < x"
  shows "2 powi (log2_floor x) \<le> fl x" "fl x \<le> 2 powi (log2_floor x + 1)"
proof -
  let ?k = "log2_floor x" and ?e = "log2_floor x - 52"
  have pos: "(0 :: rat) < 2 powi ?e" by simp
  have low: "(2 :: rat) powi ?k = of_int (2 ^ 52) * 2 powi ?e"
    by (simp add: power_int_diff)
  have high: "(2 :: rat) powi (?k + 1) = of_int (2 ^ 53) * 2 powi ?e"
    by (simp add: power_int_diff power_int_add)
  have "of_int (2 ^ 52) \<le> x / 2 powi ?e"
    using log2_floor_bounds(1) [OF assms] pos unfolding low by (simp add: le_divide_eq)
  then have "2 ^ 52 \<le> round_half_even (x / 2 powi ?e)"
    by (rule round_half_even_ge)
  then have "(of_int (2 ^ 52) :: rat) \<le> of_int (round_half_even (x / 2 powi ?e))"
    by (simp only: of_int_le_iff)
  from mult_right_mono [OF this less_imp_le [OF pos]] show "2 powi ?k \<le> fl x"
    unfolding low fl_pos_eq [OF assms] .
  have "x / 2 powi ?e \<le> of_int (2 ^ 53)"
    using log2_floor_bounds(2) [OF assms] pos unfolding high by (simp add: divide_le_eq)
  then have "round_half_even (x / 2 powi ?e) \<le> 2 ^ 53"
    by (rule round_half_even_le)
  then have "(of_int (round_half_even (x / 2 powi ?e)) :: rat) \<le> of_int (2 ^ 53)"
    by (simp only: of_int_le_iff)
  from mult_right_mono [OF this less_imp_le [OF pos]] show "fl x \<le> 2 powi (?k + 1)"
    unfolding high fl_pos_eq [OF assms] .
qed

lemma fl_pos: "0 < x \<Longrightarrow> 0 < fl x"
  using fl_binade(1) [of x] by (metis less_le_trans zero_less_numeral zero_less_power_int)

lemma fl_nonneg: "0 \<le> x \<Longrightarrow> 0 \<le> fl x"
  using fl_pos [of x] by (cases "x = 0") (auto simp: less_le)

lemma fl_mono_pos:
  assumes "0 < x" "x \<le> y"
  shows "fl x \<le> fl y"
proof (cases "log2_floor x = log2_floor y")
  case True
  let ?e = "log2_floor y - 52"
  have "x / 2 powi ?e \<le> y / 2 powi ?e"
    using assms by (simp add: divide_right_mono)
  then have "(of_int (round_half_even (x / 2 powi ?e)) :: rat) \<le> of_int (round_half_even (y / 2 powi ?e))"
    by (simp add: round_half_even_mono)
  with assms True show ?thesis by (simp add: fl_pos_eq mult_right_mono)
next
  case False
  with log2_floor_mono [OF assms] have "log2_floor x + 1 \<le> log2_floor y" by simp
  then have "(2 :: rat) powi (log2_floor x + 1) \<le> 2 powi (log2_floor y)"
    by (rule powi_le_powi)
  with fl_binade [of x] fl_binade [of y] assms show ?thesis by linarith
qed

lemma fl_mono:
  assumes "x \<le> y"
  shows "fl x \<le> fl y"
proof (cases "0 < x")
  case True
  with assms show ?thesis by (simp add: fl_mono_pos)
next
  case x: False
  show ?thesis
  proof (cases "0 < y")
    case True
    have "0 \<le> fl (- x)" using x by (simp add: fl_nonneg)
    with fl_pos [OF True] show ?thesis by (simp add: fl_minus)
  next
    case y: False
    show ?thesis
    proof (cases "y = 0")
      case True
      have "0 \<le> fl (- x)" using x by (simp add: fl_nonneg)
      with True show ?thesis by (simp add: fl_minus)
    next
      case False
      with y assms have "fl (- y) \<le> fl (- x)" by (intro fl_mono_pos) auto
      then show ?thesis by (simp add: fl_minus)
    qed
  qed
qed

lemma fl_one [simp]: "fl 1 = 1"
  by code_simp

lemma fadd_nonneg: "0 \<le> x \<Longrightarrow> 0 \<le> y \<Longrightarrow> 0 \<le> fadd x y"
  by (simp add: fadd_def fl_nonneg)

lemma fmul_nonneg: "0 \<le> x \<Longrightarrow> 0 \<le> y \<Longrightarrow> 0 \<le> fmul x y"
  by (simp add: fmul_def fl_nonneg)

lemma fdiv_nonneg: "0 \<le> x \<Longrightarrow> 0 \<le> y \<Longrightarrow> 0 \<le> fdiv x y"
  by (simp add: fdiv_def fl_nonneg)

lemma py_trunc_nonneg: "0 \<le> x \<Longrightarrow> 0 \<le> py_trunc x"
  by (simp add: py_trunc_def)

lemma td_us_of_int [simp]: "td_us (of_int n) = n * 1000000"
  using round_half_even_of_int [of "n * 1000000"]
  by (simp add: td_us_def py_trunc_def fmul_def del: round_half_even_of_int)

lemma td_us_numeral [simp]: "td_us (numeral n) = numeral n * 1000000"
  using td_us_of_int [of "numeral n"] by simp

lemma td_us_nonneg:
  assumes "0 \<le> x"
  shows "0 \<le> td_us x"
proof -
  have "0 \<le> fmul 1000000 (x - of_int (py_trunc x))"
    using assms by (intro fmul_nonneg) (auto simp: py_trunc_def)
  with py_trunc_nonneg [OF assms] show ?thesis
    unfolding td_us_def Let_def by (intro round_half_even_ge) simp
qed

lemma total_seconds_nonneg: "0 \<le> us \<Longrightarrow> 0 \<le> total_seconds us"
  by (simp add: total_seconds_def fdiv_nonneg)

section \<open>Evaluation\<close>

text \<open>Code equations that compute on the numerator and denominator.\<close>

lemma powi_int: "(of_int b :: rat) powi e = (if 0 \<le> e then of_int (b ^ nat e) else 1 / of_int (b ^ nat (- e)))"
  by (simp add: power_int_def field_simps)

lemmas powi_2_int = powi_int [of 2, simplified]

definition rhe_div :: "int \<Rightarrow> int \<Rightarrow> int" where
  "rhe_div a b =
     (let n = a div b; r = 2 * (a mod b) in
      if r < b then n else if b < r then n + 1 else if even n then n else n + 1)"

lemma round_half_even_div:
  assumes "0 < b"
  shows "round_half_even (of_int a / of_int b) = rhe_div a b"
proof -
  have floor: "\<lfloor>(of_int a / of_int b :: rat)\<rfloor> = a div b" by (rule floor_divide_of_int_eq)
  have "(of_int a :: rat) = of_int (a div b) * of_int b + of_int (a mod b)"
    by (simp only: flip: of_int_mult of_int_add) simp
  then have diff: "(of_int a / of_int b - of_int (a div b) :: rat) = of_int (a mod b) / of_int b"
    using assms by (simp add: add_divide_distrib)
  have half: "(of_int r / of_int b < (1 / 2 :: rat)) = (2 * r < b)"
    "((1 / 2 :: rat) < of_int r / of_int b) = (b < 2 * r)" for r
  proof -
    have "(of_int (2 * r) < (of_int b :: rat)) = (2 * r < b)" "((of_int b :: rat) < of_int (2 * r)) = (b < 2 * r)"
      by (simp_all only: of_int_less_iff)
    moreover have "(0 :: rat) < of_int b" using assms by simp
    ultimately show "(of_int r / of_int b < (1 / 2 :: rat)) = (2 * r < b)"
      "((1 / 2 :: rat) < of_int r / of_int b) = (b < 2 * r)"
      by (auto simp: pos_divide_less_eq pos_less_divide_eq)
  qed
  show ?thesis unfolding round_half_even_def rhe_div_def Let_def floor diff half by simp
qed

lemma rat_of_quotient: "quotient_of x = (p, q) \<Longrightarrow> x = of_int p / of_int q \<and> 0 < q"
  by (simp add: quotient_of_div quotient_of_denom_pos)

lemma round_half_even_code [code]:
  "round_half_even x = (case quotient_of x of (p, q) \<Rightarrow> rhe_div p q)"
  using rat_of_quotient [of x] round_half_even_div by (auto split: prod.split)

lemma log2_floor_code [code]:
  "log2_floor x =
     (case quotient_of x of (p, q) \<Rightarrow>
        let b = bitlen p - bitlen q in
        if (if 0 \<le> b then q * 2 ^ nat b \<le> p else q \<le> p * 2 ^ nat (- b)) then b else b - 1)"
proof -
  obtain p q where pq: "quotient_of x = (p, q)" by fastforce
  note x = rat_of_quotient [OF pq]
  have "2 powi b \<le> x \<longleftrightarrow> (if 0 \<le> b then q * 2 ^ nat b \<le> p else q \<le> p * 2 ^ nat (- b))" for b
  proof -
    have "(of_int (2 ^ n) \<le> x) = (q * 2 ^ n \<le> p)" "(1 / of_int (2 ^ n) \<le> x) = (q \<le> p * 2 ^ n)" for n
    proof -
      have "(of_int (q * 2 ^ n) \<le> (of_int p :: rat)) = (q * 2 ^ n \<le> p)"
        "((of_int q :: rat) \<le> of_int (p * 2 ^ n)) = (q \<le> p * 2 ^ n)" by (simp_all only: of_int_le_iff)
      moreover have "(0 :: rat) < of_int q" using x by simp
      ultimately show "(of_int (2 ^ n) \<le> x) = (q * 2 ^ n \<le> p)" "(1 / of_int (2 ^ n) \<le> x) = (q \<le> p * 2 ^ n)"
        using x by (simp_all add: pos_le_divide_eq pos_divide_le_eq mult.commute)
    qed
    then show ?thesis by (simp only: powi_2_int split: if_split) simp
  qed
  then show ?thesis by (simp add: log2_floor_def pq Let_def)
qed

definition scaled_round :: "int \<Rightarrow> int \<Rightarrow> int \<Rightarrow> int \<Rightarrow> rat" where
  "scaled_round b e p q =
     (if 0 \<le> e then of_int (sgn p * (rhe_div \<bar>p\<bar> (q * b ^ nat e) * b ^ nat e))
      else of_int (sgn p * rhe_div (\<bar>p\<bar> * b ^ nat (- e)) q) / of_int (b ^ nat (- e)))"

lemma scaled_round:
  assumes "quotient_of x = (p, q)" and "0 < b"
  shows "sgn x * (of_int (round_half_even (\<bar>x\<bar> / of_int b powi e)) * of_int b powi e) = scaled_round b e p q"
proof -
  note x = rat_of_quotient [OF assms(1)]
  have sg: "sgn x = of_int (sgn p)" "\<bar>x\<bar> = of_int \<bar>p\<bar> / of_int q"
    using x by (auto simp: sgn_if field_simps)
  have up: "round_half_even (\<bar>x\<bar> / of_int (b ^ n)) = rhe_div \<bar>p\<bar> (q * b ^ n)" for n
    using round_half_even_div [of "q * b ^ n" "\<bar>p\<bar>"] x assms(2) by (simp add: sg(2) field_simps)
  have down: "round_half_even (\<bar>x\<bar> / (1 / of_int (b ^ n))) = rhe_div (\<bar>p\<bar> * b ^ n) q" for n
    using round_half_even_div [of q "\<bar>p\<bar> * b ^ n"] x by (simp add: sg(2) field_simps)
  show ?thesis
  proof (cases "0 \<le> e")
    case True
    then have "of_int b powi e = (of_int (b ^ nat e) :: rat)" by (simp only: powi_int if_True)
    then show ?thesis using True up [of "nat e"] by (simp add: sg(1) scaled_round_def del: of_int_power)
  next
    case False
    then have "of_int b powi e = (1 / of_int (b ^ nat (- e)) :: rat)" by (simp only: powi_int if_False)
    then show ?thesis using False down [of "nat (- e)"] by (simp add: sg(1) scaled_round_def del: of_int_power)
  qed
qed

lemma fl_code [code]:
  "fl x = (case quotient_of x of (p, q) \<Rightarrow> if p = 0 then 0 else scaled_round 2 (log2_floor \<bar>x\<bar> - 52) p q)"
proof -
  obtain p q where pq: "quotient_of x = (p, q)" by fastforce
  have "x = 0 \<longleftrightarrow> p = 0" using rat_of_quotient [OF pq] by auto
  with scaled_round [OF pq, of 2] show ?thesis by (simp add: fl_def pq Let_def)
qed

lemma py_trunc_code [code]:
  "py_trunc x = (case quotient_of x of (p, q) \<Rightarrow> if 0 \<le> p then p div q else - ((- p) div q))"
proof -
  obtain p q where pq: "quotient_of x = (p, q)" by fastforce
  note x = rat_of_quotient [OF pq]
  have "\<lfloor>(of_int r / of_int q :: rat)\<rfloor> = r div q" for r by (rule floor_divide_of_int_eq)
  from this [of p] this [of "- p"] x show ?thesis
    unfolding pq py_trunc_def ceiling_def by (simp add: zero_le_divide_iff)
qed

end
