(* ===== verification/Shared_Kernel.thy ===== *)
theory Shared_Kernel
  imports Sana_Prelude Py_Float
begin

text \<open>
  The dependency-free types of \<^verbatim>\<open>sana/modules/shared\<close> (errors, clock, trace context,
  result values) and the transition check of \<^verbatim>\<open>orchestration/transitions.py\<close>. The
  locales \<open>versioned_machine\<close> and \<open>sealed_machine\<close> state what the aggregates of the
  later theories promise about their transition tables and version counters; their
  lemmas (versions never repeat, terminal states are final) are proved here once.
\<close>

section \<open>errors.py\<close>

definition retryable_by_default :: "ErrorCategory \<Rightarrow> bool" where
  "retryable_by_default c = (c = TRANSIENT)"

definition typed_error_new ::
  "ErrorCategory \<Rightarrow> string \<Rightarrow> string \<Rightarrow> bool option \<Rightarrow> (string \<times> json) list \<Rightarrow> typed_error result"
where
  "typed_error_new category code message retryable details =
     (let normalized_code = py_strip code; normalized_message = py_strip message in
      if normalized_code = [] then Err (ValueError ''TypedError code cannot be empty'')
      else if normalized_message = [] then Err (ValueError ''TypedError message cannot be empty'')
      else Ok \<lparr>te_category = category, te_code = normalized_code, te_message = normalized_message,
               te_retryable = (case retryable of None \<Rightarrow> retryable_by_default category | Some b \<Rightarrow> b),
               te_details = details\<rparr>)"

definition raise_typed ::
  "ErrorCategory \<Rightarrow> string \<Rightarrow> string \<Rightarrow> bool option \<Rightarrow> (string \<times> json) list \<Rightarrow> exn" where
  "raise_typed category code message retryable details =
     (case typed_error_new category code message retryable details of
        Ok e \<Rightarrow> TypedError e | Err x \<Rightarrow> x)"

definition invariant_violation_code :: "string \<Rightarrow> string \<Rightarrow> (string \<times> json) list \<Rightarrow> exn" where
  "invariant_violation_code message code details =
     raise_typed PERMANENT code message (Some False) details"

definition InvariantViolation :: "string \<Rightarrow> exn" where
  "InvariantViolation message = invariant_violation_code message ''invariant_violation'' []"

fun error_category_value :: "ErrorCategory \<Rightarrow> string" where
  "error_category_value TRANSIENT = ''TRANSIENT''"
| "error_category_value PERMANENT = ''PERMANENT''"
| "error_category_value BUDGET = ''BUDGET''"
| "error_category_value CONTENT = ''CONTENT''"
| "error_category_value MODEL_OUTPUT = ''MODEL_OUTPUT''"
| "error_category_value CANCELLED = ''CANCELLED''"
| "error_category_value INTERNAL = ''INTERNAL''"

definition typed_error_str :: "typed_error \<Rightarrow> string" where
  "typed_error_str e =
     ''['' @ error_category_value (te_category e) @ '':'' @ te_code e @ ''] '' @ te_message e"

definition typed_error_to_dict :: "typed_error \<Rightarrow> (string \<times> json) list" where
  "typed_error_to_dict e =
     [(''category'', JStr (error_category_value (te_category e))),
      (''code'', JStr (te_code e)),
      (''message'', JStr (te_message e)),
      (''retryable'', JBool (te_retryable e)),
      (''details'', JObj (te_details e))]"

text \<open>The well-formed errors are the ones the constructor builds.\<close>

definition typed_error_wf :: "typed_error \<Rightarrow> bool" where
  "typed_error_wf e \<longleftrightarrow> te_code e \<noteq> [] \<and> te_message e \<noteq> []
     \<and> py_strip (te_code e) = te_code e \<and> py_strip (te_message e) = te_message e"

section \<open>clock.py\<close>

record FrozenClock =
  current :: instant

definition frozen_clock_new :: "datetime \<Rightarrow> FrozenClock result" where
  "frozen_clock_new moment =
     (case moment of
        Aware t \<Rightarrow> Ok \<lparr>current = t\<rparr>
      | Naive _ \<Rightarrow> Err (ValueError ''FrozenClock requires a timezone-aware datetime''))"

definition frozen_clock_advance :: "FrozenClock \<Rightarrow> int \<Rightarrow> (instant \<times> FrozenClock) result" where
  "frozen_clock_advance c delta =
     (if total_seconds delta < 0 then Err (ValueError ''Clock cannot move backwards'')
      else Ok (current c + delta, c\<lparr>current := current c + delta\<rparr>))"

section \<open>ids.py: trace context\<close>

record trace_context =
  trace_id :: string
  span_id :: string
  trace_flags :: string
  baggage :: "(string \<times> string) list"

definition is_hex_of :: "nat \<Rightarrow> string \<Rightarrow> bool" where
  "is_hex_of n s \<longleftrightarrow> length s = n \<and> list_all (\<lambda>c. c \<in> set hex_digits) s"

definition is_any_hex_of :: "nat \<Rightarrow> string \<Rightarrow> bool" where
  "is_any_hex_of n s \<longleftrightarrow> length s = n \<and> list_all (\<lambda>c. c \<in> set hex_digits_any) s"

definition TraceContext_new ::
  "string \<Rightarrow> string \<Rightarrow> string \<Rightarrow> (string \<times> string) list \<Rightarrow> trace_context result" where
  "TraceContext_new tid sid flags bag =
     (let t = py_lower tid; s = py_lower sid in
      if \<not> is_hex_of 32 t \<or> set t = {CHR ''0''}
      then Err (ValueError ''trace_id must be a non-zero 32-character hex string'')
      else if \<not> is_hex_of 16 s \<or> set s = {CHR ''0''}
      then Err (ValueError ''span_id must be a non-zero 16-character hex string'')
      else if \<not> is_any_hex_of 2 flags
      then Err (ValueError ''trace_flags must be a two-character hex string'')
      else Ok \<lparr>trace_id = t, span_id = s, trace_flags = py_lower flags, baggage = bag\<rparr>)"

text \<open>
  \<^verbatim>\<open>create\<close> and \<^verbatim>\<open>child\<close> draw identifiers from the factory: the model takes the
  UUID and the span identifier that the factory returned.
\<close>

definition TraceContext_create :: "uuid \<Rightarrow> string \<Rightarrow> trace_context result" where
  "TraceContext_create new_uuid new_span_id =
     TraceContext_new (uuid_hex new_uuid) new_span_id ''01'' []"

definition TraceContext_child :: "trace_context \<Rightarrow> string \<Rightarrow> trace_context result" where
  "TraceContext_child c new_span_id =
     TraceContext_new (trace_id c) new_span_id (trace_flags c) (baggage c)"

definition traceparent :: "trace_context \<Rightarrow> string" where
  "traceparent c = ''00-'' @ trace_id c @ ''-'' @ span_id c @ ''-'' @ trace_flags c"

definition trace_context_wf :: "trace_context \<Rightarrow> bool" where
  "trace_context_wf c \<longleftrightarrow>
     is_hex_of 32 (trace_id c) \<and> set (trace_id c) \<noteq> {CHR ''0''}
     \<and> is_hex_of 16 (span_id c) \<and> set (span_id c) \<noteq> {CHR ''0''}
     \<and> is_hex_of 2 (trace_flags c)"

section \<open>result.py\<close>

record 'a py_result =
  res_value :: "'a option"
  res_error :: "typed_error option"

definition Result_new :: "'a option \<Rightarrow> typed_error option \<Rightarrow> 'a py_result result" where
  "Result_new v e =
     (if (v = None) = (e = None)
      then Err (ValueError ''Result must contain exactly one of value or error'')
      else Ok \<lparr>res_value = v, res_error = e\<rparr>)"

definition Result_unwrap :: "'a py_result \<Rightarrow> 'a result" where
  "Result_unwrap r =
     (case res_error r of
        Some e \<Rightarrow> Err (TypedError e)
      | None \<Rightarrow> (case res_value r of Some v \<Rightarrow> Ok v
                 | None \<Rightarrow> Err (RuntimeError ''missing value'')))"

definition Result_unwrap_error :: "'a py_result \<Rightarrow> typed_error result" where
  "Result_unwrap_error r =
     (case res_error r of
        None \<Rightarrow> Err (ValueError ''Cannot unwrap an error from a successful Result'')
      | Some e \<Rightarrow> Ok e)"

definition Result_map :: "('a \<Rightarrow> 'b) \<Rightarrow> 'a py_result \<Rightarrow> 'b py_result result" where
  "Result_map transform r =
     (case res_error r of
        Some e \<Rightarrow> Result_new None (Some e)
      | None \<Rightarrow> Result_new (map_option transform (res_value r)) None)"

section \<open>transitions.py\<close>

definition transition_allowed :: "('s \<times> 's list) list \<Rightarrow> 's \<Rightarrow> 's \<Rightarrow> bool" where
  "transition_allowed allowed cur target \<longleftrightarrow>
     target \<in> set (case map_of allowed cur of None \<Rightarrow> [] | Some ts \<Rightarrow> ts)"

definition assert_transition ::
  "('s \<Rightarrow> string) \<Rightarrow> 's \<Rightarrow> 's \<Rightarrow> ('s \<times> 's list) list \<Rightarrow> string \<Rightarrow> unit result" where
  "assert_transition val cur target allowed entity =
     (if \<not> transition_allowed allowed cur target
      then Err (invariant_violation_code
             (''Illegal '' @ entity @ '' transition: '' @ val cur @ '' -> '' @ val target)
             ''illegal_state_transition''
             [(''entity'', JStr entity), (''current'', JStr (val cur)),
              (''target'', JStr (val target))])
      else Ok ())"

definition terminal_in :: "('s \<times> 's list) list \<Rightarrow> 's \<Rightarrow> bool" where
  "terminal_in allowed s \<longleftrightarrow> (\<forall>t. \<not> transition_allowed allowed s t)"

lemma assert_transition_Ok [simp]:
  "assert_transition val cur target allowed entity = Ok u \<longleftrightarrow> transition_allowed allowed cur target"
  by (simp add: assert_transition_def)

section \<open>Reading payload values\<close>

text \<open>
  The conversions that the codecs apply to decoded JSON. How Python prints composite
  values and parses numerals from strings is a parameter: the encoders never produce
  them.
\<close>

record py_conv =
  show_other :: "json \<Rightarrow> string"
  parse_int :: "string \<Rightarrow> int result"
  parse_float :: "string \<Rightarrow> pyfloat result"

fun py_str :: "py_conv \<Rightarrow> json \<Rightarrow> string" where
  "py_str conv (JStr s) = s"
| "py_str conv (JInt i) = int_str i"
| "py_str conv (JBool b) = (if b then ''True'' else ''False'')"
| "py_str conv JNull = ''None''"
| "py_str conv v = show_other conv v"

fun py_int :: "py_conv \<Rightarrow> json \<Rightarrow> int result" where
  "py_int conv (JInt i) = Ok i"
| "py_int conv (JBool b) = Ok (if b then 1 else 0)"
| "py_int conv (JFloat x) = Ok (py_trunc x)"
| "py_int conv (JStr s) = parse_int conv s"
| "py_int conv _ = Err (TypeError ''int() argument'')"

fun py_float :: "py_conv \<Rightarrow> json \<Rightarrow> pyfloat result" where
  "py_float conv (JFloat x) = Ok x"
| "py_float conv (JInt i) = Ok (fl (of_int i))"
| "py_float conv (JBool b) = Ok (if b then 1 else 0)"
| "py_float conv (JStr s) = parse_float conv s"
| "py_float conv _ = Err (TypeError ''float() argument'')"

fun py_truth :: "json \<Rightarrow> bool" where
  "py_truth JNull = False"
| "py_truth (JBool b) = b"
| "py_truth (JInt i) = (i \<noteq> 0)"
| "py_truth (JFloat x) = (x \<noteq> 0)"
| "py_truth (JStr s) = (s \<noteq> [])"
| "py_truth (JArr xs) = (xs \<noteq> [])"
| "py_truth (JObj d) = (d \<noteq> [])"

definition dict_item :: "(string, json) dict \<Rightarrow> string \<Rightarrow> json result" where
  "dict_item d k = (case map_of d k of None \<Rightarrow> Err (KeyError k) | Some v \<Rightarrow> Ok v)"

definition dict_get :: "(string, json) dict \<Rightarrow> string \<Rightarrow> json \<Rightarrow> json" where
  "dict_get d k fallback = (case map_of d k of None \<Rightarrow> fallback | Some v \<Rightarrow> v)"

definition json_dict :: "json \<Rightarrow> (string, json) dict result" where
  "json_dict v = (case v of JObj d \<Rightarrow> Ok d | _ \<Rightarrow> Err (TypeError ''object is not a mapping''))"

definition py_iter :: "json \<Rightarrow> json list result" where
  "py_iter v =
     (case v of
        JArr xs \<Rightarrow> Ok xs
      | JStr s \<Rightarrow> Ok (map (\<lambda>c. JStr [c]) s)
      | JObj d \<Rightarrow> Ok (map (\<lambda>(k, _). JStr k) d)
      | _ \<Rightarrow> Err (TypeError ''object is not iterable''))"

text \<open>\<^verbatim>\<open>Enum(value)\<close>: the member with that value.\<close>

definition enum_of :: "('e \<Rightarrow> string) \<Rightarrow> 'e list \<Rightarrow> string \<Rightarrow> 'e result" where
  "enum_of val members s =
     (case find (\<lambda>m. val m = s) members of
        Some m \<Rightarrow> Ok m
      | None \<Rightarrow> Err (ValueError ''is not a valid enumeration value''))"

lemma enum_of_Ok: "enum_of val members s = Ok m \<Longrightarrow> m \<in> set members \<and> val m = s"
  by (auto simp: enum_of_def find_Some_iff in_set_conv_nth split: option.splits)

lemma enum_of_val:
  assumes "distinct (map val members)" "m \<in> set members"
  shows "enum_of val members (val m) = Ok m"
proof -
  have "find (\<lambda>x. val x = val m) members = Some m"
    using assms by (induction members) (auto simp: image_iff)
  then show ?thesis by (simp add: enum_of_def)
qed

section \<open>State with exceptions\<close>

text \<open>
  A method that may raise after it has changed its object returns the object beside the
  result, so that what a handler sees after the exception is part of the model.
\<close>

type_synonym ('s, 'a) prog = "'s \<Rightarrow> 'a result \<times> 's"

definition sbind :: "('s, 'a) prog \<Rightarrow> ('a \<Rightarrow> ('s, 'b) prog) \<Rightarrow> ('s, 'b) prog" where
  "sbind m f s = (case m s of (Ok x, s') \<Rightarrow> f x s' | (Err e, s') \<Rightarrow> (Err e, s'))"

definition slift :: "'a result \<Rightarrow> ('s, 'a) prog" where
  "slift r s = (r, s)"

lemma sbind_slift_Ok [simp]: "sbind (slift (Ok x)) f = f x"
  by (rule ext) (simp add: sbind_def slift_def)

lemma sbind_slift_Err [simp]: "sbind (slift (Err e)) f s = (Err e, s)"
  by (simp add: sbind_def slift_def)

lemma sbind_Ok_iff:
  "sbind m f s = (Ok y, t) \<longleftrightarrow> (\<exists>x s'. m s = (Ok x, s') \<and> f x s' = (Ok y, t))"
  by (auto simp: sbind_def split: prod.splits result.splits)

section \<open>Versioned state machines\<close>

text \<open>
  What an aggregate promises to a client that stores it under optimistic locking: a
  successful operation keeps the status or moves it along the table, and it raises the
  version by one.
\<close>

locale versioned_machine =
  fixes step :: "'s \<Rightarrow> 's \<Rightarrow> bool"
    and status_of :: "'s \<Rightarrow> 'st"
    and version_of :: "'s \<Rightarrow> int"
    and table :: "('st \<times> 'st list) list"
  assumes step_allowed:
      "step s t \<Longrightarrow> status_of t = status_of s \<or> transition_allowed table (status_of s) (status_of t)"
    and step_version: "step s t \<Longrightarrow> version_of t = version_of s + 1"
begin

lemma steps_version_le: "step\<^sup>*\<^sup>* s t \<Longrightarrow> version_of s \<le> version_of t"
  by (induction rule: rtranclp_induct) (auto dest: step_version)

lemma steps_version_less: "step\<^sup>+\<^sup>+ s t \<Longrightarrow> version_of s < version_of t"
  by (induction rule: tranclp_induct) (auto dest: step_version)

lemma steps_same_version:
  assumes "step\<^sup>*\<^sup>* s t" and "version_of t = version_of s"
  shows "t = s"
  using assms by (auto dest!: rtranclpD dest: steps_version_less)

lemma steps_path:
  "step\<^sup>*\<^sup>* s t \<Longrightarrow> (\<lambda>a b. transition_allowed table a b)\<^sup>*\<^sup>* (status_of s) (status_of t)"
proof (induction rule: rtranclp_induct)
  case base
  show ?case by simp
next
  case (step y z)
  from step_allowed [OF step.hyps(2)] step.IH show ?case
    by (auto intro: rtranclp.rtrancl_into_rtrancl)
qed

lemma steps_terminal_status:
  assumes "step\<^sup>*\<^sup>* s t" and "terminal_in table (status_of s)"
  shows "status_of t = status_of s"
  using assms(1)
proof (induction rule: rtranclp_induct)
  case (step y z)
  with assms(2) step_allowed [OF step.hyps(2)] show ?case by (auto simp: terminal_in_def)
qed simp

end

text \<open>
  The stronger contract of aggregates whose terminal states refuse every operation.
\<close>

locale sealed_machine = versioned_machine +
  assumes terminal_stuck: "terminal_in table (status_of s) \<Longrightarrow> \<not> step s t"
begin

lemma terminal_final:
  assumes "step\<^sup>*\<^sup>* s t" and "terminal_in table (status_of s)"
  shows "t = s"
  using assms by (induction rule: rtranclp_induct) (auto dest: terminal_stuck)

end

section \<open>Lemmas\<close>

lemma typed_error_new_Ok:
  "typed_error_new c code msg r ds = Ok e \<Longrightarrow> typed_error_wf e \<and> te_category e = c"
  by (auto simp: typed_error_new_def typed_error_wf_def Let_def split: if_splits)

lemma raise_typed_retryable:
  "raise_typed c code msg r ds = TypedError e \<Longrightarrow>
     te_retryable e = (case r of None \<Rightarrow> c = TRANSIENT | Some b \<Rightarrow> b)"
  by (auto simp: raise_typed_def typed_error_new_def retryable_by_default_def Let_def
      split: if_splits result.splits option.splits)

lemma TraceContext_new_wf:
  assumes "TraceContext_new t s f b = Ok c"
  shows "trace_context_wf c"
proof -
  have "set (py_lower f) \<subseteq> set hex_digits" if "set f \<subseteq> set hex_digits_any"
    using that by (rule set_py_lower_hex)
  with assms show ?thesis
    by (auto simp: TraceContext_new_def trace_context_wf_def Let_def is_hex_of_def
        is_any_hex_of_def list_all_iff subset_iff split: if_splits)
qed

lemma traceparent_length: "trace_context_wf c \<Longrightarrow> length (traceparent c) = 55"
  by (simp add: trace_context_wf_def traceparent_def is_hex_of_def)

lemma Result_new_Ok_iff:
  "is_ok (Result_new v e) \<longleftrightarrow> (v = None) \<noteq> (e = None)"
  by (simp add: Result_new_def)

lemma Result_map_unwrap:
  assumes "Result_new v e = Ok r" and "Result_map f r = Ok r'"
  shows "Result_unwrap r' = rbind (Result_unwrap r) (\<lambda>x. Ok (f x))"
  using assms
  by (auto simp: Result_new_def Result_map_def Result_unwrap_def split: if_splits option.splits)

end
