(* ===== verification/Orchestration_Domain.thy ===== *)
theory Orchestration_Domain
  imports Shared_Kernel
begin

text \<open>
  \<^verbatim>\<open>sana/modules/orchestration/domain.py\<close>: the routing decision, the budget snapshot and
  usage, artifact references, and the three aggregates of a resumable search workflow
  (\<open>SearchRun\<close>, \<open>SearchStep\<close>, \<open>StepAttempt\<close>). A class is a record, its
  \<^verbatim>\<open>__post_init__\<close> is the function \<open>X_new\<close> that builds the record or raises, a method
  that mutates the object returns the updated record. Timestamps that the constructors
  check are stored as \<open>instant\<close>. The relations \<open>run_step\<close> and \<open>search_step_step\<close>
  collect the mutating methods of an aggregate; both are interpreted as
  \<open>sealed_machine\<close>.
\<close>

section \<open>Enumerations and transition tables\<close>

datatype SearchMode = FAST | RESEARCH

datatype RunStatus =
    Run_QUEUED | Run_RUNNING | Run_WAITING | Run_SUCCEEDED | Run_FAILED | Run_CANCELLED

datatype AnswerQuality = Quality_COMPLETE | Quality_PARTIAL | Quality_NONE

datatype StopReason =
    FACTS_COVERED | TIME_BUDGET | INSUFFICIENT_EVIDENCE | PROVIDER_FAILURE
  | POLICY_BLOCKED | USER_CANCELLED | INFRASTRUCTURE_FAILURE

datatype StepStatus =
    Step_READY | Step_RUNNING | Step_RETRY_WAIT | Step_SUCCEEDED | Step_FAILED
  | Step_SKIPPED | Step_CANCELLED

datatype StepType =
    ROUTE | PLAN | DISCOVERY | SELECT | FETCH | EXTRACT | VERIFY | SYNTHESIZE | COMPLETE

fun search_mode_value :: "SearchMode \<Rightarrow> string" where
  "search_mode_value FAST = ''FAST''"
| "search_mode_value RESEARCH = ''RESEARCH''"

fun run_status_value :: "RunStatus \<Rightarrow> string" where
  "run_status_value Run_QUEUED = ''QUEUED''"
| "run_status_value Run_RUNNING = ''RUNNING''"
| "run_status_value Run_WAITING = ''WAITING''"
| "run_status_value Run_SUCCEEDED = ''SUCCEEDED''"
| "run_status_value Run_FAILED = ''FAILED''"
| "run_status_value Run_CANCELLED = ''CANCELLED''"

fun step_status_value :: "StepStatus \<Rightarrow> string" where
  "step_status_value Step_READY = ''READY''"
| "step_status_value Step_RUNNING = ''RUNNING''"
| "step_status_value Step_RETRY_WAIT = ''RETRY_WAIT''"
| "step_status_value Step_SUCCEEDED = ''SUCCEEDED''"
| "step_status_value Step_FAILED = ''FAILED''"
| "step_status_value Step_SKIPPED = ''SKIPPED''"
| "step_status_value Step_CANCELLED = ''CANCELLED''"

fun step_type_value :: "StepType \<Rightarrow> string" where
  "step_type_value ROUTE = ''ROUTE''"
| "step_type_value PLAN = ''PLAN''"
| "step_type_value DISCOVERY = ''DISCOVERY''"
| "step_type_value SELECT = ''SELECT''"
| "step_type_value FETCH = ''FETCH''"
| "step_type_value EXTRACT = ''EXTRACT''"
| "step_type_value VERIFY = ''VERIFY''"
| "step_type_value SYNTHESIZE = ''SYNTHESIZE''"
| "step_type_value COMPLETE = ''COMPLETE''"

definition run_transitions :: "(RunStatus \<times> RunStatus list) list" where
  "run_transitions =
     [(Run_QUEUED, [Run_RUNNING, Run_FAILED, Run_CANCELLED]),
      (Run_RUNNING, [Run_WAITING, Run_SUCCEEDED, Run_FAILED, Run_CANCELLED]),
      (Run_WAITING, [Run_RUNNING, Run_FAILED, Run_CANCELLED])]"

definition step_transitions :: "(StepStatus \<times> StepStatus list) list" where
  "step_transitions =
     [(Step_READY, [Step_RUNNING, Step_SKIPPED, Step_CANCELLED]),
      (Step_RUNNING, [Step_READY, Step_RETRY_WAIT, Step_SUCCEEDED, Step_FAILED, Step_CANCELLED]),
      (Step_RETRY_WAIT, [Step_READY, Step_FAILED, Step_CANCELLED])]"

section \<open>Routing and budgets\<close>

record RoutingDecision =
  rd_mode :: SearchMode
  rd_reason_codes :: "string list"
  rd_policy_version :: string
  rd_confidence :: pyfloat

definition RoutingDecision_new ::
  "SearchMode \<Rightarrow> string list \<Rightarrow> string \<Rightarrow> pyfloat \<Rightarrow> RoutingDecision result" where
  "RoutingDecision_new mode reason_codes policy_version confidence =
     (if blank policy_version then Err (ValueError ''policy_version cannot be empty'')
      else if \<not> (0 \<le> confidence \<and> confidence \<le> 1)
      then Err (ValueError ''confidence must be between 0 and 1'')
      else if list_ex blank reason_codes
      then Err (ValueError ''reason_codes cannot contain empty values'')
      else Ok \<lparr>rd_mode = mode, rd_reason_codes = reason_codes,
               rd_policy_version = policy_version, rd_confidence = confidence\<rparr>)"

record BudgetSnapshot =
  bs_policy_version :: string
  bs_created_at :: instant
  bs_soft_deadline_at :: instant
  bs_hard_deadline_at :: instant
  bs_synthesis_reserve_seconds :: pyfloat
  bs_max_queries :: int
  bs_max_providers :: int
  bs_max_fetches :: int
  bs_max_llm_calls :: int
  bs_max_expansion_rounds :: int
  bs_phase_seconds :: "(string, pyfloat) dict"

definition BudgetSnapshot_new ::
  "string \<Rightarrow> datetime \<Rightarrow> datetime \<Rightarrow> datetime \<Rightarrow> pyfloat \<Rightarrow> int \<Rightarrow> int \<Rightarrow> int \<Rightarrow> int \<Rightarrow> int
     \<Rightarrow> (string, pyfloat) dict \<Rightarrow> BudgetSnapshot result" where
  "BudgetSnapshot_new policy_version created_at soft_deadline_at hard_deadline_at
       synthesis_reserve_seconds max_queries max_providers max_fetches max_llm_calls
       max_expansion_rounds phase_seconds =
     rbind (require_aware created_at ''created_at'') (\<lambda>created.
     rbind (require_aware soft_deadline_at ''soft_deadline_at'') (\<lambda>soft.
     rbind (require_aware hard_deadline_at ''hard_deadline_at'') (\<lambda>hard.
       if \<not> (created \<le> soft \<and> soft \<le> hard)
       then Err (ValueError ''Budget deadlines must be ordered from creation to hard stop'')
       else if synthesis_reserve_seconds \<le> 0
       then Err (ValueError ''synthesis_reserve_seconds must be positive'')
       else if list_ex (\<lambda>v. v < 0)
                 [max_queries, max_providers, max_fetches, max_llm_calls, max_expansion_rounds]
       then Err (ValueError ''Budget limits cannot be negative'')
       else if list_ex (\<lambda>v. v < 0) (dict_values phase_seconds)
       then Err (ValueError ''Phase budgets cannot be negative'')
       else Ok \<lparr>bs_policy_version = policy_version, bs_created_at = created,
                bs_soft_deadline_at = soft, bs_hard_deadline_at = hard,
                bs_synthesis_reserve_seconds = synthesis_reserve_seconds,
                bs_max_queries = max_queries, bs_max_providers = max_providers,
                bs_max_fetches = max_fetches, bs_max_llm_calls = max_llm_calls,
                bs_max_expansion_rounds = max_expansion_rounds,
                bs_phase_seconds = phase_seconds\<rparr>)))"

record BudgetUsage =
  bu_query_count :: int
  bu_provider_count :: int
  bu_fetch_count :: int
  bu_llm_call_count :: int
  bu_prompt_token_count :: int
  bu_completion_token_count :: int
  bu_expansion_rounds :: int
  bu_phase_seconds :: "(string, pyfloat) dict"

definition BudgetUsage_new ::
  "int \<Rightarrow> int \<Rightarrow> int \<Rightarrow> int \<Rightarrow> int \<Rightarrow> int \<Rightarrow> int \<Rightarrow> (string, pyfloat) dict \<Rightarrow> BudgetUsage result" where
  "BudgetUsage_new queries providers fetches llm_calls prompt_tokens completion_tokens
       expansion_rounds phase_seconds =
     (if list_ex (\<lambda>v. v < 0)
           [queries, providers, fetches, llm_calls, prompt_tokens, completion_tokens,
            expansion_rounds]
      then Err (ValueError ''Usage counters cannot be negative'')
      else if list_ex (\<lambda>v. v < 0) (dict_values phase_seconds)
      then Err (ValueError ''Phase usage cannot be negative'')
      else Ok \<lparr>bu_query_count = queries, bu_provider_count = providers,
               bu_fetch_count = fetches, bu_llm_call_count = llm_calls,
               bu_prompt_token_count = prompt_tokens,
               bu_completion_token_count = completion_tokens,
               bu_expansion_rounds = expansion_rounds, bu_phase_seconds = phase_seconds\<rparr>)"

definition empty_usage :: BudgetUsage where
  "empty_usage =
     \<lparr>bu_query_count = 0, bu_provider_count = 0, bu_fetch_count = 0, bu_llm_call_count = 0,
      bu_prompt_token_count = 0, bu_completion_token_count = 0, bu_expansion_rounds = 0,
      bu_phase_seconds = []\<rparr>"

definition BudgetUsage_add ::
  "BudgetUsage \<Rightarrow> int \<Rightarrow> int \<Rightarrow> int \<Rightarrow> int \<Rightarrow> int \<Rightarrow> int \<Rightarrow> int \<Rightarrow> string option \<Rightarrow> pyfloat
     \<Rightarrow> BudgetUsage result" where
  "BudgetUsage_add u queries providers fetches llm_calls prompt_tokens completion_tokens
       expansion_rounds phase elapsed_seconds =
     (if list_ex (\<lambda>v. v < 0)
           [queries, providers, fetches, llm_calls, prompt_tokens, completion_tokens,
            expansion_rounds] \<or> elapsed_seconds < 0
      then Err (ValueError ''Usage increments cannot be negative'')
      else if phase = None \<and> elapsed_seconds \<noteq> 0
      then Err (ValueError ''phase is required when elapsed_seconds is recorded'')
      else BudgetUsage_new
             (bu_query_count u + queries) (bu_provider_count u + providers)
             (bu_fetch_count u + fetches) (bu_llm_call_count u + llm_calls)
             (bu_prompt_token_count u + prompt_tokens)
             (bu_completion_token_count u + completion_tokens)
             (bu_expansion_rounds u + expansion_rounds)
             (case phase of
                None \<Rightarrow> bu_phase_seconds u
              | Some p \<Rightarrow>
                  AList.update p
                    (fadd (case map_of (bu_phase_seconds u) p of None \<Rightarrow> 0 | Some v \<Rightarrow> v)
                       elapsed_seconds)
                    (bu_phase_seconds u)))"

record ArtifactRef =
  ar_uri :: string
  ar_sha256 :: string

definition ArtifactRef_new :: "string \<Rightarrow> string \<Rightarrow> ArtifactRef result" where
  "ArtifactRef_new uri sha256 =
     (if blank uri then Err (ValueError ''Artifact URI cannot be empty'')
      else if length sha256 \<noteq> 64 \<or> list_ex (\<lambda>c. c \<notin> set hex_digits_any) sha256
      then Err (ValueError ''Artifact sha256 must be a 64-character hex digest'')
      else Ok \<lparr>ar_uri = uri, ar_sha256 = py_lower sha256\<rparr>)"

section \<open>SearchRun\<close>

record SearchRun =
  sr_id :: uuid
  sr_tenant_id :: uuid
  sr_conversation_id :: uuid
  sr_message_id :: uuid
  sr_response_run_id :: uuid
  sr_routing :: RoutingDecision
  sr_budget :: BudgetSnapshot
  sr_status :: RunStatus
  sr_answer_quality :: AnswerQuality
  sr_stop_reason :: "StopReason option"
  sr_usage :: BudgetUsage
  sr_started_at :: "instant option"
  sr_completed_at :: "instant option"
  sr_version :: int
  sr_persisted_version :: int

definition SearchRun_new ::
  "uuid \<Rightarrow> uuid \<Rightarrow> uuid \<Rightarrow> uuid \<Rightarrow> uuid \<Rightarrow> RoutingDecision \<Rightarrow> BudgetSnapshot \<Rightarrow> BudgetUsage
     \<Rightarrow> instant option \<Rightarrow> instant option \<Rightarrow> int \<Rightarrow> SearchRun result" where
  "SearchRun_new run_id tenant_id conversation_id message_id response_run_id routing budget
       usage started_at completed_at version =
     (if rd_policy_version routing \<noteq> bs_policy_version budget
      then Err (ValueError ''Routing and budget policy versions must match'')
      else Ok \<lparr>sr_id = run_id, sr_tenant_id = tenant_id, sr_conversation_id = conversation_id,
               sr_message_id = message_id, sr_response_run_id = response_run_id,
               sr_routing = routing, sr_budget = budget, sr_status = Run_QUEUED,
               sr_answer_quality = Quality_NONE, sr_stop_reason = None, sr_usage = usage,
               sr_started_at = started_at, sr_completed_at = completed_at,
               sr_version = version, sr_persisted_version = 0\<rparr>)"

definition SearchRun_validate_loaded_state :: "SearchRun \<Rightarrow> unit result" where
  "SearchRun_validate_loaded_state r =
     (case sr_status r of
        Run_SUCCEEDED \<Rightarrow>
          if sr_answer_quality r = Quality_NONE \<or> sr_stop_reason r = None
          then Err (InvariantViolation ''Persisted successful run has no answer outcome'')
          else if sr_answer_quality r = Quality_COMPLETE \<and> sr_stop_reason r \<noteq> Some FACTS_COVERED
          then Err (InvariantViolation ''Persisted complete run has an invalid stop reason'')
          else if sr_answer_quality r = Quality_PARTIAL \<and> sr_stop_reason r = Some FACTS_COVERED
          then Err (InvariantViolation ''Persisted partial run has an invalid stop reason'')
          else Ok ()
      | Run_CANCELLED \<Rightarrow>
          if sr_stop_reason r \<noteq> Some USER_CANCELLED
          then Err (InvariantViolation ''Persisted cancelled run has an invalid stop reason'')
          else Ok ()
      | Run_FAILED \<Rightarrow>
          if sr_answer_quality r \<noteq> Quality_NONE \<or> sr_stop_reason r = None
          then Err (InvariantViolation ''Persisted failed run has an invalid answer outcome'')
          else Ok ()
      | _ \<Rightarrow>
          if sr_answer_quality r \<noteq> Quality_NONE \<or> sr_stop_reason r \<noteq> None
          then Err (InvariantViolation ''Non-terminal run cannot have a final answer outcome'')
          else Ok ())"

definition SearchRun_rehydrate ::
  "uuid \<Rightarrow> uuid \<Rightarrow> uuid \<Rightarrow> uuid \<Rightarrow> uuid \<Rightarrow> RoutingDecision \<Rightarrow> BudgetSnapshot \<Rightarrow> RunStatus
     \<Rightarrow> AnswerQuality \<Rightarrow> StopReason option \<Rightarrow> BudgetUsage \<Rightarrow> instant option \<Rightarrow> instant option
     \<Rightarrow> int \<Rightarrow> SearchRun result" where
  "SearchRun_rehydrate run_id tenant_id conversation_id message_id response_run_id routing
       budget status answer_quality stop_reason usage started_at completed_at version =
     rbind (SearchRun_new run_id tenant_id conversation_id message_id response_run_id routing
              budget usage started_at completed_at version) (\<lambda>run.
       let loaded = run\<lparr>sr_status := status, sr_answer_quality := answer_quality,
                        sr_stop_reason := stop_reason, sr_persisted_version := version\<rparr>
       in rbind (SearchRun_validate_loaded_state loaded) (\<lambda>_. Ok loaded))"

definition sr_mode :: "SearchRun \<Rightarrow> SearchMode" where
  "sr_mode r = rd_mode (sr_routing r)"

definition run_terminal :: "RunStatus \<Rightarrow> bool" where
  "run_terminal s \<longleftrightarrow> s \<in> {Run_SUCCEEDED, Run_FAILED, Run_CANCELLED}"

definition SearchRun_is_terminal :: "SearchRun \<Rightarrow> bool" where
  "SearchRun_is_terminal r = run_terminal (sr_status r)"

definition SearchRun_mark_persisted :: "SearchRun \<Rightarrow> SearchRun" where
  "SearchRun_mark_persisted r = r\<lparr>sr_persisted_version := sr_version r\<rparr>"

definition SearchRun_transition :: "SearchRun \<Rightarrow> RunStatus \<Rightarrow> SearchRun result" where
  "SearchRun_transition r target =
     rbind (assert_transition run_status_value (sr_status r) target run_transitions ''search_run'')
       (\<lambda>_. Ok (r\<lparr>sr_status := target, sr_version := sr_version r + 1\<rparr>))"

definition SearchRun_start :: "SearchRun \<Rightarrow> datetime \<Rightarrow> SearchRun result" where
  "SearchRun_start r moment =
     rbind (require_aware moment ''started_at'') (\<lambda>t.
     rbind (SearchRun_transition r Run_RUNNING) (\<lambda>r'.
       Ok (r'\<lparr>sr_started_at := Some (case sr_started_at r' of Some s \<Rightarrow> s | None \<Rightarrow> t)\<rparr>)))"

definition SearchRun_wait :: "SearchRun \<Rightarrow> SearchRun result" where
  "SearchRun_wait r = SearchRun_transition r Run_WAITING"

definition SearchRun_resume :: "SearchRun \<Rightarrow> SearchRun result" where
  "SearchRun_resume r = SearchRun_transition r Run_RUNNING"

definition SearchRun_record_usage :: "SearchRun \<Rightarrow> BudgetUsage \<Rightarrow> SearchRun result" where
  "SearchRun_record_usage r usage =
     (if SearchRun_is_terminal r
      then Err (InvariantViolation ''Cannot update usage for a terminal run'')
      else if list_ex (\<lambda>(new, old). new < old)
                [(bu_query_count usage, bu_query_count (sr_usage r)),
                 (bu_provider_count usage, bu_provider_count (sr_usage r)),
                 (bu_fetch_count usage, bu_fetch_count (sr_usage r)),
                 (bu_llm_call_count usage, bu_llm_call_count (sr_usage r)),
                 (bu_prompt_token_count usage, bu_prompt_token_count (sr_usage r)),
                 (bu_completion_token_count usage, bu_completion_token_count (sr_usage r)),
                 (bu_expansion_rounds usage, bu_expansion_rounds (sr_usage r))]
      then Err (InvariantViolation ''Run usage counters cannot decrease'')
      else Ok (r\<lparr>sr_usage := usage, sr_version := sr_version r + 1\<rparr>))"

definition SearchRun_upgrade_to_research ::
  "SearchRun \<Rightarrow> RoutingDecision \<Rightarrow> BudgetSnapshot \<Rightarrow> SearchRun result" where
  "SearchRun_upgrade_to_research r routing budget =
     (if SearchRun_is_terminal r
      then Err (InvariantViolation ''Cannot upgrade a terminal run'')
      else if sr_mode r \<noteq> FAST \<or> rd_mode routing \<noteq> RESEARCH
      then Err (InvariantViolation ''Only a FAST run can upgrade to RESEARCH'')
      else if rd_policy_version routing \<noteq> bs_policy_version budget
      then Err (InvariantViolation ''Upgrade routing and budget versions differ'')
      else if rd_policy_version routing \<noteq> rd_policy_version (sr_routing r)
      then Err (InvariantViolation ''Upgrade cannot change the run policy version'')
      else if bs_created_at budget \<noteq> bs_created_at (sr_budget r)
      then Err (InvariantViolation ''Upgrade must retain the original run start time'')
      else if bs_hard_deadline_at budget \<le> bs_hard_deadline_at (sr_budget r)
      then Err (InvariantViolation ''Research upgrade must extend the hard deadline'')
      else Ok (r\<lparr>sr_routing := routing, sr_budget := budget, sr_version := sr_version r + 1\<rparr>))"

definition SearchRun_succeed ::
  "SearchRun \<Rightarrow> AnswerQuality \<Rightarrow> StopReason \<Rightarrow> datetime \<Rightarrow> SearchRun result" where
  "SearchRun_succeed r quality reason moment =
     rbind (require_aware moment ''completed_at'') (\<lambda>t.
       if quality = Quality_NONE
       then Err (InvariantViolation ''A successful run must contain an answer'')
       else if quality = Quality_COMPLETE \<and> reason \<noteq> FACTS_COVERED
       then Err (InvariantViolation ''A complete answer must stop because facts are covered'')
       else if quality = Quality_PARTIAL \<and> reason = FACTS_COVERED
       then Err (InvariantViolation ''A partial answer cannot claim all facts are covered'')
       else if reason = USER_CANCELLED
       then Err (InvariantViolation ''A successful run cannot be user-cancelled'')
       else rbind (SearchRun_transition r Run_SUCCEEDED) (\<lambda>r'.
              Ok (r'\<lparr>sr_answer_quality := quality, sr_stop_reason := Some reason,
                     sr_completed_at := Some t\<rparr>)))"

definition SearchRun_fail :: "SearchRun \<Rightarrow> StopReason \<Rightarrow> datetime \<Rightarrow> SearchRun result" where
  "SearchRun_fail r reason moment =
     rbind (require_aware moment ''completed_at'') (\<lambda>t.
       if reason \<in> {FACTS_COVERED, USER_CANCELLED}
       then Err (InvariantViolation ''Failure stop reason is inconsistent'')
       else rbind (SearchRun_transition r Run_FAILED) (\<lambda>r'.
              Ok (r'\<lparr>sr_answer_quality := Quality_NONE, sr_stop_reason := Some reason,
                     sr_completed_at := Some t\<rparr>)))"

definition SearchRun_cancel :: "SearchRun \<Rightarrow> datetime \<Rightarrow> SearchRun result" where
  "SearchRun_cancel r moment =
     rbind (require_aware moment ''completed_at'') (\<lambda>t.
     rbind (SearchRun_transition r Run_CANCELLED) (\<lambda>r'.
       Ok (r'\<lparr>sr_answer_quality := Quality_NONE, sr_stop_reason := Some USER_CANCELLED,
              sr_completed_at := Some t\<rparr>)))"

section \<open>SearchStep\<close>

record SearchStep =
  ss_id :: uuid
  ss_tenant_id :: uuid
  ss_run_id :: uuid
  ss_step_key :: string
  ss_step_type :: StepType
  ss_plan_revision :: int
  ss_input_ref :: ArtifactRef
  ss_status :: StepStatus
  ss_output_ref :: "ArtifactRef option"
  ss_retry_at :: "instant option"
  ss_version :: int
  ss_persisted_version :: int

definition SearchStep_new ::
  "uuid \<Rightarrow> uuid \<Rightarrow> uuid \<Rightarrow> string \<Rightarrow> StepType \<Rightarrow> int \<Rightarrow> ArtifactRef \<Rightarrow> instant option \<Rightarrow> int
     \<Rightarrow> SearchStep result" where
  "SearchStep_new step_id tenant_id run_id step_key step_type plan_revision input_ref retry_at
       version =
     (if blank step_key then Err (ValueError ''step_key cannot be empty'')
      else if plan_revision < 1 then Err (ValueError ''plan_revision must be at least 1'')
      else Ok \<lparr>ss_id = step_id, ss_tenant_id = tenant_id, ss_run_id = run_id,
               ss_step_key = step_key, ss_step_type = step_type,
               ss_plan_revision = plan_revision, ss_input_ref = input_ref,
               ss_status = Step_READY, ss_output_ref = None, ss_retry_at = retry_at,
               ss_version = version, ss_persisted_version = 0\<rparr>)"

definition SearchStep_rehydrate ::
  "uuid \<Rightarrow> uuid \<Rightarrow> uuid \<Rightarrow> string \<Rightarrow> StepType \<Rightarrow> int \<Rightarrow> ArtifactRef \<Rightarrow> StepStatus
     \<Rightarrow> ArtifactRef option \<Rightarrow> instant option \<Rightarrow> int \<Rightarrow> SearchStep result" where
  "SearchStep_rehydrate step_id tenant_id run_id step_key step_type plan_revision input_ref
       status output_ref retry_at version =
     rbind (SearchStep_new step_id tenant_id run_id step_key step_type plan_revision input_ref
              retry_at version) (\<lambda>step.
       let loaded = step\<lparr>ss_status := status, ss_output_ref := output_ref,
                         ss_persisted_version := version\<rparr>
       in if status = Step_SUCCEEDED \<and> output_ref = None
          then Err (InvariantViolation ''Persisted successful step has no output'')
          else if status \<noteq> Step_SUCCEEDED \<and> output_ref \<noteq> None
          then Err (InvariantViolation ''Only a successful step may have an output'')
          else Ok loaded)"

definition SearchStep_identity_key :: "SearchStep \<Rightarrow> uuid \<times> int \<times> string" where
  "SearchStep_identity_key s = (ss_run_id s, ss_plan_revision s, ss_step_key s)"

definition SearchStep_mark_persisted :: "SearchStep \<Rightarrow> SearchStep" where
  "SearchStep_mark_persisted s = s\<lparr>ss_persisted_version := ss_version s\<rparr>"

definition SearchStep_transition :: "SearchStep \<Rightarrow> StepStatus \<Rightarrow> SearchStep result" where
  "SearchStep_transition s target =
     rbind (assert_transition step_status_value (ss_status s) target step_transitions
              ''search_step'')
       (\<lambda>_. Ok (s\<lparr>ss_status := target, ss_version := ss_version s + 1\<rparr>))"

definition SearchStep_start :: "SearchStep \<Rightarrow> SearchStep result" where
  "SearchStep_start s =
     rbind (SearchStep_transition s Step_RUNNING) (\<lambda>s'. Ok (s'\<lparr>ss_retry_at := None\<rparr>))"

definition SearchStep_release_expired_lease :: "SearchStep \<Rightarrow> SearchStep result" where
  "SearchStep_release_expired_lease s = SearchStep_transition s Step_READY"

definition SearchStep_retry_later :: "SearchStep \<Rightarrow> datetime \<Rightarrow> SearchStep result" where
  "SearchStep_retry_later s retry_at =
     rbind (require_aware retry_at ''retry_at'') (\<lambda>t.
     rbind (SearchStep_transition s Step_RETRY_WAIT) (\<lambda>s'. Ok (s'\<lparr>ss_retry_at := Some t\<rparr>)))"

definition SearchStep_make_ready :: "SearchStep \<Rightarrow> SearchStep result" where
  "SearchStep_make_ready s =
     rbind (SearchStep_transition s Step_READY) (\<lambda>s'. Ok (s'\<lparr>ss_retry_at := None\<rparr>))"

definition SearchStep_succeed :: "SearchStep \<Rightarrow> ArtifactRef \<Rightarrow> SearchStep result" where
  "SearchStep_succeed s output_ref =
     (if ss_output_ref s \<noteq> None
      then Err (InvariantViolation ''Successful step output is immutable'')
      else rbind (SearchStep_transition s Step_SUCCEEDED)
             (\<lambda>s'. Ok (s'\<lparr>ss_output_ref := Some output_ref\<rparr>)))"

definition SearchStep_fail :: "SearchStep \<Rightarrow> SearchStep result" where
  "SearchStep_fail s = SearchStep_transition s Step_FAILED"

definition SearchStep_skip :: "SearchStep \<Rightarrow> SearchStep result" where
  "SearchStep_skip s = SearchStep_transition s Step_SKIPPED"

definition SearchStep_cancel :: "SearchStep \<Rightarrow> SearchStep result" where
  "SearchStep_cancel s = SearchStep_transition s Step_CANCELLED"

section \<open>StepAttempt\<close>

record StepAttempt =
  sa_id :: uuid
  sa_tenant_id :: uuid
  sa_run_id :: uuid
  sa_step_id :: uuid
  sa_attempt_no :: int
  sa_idempotency_key :: string
  sa_lease_owner :: string
  sa_leased_until :: instant
  sa_deadline_at :: instant
  sa_started_at :: instant
  sa_input_ref :: ArtifactRef
  sa_completed_at :: "instant option"
  sa_output_ref :: "ArtifactRef option"
  sa_error :: "typed_error option"

definition StepAttempt_new ::
  "uuid \<Rightarrow> uuid \<Rightarrow> uuid \<Rightarrow> uuid \<Rightarrow> int \<Rightarrow> string \<Rightarrow> string \<Rightarrow> datetime \<Rightarrow> datetime \<Rightarrow> datetime
     \<Rightarrow> ArtifactRef \<Rightarrow> StepAttempt result" where
  "StepAttempt_new attempt_id tenant_id run_id step_id attempt_no idempotency_key lease_owner
       leased_until deadline_at started_at input_ref =
     rbind (require_aware leased_until ''leased_until'') (\<lambda>leased.
     rbind (require_aware deadline_at ''deadline_at'') (\<lambda>deadline.
     rbind (require_aware started_at ''started_at'') (\<lambda>started.
       if attempt_no < 1 then Err (ValueError ''attempt_no must be at least 1'')
       else if blank idempotency_key then Err (ValueError ''idempotency_key cannot be empty'')
       else if blank lease_owner then Err (ValueError ''lease_owner cannot be empty'')
       else if leased \<le> started then Err (ValueError ''leased_until must be after started_at'')
       else if deadline \<le> started then Err (ValueError ''deadline_at must be after started_at'')
       else Ok \<lparr>sa_id = attempt_id, sa_tenant_id = tenant_id, sa_run_id = run_id,
                sa_step_id = step_id, sa_attempt_no = attempt_no,
                sa_idempotency_key = idempotency_key, sa_lease_owner = lease_owner,
                sa_leased_until = leased, sa_deadline_at = deadline, sa_started_at = started,
                sa_input_ref = input_ref, sa_completed_at = None, sa_output_ref = None,
                sa_error = None\<rparr>)))"

definition StepAttempt_is_complete :: "StepAttempt \<Rightarrow> bool" where
  "StepAttempt_is_complete a \<longleftrightarrow> sa_completed_at a \<noteq> None"

definition StepAttempt_lease_expired :: "StepAttempt \<Rightarrow> datetime \<Rightarrow> bool result" where
  "StepAttempt_lease_expired a moment =
     rbind (require_aware moment ''lease_check_at'') (\<lambda>t.
       Ok (\<not> StepAttempt_is_complete a \<and> sa_leased_until a \<le> t))"

definition StepAttempt_renew_lease :: "StepAttempt \<Rightarrow> datetime \<Rightarrow> StepAttempt result" where
  "StepAttempt_renew_lease a leased_until =
     rbind (require_aware leased_until ''leased_until'') (\<lambda>t.
       if StepAttempt_is_complete a
       then Err (InvariantViolation ''Cannot renew a completed attempt lease'')
       else if t \<le> sa_leased_until a
       then Err (InvariantViolation ''Renewed lease must extend the current lease'')
       else if sa_deadline_at a < t
       then Err (InvariantViolation ''Attempt lease cannot extend beyond its deadline'')
       else Ok (a\<lparr>sa_leased_until := t\<rparr>))"

definition StepAttempt_finish :: "StepAttempt \<Rightarrow> datetime \<Rightarrow> StepAttempt result" where
  "StepAttempt_finish a moment =
     rbind (require_aware moment ''completed_at'') (\<lambda>t.
       if StepAttempt_is_complete a
       then Err (InvariantViolation ''Attempt has already completed'')
       else if t < sa_started_at a
       then Err (InvariantViolation ''Attempt cannot complete before it starts'')
       else Ok (a\<lparr>sa_completed_at := Some t\<rparr>))"

definition StepAttempt_succeed ::
  "StepAttempt \<Rightarrow> ArtifactRef \<Rightarrow> datetime \<Rightarrow> StepAttempt result" where
  "StepAttempt_succeed a output_ref moment =
     rbind (StepAttempt_finish a moment) (\<lambda>a'. Ok (a'\<lparr>sa_output_ref := Some output_ref\<rparr>))"

definition StepAttempt_fail ::
  "StepAttempt \<Rightarrow> typed_error \<Rightarrow> datetime \<Rightarrow> StepAttempt result" where
  "StepAttempt_fail a error moment =
     rbind (StepAttempt_finish a moment) (\<lambda>a'. Ok (a'\<lparr>sa_error := Some error\<rparr>))"

section \<open>Well-formed values\<close>

definition RoutingDecision_wf :: "RoutingDecision \<Rightarrow> bool" where [wf_defs]:
  "RoutingDecision_wf d \<longleftrightarrow>
     \<not> blank (rd_policy_version d) \<and> 0 \<le> rd_confidence d \<and> rd_confidence d \<le> 1
     \<and> (\<forall>c \<in> set (rd_reason_codes d). \<not> blank c)"

definition BudgetSnapshot_wf :: "BudgetSnapshot \<Rightarrow> bool" where [wf_defs]:
  "BudgetSnapshot_wf b \<longleftrightarrow>
     bs_created_at b \<le> bs_soft_deadline_at b \<and> bs_soft_deadline_at b \<le> bs_hard_deadline_at b
     \<and> 0 < bs_synthesis_reserve_seconds b
     \<and> 0 \<le> bs_max_queries b \<and> 0 \<le> bs_max_providers b \<and> 0 \<le> bs_max_fetches b
     \<and> 0 \<le> bs_max_llm_calls b \<and> 0 \<le> bs_max_expansion_rounds b
     \<and> (\<forall>v \<in> set (dict_values (bs_phase_seconds b)). 0 \<le> v)"

definition BudgetUsage_wf :: "BudgetUsage \<Rightarrow> bool" where [wf_defs]:
  "BudgetUsage_wf u \<longleftrightarrow>
     0 \<le> bu_query_count u \<and> 0 \<le> bu_provider_count u \<and> 0 \<le> bu_fetch_count u
     \<and> 0 \<le> bu_llm_call_count u \<and> 0 \<le> bu_prompt_token_count u
     \<and> 0 \<le> bu_completion_token_count u \<and> 0 \<le> bu_expansion_rounds u
     \<and> (\<forall>v \<in> set (dict_values (bu_phase_seconds u)). 0 \<le> v)"

definition usage_le :: "BudgetUsage \<Rightarrow> BudgetUsage \<Rightarrow> bool" where
  "usage_le u v \<longleftrightarrow>
     bu_query_count u \<le> bu_query_count v \<and> bu_provider_count u \<le> bu_provider_count v
     \<and> bu_fetch_count u \<le> bu_fetch_count v \<and> bu_llm_call_count u \<le> bu_llm_call_count v
     \<and> bu_prompt_token_count u \<le> bu_prompt_token_count v
     \<and> bu_completion_token_count u \<le> bu_completion_token_count v
     \<and> bu_expansion_rounds u \<le> bu_expansion_rounds v"

lemma RoutingDecision_new_Ok [op_Ok]:
  "RoutingDecision_new m rc v c = Ok d \<longleftrightarrow>
     d = \<lparr>rd_mode = m, rd_reason_codes = rc, rd_policy_version = v, rd_confidence = c\<rparr>
     \<and> RoutingDecision_wf d"
  by (auto simp: RoutingDecision_new_def RoutingDecision_wf_def list_ex_iff)

lemma BudgetSnapshot_new_wf: "BudgetSnapshot_new v c s h r q p f l e ps = Ok b \<Longrightarrow> BudgetSnapshot_wf b"
  by (auto simp: BudgetSnapshot_new_def BudgetSnapshot_wf_def list_ex_iff not_less split: if_splits)

lemma BudgetUsage_new_Ok [op_Ok]:
  "BudgetUsage_new q p f l pt ct e ps = Ok u \<longleftrightarrow>
     u = \<lparr>bu_query_count = q, bu_provider_count = p, bu_fetch_count = f, bu_llm_call_count = l,
          bu_prompt_token_count = pt, bu_completion_token_count = ct, bu_expansion_rounds = e,
          bu_phase_seconds = ps\<rparr> \<and> BudgetUsage_wf u"
  by (auto simp: BudgetUsage_new_def BudgetUsage_wf_def list_ex_iff not_less not_le
      simp del: set_map)

lemma BudgetUsage_new_wf: "BudgetUsage_new q p f l pt ct e ps = Ok u \<Longrightarrow> BudgetUsage_wf u"
  by (auto simp: BudgetUsage_new_Ok)

lemma BudgetUsage_new_succeeds:
  "0 \<le> q \<Longrightarrow> 0 \<le> p \<Longrightarrow> 0 \<le> f \<Longrightarrow> 0 \<le> l \<Longrightarrow> 0 \<le> pt \<Longrightarrow> 0 \<le> ct \<Longrightarrow> 0 \<le> e
     \<Longrightarrow> \<forall>v \<in> set (dict_values ps). 0 \<le> v \<Longrightarrow> is_ok (BudgetUsage_new q p f l pt ct e ps)"
  by (auto simp: BudgetUsage_new_def list_ex_iff)

lemma empty_usage_wf [simp]: "BudgetUsage_wf empty_usage"
  by (simp add: BudgetUsage_wf_def empty_usage_def)

lemma BudgetUsage_add_wf: "BudgetUsage_add u q p f l pt ct e ph s = Ok u' \<Longrightarrow> BudgetUsage_wf u'"
  by (auto simp: BudgetUsage_add_def BudgetUsage_new_wf split: if_splits)

lemma BudgetUsage_add_usage_le:
  "BudgetUsage_add u q p f l pt ct e ph s = Ok u' \<Longrightarrow> usage_le u u'"
  by (auto simp: BudgetUsage_add_def BudgetUsage_new_Ok usage_le_def split: if_splits)

lemma usage_le_refl [simp]: "usage_le u u"
  by (simp add: usage_le_def)

lemma usage_le_trans: "usage_le u v \<Longrightarrow> usage_le v w \<Longrightarrow> usage_le u w"
  by (auto simp: usage_le_def)

lemma update_values_nonneg:
  "\<forall>v \<in> set (dict_values d). 0 \<le> (v :: rat) \<Longrightarrow> 0 \<le> x
     \<Longrightarrow> \<forall>v \<in> set (dict_values (AList.update k x d)). 0 \<le> v"
  by (induction d) auto

lemma BudgetUsage_add_succeeds:
  assumes "BudgetUsage_wf u" "0 \<le> q" "0 \<le> p" "0 \<le> f" "0 \<le> l" "0 \<le> pt" "0 \<le> ct" "0 \<le> e"
    and "0 \<le> s" and "ph = None \<Longrightarrow> s = 0"
  shows "is_ok (BudgetUsage_add u q p f l pt ct e ph s)"
proof -
  let ?old = "\<lambda>k. case map_of (bu_phase_seconds u) k of None \<Rightarrow> 0 | Some v \<Rightarrow> v"
  have old: "0 \<le> ?old k" for k
    using assms(1) by (auto simp: BudgetUsage_wf_def split: option.splits dest!: map_of_SomeD)
  have "\<forall>v \<in> set (dict_values (AList.update k (fadd (?old k) s) (bu_phase_seconds u))). 0 \<le> v" for k
    using assms(1,9) old by (intro update_values_nonneg fadd_nonneg) (auto simp: BudgetUsage_wf_def)
  with assms show ?thesis
    unfolding BudgetUsage_add_def
    by (cases ph) (auto simp: BudgetUsage_wf_def simp del: set_map intro!: BudgetUsage_new_succeeds)
qed

section \<open>The run as a state machine\<close>

inductive run_step :: "SearchRun \<Rightarrow> SearchRun \<Rightarrow> bool" where
  start: "SearchRun_start r t = Ok r' \<Longrightarrow> run_step r r'"
| wait: "SearchRun_wait r = Ok r' \<Longrightarrow> run_step r r'"
| resume: "SearchRun_resume r = Ok r' \<Longrightarrow> run_step r r'"
| record_usage: "SearchRun_record_usage r u = Ok r' \<Longrightarrow> BudgetUsage_wf u \<Longrightarrow> run_step r r'"
| upgrade: "SearchRun_upgrade_to_research r d b = Ok r' \<Longrightarrow> RoutingDecision_wf d
    \<Longrightarrow> BudgetSnapshot_wf b \<Longrightarrow> run_step r r'"
| succeed: "SearchRun_succeed r q reason t = Ok r' \<Longrightarrow> run_step r r'"
| fail: "SearchRun_fail r reason t = Ok r' \<Longrightarrow> run_step r r'"
| cancel: "SearchRun_cancel r t = Ok r' \<Longrightarrow> run_step r r'"

text \<open>A run as \<^verbatim>\<open>ConversationService.submit_message\<close> creates it.\<close>

definition fresh_run ::
  "uuid \<Rightarrow> uuid \<Rightarrow> uuid \<Rightarrow> uuid \<Rightarrow> uuid \<Rightarrow> RoutingDecision \<Rightarrow> BudgetSnapshot \<Rightarrow> SearchRun result" where
  "fresh_run i tn c m rr routing budget =
     SearchRun_new i tn c m rr routing budget empty_usage None None 0"

text \<open>The outcomes that \<open>SearchRun_validate_loaded_state\<close> accepts, status by status.\<close>

fun outcome_ok :: "RunStatus \<Rightarrow> AnswerQuality \<Rightarrow> StopReason option \<Rightarrow> bool" where
  "outcome_ok Run_SUCCEEDED q s \<longleftrightarrow>
     q \<noteq> Quality_NONE \<and> s \<noteq> None \<and> (q = Quality_COMPLETE \<longleftrightarrow> s = Some FACTS_COVERED)"
| "outcome_ok Run_CANCELLED q s \<longleftrightarrow> s = Some USER_CANCELLED"
| "outcome_ok Run_FAILED q s \<longleftrightarrow> q = Quality_NONE \<and> s \<noteq> None"
| "outcome_ok _ q s \<longleftrightarrow> q = Quality_NONE \<and> s = None"

definition run_inv :: "SearchRun \<Rightarrow> bool" where [wf_defs]:
  "run_inv r \<longleftrightarrow>
     rd_policy_version (sr_routing r) = bs_policy_version (sr_budget r)
     \<and> outcome_ok (sr_status r) (sr_answer_quality r) (sr_stop_reason r)
     \<and> (sr_completed_at r \<noteq> None \<longleftrightarrow> run_terminal (sr_status r))
     \<and> RoutingDecision_wf (sr_routing r)
     \<and> BudgetUsage_wf (sr_usage r) \<and> BudgetSnapshot_wf (sr_budget r)"

text \<open>What the repository does with a stored run: build it again from its columns.\<close>

definition SearchRun_reload :: "SearchRun \<Rightarrow> SearchRun result" where
  "SearchRun_reload r =
     SearchRun_rehydrate (sr_id r) (sr_tenant_id r) (sr_conversation_id r) (sr_message_id r)
       (sr_response_run_id r) (sr_routing r) (sr_budget r) (sr_status r) (sr_answer_quality r)
       (sr_stop_reason r) (sr_usage r) (sr_started_at r) (sr_completed_at r) (sr_version r)"

lemma run_transition_cases:
  "transition_allowed run_transitions s t \<longleftrightarrow>
     s = Run_QUEUED \<and> t \<in> {Run_RUNNING, Run_FAILED, Run_CANCELLED}
     \<or> s = Run_RUNNING \<and> t \<in> {Run_WAITING, Run_SUCCEEDED, Run_FAILED, Run_CANCELLED}
     \<or> s = Run_WAITING \<and> t \<in> {Run_RUNNING, Run_FAILED, Run_CANCELLED}"
  by (cases s) (auto simp: transition_allowed_def run_transitions_def)

lemma terminal_in_run_transitions [simp]: "terminal_in run_transitions s \<longleftrightarrow> run_terminal s"
  by (cases s) (auto simp: terminal_in_def run_transition_cases run_terminal_def)

lemma SearchRun_transition_Ok [simp]:
  "SearchRun_transition r t = Ok r' \<longleftrightarrow>
     transition_allowed run_transitions (sr_status r) t
     \<and> r' = r\<lparr>sr_status := t, sr_version := sr_version r + 1\<rparr>"
  by (auto simp: SearchRun_transition_def)

lemma SearchRun_record_usage_Ok [op_Ok]:
  "SearchRun_record_usage r u = Ok r' \<longleftrightarrow>
     \<not> run_terminal (sr_status r) \<and> usage_le (sr_usage r) u
     \<and> r' = r\<lparr>sr_usage := u, sr_version := sr_version r + 1\<rparr>"
  by (auto simp: SearchRun_record_usage_def SearchRun_is_terminal_def usage_le_def)

lemma SearchRun_upgrade_Ok [op_Ok]:
  "SearchRun_upgrade_to_research r d b = Ok r' \<longleftrightarrow>
     \<not> run_terminal (sr_status r) \<and> sr_mode r = FAST \<and> rd_mode d = RESEARCH
     \<and> rd_policy_version d = bs_policy_version b
     \<and> rd_policy_version d = rd_policy_version (sr_routing r)
     \<and> bs_created_at b = bs_created_at (sr_budget r)
     \<and> bs_hard_deadline_at (sr_budget r) < bs_hard_deadline_at b
     \<and> r' = r\<lparr>sr_routing := d, sr_budget := b, sr_version := sr_version r + 1\<rparr>"
  by (auto simp: SearchRun_upgrade_to_research_def SearchRun_is_terminal_def)

lemma SearchRun_succeed_Ok [op_Ok]:
  "SearchRun_succeed r q reason t = Ok r' \<longleftrightarrow>
     (\<exists>i. t = Aware i \<and> q \<noteq> Quality_NONE \<and> (q = Quality_COMPLETE \<longleftrightarrow> reason = FACTS_COVERED)
        \<and> reason \<noteq> USER_CANCELLED \<and> sr_status r = Run_RUNNING
        \<and> r' = r\<lparr>sr_status := Run_SUCCEEDED, sr_version := sr_version r + 1,
                  sr_answer_quality := q, sr_stop_reason := Some reason,
                  sr_completed_at := Some i\<rparr>)"
  by (cases q) (auto simp: SearchRun_succeed_def run_transition_cases)

lemma SearchRun_fail_Ok [op_Ok]:
  "SearchRun_fail r reason t = Ok r' \<longleftrightarrow>
     (\<exists>i. t = Aware i \<and> reason \<noteq> FACTS_COVERED \<and> reason \<noteq> USER_CANCELLED
        \<and> \<not> run_terminal (sr_status r)
        \<and> r' = r\<lparr>sr_status := Run_FAILED, sr_version := sr_version r + 1,
                  sr_answer_quality := Quality_NONE, sr_stop_reason := Some reason,
                  sr_completed_at := Some i\<rparr>)"
  by (cases "sr_status r") (auto simp: SearchRun_fail_def run_transition_cases run_terminal_def)

lemma SearchRun_cancel_Ok [op_Ok]:
  "SearchRun_cancel r t = Ok r' \<longleftrightarrow>
     (\<exists>i. t = Aware i \<and> \<not> run_terminal (sr_status r)
        \<and> r' = r\<lparr>sr_status := Run_CANCELLED, sr_version := sr_version r + 1,
                  sr_answer_quality := Quality_NONE, sr_stop_reason := Some USER_CANCELLED,
                  sr_completed_at := Some i\<rparr>)"
  by (cases "sr_status r") (auto simp: SearchRun_cancel_def run_transition_cases run_terminal_def)

lemma SearchRun_start_Ok [op_Ok]:
  "SearchRun_start r t = Ok r' \<longleftrightarrow>
     (\<exists>i. t = Aware i \<and> sr_status r \<in> {Run_QUEUED, Run_WAITING}
        \<and> r' = r\<lparr>sr_status := Run_RUNNING, sr_version := sr_version r + 1,
                  sr_started_at := Some (case sr_started_at r of Some s \<Rightarrow> s | None \<Rightarrow> i)\<rparr>)"
  by (auto simp: SearchRun_start_def run_transition_cases)

lemmas run_ops_Ok =
  SearchRun_start_Ok SearchRun_wait_def SearchRun_resume_def SearchRun_record_usage_Ok
  SearchRun_upgrade_Ok SearchRun_succeed_Ok SearchRun_fail_Ok SearchRun_cancel_Ok

interpretation run_machine: sealed_machine run_step sr_status sr_version run_transitions
proof unfold_locales
  fix r r' :: SearchRun
  show "run_step r r' \<Longrightarrow>
      sr_status r' = sr_status r \<or> transition_allowed run_transitions (sr_status r) (sr_status r')"
    by (cases "sr_status r")
      (auto elim!: run_step.cases simp: run_ops_Ok run_transition_cases run_terminal_def)
  show "run_step r r' \<Longrightarrow> sr_version r' = sr_version r + 1"
    by (auto elim!: run_step.cases simp: run_ops_Ok)
  show "terminal_in run_transitions (sr_status r) \<Longrightarrow> \<not> run_step r r'"
    by (auto elim!: run_step.cases simp: run_ops_Ok run_transition_cases run_terminal_def)
qed

lemma SearchRun_validate_Ok:
  "SearchRun_validate_loaded_state r = Ok u \<longleftrightarrow>
     outcome_ok (sr_status r) (sr_answer_quality r) (sr_stop_reason r)"
  by (cases "sr_status r"; cases "sr_answer_quality r")
    (auto simp: SearchRun_validate_loaded_state_def)

lemma outcome_ok_active:
  "\<not> run_terminal s \<Longrightarrow> outcome_ok s q r \<longleftrightarrow> q = Quality_NONE \<and> r = None"
  by (cases s) (auto simp: run_terminal_def)

lemma fresh_run_inv:
  "fresh_run i tn c m rr d b = Ok r \<Longrightarrow> RoutingDecision_wf d \<Longrightarrow> BudgetSnapshot_wf b \<Longrightarrow> run_inv r"
  by (auto simp: fresh_run_def SearchRun_new_def run_inv_def run_terminal_def split: if_splits)

lemma run_step_inv:
  assumes "run_step r r'" and inv: "run_inv r"
  shows "run_inv r'"
  using assms(1)
proof (cases rule: run_step.cases)
  case (start t)
  with inv show ?thesis
    by (auto simp: run_ops_Ok run_inv_def run_terminal_def)
next
  case wait
  with inv show ?thesis
    by (auto simp: run_ops_Ok run_inv_def run_transition_cases run_terminal_def)
next
  case resume
  with inv show ?thesis
    by (auto simp: run_ops_Ok run_inv_def run_transition_cases run_terminal_def)
next
  case (record_usage u)
  with inv show ?thesis by (auto simp: run_ops_Ok run_inv_def)
next
  case (upgrade d b)
  with inv show ?thesis by (auto simp: run_ops_Ok run_inv_def)
next
  case (succeed q reason t)
  with inv show ?thesis by (auto simp: run_ops_Ok run_inv_def run_terminal_def)
next
  case (fail reason t)
  with inv show ?thesis by (auto simp: run_ops_Ok run_inv_def run_terminal_def)
next
  case (cancel t)
  with inv show ?thesis by (auto simp: run_ops_Ok run_inv_def run_terminal_def)
qed

lemma run_steps_inv: "run_step\<^sup>*\<^sup>* r r' \<Longrightarrow> run_inv r \<Longrightarrow> run_inv r'"
  by (induction rule: rtranclp_induct) (auto intro: run_step_inv)

lemma run_inv_reload:
  assumes "run_inv r"
  shows "SearchRun_reload r = Ok (SearchRun_mark_persisted r)"
  using assms SearchRun_validate_Ok
  by (auto simp: run_inv_def SearchRun_reload_def SearchRun_rehydrate_def SearchRun_new_def
      SearchRun_mark_persisted_def Let_def)

text \<open>What a run never gives back: identity, policy version, start time, spent budget.\<close>

definition run_progress :: "SearchRun \<Rightarrow> SearchRun \<Rightarrow> bool" where
  "run_progress r r' \<longleftrightarrow>
     sr_id r' = sr_id r \<and> sr_tenant_id r' = sr_tenant_id r
     \<and> rd_policy_version (sr_routing r') = rd_policy_version (sr_routing r)
     \<and> bs_created_at (sr_budget r') = bs_created_at (sr_budget r)
     \<and> bs_hard_deadline_at (sr_budget r) \<le> bs_hard_deadline_at (sr_budget r')
     \<and> usage_le (sr_usage r) (sr_usage r')
     \<and> (sr_mode r = RESEARCH \<longrightarrow> sr_mode r' = RESEARCH)
     \<and> (\<forall>t. sr_started_at r = Some t \<longrightarrow> sr_started_at r' = Some t)"

lemma run_step_progress: "run_step r r' \<Longrightarrow> run_progress r r'"
  by (erule run_step.cases) (auto simp: run_ops_Ok run_progress_def sr_mode_def)

lemma run_progress_trans: "run_progress r s \<Longrightarrow> run_progress s t \<Longrightarrow> run_progress r t"
  by (auto simp: run_progress_def intro: usage_le_trans)

lemma run_steps_progress: "run_step\<^sup>*\<^sup>* r r' \<Longrightarrow> run_progress r r'"
proof (induction rule: rtranclp_induct)
  case base
  show ?case by (simp add: run_progress_def)
qed (auto intro: run_progress_trans run_step_progress)

section \<open>The step as a state machine\<close>

inductive search_step_step :: "SearchStep \<Rightarrow> SearchStep \<Rightarrow> bool" where
  start: "SearchStep_start s = Ok s' \<Longrightarrow> search_step_step s s'"
| release: "SearchStep_release_expired_lease s = Ok s' \<Longrightarrow> search_step_step s s'"
| retry_later: "SearchStep_retry_later s t = Ok s' \<Longrightarrow> search_step_step s s'"
| make_ready: "SearchStep_make_ready s = Ok s' \<Longrightarrow> search_step_step s s'"
| succeed: "SearchStep_succeed s out = Ok s' \<Longrightarrow> search_step_step s s'"
| fail: "SearchStep_fail s = Ok s' \<Longrightarrow> search_step_step s s'"
| skip: "SearchStep_skip s = Ok s' \<Longrightarrow> search_step_step s s'"
| cancel: "SearchStep_cancel s = Ok s' \<Longrightarrow> search_step_step s s'"

definition step_terminal :: "StepStatus \<Rightarrow> bool" where
  "step_terminal s \<longleftrightarrow> s \<in> {Step_SUCCEEDED, Step_FAILED, Step_SKIPPED, Step_CANCELLED}"

definition step_inv :: "SearchStep \<Rightarrow> bool" where [wf_defs]:
  "step_inv s \<longleftrightarrow>
     \<not> blank (ss_step_key s) \<and> 1 \<le> ss_plan_revision s
     \<and> (ss_output_ref s \<noteq> None \<longleftrightarrow> ss_status s = Step_SUCCEEDED)
     \<and> (ss_status s = Step_RETRY_WAIT \<longrightarrow> ss_retry_at s \<noteq> None)
     \<and> (ss_status s \<in> {Step_RUNNING, Step_SUCCEEDED}
          \<longrightarrow> ss_retry_at s = None)"

definition SearchStep_reload :: "SearchStep \<Rightarrow> SearchStep result" where
  "SearchStep_reload s =
     SearchStep_rehydrate (ss_id s) (ss_tenant_id s) (ss_run_id s) (ss_step_key s)
       (ss_step_type s) (ss_plan_revision s) (ss_input_ref s) (ss_status s) (ss_output_ref s)
       (ss_retry_at s) (ss_version s)"

lemma step_transition_cases:
  "transition_allowed step_transitions s t \<longleftrightarrow>
     s = Step_READY \<and> t \<in> {Step_RUNNING, Step_SKIPPED, Step_CANCELLED}
     \<or> s = Step_RUNNING \<and> t \<in> {Step_READY, Step_RETRY_WAIT, Step_SUCCEEDED, Step_FAILED, Step_CANCELLED}
     \<or> s = Step_RETRY_WAIT \<and> t \<in> {Step_READY, Step_FAILED, Step_CANCELLED}"
  by (cases s) (auto simp: transition_allowed_def step_transitions_def)

lemma terminal_in_step_transitions [simp]: "terminal_in step_transitions s \<longleftrightarrow> step_terminal s"
  by (cases s) (auto simp: terminal_in_def step_transition_cases step_terminal_def)

lemma SearchStep_transition_Ok [simp]:
  "SearchStep_transition s t = Ok s' \<longleftrightarrow>
     transition_allowed step_transitions (ss_status s) t
     \<and> s' = s\<lparr>ss_status := t, ss_version := ss_version s + 1\<rparr>"
  by (auto simp: SearchStep_transition_def)

lemmas step_op_defs =
  SearchStep_start_def SearchStep_release_expired_lease_def SearchStep_retry_later_def
  SearchStep_make_ready_def SearchStep_succeed_def SearchStep_fail_def SearchStep_skip_def
  SearchStep_cancel_def

interpretation step_machine:
  sealed_machine search_step_step ss_status ss_version step_transitions
proof unfold_locales
  fix s s' :: SearchStep
  show "search_step_step s s' \<Longrightarrow>
      ss_status s' = ss_status s \<or> transition_allowed step_transitions (ss_status s) (ss_status s')"
    by (erule search_step_step.cases) (auto simp: step_op_defs split: if_splits)
  show "search_step_step s s' \<Longrightarrow> ss_version s' = ss_version s + 1"
    by (erule search_step_step.cases) (auto simp: step_op_defs split: if_splits)
  show "terminal_in step_transitions (ss_status s) \<Longrightarrow> \<not> search_step_step s s'"
    by (auto elim!: search_step_step.cases
        simp: step_op_defs step_transition_cases step_terminal_def split: if_splits)
qed

lemma SearchStep_new_inv:
  "SearchStep_new i tn r k ty n inp None v = Ok s \<Longrightarrow> step_inv s"
  by (auto simp: SearchStep_new_def step_inv_def split: if_splits)

lemma search_step_step_inv: "search_step_step s s' \<Longrightarrow> step_inv s \<Longrightarrow> step_inv s'"
  by (erule search_step_step.cases)
    (auto simp: step_op_defs step_transition_cases step_inv_def split: if_splits)

lemma search_step_steps_inv: "search_step_step\<^sup>*\<^sup>* s s' \<Longrightarrow> step_inv s \<Longrightarrow> step_inv s'"
  by (induction rule: rtranclp_induct) (auto intro: search_step_step_inv)

lemma step_inv_reload: "step_inv s \<Longrightarrow> SearchStep_reload s = Ok (SearchStep_mark_persisted s)"
  by (auto simp: step_inv_def SearchStep_reload_def SearchStep_rehydrate_def SearchStep_new_def
      SearchStep_mark_persisted_def Let_def)

section \<open>Attempts and their leases\<close>

inductive attempt_step :: "StepAttempt \<Rightarrow> StepAttempt \<Rightarrow> bool" where
  renew: "StepAttempt_renew_lease a t = Ok a' \<Longrightarrow> attempt_step a a'"
| succeed: "StepAttempt_succeed a out t = Ok a' \<Longrightarrow> attempt_step a a'"
| fail: "StepAttempt_fail a e t = Ok a' \<Longrightarrow> attempt_step a a'"

definition attempt_inv :: "StepAttempt \<Rightarrow> bool" where [wf_defs]:
  "attempt_inv a \<longleftrightarrow>
     1 \<le> sa_attempt_no a \<and> \<not> blank (sa_idempotency_key a) \<and> \<not> blank (sa_lease_owner a)
     \<and> sa_started_at a < sa_leased_until a \<and> sa_started_at a < sa_deadline_at a
     \<and> (\<forall>t. sa_completed_at a = Some t \<longrightarrow> sa_started_at a \<le> t
          \<and> (sa_output_ref a = None) \<noteq> (sa_error a = None))
     \<and> (sa_completed_at a = None \<longrightarrow> sa_output_ref a = None \<and> sa_error a = None)"

lemmas attempt_op_defs =
  StepAttempt_renew_lease_def StepAttempt_finish_def StepAttempt_succeed_def
  StepAttempt_fail_def StepAttempt_is_complete_def

lemma StepAttempt_new_inv:
  "StepAttempt_new i tn r s n k w l d st inp = Ok a \<Longrightarrow> attempt_inv a"
  by (auto simp: StepAttempt_new_def attempt_inv_def split: if_splits)

lemma attempt_step_inv: "attempt_step a a' \<Longrightarrow> attempt_inv a \<Longrightarrow> attempt_inv a'"
  by (erule attempt_step.cases) (auto simp: attempt_op_defs attempt_inv_def split: if_splits)

lemma attempt_complete_stuck: "sa_completed_at a = Some t \<Longrightarrow> \<not> attempt_step a a'"
  by (auto elim!: attempt_step.cases simp: attempt_op_defs split: if_splits)

lemma attempt_steps_inv: "attempt_step\<^sup>*\<^sup>* a a' \<Longrightarrow> attempt_inv a \<Longrightarrow> attempt_inv a'"
  by (induction rule: rtranclp_induct) (auto intro: attempt_step_inv)

lemma attempt_lease_le_deadline:
  assumes "attempt_step\<^sup>*\<^sup>* a a'" and "sa_leased_until a \<le> sa_deadline_at a"
  shows "sa_leased_until a \<le> sa_leased_until a' \<and> sa_leased_until a' \<le> sa_deadline_at a'
     \<and> sa_deadline_at a' = sa_deadline_at a"
  using assms
  by (induction rule: rtranclp_induct)
    (auto elim!: attempt_step.cases simp: attempt_op_defs split: if_splits)

end
