(* ===== verification/Budget_Policy.thy ===== *)
theory Budget_Policy
  imports Orchestration_Domain
begin

text \<open>
  \<^verbatim>\<open>sana/modules/orchestration/policy.py\<close>: the versioned mode policies, the budget
  snapshot a run receives, and \<open>BudgetGuard\<close>, which decides whether a phase may start
  and whether a usage is within the snapshot. \<open>within_budget\<close> is the specification of
  \<open>BudgetGuard_validate\<close>.
\<close>

section \<open>Phases and policies\<close>

datatype BudgetPhase =
    Phase_ROUTE_PLAN | Phase_DISCOVERY | Phase_FETCH_EXTRACT | Phase_VERIFY | Phase_SYNTHESIZE

fun phase_value :: "BudgetPhase \<Rightarrow> string" where
  "phase_value Phase_ROUTE_PLAN = ''route_plan''"
| "phase_value Phase_DISCOVERY = ''discovery''"
| "phase_value Phase_FETCH_EXTRACT = ''fetch_extract''"
| "phase_value Phase_VERIFY = ''verify''"
| "phase_value Phase_SYNTHESIZE = ''synthesize''"

definition BudgetExceeded :: "string \<Rightarrow> json \<Rightarrow> json \<Rightarrow> exn" where
  "BudgetExceeded limit used maximum =
     raise_typed BUDGET ''budget_exceeded'' (''Budget limit exceeded: '' @ limit) (Some False)
       [(''limit'', JStr limit), (''used'', used), (''maximum'', maximum)]"

record ModePolicy =
  mp_soft_seconds :: pyfloat
  mp_hard_seconds :: pyfloat
  mp_synthesis_reserve_seconds :: pyfloat
  mp_max_queries :: int
  mp_max_providers :: int
  mp_max_fetches :: int
  mp_max_llm_calls :: int
  mp_max_expansion_rounds :: int
  mp_phase_seconds :: "(string, pyfloat) dict"

record SearchPolicy =
  sp_version :: string
  sp_fast :: ModePolicy
  sp_research :: ModePolicy

definition default_fast_policy :: ModePolicy where
  "default_fast_policy =
     \<lparr>mp_soft_seconds = 14, mp_hard_seconds = 15, mp_synthesis_reserve_seconds = 1,
      mp_max_queries = 4, mp_max_providers = 2, mp_max_fetches = 4, mp_max_llm_calls = 4,
      mp_max_expansion_rounds = 1,
      mp_phase_seconds =
        [(phase_value Phase_ROUTE_PLAN, fl (12 / 10)), (phase_value Phase_DISCOVERY, fl (42 / 10)),
         (phase_value Phase_FETCH_EXTRACT, fl (36 / 10)), (phase_value Phase_VERIFY, 2),
         (phase_value Phase_SYNTHESIZE, 1)]\<rparr>"

definition default_research_policy :: ModePolicy where
  "default_research_policy =
     \<lparr>mp_soft_seconds = 120, mp_hard_seconds = 120, mp_synthesis_reserve_seconds = 8,
      mp_max_queries = 12, mp_max_providers = 4, mp_max_fetches = 12, mp_max_llm_calls = 8,
      mp_max_expansion_rounds = 2,
      mp_phase_seconds =
        [(phase_value Phase_ROUTE_PLAN, 4), (phase_value Phase_DISCOVERY, 28),
         (phase_value Phase_FETCH_EXTRACT, 52), (phase_value Phase_VERIFY, 20),
         (phase_value Phase_SYNTHESIZE, 8)]\<rparr>"

definition SearchPolicy_default :: SearchPolicy where
  "SearchPolicy_default =
     \<lparr>sp_version = ''search-v12'', sp_fast = default_fast_policy,
      sp_research = default_research_policy\<rparr>"

definition SearchPolicy_snapshot ::
  "SearchPolicy \<Rightarrow> SearchMode \<Rightarrow> datetime \<Rightarrow> BudgetSnapshot result" where
  "SearchPolicy_snapshot p mode created_at =
     rbind (require_aware created_at ''created_at'') (\<lambda>t.
       let selected = (if mode = FAST then sp_fast p else sp_research p) in
       BudgetSnapshot_new (sp_version p) (Aware t)
         (Aware (t + td_us (mp_soft_seconds selected)))
         (Aware (t + td_us (mp_hard_seconds selected)))
         (mp_synthesis_reserve_seconds selected) (mp_max_queries selected)
         (mp_max_providers selected) (mp_max_fetches selected) (mp_max_llm_calls selected)
         (mp_max_expansion_rounds selected) (mp_phase_seconds selected))"

section \<open>BudgetGuard\<close>

text \<open>The guard holds nothing but its snapshot, so its methods take the snapshot.\<close>

definition BudgetGuard_non_synthesis_deadline :: "BudgetSnapshot \<Rightarrow> instant" where
  "BudgetGuard_non_synthesis_deadline b =
     bs_soft_deadline_at b - td_us (bs_synthesis_reserve_seconds b)"

definition BudgetGuard_deadline_for :: "BudgetSnapshot \<Rightarrow> BudgetPhase \<Rightarrow> instant" where
  "BudgetGuard_deadline_for b phase =
     (if phase = Phase_SYNTHESIZE then bs_hard_deadline_at b
      else BudgetGuard_non_synthesis_deadline b)"

definition BudgetGuard_can_start ::
  "BudgetSnapshot \<Rightarrow> BudgetPhase \<Rightarrow> datetime \<Rightarrow> pyfloat \<Rightarrow> bool result" where
  "BudgetGuard_can_start b phase now estimated_seconds =
     rbind (require_aware now ''now'') (\<lambda>t.
       if estimated_seconds < 0 then Err (ValueError ''estimated_seconds cannot be negative'')
       else Ok (t + td_us estimated_seconds < BudgetGuard_deadline_for b phase))"

definition usage_limits :: "BudgetSnapshot \<Rightarrow> BudgetUsage \<Rightarrow> (string \<times> int \<times> int) list" where
  "usage_limits b u =
     [(''queries'', bu_query_count u, bs_max_queries b),
      (''providers'', bu_provider_count u, bs_max_providers b),
      (''fetches'', bu_fetch_count u, bs_max_fetches b),
      (''llm_calls'', bu_llm_call_count u, bs_max_llm_calls b),
      (''expansion_rounds'', bu_expansion_rounds u, bs_max_expansion_rounds b)]"

fun check_limits :: "(string \<times> int \<times> int) list \<Rightarrow> unit result" where
  "check_limits [] = Ok ()"
| "check_limits ((name, used, maximum) # rest) =
     (if maximum < used then Err (BudgetExceeded name (JInt used) (JInt maximum))
      else check_limits rest)"

fun check_phases ::
  "(string, pyfloat) dict \<Rightarrow> (string, pyfloat) dict \<Rightarrow> unit result" where
  "check_phases limits [] = Ok ()"
| "check_phases limits ((phase, used) # rest) =
     (case map_of limits phase of
        Some maximum \<Rightarrow>
          if maximum < used
          then Err (BudgetExceeded (''phase:'' @ phase) (JFloat used) (JFloat maximum))
          else check_phases limits rest
      | None \<Rightarrow> check_phases limits rest)"

definition BudgetGuard_validate :: "BudgetSnapshot \<Rightarrow> BudgetUsage \<Rightarrow> unit result" where
  "BudgetGuard_validate b u =
     rbind (check_limits (usage_limits b u))
       (\<lambda>_. check_phases (bs_phase_seconds b) (bu_phase_seconds u))"

section \<open>Specification and lemmas\<close>

definition within_budget :: "BudgetSnapshot \<Rightarrow> BudgetUsage \<Rightarrow> bool" where
  "within_budget b u \<longleftrightarrow>
     bu_query_count u \<le> bs_max_queries b \<and> bu_provider_count u \<le> bs_max_providers b
     \<and> bu_fetch_count u \<le> bs_max_fetches b \<and> bu_llm_call_count u \<le> bs_max_llm_calls b
     \<and> bu_expansion_rounds u \<le> bs_max_expansion_rounds b
     \<and> (\<forall>(phase, used) \<in> set (bu_phase_seconds u).
          \<forall>maximum. map_of (bs_phase_seconds b) phase = Some maximum \<longrightarrow> used \<le> maximum)"

lemma check_limits_Ok: "check_limits xs = Ok x \<longleftrightarrow> (\<forall>(n, used, maximum) \<in> set xs. used \<le> maximum)"
  by (induction xs) (auto split: if_splits)

lemma check_phases_Ok:
  "check_phases limits ps = Ok x \<longleftrightarrow>
     (\<forall>(phase, used) \<in> set ps. \<forall>maximum. map_of limits phase = Some maximum \<longrightarrow> used \<le> maximum)"
  by (induction ps) (auto split: option.splits if_splits)

lemma BudgetGuard_validate_Ok: "BudgetGuard_validate b u = Ok x \<longleftrightarrow> within_budget b u"
  by (auto simp: BudgetGuard_validate_def check_limits_Ok check_phases_Ok usage_limits_def
      within_budget_def)

lemma raise_typed_BudgetExceeded: "\<exists>e. BudgetExceeded l u m = TypedError e \<and> te_category e = BUDGET
    \<and> \<not> te_retryable e"
proof -
  have "py_strip ''budget_exceeded'' \<noteq> []" by code_simp
  moreover have "\<not> blank (''Budget limit exceeded: '' @ l)"
    by (simp add: blank_iff) (simp add: py_space_def)
  ultimately show ?thesis
    by (auto simp: BudgetExceeded_def raise_typed_def typed_error_new_def Let_def blank_def)
qed

lemma validate_error:
  assumes "BudgetGuard_validate b u = Err x"
  shows "\<exists>e. x = TypedError e \<and> te_category e = BUDGET \<and> \<not> te_retryable e"
proof -
  have limits: "check_limits xs = Err x \<Longrightarrow> \<exists>l v m. x = BudgetExceeded l v m" for xs
    by (induction xs) (auto split: if_splits, blast)
  have phases: "check_phases ls ps = Err x \<Longrightarrow> \<exists>l v m. x = BudgetExceeded l v m" for ls ps
    by (induction ps) (auto split: if_splits option.splits, blast)
  from assms have "check_limits (usage_limits b u) = Err x
      \<or> check_phases (bs_phase_seconds b) (bu_phase_seconds u) = Err x"
    by (cases "check_limits (usage_limits b u)") (auto simp: BudgetGuard_validate_def)
  with limits phases raise_typed_BudgetExceeded show ?thesis by metis
qed

lemma snapshot_Ok_wf: "SearchPolicy_snapshot p m t = Ok b \<Longrightarrow> BudgetSnapshot_wf b"
  by (auto simp: SearchPolicy_snapshot_def Let_def dest: BudgetSnapshot_new_wf)

lemma snapshot_fields:
  "SearchPolicy_snapshot p m (Aware t) = Ok b \<Longrightarrow>
     bs_policy_version b = sp_version p \<and> bs_created_at b = t
     \<and> bs_hard_deadline_at b = t + td_us (mp_hard_seconds (if m = FAST then sp_fast p else sp_research p))
     \<and> bs_soft_deadline_at b = t + td_us (mp_soft_seconds (if m = FAST then sp_fast p else sp_research p))"
  by (auto simp: SearchPolicy_snapshot_def BudgetSnapshot_new_def Let_def split: if_splits)

lemma not_fl_neg: "0 \<le> x \<Longrightarrow> \<not> fl x < 0"
  by (simp add: fl_nonneg not_less)

lemma default_snapshot_Ok:
  "\<exists>b. SearchPolicy_snapshot SearchPolicy_default m (Aware t) = Ok b"
  by (cases m)
    (auto simp: SearchPolicy_snapshot_def BudgetSnapshot_new_def SearchPolicy_default_def
      default_fast_policy_def default_research_policy_def not_fl_neg)

text \<open>Non-synthesis work always stops before the hard deadline, by at least the reserve.\<close>

lemma deadline_for_le_hard:
  assumes "BudgetSnapshot_wf b"
  shows "BudgetGuard_deadline_for b ph \<le> bs_hard_deadline_at b"
proof -
  have "0 \<le> td_us (bs_synthesis_reserve_seconds b)"
    using assms by (intro td_us_nonneg) (simp add: BudgetSnapshot_wf_def)
  with assms show ?thesis
    by (auto simp: BudgetGuard_deadline_for_def BudgetGuard_non_synthesis_deadline_def
        BudgetSnapshot_wf_def)
qed

lemma can_start_leaves_reserve:
  assumes "BudgetSnapshot_wf b" and "BudgetGuard_can_start b ph now est = Ok True"
    and "ph \<noteq> Phase_SYNTHESIZE"
  shows "\<exists>t. now = Aware t \<and> 0 \<le> est
     \<and> t + td_us est + td_us (bs_synthesis_reserve_seconds b) < bs_hard_deadline_at b"
  using assms
  by (auto simp: BudgetGuard_can_start_def BudgetGuard_deadline_for_def
      BudgetGuard_non_synthesis_deadline_def BudgetSnapshot_wf_def not_less split: if_splits)

end
