(* ===== verification/Lease_Recovery.thy ===== *)
theory Lease_Recovery
  imports Budget_Policy
begin

text \<open>
  The worker-facing rules around a step: leases (\<^verbatim>\<open>orchestration/lease.py\<close>), recovery
  decisions (\<^verbatim>\<open>orchestration/reconciler.py\<close>), outbox messages
  (\<^verbatim>\<open>orchestration/outbox.py\<close>) and run events (\<^verbatim>\<open>orchestration/events.py\<close>). The
  identifier that \<^verbatim>\<open>IdFactory.new_uuid\<close> returns and the clock reading are arguments.
  The reconciler's calls on its store are returned as the list of calls it makes, in
  order.
\<close>

section \<open>lease.py\<close>

definition LeaseService_new :: "pyfloat \<Rightarrow> pyfloat result" where
  "LeaseService_new lease_seconds =
     (if lease_seconds \<le> 0 then Err (ValueError ''lease_seconds must be positive'')
      else Ok lease_seconds)"

definition LeaseService_claim ::
  "pyfloat \<Rightarrow> uuid \<Rightarrow> SearchStep \<Rightarrow> int \<Rightarrow> string \<Rightarrow> instant \<Rightarrow> instant
     \<Rightarrow> (SearchStep \<times> StepAttempt) result" where
  "LeaseService_claim lease_seconds new_uuid step attempt_no worker_id now deadline_at =
     (if ss_status step \<noteq> Step_READY
      then Err (InvariantViolation ''Only a READY step can be leased'')
      else if deadline_at \<le> now
      then Err (InvariantViolation ''Cannot lease a step past its deadline'')
      else
        let leased_until = min deadline_at (now + td_us lease_seconds) in
        rbind (SearchStep_start step) (\<lambda>step'.
        rbind (StepAttempt_new new_uuid (ss_tenant_id step') (ss_run_id step') (ss_id step')
                 attempt_no (uuid_str (ss_id step') @ '':'' @ int_str attempt_no) worker_id
                 (Aware leased_until) (Aware deadline_at) (Aware now) (ss_input_ref step'))
          (\<lambda>attempt. Ok (step', attempt))))"

definition LeaseService_recover_expired ::
  "SearchStep \<Rightarrow> StepAttempt \<Rightarrow> datetime \<Rightarrow> (bool \<times> SearchStep) result" where
  "LeaseService_recover_expired step attempt now =
     (if ss_id step \<noteq> sa_step_id attempt
      then Err (InvariantViolation ''Attempt belongs to a different step'')
      else if ss_status step = Step_RUNNING
      then rbind (StepAttempt_lease_expired attempt now) (\<lambda>expired.
             if expired
             then rbind (SearchStep_release_expired_lease step) (\<lambda>step'. Ok (True, step'))
             else Ok (False, step))
      else Ok (False, step))"

section \<open>reconciler.py\<close>

datatype ReconcileAction = DISPATCH_READY | RELEASE_RETRY | RELEASE_EXPIRED_LEASE

record ReconcileCandidate =
  rc_tenant_id :: uuid
  rc_step_id :: uuid
  rc_status :: StepStatus
  rc_retry_at :: "instant option"
  rc_leased_until :: "instant option"

definition WorkflowReconciler_decide ::
  "ReconcileCandidate \<Rightarrow> instant \<Rightarrow> (ReconcileCandidate \<times> ReconcileAction) option" where
  "WorkflowReconciler_decide c now =
     (if rc_status c = Step_READY then Some (c, DISPATCH_READY)
      else if rc_status c = Step_RETRY_WAIT
              \<and> (case rc_retry_at c of None \<Rightarrow> False | Some t \<Rightarrow> t \<le> now)
      then Some (c, RELEASE_RETRY)
      else if rc_status c = Step_RUNNING
              \<and> (case rc_leased_until c of None \<Rightarrow> False | Some t \<Rightarrow> t \<le> now)
      then Some (c, RELEASE_EXPIRED_LEASE)
      else None)"

datatype store_call = Call_make_ready uuid uuid | Call_enqueue uuid uuid

definition decision_calls :: "ReconcileCandidate \<times> ReconcileAction \<Rightarrow> store_call list" where
  "decision_calls d =
     (case d of (c, action) \<Rightarrow>
        (if action \<noteq> DISPATCH_READY then [Call_make_ready (rc_tenant_id c) (rc_step_id c)] else [])
        @ [Call_enqueue (rc_tenant_id c) (rc_step_id c)])"

definition WorkflowReconciler_run ::
  "ReconcileCandidate list \<Rightarrow> instant
     \<Rightarrow> (ReconcileCandidate \<times> ReconcileAction) list \<times> store_call list" where
  "WorkflowReconciler_run candidates now =
     (let decisions = List.map_filter (\<lambda>c. WorkflowReconciler_decide c now) candidates
      in (decisions, concat (map decision_calls decisions)))"

section \<open>outbox.py and events.py\<close>

record OutboxMessage =
  om_id :: uuid
  om_tenant_id :: uuid
  om_aggregate_type :: string
  om_aggregate_id :: uuid
  om_event_type :: string
  om_payload :: "(string, json) dict"
  om_trace_context :: trace_context
  om_dedupe_key :: string
  om_available_at :: instant
  om_created_at :: instant

definition OutboxMessage_new ::
  "uuid \<Rightarrow> uuid \<Rightarrow> string \<Rightarrow> uuid \<Rightarrow> string \<Rightarrow> (string, json) dict \<Rightarrow> trace_context \<Rightarrow> string
     \<Rightarrow> datetime \<Rightarrow> datetime \<Rightarrow> OutboxMessage result" where
  "OutboxMessage_new message_id tenant_id aggregate_type aggregate_id event_type payload
       trace_context dedupe_key available_at created_at =
     rbind (require_aware available_at ''available_at'') (\<lambda>available.
     rbind (require_aware created_at ''created_at'') (\<lambda>created.
       if blank aggregate_type \<or> blank event_type
       then Err (ValueError ''Outbox aggregate and event types cannot be empty'')
       else if blank dedupe_key then Err (ValueError ''Outbox dedupe_key cannot be empty'')
       else if set (dict_keys payload) \<noteq> {''step_id''}
       then Err (ValueError ''Step outbox payload must contain only step_id'')
       else Ok \<lparr>om_id = message_id, om_tenant_id = tenant_id,
                om_aggregate_type = aggregate_type, om_aggregate_id = aggregate_id,
                om_event_type = event_type, om_payload = payload,
                om_trace_context = trace_context, om_dedupe_key = dedupe_key,
                om_available_at = available, om_created_at = created\<rparr>))"

definition trace_context_to_dict :: "trace_context \<Rightarrow> (string, json) dict" where
  "trace_context_to_dict c =
     [(''trace_id'', JStr (trace_id c)), (''span_id'', JStr (span_id c)),
      (''trace_flags'', JStr (trace_flags c)),
      (''baggage'', JObj (map (\<lambda>(k, v). (k, JStr v)) (baggage c)))]"

definition trace_context_from_dict ::
  "py_conv \<Rightarrow> (string, json) dict \<Rightarrow> trace_context result" where
  "trace_context_from_dict conv payload =
     rbind (dict_item payload ''trace_id'') (\<lambda>t.
     rbind (dict_item payload ''span_id'') (\<lambda>s.
     rbind (case map_of payload ''baggage'' of None \<Rightarrow> Ok [] | Some b \<Rightarrow> json_dict b) (\<lambda>bag.
       TraceContext_new (py_str conv t) (py_str conv s)
         (case map_of payload ''trace_flags'' of None \<Rightarrow> ''01'' | Some f \<Rightarrow> py_str conv f)
         (map (\<lambda>(k, v). (k, py_str conv v)) bag))))"

record RunEventData =
  re_id :: uuid
  re_tenant_id :: uuid
  re_run_id :: uuid
  re_sequence :: int
  re_event_type :: string
  re_payload :: "(string, json) dict"
  re_created_at :: instant

definition RunEventData_new ::
  "uuid \<Rightarrow> uuid \<Rightarrow> uuid \<Rightarrow> int \<Rightarrow> string \<Rightarrow> (string, json) dict \<Rightarrow> datetime \<Rightarrow> RunEventData result" where
  "RunEventData_new event_id tenant_id run_id sequence event_type payload created_at =
     (if sequence < 1 then Err (ValueError ''Run event sequence must be positive'')
      else if blank event_type then Err (ValueError ''Run event type cannot be empty'')
      else case created_at of
             Naive _ \<Rightarrow> Err (ValueError ''Run event timestamp must be timezone-aware'')
           | Aware t \<Rightarrow>
               Ok \<lparr>re_id = event_id, re_tenant_id = tenant_id, re_run_id = run_id,
                   re_sequence = sequence, re_event_type = event_type, re_payload = payload,
                   re_created_at = t\<rparr>)"

section \<open>Leases\<close>

lemma claim_Ok_iff:
  "LeaseService_claim ls u step n w now dl = Ok (step', a) \<longleftrightarrow>
     ss_status step = Step_READY \<and> now < dl \<and> 0 < td_us ls \<and> 1 \<le> n \<and> \<not> blank w
     \<and> step' = step\<lparr>ss_status := Step_RUNNING, ss_version := ss_version step + 1, ss_retry_at := None\<rparr>
     \<and> a = \<lparr>sa_id = u, sa_tenant_id = ss_tenant_id step, sa_run_id = ss_run_id step,
            sa_step_id = ss_id step, sa_attempt_no = n,
            sa_idempotency_key = uuid_str (ss_id step) @ '':'' @ int_str n, sa_lease_owner = w,
            sa_leased_until = min dl (now + td_us ls), sa_deadline_at = dl, sa_started_at = now,
            sa_input_ref = ss_input_ref step, sa_completed_at = None, sa_output_ref = None,
            sa_error = None\<rparr>"
proof -
  have "\<not> blank (uuid_str (ss_id step) @ '':'' @ int_str n)"
    by (simp add: blank_iff py_space_def)
  then show ?thesis
    by (auto simp: LeaseService_claim_def SearchStep_start_def step_transition_cases
        StepAttempt_new_def Let_def min_def)
qed

text \<open>A leased attempt starts with its lease inside its deadline, and both in the future.\<close>

lemma claim_attempt:
  assumes "LeaseService_claim ls u step n w now dl = Ok (step', a)"
  shows "attempt_inv a" "sa_leased_until a \<le> sa_deadline_at a" "now < sa_leased_until a"
    "ss_status step' = Step_RUNNING" "search_step_step step step'"
proof -
  show "attempt_inv a"
    using assms by (auto simp: LeaseService_claim_def Let_def dest: StepAttempt_new_inv split: if_splits)
  show "sa_leased_until a \<le> sa_deadline_at a" "now < sa_leased_until a"
    "ss_status step' = Step_RUNNING"
    using assms by (auto simp: claim_Ok_iff)
  show "search_step_step step step'"
    using assms by (auto simp: LeaseService_claim_def Let_def split: if_splits
        intro: search_step_step.start)
qed

lemma int_str_inj_pos: "1 \<le> m \<Longrightarrow> 1 \<le> n \<Longrightarrow> int_str m = int_str n \<Longrightarrow> m = n"
  by (auto simp: int_str_def dest: nat_str_inj)

lemma idempotency_key_inj:
  assumes "LeaseService_claim ls u step n w now dl = Ok (step', a)"
    and "LeaseService_claim ls2 u2 step2 n2 w2 now2 dl2 = Ok (step2', a2)"
    and "sa_idempotency_key a = sa_idempotency_key a2"
  shows "ss_id step = ss_id step2 \<and> n = n2"
  using assms by (auto simp: claim_Ok_iff dest: uuid_str_inj int_str_inj_pos)

lemma recover_expired_Ok:
  assumes "ss_id step = sa_step_id attempt"
  shows "LeaseService_recover_expired step attempt (Aware now) = Ok (b, step') \<longleftrightarrow>
     (if ss_status step = Step_RUNNING \<and> sa_completed_at attempt = None
         \<and> sa_leased_until attempt \<le> now
      then b \<and> step' = step\<lparr>ss_status := Step_READY, ss_version := ss_version step + 1\<rparr>
      else \<not> b \<and> step' = step)"
  using assms
  by (auto simp: LeaseService_recover_expired_def StepAttempt_lease_expired_def
      StepAttempt_is_complete_def SearchStep_release_expired_lease_def step_transition_cases
      split: if_splits)

section \<open>Recovery decisions\<close>

text \<open>The row that the candidate query builds for a step and its open attempt.\<close>

definition candidate_of :: "SearchStep \<Rightarrow> StepAttempt option \<Rightarrow> ReconcileCandidate" where
  "candidate_of step attempt =
     \<lparr>rc_tenant_id = ss_tenant_id step, rc_step_id = ss_id step, rc_status = ss_status step,
      rc_retry_at = ss_retry_at step,
      rc_leased_until =
        (case attempt of Some a \<Rightarrow> if StepAttempt_is_complete a then None else Some (sa_leased_until a)
         | None \<Rightarrow> None)\<rparr>"

lemma decide_action_legal:
  assumes "WorkflowReconciler_decide (candidate_of step a) now = Some (c, action)"
    and "action \<noteq> DISPATCH_READY"
  shows "is_ok (SearchStep_make_ready step)"
  using assms
  by (auto simp: WorkflowReconciler_decide_def candidate_of_def is_ok_iff SearchStep_make_ready_def
      step_transition_cases split: if_splits)

lemma decide_none_iff:
  "WorkflowReconciler_decide (candidate_of step a) now = None \<longleftrightarrow>
     step_terminal (ss_status step)
     \<or> ss_status step = Step_RETRY_WAIT \<and> \<not> (\<exists>t \<le> now. ss_retry_at step = Some t)
     \<or> ss_status step = Step_RUNNING
         \<and> \<not> (\<exists>x. a = Some x \<and> \<not> StepAttempt_is_complete x \<and> sa_leased_until x \<le> now)"
  by (cases "ss_status step")
    (auto simp: WorkflowReconciler_decide_def candidate_of_def step_terminal_def split: option.splits)

lemma trace_context_roundtrip:
  assumes "trace_context_wf c"
  shows "trace_context_from_dict sh (trace_context_to_dict c) = Ok c"
proof -
  have lower: "py_lower s = s" if "set s \<subseteq> set hex_digits" for s
  proof -
    have "\<forall>c \<in> set hex_digits. lower_char c = c" by code_simp
    with that show ?thesis by (auto simp: py_lower_def intro!: map_idI)
  qed
  have hex: "set hex_digits \<subseteq> set hex_digits_any" by code_simp
  have bag: "map ((\<lambda>(k, v). (k, py_str sh v)) \<circ> (\<lambda>(k, v). (k, JStr v))) b = b" for b
    by (induction b) auto
  have "trace_context_from_dict sh (trace_context_to_dict c)
      = TraceContext_new (trace_id c) (span_id c) (trace_flags c) (baggage c)"
    by (simp add: trace_context_from_dict_def trace_context_to_dict_def dict_item_def json_dict_def bag)
  also have "\<dots> = Ok c"
    using assms hex lower [of "trace_id c"] lower [of "span_id c"] lower [of "trace_flags c"]
    by (auto simp: TraceContext_new_def trace_context_wf_def is_hex_of_def is_any_hex_of_def
        list_all_iff subset_iff)
  finally show ?thesis .
qed

end
