(* ===== verification/Sql_Repositories.thy ===== *)
theory Sql_Repositories
  imports Lease_Recovery
begin

text \<open>
  The persisted form of the aggregates: the codecs of
  \<^verbatim>\<open>sana/modules/orchestration/repository.py\<close> and the run, step, attempt, event and outbox
  repositories of \<^verbatim>\<open>sana/platform/db/repositories.py\<close> over an explicit database state. A
  table is a list of rows; a repository method takes the tenant scope of its unit of
  work, raises on a foreign tenant, and returns the changed database. An \<^verbatim>\<open>UPDATE\<close> with an
  expected version fails when it does not match exactly one row. Unique constraints of
  \<^verbatim>\<open>platform/db/models/orchestration.py\<close> are checked on insertion. JSON columns keep the
  written key order, and \<^verbatim>\<open>isoformat\<close>/\<^verbatim>\<open>fromisoformat\<close> are the fields of \<open>iso_codec\<close>.
\<close>

section \<open>Enumeration values\<close>

fun answer_quality_value :: "AnswerQuality \<Rightarrow> string" where
  "answer_quality_value Quality_COMPLETE = ''COMPLETE''"
| "answer_quality_value Quality_PARTIAL = ''PARTIAL''"
| "answer_quality_value Quality_NONE = ''NONE''"

fun stop_reason_value :: "StopReason \<Rightarrow> string" where
  "stop_reason_value FACTS_COVERED = ''FACTS_COVERED''"
| "stop_reason_value TIME_BUDGET = ''TIME_BUDGET''"
| "stop_reason_value INSUFFICIENT_EVIDENCE = ''INSUFFICIENT_EVIDENCE''"
| "stop_reason_value PROVIDER_FAILURE = ''PROVIDER_FAILURE''"
| "stop_reason_value POLICY_BLOCKED = ''POLICY_BLOCKED''"
| "stop_reason_value USER_CANCELLED = ''USER_CANCELLED''"
| "stop_reason_value INFRASTRUCTURE_FAILURE = ''INFRASTRUCTURE_FAILURE''"

definition all_modes :: "SearchMode list" where
  "all_modes = [FAST, RESEARCH]"

definition all_run_statuses :: "RunStatus list" where
  "all_run_statuses =
     [Run_QUEUED, Run_RUNNING, Run_WAITING, Run_SUCCEEDED, Run_FAILED, Run_CANCELLED]"

definition all_qualities :: "AnswerQuality list" where
  "all_qualities = [Quality_COMPLETE, Quality_PARTIAL, Quality_NONE]"

definition all_stop_reasons :: "StopReason list" where
  "all_stop_reasons =
     [FACTS_COVERED, TIME_BUDGET, INSUFFICIENT_EVIDENCE, PROVIDER_FAILURE, POLICY_BLOCKED,
      USER_CANCELLED, INFRASTRUCTURE_FAILURE]"

definition all_step_statuses :: "StepStatus list" where
  "all_step_statuses =
     [Step_READY, Step_RUNNING, Step_RETRY_WAIT, Step_SUCCEEDED, Step_FAILED, Step_SKIPPED,
      Step_CANCELLED]"

definition persisted_step_types :: "StepType list" where
  "persisted_step_types =
     [ROUTE, PLAN, DISCOVERY, SELECT, FETCH, EXTRACT, VERIFY, SYNTHESIZE, COMPLETE]"

section \<open>repository.py: codecs\<close>

record iso_codec =
  iso :: "instant \<Rightarrow> string"
  from_iso :: "string \<Rightarrow> datetime result"

definition iso_roundtrip :: "iso_codec \<Rightarrow> bool" where
  "iso_roundtrip c \<longleftrightarrow> (\<forall>t. from_iso c (iso c t) = Ok (Aware t))"

definition float_dict :: "(string, pyfloat) dict \<Rightarrow> json" where
  "float_dict d = JObj (map (\<lambda>(k, v). (k, JFloat v)) d)"

definition load_float_dict :: "py_conv \<Rightarrow> json \<Rightarrow> (string, pyfloat) dict result" where
  "load_float_dict conv j =
     rbind (json_dict j) (\<lambda>d.
       traverse (\<lambda>(k, v). rbind (py_float conv v) (\<lambda>x. Ok (k, x))) d)"

definition budget_to_dict :: "iso_codec \<Rightarrow> BudgetSnapshot \<Rightarrow> (string, json) dict" where
  "budget_to_dict c b =
     [(''policy_version'', JStr (bs_policy_version b)),
      (''created_at'', JStr (iso c (bs_created_at b))),
      (''soft_deadline_at'', JStr (iso c (bs_soft_deadline_at b))),
      (''hard_deadline_at'', JStr (iso c (bs_hard_deadline_at b))),
      (''synthesis_reserve_seconds'', JFloat (bs_synthesis_reserve_seconds b)),
      (''max_queries'', JInt (bs_max_queries b)),
      (''max_providers'', JInt (bs_max_providers b)),
      (''max_fetches'', JInt (bs_max_fetches b)),
      (''max_llm_calls'', JInt (bs_max_llm_calls b)),
      (''max_expansion_rounds'', JInt (bs_max_expansion_rounds b)),
      (''phase_seconds'', float_dict (bs_phase_seconds b))]"

definition int_item :: "py_conv \<Rightarrow> (string, json) dict \<Rightarrow> string \<Rightarrow> int result" where
  "int_item conv p k = rbind (dict_item p k) (py_int conv)"

definition time_item :: "py_conv \<Rightarrow> iso_codec \<Rightarrow> (string, json) dict \<Rightarrow> string \<Rightarrow> datetime result" where
  "time_item conv c p k = rbind (dict_item p k) (\<lambda>v. from_iso c (py_str conv v))"

definition budget_from_dict ::
  "py_conv \<Rightarrow> iso_codec \<Rightarrow> (string, json) dict \<Rightarrow> BudgetSnapshot result" where
  "budget_from_dict conv c p =
     rbind (dict_item p ''policy_version'') (\<lambda>version.
     rbind (time_item conv c p ''created_at'') (\<lambda>created.
     rbind (time_item conv c p ''soft_deadline_at'') (\<lambda>soft.
     rbind (time_item conv c p ''hard_deadline_at'') (\<lambda>hard.
     rbind (rbind (dict_item p ''synthesis_reserve_seconds'') (py_float conv)) (\<lambda>reserve.
     rbind (int_item conv p ''max_queries'') (\<lambda>queries.
     rbind (int_item conv p ''max_providers'') (\<lambda>providers.
     rbind (int_item conv p ''max_fetches'') (\<lambda>fetches.
     rbind (int_item conv p ''max_llm_calls'') (\<lambda>llm.
     rbind (int_item conv p ''max_expansion_rounds'') (\<lambda>rounds.
     rbind (rbind (dict_item p ''phase_seconds'') (load_float_dict conv)) (\<lambda>phases.
       BudgetSnapshot_new (py_str conv version) created soft hard reserve queries providers
         fetches llm rounds phases)))))))))))"

definition usage_to_dict :: "BudgetUsage \<Rightarrow> (string, json) dict" where
  "usage_to_dict u =
     [(''query_count'', JInt (bu_query_count u)),
      (''provider_count'', JInt (bu_provider_count u)),
      (''fetch_count'', JInt (bu_fetch_count u)),
      (''llm_call_count'', JInt (bu_llm_call_count u)),
      (''prompt_token_count'', JInt (bu_prompt_token_count u)),
      (''completion_token_count'', JInt (bu_completion_token_count u)),
      (''expansion_rounds'', JInt (bu_expansion_rounds u)),
      (''phase_seconds'', float_dict (bu_phase_seconds u))]"

definition int_or_zero :: "py_conv \<Rightarrow> (string, json) dict \<Rightarrow> string \<Rightarrow> int result" where
  "int_or_zero conv p k = py_int conv (dict_get p k (JInt 0))"

definition usage_from_dict :: "py_conv \<Rightarrow> (string, json) dict \<Rightarrow> BudgetUsage result" where
  "usage_from_dict conv p =
     rbind (int_or_zero conv p ''query_count'') (\<lambda>queries.
     rbind (int_or_zero conv p ''provider_count'') (\<lambda>providers.
     rbind (int_or_zero conv p ''fetch_count'') (\<lambda>fetches.
     rbind (int_or_zero conv p ''llm_call_count'') (\<lambda>llm.
     rbind (int_or_zero conv p ''prompt_token_count'') (\<lambda>prompt_tokens.
     rbind (int_or_zero conv p ''completion_token_count'') (\<lambda>completion_tokens.
     rbind (int_or_zero conv p ''expansion_rounds'') (\<lambda>rounds.
     rbind (load_float_dict conv (dict_get p ''phase_seconds'' (JObj []))) (\<lambda>phases.
       BudgetUsage_new queries providers fetches llm prompt_tokens completion_tokens rounds
         phases))))))))"

definition artifact_to_dict :: "ArtifactRef \<Rightarrow> (string, json) dict" where
  "artifact_to_dict a = [(''uri'', JStr (ar_uri a)), (''sha256'', JStr (ar_sha256 a))]"

definition artifact_from_dict :: "py_conv \<Rightarrow> (string, json) dict \<Rightarrow> ArtifactRef result" where
  "artifact_from_dict conv p =
     rbind (dict_item p ''uri'') (\<lambda>u.
     rbind (dict_item p ''sha256'') (\<lambda>h. ArtifactRef_new (py_str conv u) (py_str conv h)))"

section \<open>Rows\<close>

record SearchRunRecord =
  rr_id :: uuid
  rr_tenant_id :: uuid
  rr_response_run_id :: uuid
  rr_conversation_id :: uuid
  rr_message_id :: uuid
  rr_mode :: string
  rr_route_reason_codes :: "string list"
  rr_policy_version :: string
  rr_route_confidence :: pyfloat
  rr_status :: string
  rr_answer_quality :: string
  rr_stop_reason :: "string option"
  rr_soft_deadline_at :: instant
  rr_hard_deadline_at :: instant
  rr_budget_snapshot :: "(string, json) dict"
  rr_usage_snapshot :: "(string, json) dict"
  rr_created_at :: instant
  rr_started_at :: "instant option"
  rr_completed_at :: "instant option"
  rr_version :: int

record SearchStepRecord =
  sp_id :: uuid
  sp_tenant_id :: uuid
  sp_run_id :: uuid
  sp_step_key :: string
  sp_step_type :: string
  sp_plan_revision :: int
  sp_status :: string
  sp_input_ref :: "(string, json) dict"
  sp_output_ref :: "(string, json) dict option"
  sp_retry_at :: "instant option"
  sp_version_no :: int

record StepAttemptRecord =
  at_id :: uuid
  at_tenant_id :: uuid
  at_run_id :: uuid
  at_step_id :: uuid
  at_attempt_no :: int
  at_idempotency_key :: string
  at_lease_owner :: string
  at_leased_until :: instant
  at_deadline_at :: instant
  at_started_at :: instant
  at_completed_at :: "instant option"
  at_error_type :: "string option"
  at_error_code :: "string option"
  at_error_details :: "(string, json) dict option"
  at_input_ref :: "(string, json) dict"
  at_output_ref :: "(string, json) dict option"

record OutboxEvent =
  ob_message :: OutboxMessage
  ob_published_at :: "instant option"
  ob_publish_attempts :: int
  ob_last_error :: "string option"

record db =
  tbl_runs :: "SearchRunRecord list"
  tbl_steps :: "SearchStepRecord list"
  tbl_attempts :: "StepAttemptRecord list"
  tbl_events :: "RunEventData list"
  tbl_outbox :: "OutboxEvent list"

text \<open>The other tables of the application extend this record; an operation on the work tables leaves them.\<close>

type_synonym 'x tables = "'x db_scheme"

definition run_from_record :: "py_conv \<Rightarrow> iso_codec \<Rightarrow> SearchRunRecord \<Rightarrow> SearchRun result" where
  "run_from_record conv c row =
     rbind (enum_of search_mode_value all_modes (rr_mode row)) (\<lambda>mode.
     rbind (RoutingDecision_new mode (rr_route_reason_codes row) (rr_policy_version row)
              (rr_route_confidence row)) (\<lambda>routing.
     rbind (budget_from_dict conv c (rr_budget_snapshot row)) (\<lambda>budget.
     rbind (enum_of run_status_value all_run_statuses (rr_status row)) (\<lambda>status.
     rbind (enum_of answer_quality_value all_qualities (rr_answer_quality row)) (\<lambda>quality.
     rbind (case rr_stop_reason row of
              None \<Rightarrow> Ok None
            | Some s \<Rightarrow> if s = [] then Ok None
                else rbind (enum_of stop_reason_value all_stop_reasons s) (\<lambda>r. Ok (Some r))) (\<lambda>reason.
     rbind (usage_from_dict conv (rr_usage_snapshot row)) (\<lambda>usage.
       SearchRun_rehydrate (rr_id row) (rr_tenant_id row) (rr_conversation_id row)
         (rr_message_id row) (rr_response_run_id row) routing budget status quality reason usage
         (rr_started_at row) (rr_completed_at row) (rr_version row))))))))"

definition step_from_record :: "py_conv \<Rightarrow> SearchStepRecord \<Rightarrow> SearchStep result" where
  "step_from_record conv row =
     rbind (enum_of step_type_value persisted_step_types (sp_step_type row)) (\<lambda>ty.
     rbind (artifact_from_dict conv (sp_input_ref row)) (\<lambda>input_ref.
     rbind (enum_of step_status_value all_step_statuses (sp_status row)) (\<lambda>status.
     rbind (case sp_output_ref row of
              None \<Rightarrow> Ok None
            | Some d \<Rightarrow> rbind (artifact_from_dict conv d) (\<lambda>a. Ok (Some a))) (\<lambda>output_ref.
       SearchStep_rehydrate (sp_id row) (sp_tenant_id row) (sp_run_id row) (sp_step_key row) ty
         (sp_plan_revision row) input_ref status output_ref (sp_retry_at row)
         (sp_version_no row)))))"

text \<open>The columns that \<^verbatim>\<open>add\<close> writes; \<^verbatim>\<open>save\<close> writes the mutable ones.\<close>

definition run_row :: "iso_codec \<Rightarrow> SearchRun \<Rightarrow> SearchRunRecord" where
  "run_row c r =
     \<lparr>rr_id = sr_id r, rr_tenant_id = sr_tenant_id r, rr_response_run_id = sr_response_run_id r,
      rr_conversation_id = sr_conversation_id r, rr_message_id = sr_message_id r,
      rr_mode = search_mode_value (sr_mode r),
      rr_route_reason_codes = rd_reason_codes (sr_routing r),
      rr_policy_version = rd_policy_version (sr_routing r),
      rr_route_confidence = rd_confidence (sr_routing r),
      rr_status = run_status_value (sr_status r),
      rr_answer_quality = answer_quality_value (sr_answer_quality r),
      rr_stop_reason = map_option stop_reason_value (sr_stop_reason r),
      rr_soft_deadline_at = bs_soft_deadline_at (sr_budget r),
      rr_hard_deadline_at = bs_hard_deadline_at (sr_budget r),
      rr_budget_snapshot = budget_to_dict c (sr_budget r),
      rr_usage_snapshot = usage_to_dict (sr_usage r),
      rr_created_at = bs_created_at (sr_budget r), rr_started_at = sr_started_at r,
      rr_completed_at = sr_completed_at r, rr_version = sr_version r\<rparr>"

definition run_row_update :: "iso_codec \<Rightarrow> SearchRun \<Rightarrow> SearchRunRecord \<Rightarrow> SearchRunRecord" where
  "run_row_update c r row =
     row\<lparr>rr_mode := search_mode_value (sr_mode r),
         rr_route_reason_codes := rd_reason_codes (sr_routing r),
         rr_policy_version := rd_policy_version (sr_routing r),
         rr_route_confidence := rd_confidence (sr_routing r),
         rr_status := run_status_value (sr_status r),
         rr_answer_quality := answer_quality_value (sr_answer_quality r),
         rr_stop_reason := map_option stop_reason_value (sr_stop_reason r),
         rr_soft_deadline_at := bs_soft_deadline_at (sr_budget r),
         rr_hard_deadline_at := bs_hard_deadline_at (sr_budget r),
         rr_budget_snapshot := budget_to_dict c (sr_budget r),
         rr_usage_snapshot := usage_to_dict (sr_usage r),
         rr_started_at := sr_started_at r, rr_completed_at := sr_completed_at r,
         rr_version := sr_version r\<rparr>"

definition step_row :: "SearchStep \<Rightarrow> SearchStepRecord" where
  "step_row s =
     \<lparr>sp_id = ss_id s, sp_tenant_id = ss_tenant_id s, sp_run_id = ss_run_id s,
      sp_step_key = ss_step_key s, sp_step_type = step_type_value (ss_step_type s),
      sp_plan_revision = ss_plan_revision s, sp_status = step_status_value (ss_status s),
      sp_input_ref = artifact_to_dict (ss_input_ref s),
      sp_output_ref = map_option artifact_to_dict (ss_output_ref s),
      sp_retry_at = ss_retry_at s, sp_version_no = ss_version s\<rparr>"

definition step_row_update :: "SearchStep \<Rightarrow> SearchStepRecord \<Rightarrow> SearchStepRecord" where
  "step_row_update s row =
     row\<lparr>sp_status := step_status_value (ss_status s),
         sp_output_ref := map_option artifact_to_dict (ss_output_ref s),
         sp_retry_at := ss_retry_at s, sp_version_no := ss_version s\<rparr>"

definition attempt_row :: "StepAttempt \<Rightarrow> StepAttemptRecord" where
  "attempt_row a =
     \<lparr>at_id = sa_id a, at_tenant_id = sa_tenant_id a, at_run_id = sa_run_id a,
      at_step_id = sa_step_id a, at_attempt_no = sa_attempt_no a,
      at_idempotency_key = sa_idempotency_key a, at_lease_owner = sa_lease_owner a,
      at_leased_until = sa_leased_until a, at_deadline_at = sa_deadline_at a,
      at_started_at = sa_started_at a, at_completed_at = sa_completed_at a,
      at_error_type = map_option (\<lambda>e. error_category_value (te_category e)) (sa_error a),
      at_error_code = map_option te_code (sa_error a),
      at_error_details = map_option typed_error_to_dict (sa_error a),
      at_input_ref = artifact_to_dict (sa_input_ref a),
      at_output_ref = map_option artifact_to_dict (sa_output_ref a)\<rparr>"

section \<open>Repositories\<close>

definition assert_tenant :: "uuid \<Rightarrow> uuid \<Rightarrow> unit result" where
  "assert_tenant scope tenant_id =
     (if tenant_id \<noteq> scope
      then Err (invariant_violation_code ''Repository cannot cross its tenant scope''
                  ''tenant_scope_mismatch'' [])
      else Ok ())"

definition runs_get ::
  "py_conv \<Rightarrow> iso_codec \<Rightarrow> uuid \<Rightarrow> uuid \<Rightarrow> uuid \<Rightarrow> 'x tables \<Rightarrow> SearchRun option result" where
  "runs_get conv c scope tenant_id run_id d =
     rbind (assert_tenant scope tenant_id) (\<lambda>_.
       case find (\<lambda>row. rr_tenant_id row = tenant_id \<and> rr_id row = run_id) (tbl_runs d) of
         None \<Rightarrow> Ok None
       | Some row \<Rightarrow> rbind (run_from_record conv c row) (\<lambda>r. Ok (Some r)))"

definition integrity_error :: exn where
  "integrity_error = RuntimeError ''IntegrityError''"

definition runs_add :: "iso_codec \<Rightarrow> uuid \<Rightarrow> SearchRun \<Rightarrow> 'x tables \<Rightarrow> 'x tables result" where
  "runs_add c scope r d =
     rbind (assert_tenant scope (sr_tenant_id r)) (\<lambda>_.
       if list_ex (\<lambda>row. rr_id row = sr_id r \<or> rr_response_run_id row = sr_response_run_id r)
            (tbl_runs d)
       then Err integrity_error
       else Ok (d\<lparr>tbl_runs := tbl_runs d @ [run_row c r]\<rparr>))"

definition runs_save :: "iso_codec \<Rightarrow> uuid \<Rightarrow> SearchRun \<Rightarrow> 'x tables \<Rightarrow> (SearchRun \<times> 'x tables) result" where
  "runs_save c scope r d =
     rbind (assert_tenant scope (sr_tenant_id r)) (\<lambda>_.
       let match = (\<lambda>row. rr_tenant_id row = sr_tenant_id r \<and> rr_id row = sr_id r
                          \<and> rr_version row = sr_persisted_version r) in
       if length (filter match (tbl_runs d)) \<noteq> 1
       then Err (invariant_violation_code ''Search run was modified concurrently''
                   ''optimistic_lock_failed'' [])
       else Ok (SearchRun_mark_persisted r,
                d\<lparr>tbl_runs := map (\<lambda>row. if match row then run_row_update c r row else row)
                                (tbl_runs d)\<rparr>))"

definition steps_get ::
  "py_conv \<Rightarrow> uuid \<Rightarrow> uuid \<Rightarrow> uuid \<Rightarrow> 'x tables \<Rightarrow> SearchStep option result" where
  "steps_get conv scope tenant_id step_id d =
     rbind (assert_tenant scope tenant_id) (\<lambda>_.
       case find (\<lambda>row. sp_tenant_id row = tenant_id \<and> sp_id row = step_id) (tbl_steps d) of
         None \<Rightarrow> Ok None
       | Some row \<Rightarrow> rbind (step_from_record conv row) (\<lambda>s. Ok (Some s)))"

definition steps_add :: "uuid \<Rightarrow> SearchStep \<Rightarrow> 'x tables \<Rightarrow> 'x tables result" where
  "steps_add scope s d =
     rbind (assert_tenant scope (ss_tenant_id s)) (\<lambda>_.
       if list_ex (\<lambda>row. sp_id row = ss_id s
             \<or> sp_run_id row = ss_run_id s \<and> sp_plan_revision row = ss_plan_revision s
               \<and> sp_step_key row = ss_step_key s) (tbl_steps d)
       then Err integrity_error
       else Ok (d\<lparr>tbl_steps := tbl_steps d @ [step_row s]\<rparr>))"

definition steps_save :: "uuid \<Rightarrow> SearchStep \<Rightarrow> 'x tables \<Rightarrow> (SearchStep \<times> 'x tables) result" where
  "steps_save scope s d =
     rbind (assert_tenant scope (ss_tenant_id s)) (\<lambda>_.
       let match = (\<lambda>row. sp_tenant_id row = ss_tenant_id s \<and> sp_id row = ss_id s
                          \<and> sp_version_no row = ss_persisted_version s) in
       if length (filter match (tbl_steps d)) \<noteq> 1
       then Err (invariant_violation_code ''Search step was modified concurrently''
                   ''optimistic_lock_failed'' [])
       else Ok (SearchStep_mark_persisted s,
                d\<lparr>tbl_steps := map (\<lambda>row. if match row then step_row_update s row else row)
                                 (tbl_steps d)\<rparr>))"

definition attempts_add :: "uuid \<Rightarrow> StepAttempt \<Rightarrow> 'x tables \<Rightarrow> 'x tables result" where
  "attempts_add scope a d =
     rbind (assert_tenant scope (sa_tenant_id a)) (\<lambda>_.
       if list_ex (\<lambda>row. at_id row = sa_id a \<or> at_idempotency_key row = sa_idempotency_key a
             \<or> at_step_id row = sa_step_id a \<and> at_attempt_no row = sa_attempt_no a) (tbl_attempts d)
       then Err integrity_error
       else Ok (d\<lparr>tbl_attempts := tbl_attempts d @ [attempt_row a]\<rparr>))"

text \<open>\<^verbatim>\<open>coalesce(max(attempt_no), 0)\<close> over the attempts of one step.\<close>

definition latest_attempt_no :: "uuid \<Rightarrow> uuid \<Rightarrow> 'x tables \<Rightarrow> int" where
  "latest_attempt_no tenant_id step_id d =
     (case map at_attempt_no
             (filter (\<lambda>row. at_tenant_id row = tenant_id \<and> at_step_id row = step_id) (tbl_attempts d))
      of [] \<Rightarrow> 0 | n # ns \<Rightarrow> fold max ns n)"

definition attempts_next_no :: "uuid \<Rightarrow> uuid \<Rightarrow> uuid \<Rightarrow> 'x tables \<Rightarrow> int result" where
  "attempts_next_no scope tenant_id step_id d =
     rbind (assert_tenant scope tenant_id) (\<lambda>_. Ok (latest_attempt_no tenant_id step_id d + 1))"

definition attempts_complete :: "uuid \<Rightarrow> StepAttempt \<Rightarrow> 'x tables \<Rightarrow> 'x tables result" where
  "attempts_complete scope a d =
     rbind (assert_tenant scope (sa_tenant_id a)) (\<lambda>_.
       if \<not> StepAttempt_is_complete a
       then Err (invariant_violation_code ''Cannot persist an incomplete attempt as completed''
                   ''attempt_not_complete'' [])
       else
         let match = (\<lambda>row. at_tenant_id row = sa_tenant_id a \<and> at_id row = sa_id a
                            \<and> at_completed_at row = None) in
         if length (filter match (tbl_attempts d)) \<noteq> 1
         then Err (invariant_violation_code ''Attempt was already finalized or does not exist''
                     ''attempt_finalize_conflict'' [])
         else Ok (d\<lparr>tbl_attempts := map (\<lambda>row. if match row
                      then row\<lparr>at_leased_until := sa_leased_until a,
                               at_completed_at := sa_completed_at a,
                               at_error_type := at_error_type (attempt_row a),
                               at_error_code := at_error_code (attempt_row a),
                               at_error_details := at_error_details (attempt_row a),
                               at_output_ref := at_output_ref (attempt_row a)\<rparr>
                      else row) (tbl_attempts d)\<rparr>))"

definition attempts_renew :: "uuid \<Rightarrow> StepAttempt \<Rightarrow> 'x tables \<Rightarrow> 'x tables result" where
  "attempts_renew scope a d =
     rbind (assert_tenant scope (sa_tenant_id a)) (\<lambda>_.
       if StepAttempt_is_complete a
       then Err (invariant_violation_code ''Cannot renew a completed attempt''
                   ''attempt_already_complete'' [])
       else
         let match = (\<lambda>row. at_tenant_id row = sa_tenant_id a \<and> at_id row = sa_id a
                            \<and> at_lease_owner row = sa_lease_owner a \<and> at_completed_at row = None
                            \<and> at_leased_until row < sa_leased_until a) in
         if length (filter match (tbl_attempts d)) \<noteq> 1
         then Err (invariant_violation_code ''Attempt lease could not be renewed''
                     ''attempt_lease_renewal_conflict'' [])
         else Ok (d\<lparr>tbl_attempts := map (\<lambda>row. if match row
                      then row\<lparr>at_leased_until := sa_leased_until a\<rparr> else row) (tbl_attempts d)\<rparr>))"

definition events_next_sequence :: "uuid \<Rightarrow> uuid \<Rightarrow> uuid \<Rightarrow> 'x tables \<Rightarrow> int result" where
  "events_next_sequence scope tenant_id run_id d =
     rbind (assert_tenant scope tenant_id) (\<lambda>_.
       Ok ((case map re_sequence
                   (filter (\<lambda>e. re_tenant_id e = tenant_id \<and> re_run_id e = run_id) (tbl_events d))
            of [] \<Rightarrow> 0 | n # ns \<Rightarrow> fold max ns n) + 1))"

definition events_add :: "uuid \<Rightarrow> RunEventData \<Rightarrow> 'x tables \<Rightarrow> 'x tables result" where
  "events_add scope e d =
     rbind (assert_tenant scope (re_tenant_id e)) (\<lambda>_.
       if list_ex (\<lambda>x. re_id x = re_id e \<or> re_run_id x = re_run_id e \<and> re_sequence x = re_sequence e)
            (tbl_events d)
       then Err integrity_error
       else Ok (d\<lparr>tbl_events := tbl_events d @ [e]\<rparr>))"

definition outbox_add :: "uuid \<Rightarrow> OutboxMessage \<Rightarrow> 'x tables \<Rightarrow> 'x tables result" where
  "outbox_add scope m d =
     rbind (assert_tenant scope (om_tenant_id m)) (\<lambda>_.
       if list_ex (\<lambda>x. om_id (ob_message x) = om_id m
             \<or> om_dedupe_key (ob_message x) = om_dedupe_key m) (tbl_outbox d)
       then Err integrity_error
       else Ok (d\<lparr>tbl_outbox := tbl_outbox d @
                   [\<lparr>ob_message = m, ob_published_at = None, ob_publish_attempts = 0,
                     ob_last_error = None\<rparr>]\<rparr>))"

definition outbox_claim_unpublished ::
  "uuid \<Rightarrow> instant \<Rightarrow> nat \<Rightarrow> 'x tables \<Rightarrow> (OutboxMessage \<times> int) list" where
  "outbox_claim_unpublished scope now limit d =
     map (\<lambda>x. (ob_message x, ob_publish_attempts x))
       (take limit (sort_key (\<lambda>x. om_created_at (ob_message x))
          (filter (\<lambda>x. om_tenant_id (ob_message x) = scope \<and> ob_published_at x = None
             \<and> om_available_at (ob_message x) \<le> now) (tbl_outbox d))))"

definition outbox_match :: "uuid \<Rightarrow> uuid \<Rightarrow> OutboxEvent \<Rightarrow> bool" where
  "outbox_match scope message_id x \<longleftrightarrow>
     om_tenant_id (ob_message x) = scope \<and> om_id (ob_message x) = message_id \<and> ob_published_at x = None"

definition outbox_mark_published :: "uuid \<Rightarrow> uuid \<Rightarrow> instant \<Rightarrow> 'x tables \<Rightarrow> 'x tables" where
  "outbox_mark_published scope message_id published_at d =
     d\<lparr>tbl_outbox := map (\<lambda>x. if outbox_match scope message_id x
         then x\<lparr>ob_published_at := Some published_at,
                ob_publish_attempts := ob_publish_attempts x + 1, ob_last_error := None\<rparr>
         else x) (tbl_outbox d)\<rparr>"

definition outbox_mark_failed :: "uuid \<Rightarrow> uuid \<Rightarrow> string \<Rightarrow> 'x tables \<Rightarrow> 'x tables" where
  "outbox_mark_failed scope message_id error d =
     d\<lparr>tbl_outbox := map (\<lambda>x. if outbox_match scope message_id x
         then x\<lparr>ob_publish_attempts := ob_publish_attempts x + 1,
                ob_last_error := Some (take 2000 error)\<rparr>
         else x) (tbl_outbox d)\<rparr>"

section \<open>Codec round trips\<close>

lemma load_float_dict_roundtrip: "load_float_dict conv (float_dict d) = Ok d"
  by (induction d) (auto simp: load_float_dict_def float_dict_def json_dict_def)

lemma BudgetSnapshot_new_roundtrip:
  "BudgetSnapshot_wf b \<Longrightarrow>
     BudgetSnapshot_new (bs_policy_version b) (Aware (bs_created_at b)) (Aware (bs_soft_deadline_at b))
       (Aware (bs_hard_deadline_at b)) (bs_synthesis_reserve_seconds b) (bs_max_queries b)
       (bs_max_providers b) (bs_max_fetches b) (bs_max_llm_calls b) (bs_max_expansion_rounds b)
       (bs_phase_seconds b) = Ok b"
  by (auto simp: BudgetSnapshot_new_def BudgetSnapshot_wf_def list_ex_iff not_less not_le)

lemma budget_roundtrip:
  assumes "iso_roundtrip c" "BudgetSnapshot_wf b"
  shows "budget_from_dict conv c (budget_to_dict c b) = Ok b"
  using assms BudgetSnapshot_new_roundtrip [OF assms(2)]
  by (simp add: budget_from_dict_def budget_to_dict_def time_item_def int_item_def dict_item_def
      iso_roundtrip_def load_float_dict_roundtrip)

lemma usage_roundtrip:
  assumes "BudgetUsage_wf u"
  shows "usage_from_dict conv (usage_to_dict u) = Ok u"
proof -
  have "BudgetUsage_new (bu_query_count u) (bu_provider_count u) (bu_fetch_count u)
      (bu_llm_call_count u) (bu_prompt_token_count u) (bu_completion_token_count u)
      (bu_expansion_rounds u) (bu_phase_seconds u) = Ok u"
    using assms by (simp add: BudgetUsage_new_Ok)
  then show ?thesis
    by (simp add: usage_from_dict_def usage_to_dict_def int_or_zero_def dict_get_def
        load_float_dict_roundtrip)
qed

definition ArtifactRef_wf :: "ArtifactRef \<Rightarrow> bool" where
  "ArtifactRef_wf a \<longleftrightarrow> \<not> blank (ar_uri a) \<and> is_hex_of 64 (ar_sha256 a)"

lemma hex_digits_lower: "\<forall>c \<in> set hex_digits. lower_char c = c \<and> c \<in> set hex_digits_any"
  by code_simp

lemma ArtifactRef_new_Ok:
  "ArtifactRef_new u h = Ok a \<Longrightarrow> ArtifactRef_wf a"
  using set_py_lower_hex [of h]
  by (auto simp: ArtifactRef_new_def ArtifactRef_wf_def is_hex_of_def list_ex_iff list_all_iff
      subset_iff split: if_splits)

lemma artifact_roundtrip:
  assumes "ArtifactRef_wf a"
  shows "artifact_from_dict conv (artifact_to_dict a) = Ok a"
proof -
  have "py_lower (ar_sha256 a) = ar_sha256 a" "\<forall>c \<in> set (ar_sha256 a). c \<in> set hex_digits_any"
    using assms hex_digits_lower
    by (auto simp: ArtifactRef_wf_def is_hex_of_def list_all_iff py_lower_def intro!: map_idI)
  with assms show ?thesis
    by (simp add: artifact_from_dict_def artifact_to_dict_def dict_item_def ArtifactRef_new_def
        ArtifactRef_wf_def is_hex_of_def list_ex_iff)
qed

lemma enum_values:
  "enum_of search_mode_value all_modes (search_mode_value m) = Ok m"
  "enum_of run_status_value all_run_statuses (run_status_value st) = Ok st"
  "enum_of answer_quality_value all_qualities (answer_quality_value q) = Ok q"
  "enum_of stop_reason_value all_stop_reasons (stop_reason_value r) = Ok r"
  "enum_of step_status_value all_step_statuses (step_status_value ss) = Ok ss"
  "enum_of step_type_value persisted_step_types (step_type_value ty) = Ok ty"
proof -
  have "m \<in> set all_modes" by (cases m) (simp_all add: all_modes_def)
  moreover have "st \<in> set all_run_statuses" by (cases st) (simp_all add: all_run_statuses_def)
  moreover have "q \<in> set all_qualities" by (cases q) (simp_all add: all_qualities_def)
  moreover have "r \<in> set all_stop_reasons" by (cases r) (simp_all add: all_stop_reasons_def)
  moreover have "ss \<in> set all_step_statuses" by (cases ss) (simp_all add: all_step_statuses_def)
  moreover have "ty \<in> set persisted_step_types" by (cases ty) (simp_all add: persisted_step_types_def)
  moreover have "distinct (map search_mode_value all_modes)"
    "distinct (map run_status_value all_run_statuses)"
    "distinct (map answer_quality_value all_qualities)"
    "distinct (map stop_reason_value all_stop_reasons)"
    "distinct (map step_status_value all_step_statuses)"
    "distinct (map step_type_value persisted_step_types)"
    by code_simp+
  ultimately show
    "enum_of search_mode_value all_modes (search_mode_value m) = Ok m"
    "enum_of run_status_value all_run_statuses (run_status_value st) = Ok st"
    "enum_of answer_quality_value all_qualities (answer_quality_value q) = Ok q"
    "enum_of stop_reason_value all_stop_reasons (stop_reason_value r) = Ok r"
    "enum_of step_status_value all_step_statuses (step_status_value ss) = Ok ss"
    "enum_of step_type_value persisted_step_types (step_type_value ty) = Ok ty"
    by (blast intro: enum_of_val)+
qed

lemma stop_reason_value_not_Nil [simp]: "stop_reason_value r \<noteq> []"
  by (cases r) auto

lemma run_row_roundtrip:
  assumes "iso_roundtrip c" "run_inv r"
  shows "run_from_record conv c (run_row c r) = Ok (SearchRun_mark_persisted r)"
proof -
  have routing: "RoutingDecision_new (rd_mode (sr_routing r)) (rd_reason_codes (sr_routing r))
      (rd_policy_version (sr_routing r)) (rd_confidence (sr_routing r)) = Ok (sr_routing r)"
    using assms(2) by (simp add: RoutingDecision_new_Ok run_inv_def)
  have "SearchRun_reload r = Ok (SearchRun_mark_persisted r)"
    by (rule run_inv_reload) (rule assms(2))
  then show ?thesis
    using assms routing
    by (cases "sr_stop_reason r")
      (simp_all add: run_from_record_def run_row_def enum_values sr_mode_def budget_roundtrip
        usage_roundtrip run_inv_def SearchRun_reload_def)
qed

definition step_refs_wf :: "SearchStep \<Rightarrow> bool" where
  "step_refs_wf s \<longleftrightarrow> ArtifactRef_wf (ss_input_ref s)
     \<and> (\<forall>a. ss_output_ref s = Some a \<longrightarrow> ArtifactRef_wf a)"

lemma step_row_roundtrip:
  assumes "step_inv s" "step_refs_wf s"
  shows "step_from_record conv (step_row s) = Ok (SearchStep_mark_persisted s)"
proof -
  have "SearchStep_reload s = Ok (SearchStep_mark_persisted s)"
    by (rule step_inv_reload) (rule assms(1))
  with assms(2) show ?thesis
    by (cases "ss_output_ref s")
      (simp_all add: step_from_record_def step_row_def enum_values artifact_roundtrip
        step_refs_wf_def SearchStep_reload_def)
qed

section \<open>Optimistic locking\<close>

text \<open>
  A versioned table seen through the key and version of its rows: a save finds its row at
  the version it loaded and leaves it at the version it writes.
\<close>

locale optimistic_table =
  fixes save :: "'a \<Rightarrow> 'x tables \<Rightarrow> ('a \<times> 'x tables) result"
    and versions :: "'x tables \<Rightarrow> ((uuid \<times> uuid) \<times> int) list"
    and key_of :: "'a \<Rightarrow> uuid \<times> uuid"
    and version_of :: "'a \<Rightarrow> int"
    and loaded_version :: "'a \<Rightarrow> int"
  assumes save_found: "save a d = Ok (a', d') \<Longrightarrow> (key_of a, loaded_version a) \<in> set (versions d)"
    and save_versions: "save a d = Ok (a', d') \<Longrightarrow>
      versions d' = map (\<lambda>(k, v). if k = key_of a \<and> v = loaded_version a then (k, version_of a)
                                  else (k, v)) (versions d)"
begin

lemma save_keeps_keys: "save a d = Ok (a', d') \<Longrightarrow> map fst (versions d') = map fst (versions d)"
  by (auto simp: save_versions)

lemma no_lost_update:
  assumes keys: "distinct (map fst (versions d))" and first: "save a d = Ok (a', d')"
    and same: "key_of b = key_of a" "loaded_version b = loaded_version a"
    and changed: "version_of a \<noteq> loaded_version a"
  shows "save b d' \<noteq> Ok r"
proof
  assume "save b d' = Ok r"
  then have "(key_of a, loaded_version a) \<in> set (versions d')"
    using save_found [of b d' "fst r" "snd r"] same by simp
  then obtain k v where kv: "(k, v) \<in> set (versions d)"
    "(key_of a, loaded_version a)
       = (if k = key_of a \<and> v = loaded_version a then (k, version_of a) else (k, v))"
    using save_versions [OF first] by auto
  then have "k = key_of a" "v \<noteq> loaded_version a \<or> version_of a = loaded_version a"
    by (auto split: if_splits)
  with kv changed show False by (auto split: if_splits)
qed

end

definition run_versions :: "'x tables \<Rightarrow> ((uuid \<times> uuid) \<times> int) list" where
  "run_versions d = map (\<lambda>row. ((rr_tenant_id row, rr_id row), rr_version row)) (tbl_runs d)"

definition step_versions :: "'x tables \<Rightarrow> ((uuid \<times> uuid) \<times> int) list" where
  "step_versions d = map (\<lambda>row. ((sp_tenant_id row, sp_id row), sp_version_no row)) (tbl_steps d)"

lemma filter_length_one: "length (filter P xs) = 1 \<Longrightarrow> \<exists>x \<in> set xs. P x"
  by (metis filter_False length_0_conv zero_neq_one)

lemma runs_save_Ok:
  assumes "runs_save c scope r d = Ok (r', d')"
  shows "sr_tenant_id r = scope" "r' = SearchRun_mark_persisted r"
    "((sr_tenant_id r, sr_id r), sr_persisted_version r) \<in> set (run_versions d)"
    "d' = d\<lparr>tbl_runs := map (\<lambda>row. if rr_tenant_id row = sr_tenant_id r \<and> rr_id row = sr_id r
        \<and> rr_version row = sr_persisted_version r then run_row_update c r row else row) (tbl_runs d)\<rparr>"
proof -
  let ?m = "\<lambda>row. rr_tenant_id row = sr_tenant_id r \<and> rr_id row = sr_id r
    \<and> rr_version row = sr_persisted_version r"
  from assms have one: "length (filter ?m (tbl_runs d)) = 1"
    by (auto simp: runs_save_def Let_def split: if_splits)
  from filter_length_one [OF one]
  show "((sr_tenant_id r, sr_id r), sr_persisted_version r) \<in> set (run_versions d)"
    unfolding run_versions_def by (auto intro!: rev_image_eqI)
  from assms show "sr_tenant_id r = scope" "r' = SearchRun_mark_persisted r"
    "d' = d\<lparr>tbl_runs := map (\<lambda>row. if ?m row then run_row_update c r row else row) (tbl_runs d)\<rparr>"
    by (auto simp: runs_save_def assert_tenant_def Let_def split: if_splits)
qed

lemma steps_save_Ok:
  assumes "steps_save scope s d = Ok (s', d')"
  shows "ss_tenant_id s = scope" "s' = SearchStep_mark_persisted s"
    "((ss_tenant_id s, ss_id s), ss_persisted_version s) \<in> set (step_versions d)"
    "d' = d\<lparr>tbl_steps := map (\<lambda>row. if sp_tenant_id row = ss_tenant_id s \<and> sp_id row = ss_id s
        \<and> sp_version_no row = ss_persisted_version s then step_row_update s row else row) (tbl_steps d)\<rparr>"
proof -
  let ?m = "\<lambda>row. sp_tenant_id row = ss_tenant_id s \<and> sp_id row = ss_id s
    \<and> sp_version_no row = ss_persisted_version s"
  from assms have one: "length (filter ?m (tbl_steps d)) = 1"
    by (auto simp: steps_save_def Let_def split: if_splits)
  from filter_length_one [OF one]
  show "((ss_tenant_id s, ss_id s), ss_persisted_version s) \<in> set (step_versions d)"
    unfolding step_versions_def by (auto intro!: rev_image_eqI)
  from assms show "ss_tenant_id s = scope" "s' = SearchStep_mark_persisted s"
    "d' = d\<lparr>tbl_steps := map (\<lambda>row. if ?m row then step_row_update s row else row) (tbl_steps d)\<rparr>"
    by (auto simp: steps_save_def assert_tenant_def Let_def split: if_splits)
qed

interpretation run_table: optimistic_table "runs_save c scope" run_versions
  "\<lambda>r. (sr_tenant_id r, sr_id r)" sr_version sr_persisted_version
proof unfold_locales
  fix a a' d d'
  assume save: "runs_save c scope a d = Ok (a', d')"
  show "((sr_tenant_id a, sr_id a), sr_persisted_version a) \<in> set (run_versions d)"
    by (rule runs_save_Ok(3) [OF save])
  show "run_versions d' = map (\<lambda>(k, v). if k = (sr_tenant_id a, sr_id a) \<and> v = sr_persisted_version a
      then (k, sr_version a) else (k, v)) (run_versions d)"
    by (simp add: runs_save_Ok(4) [OF save] run_versions_def run_row_update_def comp_def)
qed

interpretation step_table: optimistic_table "steps_save scope" step_versions
  "\<lambda>s. (ss_tenant_id s, ss_id s)" ss_version ss_persisted_version
proof unfold_locales
  fix a a' d d'
  assume save: "steps_save scope a d = Ok (a', d')"
  show "((ss_tenant_id a, ss_id a), ss_persisted_version a) \<in> set (step_versions d)"
    by (rule steps_save_Ok(3) [OF save])
  show "step_versions d' = map (\<lambda>(k, v). if k = (ss_tenant_id a, ss_id a) \<and> v = ss_persisted_version a
      then (k, ss_version a) else (k, v)) (step_versions d)"
    by (simp add: steps_save_Ok(4) [OF save] step_versions_def step_row_update_def comp_def)
qed

section \<open>Attempt numbers and the outbox\<close>

lemma fold_max_ge: "x \<in> set (n # ns) \<Longrightarrow> x \<le> fold max ns (n :: int)"
proof (induction ns arbitrary: n x)
  case (Cons a ns)
  have "max a n \<le> fold max ns (max a n)" by (rule Cons.IH) simp
  moreover have "x \<le> fold max ns (max a n)" if "x \<in> set ns" using that by (intro Cons.IH) simp
  ultimately show ?case using Cons.prems by auto
qed simp

lemma latest_attempt_no_ge:
  assumes "row \<in> set (tbl_attempts d)" "at_tenant_id row = tn" "at_step_id row = s"
  shows "at_attempt_no row \<le> latest_attempt_no tn s d"
proof -
  let ?ns = "map at_attempt_no
    (filter (\<lambda>row. at_tenant_id row = tn \<and> at_step_id row = s) (tbl_attempts d))"
  have "at_attempt_no row \<in> set ?ns" using assms by auto
  then obtain n ns where "?ns = n # ns" "at_attempt_no row \<in> set (n # ns)"
    by (cases ?ns) auto
  then show ?thesis unfolding latest_attempt_no_def using fold_max_ge by simp
qed

lemma published_not_claimed:
  assumes "(m, n) \<in> set (outbox_claim_unpublished scope now limit (outbox_mark_published scope i t d))"
  shows "om_id m \<noteq> i"
proof -
  let ?rows = "tbl_outbox (outbox_mark_published scope i t d)"
  let ?P = "\<lambda>x. om_tenant_id (ob_message x) = scope \<and> ob_published_at x = None
    \<and> om_available_at (ob_message x) \<le> now"
  from assms obtain x where "x \<in> set (take limit (sort_key (\<lambda>x. om_created_at (ob_message x))
      (filter ?P ?rows)))" and m: "ob_message x = m"
    unfolding outbox_claim_unpublished_def set_map by blast
  then have "x \<in> set (sort_key (\<lambda>x. om_created_at (ob_message x)) (filter ?P ?rows))"
    by (blast dest: in_set_takeD)
  then have "x \<in> set (filter ?P ?rows)" by (simp only: set_sort)
  then have x: "x \<in> set ?rows" "?P x" by auto
  from x(1) obtain y where "y \<in> set (tbl_outbox d)"
    "x = (if outbox_match scope i y then y\<lparr>ob_published_at := Some t,
       ob_publish_attempts := ob_publish_attempts y + 1, ob_last_error := None\<rparr> else y)"
    by (auto simp: outbox_mark_published_def)
  with x(2) m show ?thesis by (auto simp: outbox_match_def split: if_splits)
qed

end
