(* ===== verification/Content.thy ===== *)
theory Content
  imports Shared_Kernel
begin

text \<open>
  \<^verbatim>\<open>sana/modules/content/domain.py\<close> and \<^verbatim>\<open>sana/modules/content/chunker.py\<close>: fetch and
  document values, and the character-window chunker. SHA-256 (\<open>sha\<close>) and the token
  count (\<open>tokens\<close>, a regular expression over Unicode classes) are arguments. The
  chunker's \<^verbatim>\<open>while\<close> loop is \<open>chunk_loop\<close>, whose termination measure is the distance
  from \<open>start\<close> to the end of the text.
\<close>

section \<open>domain.py\<close>

datatype FetchStatus = Fetch_SUCCEEDED | Fetch_FAILED | Fetch_BLOCKED

record FetchRequest =
  fr_url :: string
  fr_deadline :: instant
  fr_max_response_bytes :: int
  fr_max_redirects :: int

definition FetchRequest_new :: "string \<Rightarrow> datetime \<Rightarrow> int \<Rightarrow> int \<Rightarrow> FetchRequest result" where
  "FetchRequest_new url deadline max_response_bytes max_redirects =
     (if blank url then Err (ValueError ''Fetch URL cannot be empty'')
      else case deadline of
             Naive _ \<Rightarrow> Err (ValueError ''Fetch deadline must be timezone-aware'')
           | Aware t \<Rightarrow>
               if max_response_bytes < 1 \<or> max_redirects < 0
               then Err (ValueError ''Fetch size and redirect limits are invalid'')
               else Ok \<lparr>fr_url = url, fr_deadline = t,
                        fr_max_response_bytes = max_response_bytes,
                        fr_max_redirects = max_redirects\<rparr>)"

record FetchArtifact =
  fa_request_url :: string
  fa_final_url :: string
  fa_status :: FetchStatus
  fa_http_status :: "int option"
  fa_media_type :: "string option"
  fa_body :: "8 word list"
  fa_content_hash :: "string option"
  fa_fetched_at :: instant
  fa_redirects :: "string list"
  fa_response_headers :: "(string, string) dict"
  fa_error :: "typed_error option"

definition FetchArtifact_new ::
  "(8 word list \<Rightarrow> string) \<Rightarrow> string \<Rightarrow> string \<Rightarrow> FetchStatus \<Rightarrow> int option \<Rightarrow> string option
     \<Rightarrow> 8 word list \<Rightarrow> string option \<Rightarrow> datetime \<Rightarrow> string list \<Rightarrow> (string, string) dict
     \<Rightarrow> typed_error option \<Rightarrow> FetchArtifact result" where
  "FetchArtifact_new sha request_url final_url status http_status media_type body content_hash
       fetched_at redirects response_headers error =
     (case fetched_at of
        Naive _ \<Rightarrow> Err (ValueError ''Fetch timestamp must be timezone-aware'')
      | Aware t \<Rightarrow>
          if status = Fetch_SUCCEEDED \<and> (body = [] \<or> content_hash \<noteq> Some (sha body) \<or> error \<noteq> None)
          then Err (ValueError ''Successful fetch artifact has invalid content state'')
          else if status \<noteq> Fetch_SUCCEEDED \<and> (body \<noteq> [] \<or> content_hash \<noteq> None \<or> error = None)
          then Err (ValueError ''Failed fetch artifact cannot contain successful body state'')
          else Ok \<lparr>fa_request_url = request_url, fa_final_url = final_url, fa_status = status,
                   fa_http_status = http_status, fa_media_type = media_type, fa_body = body,
                   fa_content_hash = content_hash, fa_fetched_at = t, fa_redirects = redirects,
                   fa_response_headers = response_headers, fa_error = error\<rparr>)"

record DocumentVersion =
  dv_id :: uuid
  dv_tenant_id :: uuid
  dv_document_id :: uuid
  dv_content_hash :: string
  dv_text :: utext
  dv_media_type :: string
  dv_language :: "string option"
  dv_fetched_at :: instant

definition DocumentVersion_new ::
  "(utext \<Rightarrow> string) \<Rightarrow> uuid \<Rightarrow> uuid \<Rightarrow> uuid \<Rightarrow> string \<Rightarrow> utext \<Rightarrow> string \<Rightarrow> string option \<Rightarrow> instant
     \<Rightarrow> DocumentVersion result" where
  "DocumentVersion_new sha version_id tenant_id document_id content_hash txt media_type language
       fetched_at =
     (if content_hash \<noteq> sha txt
      then Err (ValueError ''DocumentVersion content hash does not match extracted text'')
      else Ok \<lparr>dv_id = version_id, dv_tenant_id = tenant_id, dv_document_id = document_id,
               dv_content_hash = content_hash, dv_text = txt, dv_media_type = media_type,
               dv_language = language, dv_fetched_at = fetched_at\<rparr>)"

record DocumentChunk =
  dc_ordinal :: int
  dc_text :: utext
  dc_text_hash :: string
  dc_token_count :: int
  dc_start_offset :: int
  dc_end_offset :: int

definition DocumentChunk_new ::
  "(utext \<Rightarrow> string) \<Rightarrow> int \<Rightarrow> utext \<Rightarrow> string \<Rightarrow> int \<Rightarrow> int \<Rightarrow> int \<Rightarrow> DocumentChunk result" where
  "DocumentChunk_new sha ordinal txt text_hash token_count start_offset end_offset =
     (if ordinal < 0 \<or> start_offset < 0 \<or> end_offset \<le> start_offset
      then Err (ValueError ''Document chunk offsets are invalid'')
      else if text_hash \<noteq> sha txt
      then Err (ValueError ''Document chunk hash does not match text'')
      else Ok \<lparr>dc_ordinal = ordinal, dc_text = txt, dc_text_hash = text_hash,
               dc_token_count = token_count, dc_start_offset = start_offset,
               dc_end_offset = end_offset\<rparr>)"

section \<open>chunker.py\<close>

record DocumentChunker =
  ck_max :: nat
  ck_overlap :: nat

definition DocumentChunker_new :: "int \<Rightarrow> int \<Rightarrow> DocumentChunker result" where
  "DocumentChunker_new max_characters overlap =
     (if max_characters < 100 \<or> overlap < 0 \<or> max_characters \<le> overlap
      then Err (ValueError ''Chunk size or overlap is invalid'')
      else Ok \<lparr>ck_max = nat max_characters, ck_overlap = nat overlap\<rparr>)"

text \<open>
  \<^verbatim>\<open>text.rfind(needle, lo, hi)\<close>: the last position of \<open>needle\<close> lying wholly inside
  \<open>[lo, hi)\<close>, or \<open>-1\<close>.
\<close>

definition occurs_at :: "utext \<Rightarrow> utext \<Rightarrow> nat \<Rightarrow> bool" where
  "occurs_at needle t i \<longleftrightarrow> take (length needle) (drop i t) = needle"

definition py_rfind :: "utext \<Rightarrow> utext \<Rightarrow> nat \<Rightarrow> nat \<Rightarrow> int" where
  "py_rfind needle t lo hi =
     (case filter (\<lambda>i. i + length needle \<le> hi \<and> occurs_at needle t i) (rev [lo..<Suc hi]) of
        [] \<Rightarrow> - 1
      | i # _ \<Rightarrow> int i)"

definition chunk_end :: "DocumentChunker \<Rightarrow> utext \<Rightarrow> nat \<Rightarrow> nat" where
  "chunk_end c t start =
     (let hard_end = min (length t) (start + ck_max c) in
      if hard_end < length t
      then let lo = start + ck_max c div 2;
               boundary = max (py_rfind [10] t lo hard_end)
                            (max (py_rfind [12290] t lo hard_end) (py_rfind [46, 32] t lo hard_end))
           in if int start < boundary then nat boundary + 1 else hard_end
      else hard_end)"

lemma py_rfind_cases:
  "py_rfind needle t lo hi = - 1
     \<or> (\<exists>i. py_rfind needle t lo hi = int i \<and> lo \<le> i \<and> i + length needle \<le> hi \<and> occurs_at needle t i)"
proof (cases "filter (\<lambda>i. i + length needle \<le> hi \<and> occurs_at needle t i) (rev [lo..<Suc hi])")
  case Nil
  then show ?thesis by (simp add: py_rfind_def)
next
  case (Cons i js)
  then have "i \<in> set (filter (\<lambda>i. i + length needle \<le> hi \<and> occurs_at needle t i) (rev [lo..<Suc hi]))"
    by (metis list.set_intros(1))
  then have "lo \<le> i \<and> i + length needle \<le> hi \<and> occurs_at needle t i"
    unfolding set_filter set_rev by auto
  with Cons show ?thesis by (simp add: py_rfind_def del: upt_Suc)
qed

lemma py_rfind_less: "needle \<noteq> [] \<Longrightarrow> py_rfind needle t lo hi < int hi"
  using py_rfind_cases [of needle t lo hi] by (cases needle) auto

lemma chunk_end_bounds:
  assumes "start < length t" "0 < ck_max c"
  shows "start < chunk_end c t start" "chunk_end c t start \<le> length t"
    "chunk_end c t start \<le> start + ck_max c"
proof -
  define hard where "hard = min (length t) (start + ck_max c)"
  define lo where "lo = start + ck_max c div 2"
  define b where
    "b = max (py_rfind [10] t lo hard) (max (py_rfind [12290] t lo hard) (py_rfind [46, 32] t lo hard))"
  have b: "b < int hard"
    unfolding b_def by (simp add: py_rfind_less)
  have e: "chunk_end c t start = (if hard < length t \<and> int start < b then nat b + 1 else hard)"
    by (simp add: chunk_end_def Let_def hard_def lo_def b_def)
  have hard: "start < hard" "hard \<le> length t" "hard \<le> start + ck_max c"
    using assms by (auto simp: hard_def)
  show "start < chunk_end c t start" "chunk_end c t start \<le> length t"
    "chunk_end c t start \<le> start + ck_max c"
    using b hard unfolding e by (auto split: if_splits)
qed

function chunk_loop ::
  "(utext \<Rightarrow> string) \<Rightarrow> (utext \<Rightarrow> int) \<Rightarrow> DocumentChunker \<Rightarrow> utext \<Rightarrow> nat \<Rightarrow> int
     \<Rightarrow> DocumentChunk list result" where
  "chunk_loop sha tokens c t start ordinal =
     (if start < length t then
        let e = chunk_end c t start;
            chunk_text = take (e - start) (drop start t)
        in rbind (DocumentChunk_new sha ordinal chunk_text (sha chunk_text) (tokens chunk_text)
                    (int start) (int e)) (\<lambda>chunk.
             if e = length t then Ok [chunk]
             else rbind (chunk_loop sha tokens c t (max (start + 1) (e - ck_overlap c)) (ordinal + 1))
                    (\<lambda>rest. Ok (chunk # rest)))
      else Ok [])"
  by pat_completeness auto
termination
  by (relation "measure (\<lambda>(sha, tokens, c, t, start, ordinal). length t - start)") auto

declare chunk_loop.simps [simp del]

definition DocumentChunker_chunk ::
  "(utext \<Rightarrow> string) \<Rightarrow> (utext \<Rightarrow> int) \<Rightarrow> DocumentChunker \<Rightarrow> utext \<Rightarrow> DocumentChunk list result" where
  "DocumentChunker_chunk sha tokens c t =
     (if t = [] then Ok [] else chunk_loop sha tokens c t 0 0)"

section \<open>The chunks tile the text\<close>

definition chunk_exact :: "utext \<Rightarrow> DocumentChunk \<Rightarrow> bool" where
  "chunk_exact t k \<longleftrightarrow>
     0 \<le> dc_start_offset k \<and> dc_start_offset k < dc_end_offset k
     \<and> dc_end_offset k \<le> int (length t)
     \<and> dc_text k = py_slice t (dc_start_offset k) (dc_end_offset k)"

fun chunks_linked :: "int \<Rightarrow> int \<Rightarrow> int \<Rightarrow> DocumentChunk list \<Rightarrow> bool" where
  "chunks_linked first ordinal n [] \<longleftrightarrow> False"
| "chunks_linked first ordinal n [k] \<longleftrightarrow>
     dc_start_offset k \<le> first \<and> dc_ordinal k = ordinal \<and> dc_end_offset k = n"
| "chunks_linked first ordinal n (k # l # ks) \<longleftrightarrow>
     dc_start_offset k \<le> first \<and> dc_ordinal k = ordinal
     \<and> dc_start_offset k < dc_start_offset l
     \<and> chunks_linked (dc_end_offset k) (ordinal + 1) n (l # ks)"

lemma chunk_loop_spec:
  assumes "start < length t" "0 < ck_max c" "0 \<le> ordinal"
  shows "\<exists>k ks. chunk_loop sha tokens c t start ordinal = Ok (k # ks)
     \<and> dc_start_offset k = int start
     \<and> (\<forall>x \<in> set (k # ks). chunk_exact t x \<and> length (dc_text x) \<le> ck_max c)
     \<and> chunks_linked (int start) ordinal (int (length t)) (k # ks)"
  using assms
proof (induction sha tokens c t start ordinal rule: chunk_loop.induct)
  case (1 sha tokens c t start ordinal)
  let ?e = "chunk_end c t start"
  let ?txt = "take (?e - start) (drop start t)"
  note e = chunk_end_bounds [OF "1.prems"(1,2)]
  define k where "k = \<lparr>dc_ordinal = ordinal, dc_text = ?txt, dc_text_hash = sha ?txt,
    dc_token_count = tokens ?txt, dc_start_offset = int start, dc_end_offset = int ?e\<rparr>"
  have new: "DocumentChunk_new sha ordinal ?txt (sha ?txt) (tokens ?txt) (int start) (int ?e) = Ok k"
    using "1.prems" e by (simp add: DocumentChunk_new_def k_def)
  have k: "chunk_exact t k" "length (dc_text k) \<le> ck_max c" "dc_start_offset k = int start"
    "dc_ordinal k = ordinal" "dc_end_offset k = int ?e"
    using e by (auto simp: chunk_exact_def k_def py_slice_nonneg)
  show ?case
  proof (cases "?e = length t")
    case True
    then show ?thesis
      using "1.prems" new k by (simp add: chunk_loop.simps [of sha tokens c t start ordinal])
  next
    case False
    let ?next = "max (start + 1) (?e - ck_overlap c)"
    have next_less: "?next < length t" using False e by auto
    have "\<exists>l ls. chunk_loop sha tokens c t ?next (ordinal + 1) = Ok (l # ls)
       \<and> dc_start_offset l = int ?next
       \<and> (\<forall>x \<in> set (l # ls). chunk_exact t x \<and> length (dc_text x) \<le> ck_max c)
       \<and> chunks_linked (int ?next) (ordinal + 1) (int (length t)) (l # ls)"
      using "1.prems" new False next_less
      by (intro "1.IH" [OF _ refl refl]) auto
    then obtain l ls where l: "chunk_loop sha tokens c t ?next (ordinal + 1) = Ok (l # ls)"
      "dc_start_offset l = int ?next"
      "\<forall>x \<in> set (l # ls). chunk_exact t x \<and> length (dc_text x) \<le> ck_max c"
      "chunks_linked (int ?next) (ordinal + 1) (int (length t)) (l # ls)" by blast
    have "chunks_linked (int ?e) (ordinal + 1) (int (length t)) (l # ls)"
      using l(2,4) e by (cases ls) auto
    then have "chunks_linked (int start) ordinal (int (length t)) (k # l # ls)"
      using k l(2) by simp
    with "1.prems" new k l False show ?thesis
      by (simp add: chunk_loop.simps [of sha tokens c t start ordinal] Let_def)
  qed
qed

lemma chunks_linked_spec:
  assumes "chunks_linked first ordinal n ks"
  shows "map dc_ordinal ks = map (\<lambda>i. ordinal + int i) [0..<length ks]"
    and "sorted_wrt (<) (map dc_start_offset ks)"
    and "first \<le> i \<Longrightarrow> i < n \<Longrightarrow> \<exists>k \<in> set ks. dc_start_offset k \<le> i \<and> i < dc_end_offset k"
  using assms
proof (induction first ordinal n ks rule: chunks_linked.induct)
  case (3 first ordinal n k l ks)
  { case 1
    with "3.IH"(1) show ?case by (simp add: upt_conv_Cons map_Suc_upt [symmetric] del: upt_Suc)
  next
    case 2
    with "3.IH"(2) show ?case by (cases ks) (auto simp: sorted_wrt2)
  next
    case 3
    with "3.IH"(3) show ?case by (cases "i < dc_end_offset k") auto
  }
qed auto

end
