(* ===== verification/Planning_Domain.thy ===== *)
theory Planning_Domain
  imports Shared_Kernel
begin

text \<open>
  \<^verbatim>\<open>sana/modules/search_planning/domain.py\<close>: the semantic planning values (fact
  requirements, normalized intents, query specifications) and the check that keeps
  conversational text out of search terms. The two regular expressions of the check
  are a character class and a list of literal phrases; \<open>ci_char\<close> is the code-point
  folding under which \<^verbatim>\<open>re.I\<close> compares the letters of those phrases.
\<close>

section \<open>Enumerations\<close>

datatype FactType =
    CHARACTER_CHANGES | VERSION | PATCH_NOTES | TEAM_META | CURRENT_VALUE | COMPARISON
  | BACKGROUND

datatype Freshness = Fresh_STABLE | Fresh_RECENT | Fresh_CURRENT

datatype Consequence = Conseq_LOW | Conseq_MEDIUM | Conseq_HIGH

fun fact_type_value :: "FactType \<Rightarrow> string" where
  "fact_type_value CHARACTER_CHANGES = ''character_changes''"
| "fact_type_value VERSION = ''version''"
| "fact_type_value PATCH_NOTES = ''patch_notes''"
| "fact_type_value TEAM_META = ''team_meta''"
| "fact_type_value CURRENT_VALUE = ''current_value''"
| "fact_type_value COMPARISON = ''comparison''"
| "fact_type_value BACKGROUND = ''background''"

section \<open>Search terms\<close>

definition ci_char :: "nat \<Rightarrow> nat" where
  "ci_char n =
     (if 65 \<le> n \<and> n \<le> 90 then n + 32
      else if n = 304 \<or> n = 305 then 105
      else if n = 383 then 115
      else if n = 8490 then 107
      else n)"

fun has_infix :: "utext \<Rightarrow> utext \<Rightarrow> bool" where
  "has_infix needle [] \<longleftrightarrow> needle = []"
| "has_infix needle (c # cs) \<longleftrightarrow>
     take (length needle) (c # cs) = needle \<or> has_infix needle cs"

definition conversational_terms :: "utext list" where
  "conversational_terms =
     [[21487, 20197, 21578, 35785, 25105],
      [20320, 19981, 26159],
      [25105, 22909, 20037],
      [35831, 38382, 19968, 19979],
      [112, 108, 101, 97, 115, 101, 32, 116, 101, 108, 108, 32, 109, 101],
      [99, 111, 117, 108, 100, 32, 121, 111, 117],
      [105, 32, 104, 97, 118, 101, 110, 39, 116],
      [105, 32, 104, 97, 118, 101, 110, 116]]"

definition sentence_chars :: "nat list" where
  "sentence_chars = [33, 63, 65281, 65311, 12290, 13, 10]"

definition conversational :: "utext \<Rightarrow> bool" where
  "conversational t \<longleftrightarrow>
     list_ex (\<lambda>c. c \<in> set sentence_chars) t
     \<or> list_ex (\<lambda>p. has_infix p (map ci_char t)) conversational_terms"

definition validate_search_term :: "utext \<Rightarrow> string \<Rightarrow> nat \<Rightarrow> unit result" where
  "validate_search_term value field_name max_length =
     (let normalized = text_strip value in
      if normalized = [] \<or> max_length < length normalized
      then Err (ValueError (field_name @ '' must be a short semantic term''))
      else if conversational normalized
      then Err (ValueError (field_name @ '' contains conversational text''))
      else Ok ())"

section \<open>Facts, intents and queries\<close>

record FactRequirement =
  fq_key :: string
  fq_fact_type :: FactType
  fq_description :: utext
  fq_subject :: utext
  fq_required :: bool
  fq_freshness :: Freshness
  fq_consequence :: Consequence
  fq_preferred_source_kinds :: "string list"

definition FactRequirement_new ::
  "string \<Rightarrow> FactType \<Rightarrow> utext \<Rightarrow> utext \<Rightarrow> bool \<Rightarrow> Freshness \<Rightarrow> Consequence \<Rightarrow> string list
     \<Rightarrow> FactRequirement result" where
  "FactRequirement_new key fact_type description subject required freshness consequence
       preferred_source_kinds =
     (if blank key \<or> text_blank description \<or> text_blank subject
      then Err (ValueError ''Fact key, description and subject are required'')
      else rbind (validate_search_term subject ''Fact subject'' 48) (\<lambda>_.
             Ok \<lparr>fq_key = key, fq_fact_type = fact_type, fq_description = description,
                 fq_subject = subject, fq_required = required, fq_freshness = freshness,
                 fq_consequence = consequence,
                 fq_preferred_source_kinds = preferred_source_kinds\<rparr>))"

record NormalizedIntent =
  ni_entity :: utext
  ni_aliases :: "utext list"
  ni_locale :: string
  ni_facts :: "FactRequirement list"
  ni_requires_comparison :: bool
  ni_requires_complete_sources :: bool

definition NormalizedIntent_new ::
  "utext \<Rightarrow> utext list \<Rightarrow> string \<Rightarrow> FactRequirement list \<Rightarrow> bool \<Rightarrow> bool \<Rightarrow> NormalizedIntent result"
where
  "NormalizedIntent_new entity aliases loc facts requires_comparison requires_complete_sources =
     (if text_blank entity then Err (ValueError ''Normalized entity cannot be empty'')
      else if blank loc then Err (ValueError ''Locale cannot be empty'')
      else if facts = [] then Err (ValueError ''At least one fact requirement is required'')
      else rbind (validate_search_term entity ''Normalized entity'' 64) (\<lambda>_.
           rbind (traverse (\<lambda>alias. validate_search_term alias ''Entity alias'' 48) aliases) (\<lambda>_.
             if length (map fq_key facts) \<noteq> card (set (map fq_key facts))
             then Err (ValueError ''Fact keys must be unique'')
             else Ok \<lparr>ni_entity = entity, ni_aliases = aliases, ni_locale = loc,
                      ni_facts = facts, ni_requires_comparison = requires_comparison,
                      ni_requires_complete_sources = requires_complete_sources\<rparr>)))"

record QuerySpec =
  qs_key :: string
  qs_fact_key :: string
  qs_text :: utext
  qs_signature :: string
  qs_locale :: string
  qs_freshness_days :: "int option"
  qs_plan_revision :: int
  qs_metadata :: "(string, string) dict"

definition QuerySpec_new ::
  "string \<Rightarrow> string \<Rightarrow> utext \<Rightarrow> string \<Rightarrow> string \<Rightarrow> int option \<Rightarrow> int \<Rightarrow> (string, string) dict
     \<Rightarrow> QuerySpec result" where
  "QuerySpec_new key fact_key txt signature loc freshness_days plan_revision metadata =
     (if blank key \<or> blank fact_key \<or> text_blank txt
      then Err (ValueError ''Query key, fact key and text are required'')
      else if plan_revision < 1 then Err (ValueError ''plan_revision must be positive'')
      else if (case freshness_days of None \<Rightarrow> False | Some d \<Rightarrow> d < 1)
      then Err (ValueError ''freshness_days must be positive'')
      else Ok \<lparr>qs_key = key, qs_fact_key = fact_key, qs_text = txt, qs_signature = signature,
               qs_locale = loc, qs_freshness_days = freshness_days,
               qs_plan_revision = plan_revision, qs_metadata = metadata\<rparr>)"

section \<open>Lemmas\<close>

definition short_semantic_term :: "utext \<Rightarrow> nat \<Rightarrow> bool" where
  "short_semantic_term t n \<longleftrightarrow>
     text_strip t \<noteq> [] \<and> length (text_strip t) \<le> n \<and> \<not> conversational (text_strip t)"

lemma validate_search_term_Ok [simp]:
  "validate_search_term v f n = Ok u \<longleftrightarrow> short_semantic_term v n"
  by (auto simp: validate_search_term_def short_semantic_term_def Let_def)

lemma has_infix_iff: "has_infix needle t \<longleftrightarrow> (\<exists>a b. t = a @ needle @ b)"
proof (induction t)
  case (Cons c cs)
  show ?case
  proof
    assume "has_infix needle (c # cs)"
    then consider "take (length needle) (c # cs) = needle" | "has_infix needle cs" by auto
    then show "\<exists>a b. c # cs = a @ needle @ b"
    proof cases
      case 1
      then have "c # cs = [] @ needle @ drop (length needle) (c # cs)"
        by (metis append_Nil append_take_drop_id)
      then show ?thesis by blast
    next
      case 2
      with Cons show ?thesis by (metis append_Cons)
    qed
  next
    assume "\<exists>a b. c # cs = a @ needle @ b"
    then obtain a b where ab: "c # cs = a @ needle @ b" by blast
    show "has_infix needle (c # cs)"
    proof (cases a)
      case Nil
      with ab have "take (length needle) (c # cs) = needle"
        by (metis append_Nil append_eq_conv_conj)
      then show ?thesis by (simp only: has_infix.simps simp_thms)
    next
      case (Cons d ds)
      with ab have "cs = ds @ needle @ b" by simp
      with Cons.IH show ?thesis by auto
    qed
  qed
qed auto

lemma NormalizedIntent_new_Ok:
  assumes "NormalizedIntent_new e al loc fs c cs = Ok i"
  shows "ni_entity i = e" "ni_facts i = fs" "fs \<noteq> []" "distinct (map fq_key fs)"
    "short_semantic_term e 64" "\<forall>a \<in> set al. short_semantic_term a 48"
proof -
  have d: "distinct (map fq_key fs)" if "length (map fq_key fs) = card (set (map fq_key fs))"
    using that by (metis card_distinct)
  have "\<forall>a \<in> set al. short_semantic_term a 48"
    if "list_all2 (\<lambda>x y. validate_search_term x ''Entity alias'' 48 = Ok y) al ys" for ys
    using that by (auto simp: list_all2_conv_all_nth in_set_conv_nth)
  with assms d show "ni_entity i = e" "ni_facts i = fs" "fs \<noteq> []" "distinct (map fq_key fs)"
    "short_semantic_term e 64" "\<forall>a \<in> set al. short_semantic_term a 48"
    by (auto simp: NormalizedIntent_new_def traverse_Ok_iff split: if_splits)
qed

lemma FactRequirement_new_Ok:
  "FactRequirement_new k ft d s r f c p = Ok q \<longleftrightarrow>
     \<not> blank k \<and> \<not> text_blank d \<and> short_semantic_term s 48
     \<and> q = \<lparr>fq_key = k, fq_fact_type = ft, fq_description = d, fq_subject = s, fq_required = r,
            fq_freshness = f, fq_consequence = c, fq_preferred_source_kinds = p\<rparr>"
  by (auto simp: FactRequirement_new_def short_semantic_term_def text_blank_def)

end
