(* ===== verification/Evidence.thy ===== *)
theory Evidence
  imports Content Planning_Domain
begin

text \<open>
  \<^verbatim>\<open>sana/modules/evidence\<close>: evidence values and their lineage checks (\<^verbatim>\<open>domain.py\<close>), the
  builder that turns a span of a fetched document into a candidate (\<^verbatim>\<open>builder.py\<close>), the
  verifier's record (\<^verbatim>\<open>verifier.py\<close>), the fact coverage policy (\<^verbatim>\<open>coverage.py\<close>) and the
  expected gain of another research round (\<^verbatim>\<open>evidence_gain.py\<close>). \<open>urlsplit\<close> (scheme and
  host of a URL, or the error it raises), SHA-256 and the identifiers drawn from the
  factory are arguments.
\<close>

section \<open>domain.py\<close>

datatype EvidenceLevel = L0_DISCOVERY | L1_GROUNDED | L2_VERIFIED

datatype SupportType = SUPPORTS | CONTRADICTS

datatype SourceAuthority = Auth_OFFICIAL | Auth_INDEPENDENT | Auth_UNKNOWN

datatype EvidenceVerdict = Verdict_ACCEPTED | Verdict_REJECTED

type_synonym url_splitter = "string \<Rightarrow> (string \<times> string option) result"

record DiscoveryEvidence =
  de_tenant_id :: uuid
  de_run_id :: uuid
  de_search_hit_id :: uuid
  de_fact_requirement_id :: uuid
  de_url :: string
  de_title :: utext
  de_snippet :: utext
  de_level :: EvidenceLevel

definition DiscoveryEvidence_new ::
  "uuid \<Rightarrow> uuid \<Rightarrow> uuid \<Rightarrow> uuid \<Rightarrow> string \<Rightarrow> utext \<Rightarrow> utext \<Rightarrow> DiscoveryEvidence result" where
  "DiscoveryEvidence_new tenant_id run_id search_hit_id fact_requirement_id url title snippet =
     (if blank url then Err (ValueError ''Discovery evidence URL cannot be empty'')
      else Ok \<lparr>de_tenant_id = tenant_id, de_run_id = run_id, de_search_hit_id = search_hit_id,
               de_fact_requirement_id = fact_requirement_id, de_url = url, de_title = title,
               de_snippet = snippet, de_level = L0_DISCOVERY\<rparr>)"

record EvidenceSource =
  es_document_id :: uuid
  es_document_version_id :: uuid
  es_document_chunk_id :: uuid
  es_url :: string
  es_source_identity :: string
  es_authority :: SourceAuthority

definition EvidenceSource_new ::
  "url_splitter \<Rightarrow> uuid \<Rightarrow> uuid \<Rightarrow> uuid \<Rightarrow> string \<Rightarrow> string \<Rightarrow> SourceAuthority
     \<Rightarrow> EvidenceSource result" where
  "EvidenceSource_new urlsplit document_id document_version_id document_chunk_id url
       source_identity authority =
     rbind (urlsplit url) (\<lambda>(scheme, hostname).
       if py_lower scheme \<notin> {''http'', ''https''} \<or> hostname = None \<or> hostname = Some []
       then Err (ValueError ''Evidence source requires an HTTP(S) URL'')
       else if blank source_identity
       then Err (ValueError ''Evidence source identity cannot be empty'')
       else Ok \<lparr>es_document_id = document_id, es_document_version_id = document_version_id,
                es_document_chunk_id = document_chunk_id, es_url = url,
                es_source_identity = py_lower (py_strip source_identity),
                es_authority = authority\<rparr>)"

definition EvidenceSource_host :: "url_splitter \<Rightarrow> EvidenceSource \<Rightarrow> string result" where
  "EvidenceSource_host urlsplit s =
     rbind (urlsplit (es_url s)) (\<lambda>(scheme, hostname).
       Ok (py_lower (case hostname of None \<Rightarrow> [] | Some h \<Rightarrow> h)))"

record EvidenceCandidate =
  ec_id :: uuid
  ec_tenant_id :: uuid
  ec_run_id :: uuid
  ec_fact_requirement_id :: uuid
  ec_source :: EvidenceSource
  ec_quote :: utext
  ec_quote_hash :: string
  ec_support_type :: SupportType
  ec_candidate_score :: pyfloat
  ec_start_offset :: int
  ec_end_offset :: int
  ec_level :: EvidenceLevel

definition EvidenceCandidate_new ::
  "(utext \<Rightarrow> string) \<Rightarrow> uuid \<Rightarrow> uuid \<Rightarrow> uuid \<Rightarrow> uuid \<Rightarrow> EvidenceSource \<Rightarrow> utext \<Rightarrow> string
     \<Rightarrow> SupportType \<Rightarrow> pyfloat \<Rightarrow> int \<Rightarrow> int \<Rightarrow> EvidenceCandidate result" where
  "EvidenceCandidate_new sha candidate_id tenant_id run_id fact_requirement_id source quote
       quote_hash support_type candidate_score start_offset end_offset =
     (if quote = [] then Err (ValueError ''Evidence quote cannot be empty'')
      else if quote_hash \<noteq> sha quote
      then Err (ValueError ''Evidence quote hash does not match quote'')
      else if start_offset < 0 \<or> end_offset \<le> start_offset
      then Err (ValueError ''Evidence quote offsets are invalid'')
      else if end_offset - start_offset \<noteq> int (length quote)
      then Err (ValueError ''Evidence quote offsets do not match quote length'')
      else if \<not> (0 \<le> candidate_score \<and> candidate_score \<le> 1)
      then Err (ValueError ''Evidence candidate score must be between zero and one'')
      else Ok \<lparr>ec_id = candidate_id, ec_tenant_id = tenant_id, ec_run_id = run_id,
               ec_fact_requirement_id = fact_requirement_id, ec_source = source,
               ec_quote = quote, ec_quote_hash = quote_hash, ec_support_type = support_type,
               ec_candidate_score = candidate_score, ec_start_offset = start_offset,
               ec_end_offset = end_offset, ec_level = L1_GROUNDED\<rparr>)"

record VerifiedEvidence =
  ve_id :: uuid
  ve_candidate :: EvidenceCandidate
  ve_verdict :: EvidenceVerdict
  ve_confidence :: pyfloat
  ve_reason_codes :: "string list"
  ve_verifier_version :: string
  ve_verified_at :: instant
  ve_level :: EvidenceLevel

definition VerifiedEvidence_new ::
  "uuid \<Rightarrow> EvidenceCandidate \<Rightarrow> EvidenceVerdict \<Rightarrow> pyfloat \<Rightarrow> string list \<Rightarrow> string \<Rightarrow> datetime
     \<Rightarrow> EvidenceLevel \<Rightarrow> VerifiedEvidence result" where
  "VerifiedEvidence_new evidence_id candidate verdict confidence reason_codes verifier_version
       verified_at level =
     (if \<not> (0 \<le> confidence \<and> confidence \<le> 1)
      then Err (ValueError ''Evidence confidence must be between zero and one'')
      else if blank verifier_version
      then Err (ValueError ''Evidence verifier version cannot be empty'')
      else case verified_at of
             Naive _ \<Rightarrow> Err (ValueError ''Evidence verification time must be timezone-aware'')
           | Aware t \<Rightarrow>
               if level = L0_DISCOVERY
               then Err (ValueError ''Discovery evidence cannot be verified'')
               else if level = L2_VERIFIED \<and> verdict \<noteq> Verdict_ACCEPTED
               then Err (ValueError ''Rejected evidence cannot have L2 status'')
               else Ok \<lparr>ve_id = evidence_id, ve_candidate = candidate, ve_verdict = verdict,
                        ve_confidence = confidence, ve_reason_codes = reason_codes,
                        ve_verifier_version = verifier_version, ve_verified_at = t,
                        ve_level = level\<rparr>)"

abbreviation ve_tenant_id :: "VerifiedEvidence \<Rightarrow> uuid" where
  "ve_tenant_id v \<equiv> ec_tenant_id (ve_candidate v)"

abbreviation ve_run_id :: "VerifiedEvidence \<Rightarrow> uuid" where
  "ve_run_id v \<equiv> ec_run_id (ve_candidate v)"

abbreviation ve_fact_requirement_id :: "VerifiedEvidence \<Rightarrow> uuid" where
  "ve_fact_requirement_id v \<equiv> ec_fact_requirement_id (ve_candidate v)"

abbreviation ve_source :: "VerifiedEvidence \<Rightarrow> EvidenceSource" where
  "ve_source v \<equiv> ec_source (ve_candidate v)"

abbreviation ve_support_type :: "VerifiedEvidence \<Rightarrow> SupportType" where
  "ve_support_type v \<equiv> ec_support_type (ve_candidate v)"

section \<open>builder.py and verifier.py\<close>

definition EvidenceBuilder_build ::
  "(utext \<Rightarrow> string) \<Rightarrow> url_splitter \<Rightarrow> uuid \<Rightarrow> uuid \<Rightarrow> uuid \<Rightarrow> uuid \<Rightarrow> DocumentVersion \<Rightarrow> uuid
     \<Rightarrow> DocumentChunk \<Rightarrow> uuid \<Rightarrow> string \<Rightarrow> string \<Rightarrow> SupportType \<Rightarrow> utext \<Rightarrow> int \<Rightarrow> pyfloat
     \<Rightarrow> SourceAuthority \<Rightarrow> EvidenceCandidate result" where
  "EvidenceBuilder_build sha urlsplit new_uuid tenant_id run_id fact_requirement_id
       document_version document_chunk_id document_chunk document_id source_url source_identity
       support_type quote quote_start_in_chunk candidate_score authority =
     (if dv_tenant_id document_version \<noteq> tenant_id
      then Err (ValueError ''Evidence tenant does not match document version'')
      else if dv_document_id document_version \<noteq> document_id
      then Err (ValueError ''Evidence document does not match document version'')
      else if py_slice (dv_text document_version) (dc_start_offset document_chunk)
                (dc_end_offset document_chunk) \<noteq> dc_text document_chunk
      then Err (ValueError ''Document chunk is not an exact span of the version'')
      else
        let relative_end = quote_start_in_chunk + int (length quote) in
        if quote_start_in_chunk < 0
           \<or> py_slice (dc_text document_chunk) quote_start_in_chunk relative_end \<noteq> quote
        then Err (ValueError ''Evidence quote is not at the declared chunk offset'')
        else
          let start_offset = dc_start_offset document_chunk + quote_start_in_chunk;
              end_offset = start_offset + int (length quote) in
          if py_slice (dv_text document_version) start_offset end_offset \<noteq> quote
          then Err (ValueError ''Evidence quote is not present in the document version'')
          else rbind (EvidenceSource_new urlsplit document_id (dv_id document_version)
                        document_chunk_id source_url source_identity authority) (\<lambda>source.
                 EvidenceCandidate_new sha new_uuid tenant_id run_id fact_requirement_id source
                   quote (sha quote) support_type candidate_score start_offset end_offset))"

definition EvidenceVerifier_new :: "string \<Rightarrow> string result" where
  "EvidenceVerifier_new verifier_version =
     (if blank verifier_version then Err (ValueError ''Verifier version cannot be empty'')
      else Ok verifier_version)"

definition EvidenceVerifier_record ::
  "string \<Rightarrow> uuid \<Rightarrow> EvidenceCandidate \<Rightarrow> EvidenceVerdict \<Rightarrow> pyfloat \<Rightarrow> string list \<Rightarrow> datetime
     \<Rightarrow> VerifiedEvidence result" where
  "EvidenceVerifier_record version new_uuid candidate verdict confidence reason_codes verified_at =
     VerifiedEvidence_new new_uuid candidate verdict confidence (fromkeys reason_codes) version
       verified_at L1_GROUNDED"

section \<open>coverage.py\<close>

datatype FactCoverage = Cov_OPEN | Cov_COVERED | Cov_VERIFIED | Cov_PARTIAL

record CoverageAssessment =
  ca_tenant_id :: uuid
  ca_run_id :: uuid
  ca_fact_requirement_id :: uuid
  ca_fact_key :: string
  ca_status :: FactCoverage
  ca_level :: "EvidenceLevel option"
  ca_evidence_ids :: "uuid list"
  ca_supporting_ids :: "uuid list"
  ca_contradicting_ids :: "uuid list"
  ca_reason_codes :: "string list"
  ca_discovery_count :: int
  ca_requires_research_upgrade :: bool

definition evidence_applies ::
  "uuid \<Rightarrow> uuid \<Rightarrow> uuid \<Rightarrow> VerifiedEvidence \<Rightarrow> bool" where
  "evidence_applies tenant_id run_id fact_id item \<longleftrightarrow>
     ve_tenant_id item = tenant_id \<and> ve_run_id item = run_id
     \<and> ve_fact_requirement_id item = fact_id \<and> ve_verdict item = Verdict_ACCEPTED"

text \<open>The dictionary \<^verbatim>\<open>accepted_by_id\<close> that the loop fills with \<^verbatim>\<open>setdefault\<close>.\<close>

fun accepted_by_id ::
  "uuid \<Rightarrow> uuid \<Rightarrow> uuid \<Rightarrow> VerifiedEvidence list \<Rightarrow> (uuid, VerifiedEvidence) dict
     \<Rightarrow> (uuid, VerifiedEvidence) dict" where
  "accepted_by_id tenant_id run_id fact_id [] acc = acc"
| "accepted_by_id tenant_id run_id fact_id (item # items) acc =
     accepted_by_id tenant_id run_id fact_id items
       (if evidence_applies tenant_id run_id fact_id item \<and> ve_id item \<notin> set (dict_keys acc)
        then acc @ [(ve_id item, item)] else acc)"

definition CoverageEvaluator_evaluate ::
  "uuid \<Rightarrow> uuid \<Rightarrow> uuid \<Rightarrow> FactRequirement \<Rightarrow> VerifiedEvidence list \<Rightarrow> DiscoveryEvidence list
     \<Rightarrow> CoverageAssessment" where
  "CoverageEvaluator_evaluate tenant_id run_id fact_id requirement evidence discovery =
     (let accepted = dict_values (accepted_by_id tenant_id run_id fact_id evidence []);
          supports = filter (\<lambda>i. ve_support_type i = SUPPORTS) accepted;
          contradicts = filter (\<lambda>i. ve_support_type i = CONTRADICTS) accepted;
          discovery_count = int (length (filter (\<lambda>i. de_fact_requirement_id i = fact_id
                              \<and> de_tenant_id i = tenant_id \<and> de_run_id i = run_id) discovery));
          assessment = (\<lambda>status level reasons upgrade.
            \<lparr>ca_tenant_id = tenant_id, ca_run_id = run_id, ca_fact_requirement_id = fact_id,
             ca_fact_key = fq_key requirement, ca_status = status, ca_level = level,
             ca_evidence_ids = map ve_id accepted, ca_supporting_ids = map ve_id supports,
             ca_contradicting_ids = map ve_id contradicts, ca_reason_codes = reasons,
             ca_discovery_count = discovery_count, ca_requires_research_upgrade = upgrade\<rparr>)
      in if supports \<noteq> [] \<and> contradicts \<noteq> []
         then assessment Cov_PARTIAL (Some L1_GROUNDED) [''support_contradiction'']
                (fq_freshness requirement \<noteq> Fresh_STABLE \<or> fq_consequence requirement = Conseq_HIGH)
         else if accepted = []
         then assessment Cov_OPEN None [''no_grounded_evidence''] False
         else
           let official = list_ex (\<lambda>i. es_authority (ve_source i) = Auth_OFFICIAL) accepted;
               independent_sources =
                 set (map (\<lambda>i. es_source_identity (ve_source i))
                   (filter (\<lambda>i. es_authority (ve_source i) = Auth_INDEPENDENT) accepted));
               is_l2 = (official \<or> 2 \<le> card independent_sources)
           in assessment (if is_l2 then Cov_VERIFIED else Cov_COVERED)
                (Some (if is_l2 then L2_VERIFIED else L1_GROUNDED))
                (if official then [''official_source'']
                 else if is_l2 then [''two_independent_sources'']
                 else [''single_grounded_source'']) False)"

section \<open>evidence\_gain.py\<close>

record ExpectedEvidenceGain =
  eg_fact_key :: string
  eg_score :: pyfloat
  eg_reason_codes :: "string list"

definition ExpectedEvidenceGain_new ::
  "string \<Rightarrow> pyfloat \<Rightarrow> string list \<Rightarrow> ExpectedEvidenceGain result" where
  "ExpectedEvidenceGain_new fact_key score reason_codes =
     (if \<not> (0 \<le> score \<and> score \<le> 1)
      then Err (ValueError ''Expected evidence gain must be between zero and one'')
      else Ok \<lparr>eg_fact_key = fact_key, eg_score = score, eg_reason_codes = reason_codes\<rparr>)"

definition gain_base :: "FactCoverage \<Rightarrow> (pyfloat \<times> string) option" where
  "gain_base status =
     (case status of
        Cov_OPEN \<Rightarrow> Some (fl (35 / 100), ''open_required_fact'')
      | Cov_PARTIAL \<Rightarrow> Some (fl (45 / 100), ''conflict_resolution'')
      | Cov_COVERED \<Rightarrow> Some (fl (15 / 100), ''l2_promotion'')
      | Cov_VERIFIED \<Rightarrow> None)"

definition EvidenceGainEstimator_estimate ::
  "FactRequirement \<Rightarrow> CoverageAssessment \<Rightarrow> pyfloat \<Rightarrow> pyfloat \<Rightarrow> bool
     \<Rightarrow> ExpectedEvidenceGain result" where
  "EvidenceGainEstimator_estimate requirement assessment source_novelty query_novelty
       official_source_available =
     (if \<not> (0 \<le> source_novelty \<and> source_novelty \<le> 1) \<or> \<not> (0 \<le> query_novelty \<and> query_novelty \<le> 1)
      then Err (ValueError ''Evidence novelty signals must be between zero and one'')
      else if ca_fact_key assessment \<noteq> fq_key requirement
      then Err (ValueError ''Coverage assessment does not match requirement'')
      else case gain_base (ca_status assessment) of
             None \<Rightarrow> ExpectedEvidenceGain_new (fq_key requirement) 0 [''already_verified'']
           | Some (base, reason) \<Rightarrow>
               let s0 = fadd (fadd base (fmul (fl (2 / 10)) source_novelty))
                          (fmul (fl (15 / 100)) query_novelty);
                   s1 = (if official_source_available then fadd s0 (fl (15 / 100)) else s0);
                   s2 = (if fq_freshness requirement \<noteq> Fresh_STABLE then fadd s1 (fl (5 / 100)) else s1);
                   s3 = (if fq_consequence requirement = Conseq_HIGH then fadd s2 (fl (5 / 100)) else s2);
                   reasons = [reason]
                     @ (if official_source_available then [''official_source_available''] else [])
                     @ (if fq_freshness requirement \<noteq> Fresh_STABLE then [''freshness_value''] else [])
                     @ (if fq_consequence requirement = Conseq_HIGH then [''high_consequence_value''] else [])
                     @ (if 1 / 2 \<le> source_novelty then [''novel_source_class''] else [])
                     @ (if 1 / 2 \<le> query_novelty then [''novel_query''] else [])
               in ExpectedEvidenceGain_new (fq_key requirement) (min s3 1) reasons)"

section \<open>Lineage lemmas\<close>

text \<open>A candidate is grounded in a document version: its quote is that very span of text.\<close>

definition grounded_in :: "(utext \<Rightarrow> string) \<Rightarrow> DocumentVersion \<Rightarrow> EvidenceCandidate \<Rightarrow> bool" where
  "grounded_in sha v c \<longleftrightarrow>
     ec_tenant_id c = dv_tenant_id v \<and> es_document_version_id (ec_source c) = dv_id v
     \<and> es_document_id (ec_source c) = dv_document_id v
     \<and> 0 \<le> ec_start_offset c \<and> ec_start_offset c < ec_end_offset c
     \<and> ec_end_offset c \<le> int (length (dv_text v))
     \<and> py_slice (dv_text v) (ec_start_offset c) (ec_end_offset c) = ec_quote c
     \<and> ec_quote_hash c = sha (ec_quote c)
     \<and> ec_level c = L1_GROUNDED"

lemma py_slice_full_length:
  assumes "0 \<le> a" "py_slice xs a (a + int (length q)) = q" "q \<noteq> []"
  shows "a + int (length q) \<le> int (length xs)"
proof -
  have "length (take (nat (a + int (length q)) - nat a) (drop (nat a) xs)) = length q"
    using assms by (simp add: py_slice_nonneg)
  then have "length q \<le> length xs - nat a" by (simp add: min_def split: if_splits)
  with assms show ?thesis by (cases q) auto
qed

lemma build_grounded:
  assumes "EvidenceBuilder_build sha urlsplit u tn r f v cid k d url ident st q qs sc au = Ok c"
  shows "grounded_in sha v c"
    and "ec_quote c = q" "ec_fact_requirement_id c = f" "ec_run_id c = r"
proof -
  from assms show "ec_quote c = q" "ec_fact_requirement_id c = f" "ec_run_id c = r"
    by (auto simp: EvidenceBuilder_build_def EvidenceCandidate_new_def Let_def split: if_splits)
  let ?s = "dc_start_offset k + qs"
  from assms have q: "q \<noteq> []" "0 \<le> ?s" "py_slice (dv_text v) ?s (?s + int (length q)) = q"
    by (auto simp: EvidenceBuilder_build_def EvidenceCandidate_new_def Let_def split: if_splits)
  from py_slice_full_length [OF q(2,3,1)]
  have "?s + int (length q) \<le> int (length (dv_text v))" .
  with assms show "grounded_in sha v c"
    by (auto simp: EvidenceBuilder_build_def EvidenceCandidate_new_def EvidenceSource_new_def
        grounded_in_def Let_def split: if_splits)
qed

text \<open>
  Conversely, every non-empty span of an exact chunk is accepted when the source is an
  HTTP(S) URL with an identity and the score is a probability.
\<close>

lemma build_complete:
  assumes k: "chunk_exact (dv_text v) k"
    and span: "0 \<le> qs" "qs < qe" "qe \<le> int (length (dc_text k))"
    and src: "EvidenceSource_new urlsplit (dv_document_id v) (dv_id v) cid url ident au = Ok s"
    and sc: "0 \<le> sc" "sc \<le> 1"
  shows "is_ok (EvidenceBuilder_build sha urlsplit u (dv_tenant_id v) r f v cid k
    (dv_document_id v) url ident st (py_slice (dc_text k) qs qe) qs sc au)"
proof -
  let ?q = "py_slice (dc_text k) qs qe"
  let ?a = "dc_start_offset k" and ?b = "dc_end_offset k"
  from k have kk: "0 \<le> ?a" "?a < ?b" "?b \<le> int (length (dv_text v))"
    "dc_text k = py_slice (dv_text v) ?a ?b" by (auto simp: chunk_exact_def)
  then have len: "int (length (dc_text k)) = ?b - ?a"
    using length_py_slice [of ?a ?b "dv_text v"] by simp
  define q where "q = ?q"
  have q_len: "int (length q) = qe - qs"
    unfolding q_def using span length_py_slice [of qs qe "dc_text k"] by simp
  then have q_ne: "q \<noteq> []" using span by auto
  have qe: "qs + int (length q) = qe" using q_len by simp
  have in_chunk: "py_slice (dc_text k) qs (qs + int (length q)) = q"
    unfolding qe by (simp add: q_def)
  have "py_slice (dv_text v) (?a + qs) (?a + qe) = q"
    unfolding q_def kk(4) using span len kk by (intro py_slice_slice [symmetric]) auto
  then have in_doc: "py_slice (dv_text v) (?a + qs) (?a + qs + int (length q)) = q"
    unfolding add.assoc qe .
  from span kk(1) src sc q_ne in_chunk in_doc kk(4) [symmetric]
  show ?thesis unfolding q_def [symmetric]
    by (simp add: EvidenceBuilder_build_def EvidenceCandidate_new_def Let_def is_ok_iff not_less)
qed

section \<open>Coverage lemmas\<close>

definition accepted_evidence ::
  "uuid \<Rightarrow> uuid \<Rightarrow> uuid \<Rightarrow> VerifiedEvidence list \<Rightarrow> VerifiedEvidence list" where
  "accepted_evidence tn r f ev = dict_values (accepted_by_id tn r f ev [])"

lemma accepted_by_id_filter:
  "accepted_by_id tn r f (filter (evidence_applies tn r f) ev) acc = accepted_by_id tn r f ev acc"
  by (induction ev arbitrary: acc) auto

lemma accepted_by_id_inv:
  assumes "distinct (dict_keys acc)" "\<forall>(k, v) \<in> set acc. k = ve_id v \<and> evidence_applies tn r f v"
  shows "distinct (dict_keys (accepted_by_id tn r f ev acc))
     \<and> (\<forall>(k, v) \<in> set (accepted_by_id tn r f ev acc). k = ve_id v \<and> evidence_applies tn r f v)
     \<and> set (dict_keys (accepted_by_id tn r f ev acc))
         = set (dict_keys acc) \<union> ve_id ` {v \<in> set ev. evidence_applies tn r f v}"
  using assms
proof (induction ev arbitrary: acc)
  case (Cons item items)
  let ?acc = "if evidence_applies tn r f item \<and> ve_id item \<notin> set (dict_keys acc)
    then acc @ [(ve_id item, item)] else acc"
  have "distinct (dict_keys ?acc)" "\<forall>(k, v) \<in> set ?acc. k = ve_id v \<and> evidence_applies tn r f v"
    using Cons.prems by auto
  from Cons.IH [OF this] show ?case
    by (auto simp: image_iff)
qed auto

lemma accepted_evidence_spec:
  "distinct (map ve_id (accepted_evidence tn r f ev))"
  "v \<in> set (accepted_evidence tn r f ev) \<Longrightarrow> evidence_applies tn r f v"
  "ve_id ` set (accepted_evidence tn r f ev) = ve_id ` {v \<in> set ev. evidence_applies tn r f v}"
proof -
  let ?d = "accepted_by_id tn r f ev []"
  have inv: "distinct (dict_keys ?d)" "\<forall>(k, v) \<in> set ?d. k = ve_id v \<and> evidence_applies tn r f v"
    "set (dict_keys ?d) = ve_id ` {v \<in> set ev. evidence_applies tn r f v}"
    using accepted_by_id_inv [of "[]" tn r f ev] by auto
  have "map ve_id (accepted_evidence tn r f ev) = dict_keys ?d"
    unfolding accepted_evidence_def using inv(2) by (auto intro!: map_cong)
  with inv show "distinct (map ve_id (accepted_evidence tn r f ev))"
    "ve_id ` set (accepted_evidence tn r f ev) = ve_id ` {v \<in> set ev. evidence_applies tn r f v}"
    by (metis, metis list.set_map)
  show "v \<in> set (accepted_evidence tn r f ev) \<Longrightarrow> evidence_applies tn r f v"
    using inv(2) by (auto simp: accepted_evidence_def)
qed

definition conflicting :: "VerifiedEvidence list \<Rightarrow> bool" where
  "conflicting acc \<longleftrightarrow>
     (\<exists>i \<in> set acc. ve_support_type i = SUPPORTS) \<and> (\<exists>i \<in> set acc. ve_support_type i = CONTRADICTS)"

definition l2_sources :: "VerifiedEvidence list \<Rightarrow> bool" where
  "l2_sources acc \<longleftrightarrow>
     (\<exists>i \<in> set acc. es_authority (ve_source i) = Auth_OFFICIAL)
     \<or> (\<exists>i \<in> set acc. \<exists>j \<in> set acc. es_authority (ve_source i) = Auth_INDEPENDENT
          \<and> es_authority (ve_source j) = Auth_INDEPENDENT
          \<and> es_source_identity (ve_source i) \<noteq> es_source_identity (ve_source j))"

lemma two_le_card_iff:
  assumes "finite A"
  shows "2 \<le> card A \<longleftrightarrow> (\<exists>x \<in> A. \<exists>y \<in> A. x \<noteq> y)"
proof -
  have "card A \<le> 1 \<longleftrightarrow> (\<forall>x \<in> A. \<forall>y \<in> A. x = y)"
    using assms by (simp add: card_le_Suc0_iff_eq)
  then show ?thesis by (metis not_less_eq_eq one_add_one plus_1_eq_Suc)
qed

lemma l2_sources_iff:
  "l2_sources acc \<longleftrightarrow>
     list_ex (\<lambda>i. es_authority (ve_source i) = Auth_OFFICIAL) acc
     \<or> 2 \<le> card (set (map (\<lambda>i. es_source_identity (ve_source i))
           (filter (\<lambda>i. es_authority (ve_source i) = Auth_INDEPENDENT) acc)))"
  by (subst two_le_card_iff) (auto simp: l2_sources_def list_ex_iff)

lemma evaluate_status:
  "ca_status (CoverageEvaluator_evaluate tn r f requirement ev disc) =
     (let acc = accepted_evidence tn r f ev in
      if conflicting acc then Cov_PARTIAL else if acc = [] then Cov_OPEN
      else if l2_sources acc then Cov_VERIFIED else Cov_COVERED)"
proof -
  have c: "filter (\<lambda>i. ve_support_type i = SUPPORTS) acc \<noteq> []
      \<and> filter (\<lambda>i. ve_support_type i = CONTRADICTS) acc \<noteq> [] \<longleftrightarrow> conflicting acc" for acc
    by (auto simp: conflicting_def filter_empty_conv)
  show ?thesis
    unfolding CoverageEvaluator_evaluate_def Let_def accepted_evidence_def [symmetric] c
      l2_sources_iff [symmetric] by simp
qed

lemma evaluate_level:
  "ca_level (CoverageEvaluator_evaluate tn r f requirement ev disc) =
     (case ca_status (CoverageEvaluator_evaluate tn r f requirement ev disc) of
        Cov_OPEN \<Rightarrow> None | Cov_VERIFIED \<Rightarrow> Some L2_VERIFIED | _ \<Rightarrow> Some L1_GROUNDED)"
  by (simp add: CoverageEvaluator_evaluate_def Let_def)

lemma evaluate_filter:
  "CoverageEvaluator_evaluate tn r f requirement (filter (evidence_applies tn r f) ev) disc
     = CoverageEvaluator_evaluate tn r f requirement ev disc"
  by (simp add: CoverageEvaluator_evaluate_def accepted_by_id_filter)

section \<open>Expected gain lemmas\<close>

lemma estimate_Ok:
  assumes "0 \<le> sn" "sn \<le> 1" "0 \<le> qn" "qn \<le> 1" "ca_fact_key a = fq_key requirement"
  shows "\<exists>g. EvidenceGainEstimator_estimate requirement a sn qn off = Ok g
     \<and> eg_fact_key g = fq_key requirement \<and> 0 \<le> eg_score g \<and> eg_score g \<le> 1
     \<and> (ca_status a = Cov_VERIFIED \<longrightarrow> eg_score g = 0)"
proof -
  have add: "0 \<le> fadd x y" if "0 \<le> x" "0 \<le> y" for x y using that by (simp add: fadd_def fl_nonneg)
  have mul: "0 \<le> fmul x y" if "0 \<le> x" "0 \<le> y" for x y using that by (simp add: fmul_def fl_nonneg)
  show ?thesis
    using assms
    by (cases "ca_status a")
      (auto simp: EvidenceGainEstimator_estimate_def gain_base_def ExpectedEvidenceGain_new_def
        Let_def not_le min_less_iff_disj not_less intro!: add mul fl_nonneg)
qed

end
