(* ===== verification/Search_Workflow.thy ===== *)
theory Search_Workflow
  imports Evidence Lease_Recovery
begin

text \<open>
  \<^verbatim>\<open>sana/modules/orchestration/search_workflow.py\<close>: step costs, the reservation ledger,
  the FAST workflow graph with its JSON codec and scheduler (\<^verbatim>\<open>advance\<close>), and the
  workflow service (reservation with rollback, outcome, finish). A method that may
  raise after a mutation is a \<open>prog\<close>: it returns the object beside the result.
  \<open>clock i\<close> is the i-th reading of the injected clock.
\<close>

section \<open>Step costs and the reservation ledger\<close>

record StepBudgetCost =
  sc_phase :: BudgetPhase
  sc_estimated_seconds :: pyfloat
  sc_queries :: int
  sc_providers :: int
  sc_fetches :: int
  sc_llm_calls :: int

definition StepBudgetCost_new ::
  "BudgetPhase \<Rightarrow> pyfloat \<Rightarrow> int \<Rightarrow> int \<Rightarrow> int \<Rightarrow> int \<Rightarrow> StepBudgetCost result" where
  "StepBudgetCost_new phase estimated_seconds queries providers fetches llm_calls =
     (if estimated_seconds < 0 \<or> list_ex (\<lambda>v. v < 0) [queries, providers, fetches, llm_calls]
      then Err (ValueError ''Step budget cost cannot be negative'')
      else Ok \<lparr>sc_phase = phase, sc_estimated_seconds = estimated_seconds, sc_queries = queries,
               sc_providers = providers, sc_fetches = fetches, sc_llm_calls = llm_calls\<rparr>)"

definition StepBudgetCost_apply ::
  "StepBudgetCost \<Rightarrow> BudgetUsage \<Rightarrow> pyfloat option \<Rightarrow> BudgetUsage result" where
  "StepBudgetCost_apply c usage elapsed_seconds =
     BudgetUsage_add usage (sc_queries c) (sc_providers c) (sc_fetches c) 0 0 0 0
       (Some (phase_value (sc_phase c)))
       (case elapsed_seconds of None \<Rightarrow> sc_estimated_seconds c | Some e \<Rightarrow> e)"

record BudgetReservationLedger =
  lg_guard :: BudgetSnapshot
  lg_usage :: BudgetUsage
  lg_reservations :: "(string, StepBudgetCost) dict"

fun apply_costs :: "StepBudgetCost list \<Rightarrow> BudgetUsage \<Rightarrow> BudgetUsage result" where
  "apply_costs [] projected = Ok projected"
| "apply_costs (cost # costs) projected =
     rbind (StepBudgetCost_apply cost projected None) (apply_costs costs)"

definition Ledger_projected_usage :: "BudgetReservationLedger \<Rightarrow> BudgetUsage result" where
  "Ledger_projected_usage l = apply_costs (dict_values (lg_reservations l)) (lg_usage l)"

fun collect_pending ::
  "(string \<times> StepBudgetCost) list \<Rightarrow> (string, StepBudgetCost) dict
     \<Rightarrow> (string, StepBudgetCost) dict result" where
  "collect_pending [] acc = Ok acc"
| "collect_pending ((key, cost) # rest) acc =
     (if key \<in> set (dict_keys acc)
      then Err (ValueError ''Pending budget reservation keys must be unique'')
      else collect_pending rest (AList.update key cost acc))"

definition Ledger_new ::
  "BudgetSnapshot \<Rightarrow> BudgetUsage \<Rightarrow> (string \<times> StepBudgetCost) list
     \<Rightarrow> BudgetReservationLedger result" where
  "Ledger_new guard usage pending =
     rbind (collect_pending pending []) (\<lambda>reservations.
       let l = \<lparr>lg_guard = guard, lg_usage = usage, lg_reservations = reservations\<rparr> in
       rbind (Ledger_projected_usage l) (\<lambda>projected.
       rbind (BudgetGuard_validate guard projected) (\<lambda>_. Ok l)))"

definition Ledger_reserve ::
  "BudgetReservationLedger \<Rightarrow> string \<Rightarrow> StepBudgetCost \<Rightarrow> datetime
     \<Rightarrow> BudgetReservationLedger result" where
  "Ledger_reserve l step_key cost now =
     (if blank step_key \<or> step_key \<in> set (dict_keys (lg_reservations l))
      then Err (ValueError ''Step already has a reservation or has an empty key'')
      else rbind (BudgetGuard_can_start (lg_guard l) (sc_phase cost) now (sc_estimated_seconds cost))
             (\<lambda>startable.
               if \<not> startable
               then Err (BudgetExceeded ''deadline'' (JFloat (sc_estimated_seconds cost)) (JInt 0))
               else rbind (Ledger_projected_usage l) (\<lambda>projected.
                    rbind (StepBudgetCost_apply cost projected None) (\<lambda>after.
                    rbind (BudgetGuard_validate (lg_guard l) after) (\<lambda>_.
                      Ok (l\<lparr>lg_reservations :=
                              AList.update step_key cost (lg_reservations l)\<rparr>))))))"

definition Ledger_complete ::
  "string \<Rightarrow> StepBudgetCost \<Rightarrow> pyfloat \<Rightarrow> (BudgetReservationLedger, BudgetUsage) prog" where
  "Ledger_complete step_key actual elapsed_seconds l =
     (case map_of (lg_reservations l) step_key of
        None \<Rightarrow> (Err (ValueError ''Step has no budget reservation''), l)
      | Some reserved \<Rightarrow>
          if sc_phase actual \<noteq> sc_phase reserved
          then (Err (ValueError ''Actual usage phase differs from reservation''), l)
          else
            let l1 = l\<lparr>lg_reservations := AList.delete step_key (lg_reservations l)\<rparr> in
            case StepBudgetCost_apply actual (lg_usage l1) (Some elapsed_seconds) of
              Err e \<Rightarrow> (Err e, l1)
            | Ok usage \<Rightarrow>
                let l2 = l1\<lparr>lg_usage := usage\<rparr> in
                (rbind (BudgetGuard_validate (lg_guard l2) usage) (\<lambda>_. Ok usage), l2))"

definition Ledger_release ::
  "BudgetReservationLedger \<Rightarrow> string \<Rightarrow> BudgetReservationLedger result" where
  "Ledger_release l step_key =
     (if step_key \<notin> set (dict_keys (lg_reservations l))
      then Err (ValueError ''Step has no budget reservation'')
      else Ok (l\<lparr>lg_reservations := AList.delete step_key (lg_reservations l)\<rparr>))"

definition Ledger_release_if_present ::
  "BudgetReservationLedger \<Rightarrow> string \<Rightarrow> bool \<times> BudgetReservationLedger" where
  "Ledger_release_if_present l step_key =
     (step_key \<in> set (dict_keys (lg_reservations l)),
      l\<lparr>lg_reservations := AList.delete step_key (lg_reservations l)\<rparr>)"

section \<open>Workflow steps\<close>

record WorkflowStepSpec =
  ws_key :: string
  ws_step_type :: StepType
  ws_dependencies :: "string list"
  ws_budget :: StepBudgetCost
  ws_low_value_after_deadline :: bool

definition WorkflowStepSpec_new ::
  "string \<Rightarrow> StepType \<Rightarrow> string list \<Rightarrow> StepBudgetCost \<Rightarrow> bool \<Rightarrow> WorkflowStepSpec result" where
  "WorkflowStepSpec_new key step_type dependencies budget low_value =
     (if blank key \<or> list_ex blank dependencies
      then Err (ValueError ''Workflow step keys cannot be empty'')
      else if key \<in> set dependencies
      then Err (ValueError ''Workflow step cannot depend on itself'')
      else Ok \<lparr>ws_key = key, ws_step_type = step_type, ws_dependencies = dependencies,
               ws_budget = budget, ws_low_value_after_deadline = low_value\<rparr>)"

definition WorkflowStepSpec_to_dict :: "WorkflowStepSpec \<Rightarrow> (string, json) dict" where
  "WorkflowStepSpec_to_dict n =
     [(''key'', JStr (ws_key n)),
      (''step_type'', JStr (step_type_value (ws_step_type n))),
      (''dependencies'', JArr (map JStr (ws_dependencies n))),
      (''budget'', JObj
         [(''phase'', JStr (phase_value (sc_phase (ws_budget n)))),
          (''estimated_seconds'', JFloat (sc_estimated_seconds (ws_budget n))),
          (''queries'', JInt (sc_queries (ws_budget n))),
          (''providers'', JInt (sc_providers (ws_budget n))),
          (''fetches'', JInt (sc_fetches (ws_budget n))),
          (''llm_calls'', JInt (sc_llm_calls (ws_budget n)))]),
      (''low_value_after_deadline'', JBool (ws_low_value_after_deadline n))]"

definition all_step_types :: "StepType list" where
  "all_step_types =
     [ROUTE, PLAN, DISCOVERY, SELECT, FETCH, EXTRACT, VERIFY, SYNTHESIZE, COMPLETE]"

definition all_phases :: "BudgetPhase list" where
  "all_phases =
     [Phase_ROUTE_PLAN, Phase_DISCOVERY, Phase_FETCH_EXTRACT, Phase_VERIFY, Phase_SYNTHESIZE]"

definition WorkflowStepSpec_from_dict ::
  "py_conv \<Rightarrow> (string, json) dict \<Rightarrow> WorkflowStepSpec result" where
  "WorkflowStepSpec_from_dict conv payload =
     rbind (dict_item payload ''budget'') (\<lambda>b.
     rbind (json_dict b) (\<lambda>budget.
     rbind (dict_item payload ''key'') (\<lambda>key.
     rbind (dict_item payload ''step_type'') (\<lambda>ty.
     rbind (enum_of step_type_value all_step_types (py_str conv ty)) (\<lambda>step_type.
     rbind (py_iter (dict_get payload ''dependencies'' (JArr []))) (\<lambda>deps.
     rbind (dict_item budget ''phase'') (\<lambda>ph.
     rbind (enum_of phase_value all_phases (py_str conv ph)) (\<lambda>phase.
     rbind (py_float conv (dict_get budget ''estimated_seconds'' (JInt 0))) (\<lambda>seconds.
     rbind (py_int conv (dict_get budget ''queries'' (JInt 0))) (\<lambda>queries.
     rbind (py_int conv (dict_get budget ''providers'' (JInt 0))) (\<lambda>providers.
     rbind (py_int conv (dict_get budget ''fetches'' (JInt 0))) (\<lambda>fetches.
     rbind (py_int conv (dict_get budget ''llm_calls'' (JInt 0))) (\<lambda>llm_calls.
     rbind (StepBudgetCost_new phase seconds queries providers fetches llm_calls) (\<lambda>cost.
     rbind (dict_item payload ''low_value_after_deadline'') (\<lambda>low.
       WorkflowStepSpec_new (py_str conv key) step_type (map (py_str conv) deps) cost
         (py_truth low))))))))))))))))"

record WorkflowAdvance =
  wa_submit :: "WorkflowStepSpec list"
  wa_cancel :: "string list"
  wa_skip :: "string list"
  wa_release_reservations :: "string list"
  wa_deadline_fallback :: bool

record FastWorkflowOutcome =
  fo_quality :: AnswerQuality
  fo_reason :: StopReason
  fo_request_research_upgrade :: bool

section \<open>The FAST graph\<close>

datatype GraphStage = Stage_OPEN | Stage_DISCOVERY_SEALED | Stage_SYNTHESIS_SEALED

fun stage_value :: "GraphStage \<Rightarrow> string" where
  "stage_value Stage_OPEN = ''OPEN''"
| "stage_value Stage_DISCOVERY_SEALED = ''DISCOVERY_SEALED''"
| "stage_value Stage_SYNTHESIS_SEALED = ''SYNTHESIS_SEALED''"

definition all_stages :: "GraphStage list" where
  "all_stages = [Stage_OPEN, Stage_DISCOVERY_SEALED, Stage_SYNTHESIS_SEALED]"

record FastSearchGraph =
  fg_nodes :: "(string, WorkflowStepSpec) dict"
  fg_stage :: GraphStage

definition FastSearchGraph_add :: "WorkflowStepSpec \<Rightarrow> (FastSearchGraph, unit) prog" where
  "FastSearchGraph_add node g =
     (if ws_key node \<in> set (dict_keys (fg_nodes g))
      then (Err (ValueError (''Duplicate workflow step key: '' @ ws_key node)), g)
      else if set (ws_dependencies node) - set (dict_keys (fg_nodes g)) \<noteq> {}
      then (Err (ValueError ''Workflow step has unknown dependencies: ''), g)
      else (Ok (), g\<lparr>fg_nodes := AList.update (ws_key node) node (fg_nodes g)\<rparr>))"

text \<open>\<^verbatim>\<open>self._add(WorkflowStepSpec(key, type, deps, StepBudgetCost(...), low_value))\<close>.\<close>

definition add_spec ::
  "string \<Rightarrow> StepType \<Rightarrow> string list \<Rightarrow> StepBudgetCost result \<Rightarrow> bool
     \<Rightarrow> (FastSearchGraph, unit) prog" where
  "add_spec key step_type dependencies cost low_value =
     sbind (slift (rbind cost (\<lambda>c. WorkflowStepSpec_new key step_type dependencies c low_value)))
       FastSearchGraph_add"

definition FastSearchGraph_init :: "(FastSearchGraph, unit) prog" where
  "FastSearchGraph_init =
     sbind (add_spec ''route'' ROUTE [] (StepBudgetCost_new Phase_ROUTE_PLAN (fl (1 / 10)) 0 0 0 0) False)
       (\<lambda>_. add_spec ''plan'' PLAN [''route'']
               (StepBudgetCost_new Phase_ROUTE_PLAN (fl (8 / 10)) 0 0 0 0) False)"

definition FastSearchGraph_new :: "FastSearchGraph result" where
  "FastSearchGraph_new =
     (case FastSearchGraph_init \<lparr>fg_nodes = [], fg_stage = Stage_OPEN\<rparr> of
        (Ok _, g) \<Rightarrow> Ok g | (Err e, _) \<Rightarrow> Err e)"

definition FastSearchGraph_to_dict :: "FastSearchGraph \<Rightarrow> (string, json) dict" where
  "FastSearchGraph_to_dict g =
     [(''schema_version'', JInt 1), (''workflow'', JStr (search_mode_value FAST)),
      (''stage'', JStr (stage_value (fg_stage g))),
      (''nodes'', JArr (map (\<lambda>n. JObj (WorkflowStepSpec_to_dict n)) (dict_values (fg_nodes g))))]"

fun load_nodes :: "py_conv \<Rightarrow> json list \<Rightarrow> (FastSearchGraph, unit) prog" where
  "load_nodes conv [] g = (Ok (), g)"
| "load_nodes conv (value # values) g =
     (case value of
        JObj d \<Rightarrow>
          sbind (sbind (slift (WorkflowStepSpec_from_dict conv d)) FastSearchGraph_add)
            (\<lambda>_. load_nodes conv values) g
      | _ \<Rightarrow> (Err (ValueError ''Workflow graph node must be an object''), g))"

definition json_is_one :: "json \<Rightarrow> bool" where
  "json_is_one v \<longleftrightarrow> v = JInt 1 \<or> v = JBool True \<or> v = JFloat 1"

definition FastSearchGraph_from_dict ::
  "py_conv \<Rightarrow> (string, json) dict \<Rightarrow> FastSearchGraph result" where
  "FastSearchGraph_from_dict conv payload =
     (if \<not> json_is_one (dict_get payload ''schema_version'' JNull)
         \<or> dict_get payload ''workflow'' JNull \<noteq> JStr ''FAST''
      then Err (ValueError ''Unsupported FAST workflow graph snapshot'')
      else
        rbind (dict_item payload ''stage'') (\<lambda>st.
        rbind (enum_of stage_value all_stages (py_str conv st)) (\<lambda>stage.
          case dict_get payload ''nodes'' JNull of
            JArr (v # vs) \<Rightarrow>
              (case load_nodes conv (v # vs) \<lparr>fg_nodes = [], fg_stage = stage\<rparr> of
                 (Err e, _) \<Rightarrow> Err e
               | (Ok _, g) \<Rightarrow>
                   if {''route'', ''plan''} - set (dict_keys (fg_nodes g)) \<noteq> {}
                   then Err (ValueError ''Workflow graph snapshot lacks required bootstrap steps'')
                   else if stage \<noteq> Stage_OPEN \<and> ''select'' \<notin> set (dict_keys (fg_nodes g))
                   then Err (ValueError ''Sealed workflow graph snapshot lacks select step'')
                   else if stage = Stage_SYNTHESIS_SEALED
                           \<and> ''synthesize'' \<notin> set (dict_keys (fg_nodes g))
                   then Err (ValueError ''Sealed workflow graph snapshot lacks synthesis step'')
                   else Ok g)
          | _ \<Rightarrow> Err (ValueError ''Workflow graph snapshot has no nodes''))))"

definition keys_of_type :: "StepType \<Rightarrow> FastSearchGraph \<Rightarrow> string list" where
  "keys_of_type ty g = map fst (filter (\<lambda>(k, n). ws_step_type n = ty) (fg_nodes g))"

definition set_stage :: "GraphStage \<Rightarrow> (FastSearchGraph, unit) prog" where
  "set_stage st g = (Ok (), g\<lparr>fg_stage := st\<rparr>)"

definition FastSearchGraph_add_discovery ::
  "string \<Rightarrow> int \<Rightarrow> pyfloat \<Rightarrow> (FastSearchGraph, string) prog" where
  "FastSearchGraph_add_discovery query_key provider_slots estimated_seconds g =
     (if fg_stage g \<noteq> Stage_OPEN then (Err (ValueError ''Discovery fan-out is already sealed''), g)
      else if blank query_key then (Err (ValueError ''Discovery query key cannot be empty''), g)
      else
        let key = ''discover:'' @ query_key in
        sbind (add_spec key DISCOVERY [''plan'']
                 (StepBudgetCost_new Phase_DISCOVERY estimated_seconds 1 provider_slots 0 0) True)
          (\<lambda>_. slift (Ok key)) g)"

definition FastSearchGraph_seal_discovery :: "(FastSearchGraph, unit) prog" where
  "FastSearchGraph_seal_discovery g =
     (if fg_stage g \<noteq> Stage_OPEN then (Err (ValueError ''Discovery fan-out is already sealed''), g)
      else
        let found = keys_of_type DISCOVERY g;
            dependencies = (if found = [] then [''plan''] else found) in
        sbind (add_spec ''select'' SELECT dependencies
                 (StepBudgetCost_new Phase_DISCOVERY (fl (2 / 10)) 0 0 0 0) True)
          (\<lambda>_. set_stage Stage_DISCOVERY_SEALED) g)"

definition FastSearchGraph_add_fetch_pipeline ::
  "string \<Rightarrow> pyfloat \<Rightarrow> (FastSearchGraph, string \<times> string) prog" where
  "FastSearchGraph_add_fetch_pipeline source_key fetch_seconds g =
     (if fg_stage g \<noteq> Stage_DISCOVERY_SEALED
      then (Err (ValueError ''Fetch pipelines require sealed discovery''), g)
      else if blank source_key then (Err (ValueError ''Fetch source key cannot be empty''), g)
      else
        let fetch_key = ''fetch:'' @ source_key; extract_key = ''extract:'' @ source_key in
        sbind (add_spec fetch_key FETCH [''select'']
                 (StepBudgetCost_new Phase_FETCH_EXTRACT fetch_seconds 0 0 1 0) True) (\<lambda>_.
        sbind (add_spec extract_key EXTRACT [fetch_key]
                 (StepBudgetCost_new Phase_FETCH_EXTRACT (fl (2 / 10)) 0 0 0 0) True) (\<lambda>_.
          slift (Ok (fetch_key, extract_key)))) g)"

definition FastSearchGraph_seal_synthesis :: "(FastSearchGraph, unit) prog" where
  "FastSearchGraph_seal_synthesis g =
     (if fg_stage g \<noteq> Stage_DISCOVERY_SEALED
      then (Err (ValueError ''Synthesis requires sealed discovery''), g)
      else
        let found = keys_of_type EXTRACT g;
            dependencies = (if found = [] then [''select''] else found) in
        sbind (add_spec ''verify'' VERIFY dependencies
                 (StepBudgetCost_new Phase_VERIFY (fl (3 / 10)) 0 0 0 0) True) (\<lambda>_.
        sbind (add_spec ''synthesize'' SYNTHESIZE [''verify'']
                 (StepBudgetCost_new Phase_SYNTHESIZE (fl (8 / 10)) 0 0 0 0) False) (\<lambda>_.
          set_stage Stage_SYNTHESIS_SEALED)) g)"

section \<open>Scheduling\<close>

type_synonym statuses = "(string, StepStatus) dict"

definition status_or_ready :: "statuses \<Rightarrow> string \<Rightarrow> StepStatus" where
  "status_or_ready st k = (case map_of st k of None \<Rightarrow> Step_READY | Some s \<Rightarrow> s)"

definition dep_terminal :: "statuses \<Rightarrow> string \<Rightarrow> bool" where
  "dep_terminal st k = (case map_of st k of None \<Rightarrow> False | Some s \<Rightarrow> step_terminal s)"

definition dep_succeeded :: "statuses \<Rightarrow> string \<Rightarrow> bool" where
  "dep_succeeded st k \<longleftrightarrow> map_of st k = Some Step_SUCCEEDED"

definition must_skip :: "statuses \<Rightarrow> string \<times> WorkflowStepSpec \<Rightarrow> bool" where
  "must_skip st kn =
     (case kn of (key, node) \<Rightarrow>
        ws_step_type node \<in> {EXTRACT, VERIFY}
        \<and> status_or_ready st key = Step_READY
        \<and> list_all (dep_terminal st) (ws_dependencies node)
        \<and> (if ws_step_type node = EXTRACT
           then list_ex (\<lambda>d. \<not> dep_succeeded st d) (ws_dependencies node)
           else list_all (\<lambda>d. \<not> dep_succeeded st d) (ws_dependencies node)))"

definition dep_type_in :: "FastSearchGraph \<Rightarrow> StepType list \<Rightarrow> string \<Rightarrow> bool result" where
  "dep_type_in g tys k =
     (case map_of (fg_nodes g) k of
        None \<Rightarrow> Err (KeyError k) | Some n \<Rightarrow> Ok (ws_step_type n \<in> set tys))"

definition dependencies_satisfied ::
  "FastSearchGraph \<Rightarrow> statuses \<Rightarrow> WorkflowStepSpec \<Rightarrow> bool result" where
  "dependencies_satisfied g st node =
     (let deps = ws_dependencies node in
      rbind (if ws_step_type node \<in> {SELECT, SYNTHESIZE}
             then rall (dep_type_in g [DISCOVERY, VERIFY]) deps else Ok False) (\<lambda>fan_in.
        if fan_in then Ok (list_all (dep_terminal st) deps)
        else
          rbind (if ws_step_type node = VERIFY
                 then rall (dep_type_in g [EXTRACT]) deps else Ok False) (\<lambda>extracts.
            if extracts
            then Ok (list_all (dep_terminal st) deps \<and> list_ex (dep_succeeded st) deps)
            else Ok (list_all (dep_succeeded st) deps))))"

definition FastSearchGraph_advance ::
  "FastSearchGraph \<Rightarrow> statuses \<Rightarrow> BudgetSnapshot \<Rightarrow> instant \<Rightarrow> WorkflowAdvance result" where
  "FastSearchGraph_advance g st guard now =
     (if fg_stage g \<noteq> Stage_SYNTHESIS_SEALED
      then Err (ValueError ''Workflow graph must be sealed before scheduling'')
      else if set (dict_keys st) - set (dict_keys (fg_nodes g)) \<noteq> {}
      then Err (ValueError ''Statuses contain unknown steps: '')
      else if BudgetGuard_non_synthesis_deadline guard \<le> now
      then
        let cancel = map fst (filter (\<lambda>(key, node). ws_low_value_after_deadline node
                       \<and> status_or_ready st key \<in> {Step_READY, Step_RUNNING, Step_RETRY_WAIT})
                       (fg_nodes g)) in
        (case map_of (fg_nodes g) ''synthesize'' of
           None \<Rightarrow> Err (KeyError ''synthesize'')
         | Some synthesize \<Rightarrow>
             Ok \<lparr>wa_submit = (if status_or_ready st ''synthesize'' = Step_READY then [synthesize] else []),
                 wa_cancel = cancel, wa_skip = [],
                 wa_release_reservations =
                   filter (\<lambda>key. status_or_ready st key \<in> {Step_READY, Step_RETRY_WAIT}) cancel,
                 wa_deadline_fallback = True\<rparr>)
      else
        let skip = map fst (filter (must_skip st) (fg_nodes g)) in
        rbind (rfilter (\<lambda>(key, node).
                 if status_or_ready st key = Step_READY \<and> key \<notin> set skip
                 then dependencies_satisfied g st node else Ok False) (fg_nodes g)) (\<lambda>ready.
          Ok \<lparr>wa_submit = map snd ready, wa_cancel = [], wa_skip = skip,
              wa_release_reservations = [], wa_deadline_fallback = False\<rparr>))"

section \<open>FastSearchWorkflow\<close>

text \<open>
  The reservation loop over any ledger: \<open>reserved\<close> collects what has been reserved; an
  exception releases all of it and is raised again.
\<close>

fun reserve_loop ::
  "('l \<Rightarrow> 'n \<Rightarrow> instant \<Rightarrow> 'l result) \<Rightarrow> ('l \<Rightarrow> 'n \<Rightarrow> 'l) \<Rightarrow> (nat \<Rightarrow> instant) \<Rightarrow> nat
     \<Rightarrow> 'n list \<Rightarrow> 'n list \<Rightarrow> ('l, 'n list) prog" where
  "reserve_loop reserve release clock i [] reserved l = (Ok reserved, l)"
| "reserve_loop reserve release clock i (n # ns) reserved l =
     (case reserve l n (clock i) of
        Ok l' \<Rightarrow> reserve_loop reserve release clock (i + 1) ns (reserved @ [n]) l'
      | Err e \<Rightarrow> (Err e, fold (\<lambda>m s. release s m) reserved l))"

definition reserve_node ::
  "BudgetReservationLedger \<Rightarrow> WorkflowStepSpec \<Rightarrow> instant \<Rightarrow> BudgetReservationLedger result" where
  "reserve_node l n now = Ledger_reserve l (ws_key n) (ws_budget n) (Aware now)"

definition release_key :: "BudgetReservationLedger \<Rightarrow> string \<Rightarrow> BudgetReservationLedger" where
  "release_key l k = snd (Ledger_release_if_present l k)"

definition release_node ::
  "BudgetReservationLedger \<Rightarrow> WorkflowStepSpec \<Rightarrow> BudgetReservationLedger" where
  "release_node l n = release_key l (ws_key n)"

definition FastSearchWorkflow_reserve_submissions ::
  "(nat \<Rightarrow> instant) \<Rightarrow> WorkflowAdvance \<Rightarrow> (BudgetReservationLedger, WorkflowStepSpec list) prog" where
  "FastSearchWorkflow_reserve_submissions clock adv l =
     reserve_loop reserve_node release_node clock 0 (wa_submit adv) []
       (fold (\<lambda>k s. release_key s k) (wa_release_reservations adv) l)"

definition FastSearchWorkflow_outcome ::
  "FactCoverage list \<Rightarrow> bool \<Rightarrow> FastWorkflowOutcome" where
  "FastSearchWorkflow_outcome required_fact_statuses deadline_fallback =
     (if required_fact_statuses \<noteq> []
         \<and> list_all (\<lambda>s. s \<in> {Cov_COVERED, Cov_VERIFIED}) required_fact_statuses
      then \<lparr>fo_quality = Quality_COMPLETE, fo_reason = FACTS_COVERED,
            fo_request_research_upgrade = False\<rparr>
      else \<lparr>fo_quality = Quality_PARTIAL,
            fo_reason = (if deadline_fallback then TIME_BUDGET else INSUFFICIENT_EVIDENCE),
            fo_request_research_upgrade = False\<rparr>)"

definition FastSearchWorkflow_finish ::
  "SearchRun \<Rightarrow> FastWorkflowOutcome \<Rightarrow> instant \<Rightarrow> SearchRun result" where
  "FastSearchWorkflow_finish run outcome now =
     (if sr_mode run \<noteq> FAST then Err (ValueError ''Fast workflow cannot finish a RESEARCH run'')
      else SearchRun_succeed run (fo_quality outcome) (fo_reason outcome) (Aware now))"

end
