(* ===== verification/Step_Execution.thy ===== *)
theory Step_Execution
  imports Sql_Repositories Search_Workflow
begin

text \<open>
  One worker task: \<^verbatim>\<open>orchestration/step_handlers\<close> (context, bounded handler, registry),
  \<^verbatim>\<open>orchestration/executor.py\<close> (claim, run with heartbeat, finalize) and the SQL store
  \<^verbatim>\<open>app/sql_step_execution.py\<close>. A store method runs in a unit of work: \<open>transact\<close> keeps the
  new database only when the body reaches its commit, and any exception rolls back. The
  clock readings, fresh identifiers and the completion hook (the interface
  \<^verbatim>\<open>StepCompletionHook\<close>) are arguments. The event that \<^verbatim>\<open>_publish\<close> mirrors to Redis is
  returned beside the disposition. What the operation and the heartbeat timer do while
  they race is an \<open>exec_env\<close>.
\<close>

section \<open>step\_handlers/base.py and pipeline.py\<close>

record StepExecutionContext =
  cx_tenant_id :: uuid
  cx_run_id :: uuid
  cx_step_id :: uuid
  cx_step_key :: string
  cx_step_type :: StepType
  cx_attempt_id :: uuid
  cx_attempt_no :: int
  cx_trace_context :: trace_context
  cx_deadline_at :: instant
  cx_input_ref :: ArtifactRef

definition StepExecutionContext_new ::
  "uuid \<Rightarrow> uuid \<Rightarrow> uuid \<Rightarrow> string \<Rightarrow> StepType \<Rightarrow> uuid \<Rightarrow> int \<Rightarrow> trace_context \<Rightarrow> datetime
     \<Rightarrow> ArtifactRef \<Rightarrow> StepExecutionContext result" where
  "StepExecutionContext_new tenant_id run_id step_id step_key step_type attempt_id attempt_no
       trace deadline_at input_ref =
     (if blank step_key then Err (ValueError ''Step execution key cannot be empty'')
      else if attempt_no < 1
      then Err (ValueError ''Step execution attempt number must be positive'')
      else case deadline_at of
             Naive _ \<Rightarrow> Err (ValueError ''Step deadline must be timezone-aware'')
           | Aware t \<Rightarrow>
               Ok \<lparr>cx_tenant_id = tenant_id, cx_run_id = run_id, cx_step_id = step_id,
                   cx_step_key = step_key, cx_step_type = step_type, cx_attempt_id = attempt_id,
                   cx_attempt_no = attempt_no, cx_trace_context = trace, cx_deadline_at = t,
                   cx_input_ref = input_ref\<rparr>)"

definition step_deadline_exceeded :: exn where
  "step_deadline_exceeded =
     raise_typed BUDGET ''step_deadline_exceeded'' ''Step deadline was exhausted'' (Some False) []"

definition StepExecutionContext_checkpoint ::
  "StepExecutionContext \<Rightarrow> bool \<Rightarrow> instant \<Rightarrow> unit result" where
  "StepExecutionContext_checkpoint ctx cancelled now =
     (if cancelled
      then Err (raise_typed CANCELLED ''run_cancelled'' ''Run was cancelled'' (Some False) [])
      else if cx_deadline_at ctx \<le> now then Err step_deadline_exceeded
      else Ok ())"

record StepExecutionResult =
  ex_output_ref :: ArtifactRef
  ex_actual_cost :: StepBudgetCost

text \<open>
  What the operation does inside \<^verbatim>\<open>asyncio.timeout(remaining)\<close>: it returns or raises, or the
  timeout fires (\<open>None\<close>). The probe after the operation may also run into the timeout.
\<close>

record handler_env =
  he_cancelled_before :: bool
  he_now_before :: instant
  he_outcome :: "pyfloat \<Rightarrow> StepExecutionResult result option"
  he_now_start :: instant
  he_cancelled_after :: "bool option"
  he_now_after :: instant

definition BoundedStepHandler_handle ::
  "StepExecutionContext \<Rightarrow> handler_env \<Rightarrow> StepExecutionResult result" where
  "BoundedStepHandler_handle ctx env =
     rbind (StepExecutionContext_checkpoint ctx (he_cancelled_before env) (he_now_before env)) (\<lambda>_.
       let remaining = total_seconds (cx_deadline_at ctx - he_now_start env) in
       case he_outcome env remaining of
         None \<Rightarrow> Err step_deadline_exceeded
       | Some (Err e) \<Rightarrow> Err e
       | Some (Ok r) \<Rightarrow>
           (case he_cancelled_after env of
              None \<Rightarrow> Err step_deadline_exceeded
            | Some cancelled \<Rightarrow>
                rbind (StepExecutionContext_checkpoint ctx cancelled (he_now_after env)) (\<lambda>_. Ok r)))"

definition Registry_register ::
  "(StepType, 'h) dict \<Rightarrow> StepType \<Rightarrow> 'h \<Rightarrow> (StepType, 'h) dict result" where
  "Registry_register handlers step_type handler =
     (if step_type \<in> set (dict_keys handlers)
      then Err (ValueError (''Handler already registered for '' @ step_type_value step_type))
      else Ok (AList.update step_type handler handlers))"

definition Registry_resolve :: "(StepType, 'h) dict \<Rightarrow> StepType \<Rightarrow> 'h result" where
  "Registry_resolve handlers step_type =
     (case map_of handlers step_type of
        Some h \<Rightarrow> Ok h
      | None \<Rightarrow> Err (LookupError (''No handler registered for '' @ step_type_value step_type)))"

record 'h FastStepOperations =
  fop_route :: 'h
  fop_plan :: 'h
  fop_discovery :: 'h
  fop_select :: 'h
  fop_fetch :: 'h
  fop_extract :: 'h
  fop_verify :: 'h
  fop_synthesize :: 'h

fun register_all ::
  "(StepType \<times> 'h) list \<Rightarrow> (StepType, 'h) dict \<Rightarrow> (StepType, 'h) dict result" where
  "register_all [] registry = Ok registry"
| "register_all ((ty, h) # rest) registry =
     rbind (Registry_register registry ty h) (register_all rest)"

definition build_fast_handler_registry :: "'h FastStepOperations \<Rightarrow> (StepType, 'h) dict result" where
  "build_fast_handler_registry ops =
     register_all
       [(ROUTE, fop_route ops), (PLAN, fop_plan ops), (DISCOVERY, fop_discovery ops),
        (SELECT, fop_select ops), (FETCH, fop_fetch ops), (EXTRACT, fop_extract ops),
        (VERIFY, fop_verify ops), (SYNTHESIZE, fop_synthesize ops)] []"

section \<open>executor.py: values\<close>

datatype ExecutionDisposition =
    Disp_CLAIMED | Disp_IGNORED | Disp_SUCCEEDED | Disp_RETRY_SCHEDULED | Disp_FAILED
  | Disp_CANCELLED | Disp_STALE

record ClaimedStep =
  cs_attempt :: StepAttempt
  cs_context :: StepExecutionContext

record ClaimResult =
  cr_claimed :: "ClaimedStep option"
  cr_disposition :: ExecutionDisposition

definition ClaimResult_new :: "ClaimedStep option \<Rightarrow> ExecutionDisposition \<Rightarrow> ClaimResult result" where
  "ClaimResult_new claimed disposition =
     (if (claimed = None) = (disposition = Disp_CLAIMED)
      then Err (ValueError ''Claim payload and disposition are inconsistent'')
      else Ok \<lparr>cr_claimed = claimed, cr_disposition = disposition\<rparr>)"

definition ClaimResult_acquired :: "ClaimedStep \<Rightarrow> ClaimResult result" where
  "ClaimResult_acquired claimed = ClaimResult_new (Some claimed) Disp_CLAIMED"

definition ClaimResult_skipped :: "ExecutionDisposition \<Rightarrow> ClaimResult result" where
  "ClaimResult_skipped disposition =
     (if disposition = Disp_CLAIMED then Err (ValueError ''Skipped claim cannot use CLAIMED'')
      else ClaimResult_new None disposition)"

section \<open>sql\_step\_execution.py\<close>

record store_config =
  cf_lease_seconds :: pyfloat
  cf_retry_base_seconds :: pyfloat
  cf_retry_max_seconds :: pyfloat
  cf_max_attempts :: int
  cf_fetch_max_attempts :: int
  cf_lease_extension_seconds :: pyfloat

definition SqlStepExecutionStore_new ::
  "pyfloat \<Rightarrow> pyfloat \<Rightarrow> pyfloat \<Rightarrow> int \<Rightarrow> int \<Rightarrow> pyfloat \<Rightarrow> store_config result" where
  "SqlStepExecutionStore_new lease_seconds retry_base_seconds retry_max_seconds max_attempts
       fetch_max_attempts lease_extension_seconds =
     (if retry_base_seconds \<le> 0 \<or> retry_max_seconds < retry_base_seconds
      then Err (ValueError ''Retry delays are invalid'')
      else if max_attempts < 1 \<or> \<not> (1 \<le> fetch_max_attempts \<and> fetch_max_attempts \<le> max_attempts)
      then Err (ValueError ''Retry attempt limits are invalid'')
      else if lease_extension_seconds \<le> 0
      then Err (ValueError ''Lease extension must be positive'')
      else Ok \<lparr>cf_lease_seconds = lease_seconds, cf_retry_base_seconds = retry_base_seconds,
               cf_retry_max_seconds = retry_max_seconds, cf_max_attempts = max_attempts,
               cf_fetch_max_attempts = fetch_max_attempts,
               cf_lease_extension_seconds = lease_extension_seconds\<rparr>)"

record 'x completion_hook =
  on_success :: "'x tables \<Rightarrow> SearchRun \<Rightarrow> SearchStep \<Rightarrow> StepExecutionResult \<Rightarrow> trace_context
    \<Rightarrow> (SearchRun \<times> SearchStep \<times> 'x tables) result"
  on_failure :: "'x tables \<Rightarrow> SearchRun \<Rightarrow> SearchStep \<Rightarrow> typed_error \<Rightarrow> ExecutionDisposition
    \<Rightarrow> trace_context \<Rightarrow> (SearchRun \<times> SearchStep \<times> 'x tables) result"

text \<open>The database access of the store: value conversions and the timestamp codec.\<close>

record db_env =
  de_conv :: py_conv
  de_iso :: iso_codec

definition attempt_limit :: "store_config \<Rightarrow> StepType \<Rightarrow> int" where
  "attempt_limit cfg step_type =
     (if step_type = FETCH then cf_fetch_max_attempts cfg else cf_max_attempts cfg)"

definition phase_for_step :: "StepType \<Rightarrow> BudgetPhase" where
  "phase_for_step ty =
     (if ty \<in> {ROUTE, PLAN} then Phase_ROUTE_PLAN
      else if ty \<in> {DISCOVERY, SELECT} then Phase_DISCOVERY
      else if ty \<in> {FETCH, EXTRACT} then Phase_FETCH_EXTRACT
      else if ty = VERIFY then Phase_VERIFY
      else Phase_SYNTHESIZE)"

definition transact :: "('x tables \<Rightarrow> ('a result \<times> 'x tables) result) \<Rightarrow> 'x tables \<Rightarrow> 'a result \<times> 'x tables" where
  "transact body d = (case body d of Ok (r, d') \<Rightarrow> (r, d') | Err e \<Rightarrow> (Err e, d))"

definition add_event ::
  "uuid \<Rightarrow> instant \<Rightarrow> uuid \<Rightarrow> SearchRun \<Rightarrow> string \<Rightarrow> (string, json) dict \<Rightarrow> 'x tables
     \<Rightarrow> (RunEventData \<times> 'x tables) result" where
  "add_event new_uuid now scope run event_type payload d =
     rbind (events_next_sequence scope (sr_tenant_id run) (sr_id run) d) (\<lambda>sequence.
     rbind (RunEventData_new new_uuid (sr_tenant_id run) (sr_id run) sequence event_type payload
              (Aware now)) (\<lambda>event.
     rbind (events_add scope event d) (\<lambda>d'. Ok (event, d'))))"

definition store_is_cancelled :: "db_env \<Rightarrow> uuid \<Rightarrow> uuid \<Rightarrow> 'x tables \<Rightarrow> bool result" where
  "store_is_cancelled env tenant_id run_id d =
     rbind (runs_get (de_conv env) (de_iso env) tenant_id tenant_id run_id d) (\<lambda>run.
       Ok (case run of None \<Rightarrow> True | Some r \<Rightarrow> SearchRun_is_terminal r))"

definition wake_run :: "SearchRun \<Rightarrow> instant \<Rightarrow> SearchRun result" where
  "wake_run run now =
     (if sr_status run = Run_QUEUED then SearchRun_start run (Aware now)
      else if sr_status run = Run_WAITING then SearchRun_resume run
      else Ok run)"

type_synonym claim_out = "ClaimResult \<times> RunEventData option"

definition skip_with ::
  "ExecutionDisposition \<Rightarrow> RunEventData option \<Rightarrow> 'x tables \<Rightarrow> (claim_out result \<times> 'x tables) result" where
  "skip_with disposition event d =
     Ok (rbind (ClaimResult_skipped disposition) (\<lambda>c. Ok (c, event)), d)"

definition phase_deadline_error :: "typed_error result" where
  "phase_deadline_error =
     typed_error_new BUDGET ''phase_deadline_exceeded''
       ''Step phase deadline was exhausted before admission'' (Some False) []"

definition claim_past_hard_deadline ::
  "db_env \<Rightarrow> (nat \<Rightarrow> uuid) \<Rightarrow> uuid \<Rightarrow> SearchStep \<Rightarrow> SearchRun \<Rightarrow> instant \<Rightarrow> instant \<Rightarrow> 'x tables
     \<Rightarrow> (claim_out result \<times> 'x tables) result" where
  "claim_past_hard_deadline env ids tenant_id step run now event_now d =
     rbind (SearchStep_start step) (\<lambda>s1.
     rbind (SearchStep_fail s1) (\<lambda>s2.
     rbind (SearchRun_fail run TIME_BUDGET (Aware now)) (\<lambda>r1.
     rbind (steps_save tenant_id s2 d) (\<lambda>(s3, d1).
     rbind (runs_save (de_iso env) tenant_id r1 d1) (\<lambda>(r2, d2).
     rbind (add_event (ids 0) event_now tenant_id r2 ''STEP_DEADLINE_EXCEEDED''
              [(''step_id'', JStr (uuid_str (ss_id s3))), (''step_key'', JStr (ss_step_key s3))] d2)
       (\<lambda>(event, d3). skip_with Disp_FAILED (Some event) d3))))))"

definition claim_past_phase_deadline ::
  "db_env \<Rightarrow> 'x completion_hook \<Rightarrow> (nat \<Rightarrow> uuid) \<Rightarrow> uuid \<Rightarrow> trace_context \<Rightarrow> SearchStep \<Rightarrow> SearchRun
     \<Rightarrow> instant \<Rightarrow> instant \<Rightarrow> 'x tables \<Rightarrow> (claim_out result \<times> 'x tables) result" where
  "claim_past_phase_deadline env hook ids tenant_id trace step run now event_now d =
     rbind (wake_run run now) (\<lambda>r1.
     rbind (SearchStep_start step) (\<lambda>s1.
     rbind (SearchStep_fail s1) (\<lambda>s2.
     rbind phase_deadline_error (\<lambda>error.
     rbind (on_failure hook d r1 s2 error Disp_FAILED trace) (\<lambda>(r2, s3, d1).
     rbind (steps_save tenant_id s3 d1) (\<lambda>(s4, d2).
     rbind (runs_save (de_iso env) tenant_id r2 d2) (\<lambda>(r3, d3).
     rbind (add_event (ids 0) event_now tenant_id r3 ''STEP_PHASE_DEADLINE_EXCEEDED''
              [(''step_id'', JStr (uuid_str (ss_id s4))), (''step_key'', JStr (ss_step_key s4)),
               (''phase'', JStr (phase_value (phase_for_step (ss_step_type s4))))] d3)
       (\<lambda>(event, d4). skip_with Disp_FAILED (Some event) d4))))))))"

definition claim_lease ::
  "db_env \<Rightarrow> store_config \<Rightarrow> (nat \<Rightarrow> uuid) \<Rightarrow> uuid \<Rightarrow> string \<Rightarrow> trace_context \<Rightarrow> SearchStep
     \<Rightarrow> SearchRun \<Rightarrow> instant \<Rightarrow> instant \<Rightarrow> instant \<Rightarrow> 'x tables \<Rightarrow> (claim_out result \<times> 'x tables) result" where
  "claim_lease env cfg ids tenant_id worker_id trace step run deadline now event_now d =
     rbind (wake_run run now) (\<lambda>r1.
     rbind (attempts_next_no tenant_id tenant_id (ss_id step) d) (\<lambda>attempt_no.
     rbind (LeaseService_claim (cf_lease_seconds cfg) (ids 0) step attempt_no worker_id now deadline)
       (\<lambda>(s1, attempt).
     rbind (attempts_add tenant_id attempt d) (\<lambda>d1.
     rbind (steps_save tenant_id s1 d1) (\<lambda>(s2, d2).
     rbind (runs_save (de_iso env) tenant_id r1 d2) (\<lambda>(r2, d3).
     rbind (add_event (ids 1) event_now tenant_id r2 ''STEP_STARTED''
              [(''step_id'', JStr (uuid_str (ss_id s2))), (''step_key'', JStr (ss_step_key s2)),
               (''step_type'', JStr (step_type_value (ss_step_type s2))),
               (''attempt_no'', JInt (sa_attempt_no attempt))] d3)
       (\<lambda>(event, d4).
         Ok (rbind (StepExecutionContext_new tenant_id (ss_run_id s2) (ss_id s2) (ss_step_key s2)
                      (ss_step_type s2) (sa_id attempt) (sa_attempt_no attempt) trace
                      (Aware deadline) (ss_input_ref s2)) (\<lambda>ctx.
             rbind (ClaimResult_acquired \<lparr>cs_attempt = attempt, cs_context = ctx\<rparr>) (\<lambda>c.
               Ok (c, Some event))), d4))))))))"

definition store_claim ::
  "db_env \<Rightarrow> store_config \<Rightarrow> 'x completion_hook \<Rightarrow> (nat \<Rightarrow> uuid) \<Rightarrow> uuid \<Rightarrow> uuid \<Rightarrow> string
     \<Rightarrow> trace_context \<Rightarrow> instant \<Rightarrow> instant \<Rightarrow> 'x tables \<Rightarrow> claim_out result \<times> 'x tables" where
  "store_claim env cfg hook ids tenant_id step_id worker_id trace now event_now =
     transact (\<lambda>d.
       rbind (steps_get (de_conv env) tenant_id tenant_id step_id d) (\<lambda>found.
         case found of
           None \<Rightarrow> skip_with Disp_IGNORED None d
         | Some step \<Rightarrow>
             if ss_status step \<noteq> Step_READY then skip_with Disp_IGNORED None d
             else
               rbind (runs_get (de_conv env) (de_iso env) tenant_id tenant_id (ss_run_id step) d)
                 (\<lambda>run_found.
                   case run_found of
                     None \<Rightarrow> skip_with Disp_STALE None d
                   | Some run \<Rightarrow>
                       if SearchRun_is_terminal run
                       then rbind (SearchStep_cancel step) (\<lambda>s1.
                            rbind (steps_save tenant_id s1 d) (\<lambda>(s2, d1).
                              skip_with Disp_CANCELLED None d1))
                       else if bs_hard_deadline_at (sr_budget run) \<le> now
                       then claim_past_hard_deadline env ids tenant_id step run now event_now d
                       else
                         let deadline = BudgetGuard_deadline_for (sr_budget run)
                               (phase_for_step (ss_step_type step)) in
                         if deadline \<le> now
                         then claim_past_phase_deadline env hook ids tenant_id trace step run now
                                event_now d
                         else claim_lease env cfg ids tenant_id worker_id trace step run deadline
                                now event_now d)))"

definition is_current_attempt :: "ClaimedStep \<Rightarrow> 'x tables \<Rightarrow> bool" where
  "is_current_attempt claimed d =
     (case find (\<lambda>row. at_tenant_id row = cx_tenant_id (cs_context claimed)
                       \<and> at_id row = sa_id (cs_attempt claimed)) (tbl_attempts d) of
        None \<Rightarrow> False
      | Some row \<Rightarrow>
          at_completed_at row = None
          \<and> latest_attempt_no (cx_tenant_id (cs_context claimed)) (cx_step_id (cs_context claimed)) d
              = sa_attempt_no (cs_attempt claimed)
          \<and> at_lease_owner row = sa_lease_owner (cs_attempt claimed))"

type_synonym finish_out = "ExecutionDisposition \<times> RunEventData option"

text \<open>The guard that opens \<^verbatim>\<open>succeed\<close> and \<^verbatim>\<open>fail\<close>: the step and run, unless the worker is stale.\<close>

definition load_current ::
  "db_env \<Rightarrow> ClaimedStep \<Rightarrow> 'x tables \<Rightarrow> (SearchStep \<times> SearchRun) option result" where
  "load_current env claimed d =
     (let tenant_id = cx_tenant_id (cs_context claimed) in
      rbind (steps_get (de_conv env) tenant_id tenant_id (cx_step_id (cs_context claimed)) d) (\<lambda>found.
        case found of
          None \<Rightarrow> Ok None
        | Some step \<Rightarrow>
            if ss_status step \<noteq> Step_RUNNING \<or> \<not> is_current_attempt claimed d then Ok None
            else rbind (runs_get (de_conv env) (de_iso env) tenant_id tenant_id
                          (cx_run_id (cs_context claimed)) d) (\<lambda>run.
                   Ok (map_option (\<lambda>r. (step, r)) run))))"

definition run_terminal_error :: "typed_error result" where
  "run_terminal_error =
     typed_error_new CANCELLED ''run_terminal''
       ''Run became terminal while the Step was executing'' (Some False) []"

definition store_succeed ::
  "db_env \<Rightarrow> 'x completion_hook \<Rightarrow> (nat \<Rightarrow> uuid) \<Rightarrow> ClaimedStep \<Rightarrow> StepExecutionResult \<Rightarrow> trace_context
     \<Rightarrow> instant \<Rightarrow> instant \<Rightarrow> 'x tables \<Rightarrow> finish_out result \<times> 'x tables" where
  "store_succeed env hook ids claimed res trace now event_now =
     transact (\<lambda>d.
       let tenant_id = cx_tenant_id (cs_context claimed); attempt = cs_attempt claimed in
       rbind (load_current env claimed d) (\<lambda>found.
         case found of
           None \<Rightarrow> Ok (Ok (Disp_STALE, None), d)
         | Some (step, run) \<Rightarrow>
             if SearchRun_is_terminal run
             then
               rbind run_terminal_error (\<lambda>cancellation.
               rbind (StepAttempt_fail attempt cancellation (Aware now)) (\<lambda>a1.
               rbind (SearchStep_cancel step) (\<lambda>s1.
               rbind (attempts_complete tenant_id a1 d) (\<lambda>d1.
               rbind (steps_save tenant_id s1 d1) (\<lambda>(s2, d2).
               rbind (add_event (ids 0) event_now tenant_id run ''STEP_CANCELLED''
                        [(''step_id'', JStr (uuid_str (ss_id s2)))] d2) (\<lambda>(event, d3).
                 Ok (Ok (Disp_CANCELLED, Some event), d3)))))))
             else
               rbind (StepAttempt_succeed attempt (ex_output_ref res) (Aware now)) (\<lambda>a1.
               rbind (SearchStep_succeed step (ex_output_ref res)) (\<lambda>s1.
               rbind (StepBudgetCost_apply (ex_actual_cost res) (sr_usage run)
                        (Some (max 0 (total_seconds (now - sa_started_at a1))))) (\<lambda>usage.
               rbind (SearchRun_record_usage run usage) (\<lambda>r1.
               rbind (on_success hook d r1 s1 res trace) (\<lambda>(r2, s2, d1).
               rbind (attempts_complete tenant_id a1 d1) (\<lambda>d2.
               rbind (steps_save tenant_id s2 d2) (\<lambda>(s3, d3).
               rbind (runs_save (de_iso env) tenant_id r2 d3) (\<lambda>(r3, d4).
               rbind (add_event (ids 0) event_now tenant_id r3 ''STEP_SUCCEEDED''
                        [(''step_id'', JStr (uuid_str (ss_id s3))),
                         (''step_key'', JStr (ss_step_key s3)),
                         (''attempt_no'', JInt (sa_attempt_no attempt))] d4) (\<lambda>(event, d5).
                 Ok (Ok (Disp_SUCCEEDED, Some event), d5))))))))))))"

definition store_renew ::
  "db_env \<Rightarrow> store_config \<Rightarrow> instant \<Rightarrow> ClaimedStep \<times> 'x tables \<Rightarrow> bool result \<times> ClaimedStep \<times> 'x tables" where
  "store_renew env cfg now st =
     (case st of (claimed, d) \<Rightarrow>
        let tenant_id = cx_tenant_id (cs_context claimed);
            deadline = cx_deadline_at (cs_context claimed) in
        case steps_get (de_conv env) tenant_id tenant_id (cx_step_id (cs_context claimed)) d of
          Err e \<Rightarrow> (Err e, claimed, d)
        | Ok None \<Rightarrow> (Ok False, claimed, d)
        | Ok (Some step) \<Rightarrow>
            if ss_status step \<noteq> Step_RUNNING \<or> \<not> is_current_attempt claimed d \<or> deadline \<le> now
            then (Ok False, claimed, d)
            else
              let renewed_until = min deadline (now + td_us (cf_lease_extension_seconds cfg)) in
              if renewed_until \<le> sa_leased_until (cs_attempt claimed) then (Ok True, claimed, d)
              else
                case StepAttempt_renew_lease (cs_attempt claimed) (Aware renewed_until) of
                  Err e \<Rightarrow> (Err e, claimed, d)
                | Ok a1 \<Rightarrow>
                    let claimed1 = claimed\<lparr>cs_attempt := a1\<rparr> in
                    (case attempts_renew tenant_id a1 d of
                       Err e \<Rightarrow> (Err e, claimed1, d)
                     | Ok d1 \<Rightarrow> (Ok True, claimed1, d1)))"

definition retry_delay :: "store_config \<Rightarrow> int \<Rightarrow> pyfloat" where
  "retry_delay cfg attempt_no =
     min (cf_retry_max_seconds cfg)
       (fmul (cf_retry_base_seconds cfg) (fl (2 ^ nat (attempt_no - 1))))"

definition fail_step ::
  "store_config \<Rightarrow> SearchRun \<Rightarrow> SearchStep \<Rightarrow> typed_error \<Rightarrow> int \<Rightarrow> instant
     \<Rightarrow> (SearchStep \<times> ExecutionDisposition \<times> string) result" where
  "fail_step cfg run step error attempt_no now =
     (if SearchRun_is_terminal run \<or> te_category error = CANCELLED
      then rbind (SearchStep_cancel step) (\<lambda>s1. Ok (s1, Disp_CANCELLED, ''STEP_CANCELLED''))
      else
        let retry_at = now + td_us (retry_delay cfg attempt_no) in
        if te_retryable error \<and> attempt_no < attempt_limit cfg (ss_step_type step)
           \<and> retry_at < bs_hard_deadline_at (sr_budget run)
        then rbind (SearchStep_retry_later step (Aware retry_at)) (\<lambda>s1.
               Ok (s1, Disp_RETRY_SCHEDULED, ''STEP_RETRY_SCHEDULED''))
        else rbind (SearchStep_fail step) (\<lambda>s1. Ok (s1, Disp_FAILED, ''STEP_FAILED'')))"

definition store_fail ::
  "db_env \<Rightarrow> store_config \<Rightarrow> 'x completion_hook \<Rightarrow> (nat \<Rightarrow> uuid) \<Rightarrow> ClaimedStep \<Rightarrow> typed_error
     \<Rightarrow> trace_context \<Rightarrow> instant \<Rightarrow> instant \<Rightarrow> 'x tables \<Rightarrow> finish_out result \<times> 'x tables" where
  "store_fail env cfg hook ids claimed error trace now event_now =
     transact (\<lambda>d.
       let tenant_id = cx_tenant_id (cs_context claimed); attempt = cs_attempt claimed in
       rbind (load_current env claimed d) (\<lambda>found.
         case found of
           None \<Rightarrow> Ok (Ok (Disp_STALE, None), d)
         | Some (step, run) \<Rightarrow>
             rbind (StepAttempt_fail attempt error (Aware now)) (\<lambda>a1.
             rbind (fail_step cfg run step error (sa_attempt_no attempt) now)
               (\<lambda>(s1, disposition, event_type).
             rbind (on_failure hook d run s1 error disposition trace) (\<lambda>(r2, s2, d1).
             rbind (attempts_complete tenant_id a1 d1) (\<lambda>d2.
             rbind (steps_save tenant_id s2 d2) (\<lambda>(s3, d3).
             rbind (runs_save (de_iso env) tenant_id r2 d3) (\<lambda>(r3, d4).
             rbind (add_event (ids 0) event_now tenant_id r3 event_type
                      [(''step_id'', JStr (uuid_str (ss_id s3))),
                       (''step_key'', JStr (ss_step_key s3)),
                       (''attempt_no'', JInt (sa_attempt_no attempt)),
                       (''error_category'', JStr (error_category_value (te_category error))),
                       (''error_code'', JStr (te_code error))] d4) (\<lambda>(event, d5).
               Ok (Ok (disposition, Some event), d5))))))))))"

section \<open>executor.py: running one step\<close>

definition lease_lost :: exn where
  "lease_lost =
     raise_typed CANCELLED ''step_lease_lost''
       ''Step lease was lost while the operation was executing'' (Some False) []"

text \<open>The heartbeat: one \<^verbatim>\<open>renew\<close> per tick; \<open>None\<close> while it is still running.\<close>

fun heartbeat ::
  "('s \<Rightarrow> bool result \<times> 's) list \<Rightarrow> 's \<Rightarrow> exn option \<times> 's" where
  "heartbeat [] st = (None, st)"
| "heartbeat (renew # renews) st =
     (case renew st of
        (Ok True, st') \<Rightarrow> heartbeat renews st'
      | (Ok False, st') \<Rightarrow> (Some lease_lost, st')
      | (Err e, st') \<Rightarrow> (Some e, st'))"

text \<open>
  How the race between the operation and the heartbeat went: the ticks that happened, how
  the operation task ended (\<open>None\<close> when it was cancelled), and whether it was among the
  tasks that were done when \<^verbatim>\<open>asyncio.wait\<close> returned.
\<close>

record exec_env =
  ee_ticks :: "instant list"
  ee_outcome :: "StepExecutionResult result option"
  ee_operation_done :: bool

definition race :: "exec_env \<Rightarrow> exn option \<Rightarrow> StepExecutionResult result" where
  "race ev hb =
     (case hb of
        None \<Rightarrow> (case ee_outcome ev of Some r \<Rightarrow> r | None \<Rightarrow> Err (RuntimeError ''CancelledError''))
      | Some e \<Rightarrow>
          if ee_operation_done ev then Err e
          else (case ee_outcome ev of Some (Err x) \<Rightarrow> Err x | _ \<Rightarrow> Err e))"

definition execute_operation ::
  "db_env \<Rightarrow> store_config \<Rightarrow> (StepType, 'h) dict \<Rightarrow> exec_env \<Rightarrow> ClaimedStep \<times> 'x tables
     \<Rightarrow> StepExecutionResult result \<times> ClaimedStep \<times> 'x tables" where
  "execute_operation env cfg handlers ev st =
     (case Registry_resolve handlers (cx_step_type (cs_context (fst st))) of
        Err e \<Rightarrow> (Err e, st)
      | Ok _ \<Rightarrow>
          (case heartbeat (map (store_renew env cfg) (ee_ticks ev)) st of
             (hb, st') \<Rightarrow> (race ev hb, st')))"

definition error_for :: "exn \<Rightarrow> typed_error result" where
  "error_for e =
     (case e of
        TypedError t \<Rightarrow> Ok t
      | LookupError _ \<Rightarrow> typed_error_new PERMANENT ''step_handler_missing''
          ''No operation is configured for the claimed Step type'' (Some False) []
      | KeyError _ \<Rightarrow> typed_error_new PERMANENT ''step_handler_missing''
          ''No operation is configured for the claimed Step type'' (Some False) []
      | _ \<Rightarrow> typed_error_new INTERNAL ''step_operation_failed''
          ''Step operation failed unexpectedly'' (Some False) [])"

text \<open>
  \<^verbatim>\<open>DurableStepExecutor.__call__\<close>. Other workers may commit between the claim, the
  heartbeat and the finalization: \<open>others\<close> and \<open>others2\<close> are what they do to the database.
\<close>

definition executor_call ::
  "db_env \<Rightarrow> store_config \<Rightarrow> 'x completion_hook \<Rightarrow> (StepType, 'h) dict \<Rightarrow> (nat \<Rightarrow> uuid) \<Rightarrow> (nat \<Rightarrow> uuid)
     \<Rightarrow> string \<Rightarrow> uuid \<Rightarrow> uuid \<Rightarrow> trace_context \<Rightarrow> (nat \<Rightarrow> instant) \<Rightarrow> exec_env \<Rightarrow> ('x tables \<Rightarrow> 'x tables)
     \<Rightarrow> ('x tables \<Rightarrow> 'x tables) \<Rightarrow> 'x tables \<Rightarrow> ExecutionDisposition result \<times> 'x tables" where
  "executor_call env cfg hook handlers ids ids2 worker_id tenant_id step_id trace clock ev
       others others2 d =
     (case store_claim env cfg hook ids tenant_id step_id worker_id trace (clock 0) (clock 1) d of
        (Err e, d1) \<Rightarrow> (Err e, d1)
      | (Ok (claim, _), d1) \<Rightarrow>
          (case cr_claimed claim of
             None \<Rightarrow> (Ok (cr_disposition claim), d1)
           | Some claimed \<Rightarrow>
               (case execute_operation env cfg handlers ev (claimed, others d1) of
                  (res, claimed2, d2) \<Rightarrow>
                    (case (case res of
                             Ok r \<Rightarrow> store_succeed env hook ids2 claimed2 r trace (clock 2) (clock 3)
                                       (others2 d2)
                           | Err e \<Rightarrow>
                               (case error_for e of
                                  Err x \<Rightarrow> (Err x, others2 d2)
                                | Ok t \<Rightarrow> store_fail env cfg hook ids2 claimed2 t trace (clock 2)
                                            (clock 3) (others2 d2))) of
                       (Ok (disposition, _), d3) \<Rightarrow> (Ok disposition, d3)
                     | (Err e, d3) \<Rightarrow> (Err e, d3)))))"

end
