(* ===== verification/Step_Execution_Proofs.thy ===== *)
theory Step_Execution_Proofs
  imports Step_Execution
begin

text \<open>
  The database invariant of the step tables, that loads and saves keep it, and what a claim
  and a finalization do: a claim leases a READY step exactly once and records one new
  attempt, and a worker whose attempt is no longer the current one changes nothing.
\<close>

section \<open>Database invariant\<close>

definition attempt_row_ok :: "StepAttemptRecord \<Rightarrow> bool" where
  "attempt_row_ok row \<longleftrightarrow>
     (\<exists>a. row = attempt_row a \<and> attempt_inv a \<and> sa_leased_until a \<le> sa_deadline_at a
        \<and> sa_idempotency_key a = uuid_str (sa_step_id a) @ '':'' @ int_str (sa_attempt_no a))"

definition db_inv :: "iso_codec \<Rightarrow> 'x tables \<Rightarrow> bool" where
  "db_inv c d \<longleftrightarrow>
     distinct (map rr_id (tbl_runs d)) \<and> distinct (map sp_id (tbl_steps d))
     \<and> distinct (map at_id (tbl_attempts d)) \<and> distinct (map at_idempotency_key (tbl_attempts d))
     \<and> (\<forall>row \<in> set (tbl_runs d). \<exists>r. row = run_row c r \<and> run_inv r)
     \<and> (\<forall>row \<in> set (tbl_steps d). \<exists>s. row = step_row s \<and> step_inv s \<and> step_refs_wf s)
     \<and> (\<forall>row \<in> set (tbl_attempts d). attempt_row_ok row)"

lemma run_row_mark [simp]: "run_row c (SearchRun_mark_persisted r) = run_row c r"
  by (simp add: run_row_def SearchRun_mark_persisted_def sr_mode_def)

lemma step_row_mark [simp]: "step_row (SearchStep_mark_persisted s) = step_row s"
  by (simp add: step_row_def SearchStep_mark_persisted_def)

lemma mark_inv [simp]:
  "run_inv (SearchRun_mark_persisted r) = run_inv r"
  "step_inv (SearchStep_mark_persisted s) = step_inv s"
  "step_refs_wf (SearchStep_mark_persisted s) = step_refs_wf s"
  by (simp_all add: run_inv_def step_inv_def step_refs_wf_def SearchRun_mark_persisted_def
      SearchStep_mark_persisted_def)

lemma find_SomeD: "find P xs = Some x \<Longrightarrow> x \<in> set xs \<and> P x"
  by (induction xs) (auto split: if_splits)

lemma steps_get_inv:
  assumes "db_inv c d" and "steps_get conv scope tn sid d = Ok (Some s)"
  shows "step_row s \<in> set (tbl_steps d)" "step_inv s" "step_refs_wf s"
    "ss_persisted_version s = ss_version s" "ss_id s = sid" "ss_tenant_id s = tn" "scope = tn"
proof -
  let ?P = "\<lambda>row. sp_tenant_id row = tn \<and> sp_id row = sid"
  from assms(2) have scope: "scope = tn" by (auto simp: steps_get_def assert_tenant_def split: if_splits)
  obtain row where found: "find ?P (tbl_steps d) = Some row" and load: "step_from_record conv row = Ok s"
    using assms(2)
    by (cases "find ?P (tbl_steps d)") (simp_all add: steps_get_def assert_tenant_def split: if_splits)
  note row = find_SomeD [OF found, THEN conjunct1]
    find_SomeD [OF found, THEN conjunct2, THEN conjunct1]
    find_SomeD [OF found, THEN conjunct2, THEN conjunct2]
  from assms(1) row(1) obtain s0 where s0: "row = step_row s0" "step_inv s0" "step_refs_wf s0"
    unfolding db_inv_def by blast
  with load have s: "s = SearchStep_mark_persisted s0" using step_row_roundtrip [of s0 conv] by simp
  with s0 row scope show "step_row s \<in> set (tbl_steps d)" "step_inv s" "step_refs_wf s"
    "ss_persisted_version s = ss_version s" "ss_id s = sid" "ss_tenant_id s = tn" "scope = tn"
    by (simp_all) (simp_all add: SearchStep_mark_persisted_def step_row_def)
qed

lemma runs_get_inv:
  assumes "db_inv c d" "iso_roundtrip c" and "runs_get conv c scope tn rid d = Ok (Some r)"
  shows "run_row c r \<in> set (tbl_runs d)" "run_inv r" "sr_persisted_version r = sr_version r"
    "sr_id r = rid" "sr_tenant_id r = tn" "scope = tn"
proof -
  let ?P = "\<lambda>row. rr_tenant_id row = tn \<and> rr_id row = rid"
  from assms(3) have scope: "scope = tn" by (auto simp: runs_get_def assert_tenant_def split: if_splits)
  obtain row where found: "find ?P (tbl_runs d) = Some row" and load: "run_from_record conv c row = Ok r"
    using assms(3)
    by (cases "find ?P (tbl_runs d)") (simp_all add: runs_get_def assert_tenant_def split: if_splits)
  note row = find_SomeD [OF found, THEN conjunct1]
    find_SomeD [OF found, THEN conjunct2, THEN conjunct1]
    find_SomeD [OF found, THEN conjunct2, THEN conjunct2]
  from assms(1) row(1) obtain r0 where r0: "row = run_row c r0" "run_inv r0"
    unfolding db_inv_def by blast
  with load have r: "r = SearchRun_mark_persisted r0"
    using run_row_roundtrip [OF assms(2), of r0 conv] by simp
  with r0 row scope show "run_row c r \<in> set (tbl_runs d)" "run_inv r"
    "sr_persisted_version r = sr_version r" "sr_id r = rid" "sr_tenant_id r = tn" "scope = tn"
    by (simp_all) (simp_all add: SearchRun_mark_persisted_def run_row_def)
qed

lemma find_by_id:
  assumes "distinct (map f xs)" "x \<in> set xs" "P x" "\<And>y. P y \<Longrightarrow> f y = f x"
  shows "find P xs = Some x"
proof -
  have "find P xs \<noteq> None" using assms(2,3) by (auto simp: find_None_iff)
  then obtain y where y: "find P xs = Some y" by auto
  then have "y \<in> set xs" "P y" by (auto dest: find_SomeD)
  with assms have "y = x" by (metis distinct_map inj_onD)
  with y show ?thesis by simp
qed

lemma steps_get_row:
  assumes "db_inv c d" "step_row s \<in> set (tbl_steps d)" "step_inv s" "step_refs_wf s"
  shows "steps_get conv (ss_tenant_id s) (ss_tenant_id s) (ss_id s) d
    = Ok (Some (SearchStep_mark_persisted s))"
proof -
  have "find (\<lambda>row. sp_tenant_id row = ss_tenant_id s \<and> sp_id row = ss_id s) (tbl_steps d)
      = Some (step_row s)"
    using assms(1,2) by (intro find_by_id [where f = sp_id]) (auto simp: db_inv_def step_row_def)
  then show ?thesis
    using step_row_roundtrip [OF assms(3,4)] by (simp add: steps_get_def assert_tenant_def)
qed

section \<open>Saving a changed aggregate\<close>

definition step_lineage :: "SearchStep \<Rightarrow> SearchStep \<Rightarrow> bool" where
  "step_lineage s s' \<longleftrightarrow>
     ss_id s' = ss_id s \<and> ss_tenant_id s' = ss_tenant_id s \<and> ss_run_id s' = ss_run_id s
     \<and> ss_step_key s' = ss_step_key s \<and> ss_step_type s' = ss_step_type s
     \<and> ss_plan_revision s' = ss_plan_revision s \<and> ss_input_ref s' = ss_input_ref s
     \<and> ss_persisted_version s' = ss_persisted_version s"

definition run_lineage :: "SearchRun \<Rightarrow> SearchRun \<Rightarrow> bool" where
  "run_lineage r r' \<longleftrightarrow>
     sr_id r' = sr_id r \<and> sr_tenant_id r' = sr_tenant_id r
     \<and> sr_conversation_id r' = sr_conversation_id r \<and> sr_message_id r' = sr_message_id r
     \<and> sr_response_run_id r' = sr_response_run_id r
     \<and> bs_created_at (sr_budget r') = bs_created_at (sr_budget r)
     \<and> sr_persisted_version r' = sr_persisted_version r"

lemma search_step_step_lineage: "search_step_step s s' \<Longrightarrow> step_lineage s s'"
  by (erule search_step_step.cases) (auto simp: step_op_defs step_lineage_def split: if_splits)

lemma search_step_steps_lineage: "search_step_step\<^sup>*\<^sup>* s s' \<Longrightarrow> step_lineage s s'"
  by (induction rule: rtranclp_induct)
    (auto simp: step_lineage_def dest!: search_step_step_lineage)

lemma run_step_lineage: "run_step r r' \<Longrightarrow> run_lineage r r'"
  by (erule run_step.cases) (auto simp: run_ops_Ok run_lineage_def)

lemma run_steps_lineage: "run_step\<^sup>*\<^sup>* r r' \<Longrightarrow> run_lineage r r'"
  by (induction rule: rtranclp_induct) (auto simp: run_lineage_def dest!: run_step_lineage)

text \<open>Replacing the one row with a given key.\<close>

lemma filter_eq_single: "distinct xs \<Longrightarrow> x \<in> set xs \<Longrightarrow> filter (\<lambda>y. y = x) xs = [x]"
  by (induction xs) (auto simp: filter_empty_conv)

lemma replace_row:
  assumes d: "distinct (map f xs)" and x: "x \<in> set xs" "P x" and key: "\<And>y. P y \<Longrightarrow> f y = f x"
    and u: "f (u x) = f x"
  shows "length (filter P xs) = 1"
    and "map f (map (\<lambda>y. if P y then u y else y) xs) = map f xs"
    and "set (map (\<lambda>y. if P y then u y else y) xs) = insert (u x) (set xs - {x})"
proof -
  have only: "y = x" if "y \<in> set xs" "P y" for y
    using d x that key by (metis distinct_map inj_onD)
  have iff: "P y \<longleftrightarrow> y = x" if "y \<in> set xs" for y using only x that by blast
  have "filter P xs = filter (\<lambda>y. y = x) xs" by (rule filter_cong [OF refl iff])
  moreover have "filter (\<lambda>y. y = x) xs = [x]"
    using d x(1) by (intro filter_eq_single) (simp_all add: distinct_map)
  ultimately show "length (filter P xs) = 1" by simp
  show "map f (map (\<lambda>y. if P y then u y else y) xs) = map f xs"
    using iff u by simp
  show "set (map (\<lambda>y. if P y then u y else y) xs) = insert (u x) (set xs - {x})"
    unfolding set_map using iff x by force
qed

lemma step_row_update_lineage:
  "step_lineage s0 s \<Longrightarrow> step_row_update s (step_row s0) = step_row s"
  by (simp add: step_lineage_def step_row_update_def step_row_def)

lemma run_row_update_lineage:
  "run_lineage r0 r \<Longrightarrow> run_row_update c r (run_row c r0) = run_row c r"
  by (simp add: run_lineage_def run_row_update_def run_row_def)

lemma db_inv_steps:
  "db_inv c d \<Longrightarrow> map sp_id rows = map sp_id (tbl_steps d)
     \<Longrightarrow> \<forall>row \<in> set rows. \<exists>s. row = step_row s \<and> step_inv s \<and> step_refs_wf s
     \<Longrightarrow> db_inv c (d\<lparr>tbl_steps := rows\<rparr>)"
  by (simp add: db_inv_def)

lemma db_inv_runs:
  "db_inv c d \<Longrightarrow> map rr_id rows = map rr_id (tbl_runs d)
     \<Longrightarrow> \<forall>row \<in> set rows. \<exists>r. row = run_row c r \<and> run_inv r
     \<Longrightarrow> db_inv c (d\<lparr>tbl_runs := rows\<rparr>)"
  by (simp add: db_inv_def)

lemma steps_save_inv:
  assumes inv: "db_inv c d" and row: "step_row s0 \<in> set (tbl_steps d)"
    and pv: "ss_persisted_version s0 = ss_version s0" and lin: "step_lineage s0 s"
    and s: "step_inv s" "step_refs_wf s" and scope: "scope = ss_tenant_id s"
  shows "\<exists>d'. steps_save scope s d = Ok (SearchStep_mark_persisted s, d') \<and> db_inv c d'
     \<and> set (tbl_steps d') = insert (step_row s) (set (tbl_steps d) - {step_row s0})
     \<and> tbl_runs d' = tbl_runs d \<and> tbl_attempts d' = tbl_attempts d \<and> tbl_events d' = tbl_events d
     \<and> tbl_outbox d' = tbl_outbox d"
proof -
  let ?P = "\<lambda>row. sp_tenant_id row = ss_tenant_id s \<and> sp_id row = ss_id s
    \<and> sp_version_no row = ss_persisted_version s"
  let ?rows = "map (\<lambda>row. if ?P row then step_row_update s row else row) (tbl_steps d)"
  have P: "?P (step_row s0)" using lin pv by (simp add: step_row_def step_lineage_def)
  have key: "sp_id y = sp_id (step_row s0)" if "?P y" for y
    using that lin by (simp add: step_row_def step_lineage_def)
  have u: "sp_id (step_row_update s (step_row s0)) = sp_id (step_row s0)"
    by (simp add: step_row_update_def)
  have dist: "distinct (map sp_id (tbl_steps d))" using inv by (simp add: db_inv_def)
  note rep = replace_row [where f = sp_id and P = ?P and u = "step_row_update s", OF dist row P key u]
  have rows: "set ?rows = insert (step_row s) (set (tbl_steps d) - {step_row s0})"
    using rep(3) step_row_update_lineage [OF lin] by simp
  have save: "steps_save scope s d = Ok (SearchStep_mark_persisted s, d\<lparr>tbl_steps := ?rows\<rparr>)"
    using rep(1) scope by (simp add: steps_save_def assert_tenant_def Let_def)
  have "\<forall>row \<in> set ?rows. \<exists>s. row = step_row s \<and> step_inv s \<and> step_refs_wf s"
    unfolding rows using inv s by (auto simp: db_inv_def)
  then have "db_inv c (d\<lparr>tbl_steps := ?rows\<rparr>)" using rep(2) by (intro db_inv_steps [OF inv]) (simp_all only:)
  with save rows show ?thesis by (intro exI [of _ "d\<lparr>tbl_steps := ?rows\<rparr>"]) simp
qed

lemma runs_save_inv:
  assumes inv: "db_inv c d" and row: "run_row c r0 \<in> set (tbl_runs d)"
    and pv: "sr_persisted_version r0 = sr_version r0" and lin: "run_lineage r0 r"
    and r: "run_inv r" and scope: "scope = sr_tenant_id r"
  shows "\<exists>d'. runs_save c scope r d = Ok (SearchRun_mark_persisted r, d') \<and> db_inv c d'
     \<and> set (tbl_runs d') = insert (run_row c r) (set (tbl_runs d) - {run_row c r0})
     \<and> tbl_steps d' = tbl_steps d \<and> tbl_attempts d' = tbl_attempts d \<and> tbl_events d' = tbl_events d
     \<and> tbl_outbox d' = tbl_outbox d"
proof -
  let ?P = "\<lambda>row. rr_tenant_id row = sr_tenant_id r \<and> rr_id row = sr_id r
    \<and> rr_version row = sr_persisted_version r"
  let ?rows = "map (\<lambda>row. if ?P row then run_row_update c r row else row) (tbl_runs d)"
  have P: "?P (run_row c r0)" using lin pv by (simp add: run_row_def run_lineage_def)
  have key: "rr_id y = rr_id (run_row c r0)" if "?P y" for y
    using that lin by (simp add: run_row_def run_lineage_def)
  have u: "rr_id (run_row_update c r (run_row c r0)) = rr_id (run_row c r0)"
    by (simp add: run_row_update_def)
  have dist: "distinct (map rr_id (tbl_runs d))" using inv by (simp add: db_inv_def)
  note rep = replace_row [where f = rr_id and P = ?P and u = "run_row_update c r", OF dist row P key u]
  have rows: "set ?rows = insert (run_row c r) (set (tbl_runs d) - {run_row c r0})"
    using rep(3) run_row_update_lineage [OF lin] by simp
  have save: "runs_save c scope r d = Ok (SearchRun_mark_persisted r, d\<lparr>tbl_runs := ?rows\<rparr>)"
    using rep(1) scope by (simp add: runs_save_def assert_tenant_def Let_def)
  have "\<forall>row \<in> set ?rows. \<exists>r. row = run_row c r \<and> run_inv r"
    unfolding rows using inv r by (auto simp: db_inv_def)
  then have "db_inv c (d\<lparr>tbl_runs := ?rows\<rparr>)" using rep(2) by (intro db_inv_runs [OF inv]) (simp_all only:)
  with save rows show ?thesis by (intro exI [of _ "d\<lparr>tbl_runs := ?rows\<rparr>"]) simp
qed

section \<open>Recording an attempt\<close>

text \<open>
  A leased attempt takes the next number of its step, so neither the number nor the
  idempotency key can collide with a stored one; only the fresh identifier matters.
\<close>

lemma attempts_add_inv:
  assumes inv: "db_inv c d" and tn: "\<forall>row \<in> set (tbl_attempts d). at_step_id row = sa_step_id a
      \<longrightarrow> at_tenant_id row = sa_tenant_id a"
    and no: "sa_attempt_no a = latest_attempt_no (sa_tenant_id a) (sa_step_id a) d + 1"
    and key: "sa_idempotency_key a = uuid_str (sa_step_id a) @ '':'' @ int_str (sa_attempt_no a)"
    and a: "attempt_inv a" "sa_leased_until a \<le> sa_deadline_at a"
    and fresh: "sa_id a \<notin> at_id ` set (tbl_attempts d)" and scope: "scope = sa_tenant_id a"
  shows "attempts_add scope a d = Ok (d\<lparr>tbl_attempts := tbl_attempts d @ [attempt_row a]\<rparr>)
     \<and> db_inv c (d\<lparr>tbl_attempts := tbl_attempts d @ [attempt_row a]\<rparr>)"
proof -
  have later: "at_attempt_no row \<noteq> sa_attempt_no a"
    if "row \<in> set (tbl_attempts d)" "at_step_id row = sa_step_id a" for row
    using latest_attempt_no_ge [OF that(1) _ that(2)] tn that no by fastforce
  have keys: "at_idempotency_key row \<noteq> sa_idempotency_key a" if row: "row \<in> set (tbl_attempts d)" for row
  proof
    assume eq: "at_idempotency_key row = sa_idempotency_key a"
    from inv row obtain b where b: "row = attempt_row b" "attempt_inv b"
      "sa_idempotency_key b = uuid_str (sa_step_id b) @ '':'' @ int_str (sa_attempt_no b)"
      unfolding db_inv_def attempt_row_ok_def by blast
    with eq key have "sa_step_id b = sa_step_id a" "int_str (sa_attempt_no b) = int_str (sa_attempt_no a)"
      by (auto simp: attempt_row_def dest: uuid_str_inj)
    moreover from this b(2) a(1) have "sa_attempt_no b = sa_attempt_no a"
      by (auto simp: attempt_inv_def intro: int_str_inj_pos)
    ultimately show False using later [OF row] b(1) by (simp add: attempt_row_def)
  qed
  have row: "attempt_row_ok (attempt_row a)" using a key by (auto simp: attempt_row_ok_def)
  have fresh': "at_id row \<noteq> sa_id a" if "row \<in> set (tbl_attempts d)" for row
    using fresh that by (metis image_eqI)
  have "attempts_add scope a d = Ok (d\<lparr>tbl_attempts := tbl_attempts d @ [attempt_row a]\<rparr>)"
    using fresh' keys later scope by (auto simp: attempts_add_def assert_tenant_def list_ex_iff)
  moreover have "at_id (attempt_row a) = sa_id a" "at_idempotency_key (attempt_row a) = sa_idempotency_key a"
    by (simp_all add: attempt_row_def)
  moreover have "sa_idempotency_key a \<notin> at_idempotency_key ` set (tbl_attempts d)"
    using keys by fastforce
  ultimately show ?thesis
    using inv fresh row by (auto simp: db_inv_def)
qed

lemma wake_run_steps:
  assumes "wake_run r now = Ok r'"
  shows "run_step\<^sup>*\<^sup>* r r'" "sr_status r' \<noteq> Run_QUEUED"
proof -
  from assms have "r' = r \<or> run_step r r'"
    by (auto simp: wake_run_def split: if_splits intro: run_step.start run_step.resume)
  then show "run_step\<^sup>*\<^sup>* r r'" by auto
  from assms show "sr_status r' \<noteq> Run_QUEUED"
    by (auto simp: wake_run_def SearchRun_start_Ok SearchRun_resume_def split: if_splits)
qed

lemma wake_run_total: "\<not> SearchRun_is_terminal r \<Longrightarrow> \<exists>r'. wake_run r now = Ok r'"
  by (cases "sr_status r")
    (auto simp: wake_run_def SearchRun_is_terminal_def run_terminal_def SearchRun_start_def
      SearchRun_resume_def SearchRun_transition_def run_transition_cases)

section \<open>Claims\<close>

lemma db_inv_events [simp]: "db_inv c (d\<lparr>tbl_events := es\<rparr>) = db_inv c d"
  by (simp add: db_inv_def)

lemma add_event_Ok:
  "add_event u t scope r ty p d = Ok (e, d') \<Longrightarrow> d' = d\<lparr>tbl_events := tbl_events d @ [e]\<rparr>"
  by (auto simp: add_event_def events_add_def split: if_splits)

lemma attempts_add_Ok:
  assumes "attempts_add scope a d = Ok d'" "db_inv c d" "attempt_row_ok (attempt_row a)"
  shows "d' = d\<lparr>tbl_attempts := tbl_attempts d @ [attempt_row a]\<rparr>" "db_inv c d'"
proof -
  from assms(1) show d': "d' = d\<lparr>tbl_attempts := tbl_attempts d @ [attempt_row a]\<rparr>"
    by (auto simp: attempts_add_def split: if_splits)
  from assms(1) have "\<forall>row \<in> set (tbl_attempts d). at_id row \<noteq> sa_id a
      \<and> at_idempotency_key row \<noteq> sa_idempotency_key a"
    by (auto simp: attempts_add_def list_ex_iff split: if_splits)
  moreover have "at_id (attempt_row a) = sa_id a"
    "at_idempotency_key (attempt_row a) = sa_idempotency_key a" by (simp_all add: attempt_row_def)
  ultimately show "db_inv c d'"
    unfolding d' using assms(2,3) by (auto simp: db_inv_def)
qed

lemma claim_attempt_row:
  assumes "LeaseService_claim ls u step n w now dl = Ok (s1, a)"
  shows "attempt_row_ok (attempt_row a)"
proof -
  have "sa_idempotency_key a = uuid_str (sa_step_id a) @ '':'' @ int_str (sa_attempt_no a)"
    using assms by (auto simp: claim_Ok_iff)
  with claim_attempt [OF assms] show ?thesis by (auto simp: attempt_row_ok_def)
qed

lemma claim_lease_effect:
  assumes inv: "db_inv c d" and iso: "iso_roundtrip c" and env: "de_iso env = c"
    and step: "steps_get conv tn tn sid d = Ok (Some step)"
    and run: "runs_get conv c tn tn (ss_run_id step) d = Ok (Some run)"
    and claim: "claim_lease env cfg ids tn w trace step run dl now enow d = Ok (res, d')"
  shows "\<exists>s1 a ev ctx. LeaseService_claim (cf_lease_seconds cfg) (ids 0) step
        (latest_attempt_no tn sid d + 1) w now dl = Ok (s1, a)
     \<and> res = Ok (\<lparr>cr_claimed = Some \<lparr>cs_attempt = a, cs_context = ctx\<rparr>,
                   cr_disposition = Disp_CLAIMED\<rparr>, Some ev)
     \<and> cx_tenant_id ctx = tn \<and> cx_step_id ctx = sid \<and> cx_run_id ctx = ss_run_id step
     \<and> cx_deadline_at ctx = dl \<and> db_inv c d' \<and> step_row s1 \<in> set (tbl_steps d')
     \<and> tbl_attempts d' = tbl_attempts d @ [attempt_row a]"
proof -
  note st = steps_get_inv [OF inv step] and rn = runs_get_inv [OF inv iso run]
  from claim env obtain r1 n s1 a d1 s2 d2 r2 d3 ev d4 where
    wake: "wake_run run now = Ok r1"
    and n: "attempts_next_no tn tn (ss_id step) d = Ok n"
    and lease: "LeaseService_claim (cf_lease_seconds cfg) (ids 0) step n w now dl = Ok (s1, a)"
    and add: "attempts_add tn a d = Ok d1"
    and save_step: "steps_save tn s1 d1 = Ok (s2, d2)"
    and save_run: "runs_save c tn r1 d2 = Ok (r2, d3)"
    and ev: "add_event (ids 1) enow tn r2 ''STEP_STARTED''
        [(''step_id'', JStr (uuid_str (ss_id s2))), (''step_key'', JStr (ss_step_key s2)),
         (''step_type'', JStr (step_type_value (ss_step_type s2))),
         (''attempt_no'', JInt (sa_attempt_no a))] d3 = Ok (ev, d4)"
    and res: "res = rbind (StepExecutionContext_new tn (ss_run_id s2) (ss_id s2) (ss_step_key s2)
        (ss_step_type s2) (sa_id a) (sa_attempt_no a) trace (Aware dl) (ss_input_ref s2)) (\<lambda>ctx.
          rbind (ClaimResult_acquired \<lparr>cs_attempt = a, cs_context = ctx\<rparr>) (\<lambda>c. Ok (c, Some ev)))"
    and d': "d' = d4"
    unfolding claim_lease_def by auto
  have n': "n = latest_attempt_no tn sid d + 1"
    using n st(5) by (simp add: attempts_next_no_def assert_tenant_def)
  note d1 = attempts_add_Ok [OF add inv claim_attempt_row [OF lease]]
  have s1: "search_step_step step s1" by (rule claim_attempt(5) [OF lease])
  have lin: "step_lineage step s1" by (rule search_step_step_lineage [OF s1])
  have s1_inv: "step_inv s1" by (rule search_step_step_inv [OF s1 st(2)])
  have s1_refs: "step_refs_wf s1"
    using lease st(3) by (auto simp: claim_Ok_iff step_refs_wf_def)
  have "\<exists>d2. steps_save tn s1 d1 = Ok (SearchStep_mark_persisted s1, d2) \<and> db_inv c d2
      \<and> set (tbl_steps d2) = insert (step_row s1) (set (tbl_steps d1) - {step_row step})
      \<and> tbl_runs d2 = tbl_runs d1 \<and> tbl_attempts d2 = tbl_attempts d1
      \<and> tbl_events d2 = tbl_events d1 \<and> tbl_outbox d2 = tbl_outbox d1"
    by (rule steps_save_inv [OF d1(2) _ st(4) lin s1_inv s1_refs])
      (use st lin d1(1) in \<open>simp_all add: step_lineage_def\<close>)
  with save_step have s2: "s2 = SearchStep_mark_persisted s1" and d2: "db_inv c d2"
    "step_row s1 \<in> set (tbl_steps d2)" "tbl_runs d2 = tbl_runs d" "tbl_attempts d2 = tbl_attempts d1"
    using d1(1) by auto
  have r1: "run_step\<^sup>*\<^sup>* run r1" by (rule wake_run_steps(1) [OF wake])
  have rlin: "run_lineage run r1" by (rule run_steps_lineage [OF r1])
  have "\<exists>d3. runs_save c tn r1 d2 = Ok (SearchRun_mark_persisted r1, d3) \<and> db_inv c d3
      \<and> set (tbl_runs d3) = insert (run_row c r1) (set (tbl_runs d2) - {run_row c run})
      \<and> tbl_steps d3 = tbl_steps d2 \<and> tbl_attempts d3 = tbl_attempts d2
      \<and> tbl_events d3 = tbl_events d2 \<and> tbl_outbox d3 = tbl_outbox d2"
    by (rule runs_save_inv [OF d2(1) _ rn(3) rlin run_steps_inv [OF r1 rn(2)]])
      (use rn rlin d2 in \<open>simp_all add: run_lineage_def\<close>)
  with save_run have d3: "db_inv c d3" "tbl_steps d3 = tbl_steps d2" "tbl_attempts d3 = tbl_attempts d2"
    by auto
  have d4: "db_inv c d'" "tbl_steps d' = tbl_steps d2" "tbl_attempts d' = tbl_attempts d2"
    using d3 add_event_Ok [OF ev] d' by simp_all
  have key: "\<not> blank (ss_step_key s1)" using s1_inv by (simp add: step_inv_def)
  have ctx: "\<exists>ctx. res = Ok (\<lparr>cr_claimed = Some \<lparr>cs_attempt = a, cs_context = ctx\<rparr>,
      cr_disposition = Disp_CLAIMED\<rparr>, Some ev) \<and> cx_tenant_id ctx = tn \<and> cx_step_id ctx = sid
      \<and> cx_run_id ctx = ss_run_id step \<and> cx_deadline_at ctx = dl"
    using key lin st(5) claim_attempt(1) [OF lease]
    by (simp add: res s2 StepExecutionContext_new_def ClaimResult_acquired_def ClaimResult_new_def
        SearchStep_mark_persisted_def step_lineage_def attempt_inv_def)
  from ctx lease n' d2(2,4) d4 d1(1) show ?thesis by auto
qed

text \<open>
  Conversely nothing can refuse the lease: the identifiers are fresh and the tables carry the
  tenant of the step, so every save finds its row.
\<close>

definition events_ready :: "uuid \<Rightarrow> uuid \<Rightarrow> uuid \<Rightarrow> 'x tables \<Rightarrow> bool" where
  "events_ready u tn rid d \<longleftrightarrow>
     u \<notin> re_id ` set (tbl_events d)
     \<and> (\<forall>e \<in> set (tbl_events d). 1 \<le> re_sequence e \<and> (re_run_id e = rid \<longrightarrow> re_tenant_id e = tn))"

lemma add_event_total:
  assumes "events_ready u (sr_tenant_id r) (sr_id r) d" "\<not> blank ty" "scope = sr_tenant_id r"
  shows "\<exists>e d'. add_event u t scope r ty p d = Ok (e, d')"
proof -
  let ?ns = "map re_sequence (filter (\<lambda>e. re_tenant_id e = sr_tenant_id r \<and> re_run_id e = sr_id r)
    (tbl_events d))"
  let ?n = "(case ?ns of [] \<Rightarrow> 0 | n # ns \<Rightarrow> fold max ns n) + 1"
  have bound: "x < ?n" if "x \<in> set ?ns" for x
    using that fold_max_ge by (cases ?ns) fastforce+
  have "1 \<le> ?n"
  proof (cases ?ns)
    case (Cons n ns)
    then have "n \<in> set ?ns" by simp
    moreover from this assms(1) have "1 \<le> n" by (auto simp: events_ready_def)
    ultimately show ?thesis using bound by fastforce
  qed simp
  moreover have "\<not> list_ex (\<lambda>x. re_id x = u \<or> re_run_id x = sr_id r \<and> re_sequence x = ?n) (tbl_events d)"
    using assms(1) bound by (auto simp: list_ex_iff events_ready_def) fastforce
  ultimately show ?thesis
    using assms(2,3)
    by (simp add: add_event_def events_next_sequence_def events_add_def assert_tenant_def
        RunEventData_new_def)
qed

definition attempts_ready :: "uuid \<Rightarrow> uuid \<Rightarrow> uuid \<Rightarrow> 'x tables \<Rightarrow> bool" where
  "attempts_ready u tn sid d \<longleftrightarrow>
     u \<notin> at_id ` set (tbl_attempts d)
     \<and> (\<forall>row \<in> set (tbl_attempts d). at_step_id row = sid \<longrightarrow> at_tenant_id row = tn)"

lemma latest_attempt_no_nonneg:
  assumes "db_inv c d"
  shows "0 \<le> latest_attempt_no tn sid d"
proof (cases "map at_attempt_no (filter (\<lambda>row. at_tenant_id row = tn \<and> at_step_id row = sid) (tbl_attempts d))")
  case (Cons n ns)
  then have "n \<in> set (map at_attempt_no (filter (\<lambda>row. at_tenant_id row = tn \<and> at_step_id row = sid)
      (tbl_attempts d)))" by simp
  then obtain row where row: "row \<in> set (tbl_attempts d)" "at_attempt_no row = n" by auto
  with assms have "1 \<le> n" by (fastforce simp: db_inv_def attempt_row_ok_def attempt_row_def attempt_inv_def)
  moreover have "n \<le> fold max ns n" by (rule fold_max_ge) simp
  ultimately show ?thesis by (simp add: latest_attempt_no_def Cons)
qed (simp add: latest_attempt_no_def)

lemma claim_lease_total:
  assumes inv: "db_inv c d" and iso: "iso_roundtrip c" and env: "de_iso env = c"
    and step: "steps_get conv tn tn sid d = Ok (Some step)" "ss_status step = Step_READY"
    and run: "runs_get conv c tn tn (ss_run_id step) d = Ok (Some run)" "\<not> SearchRun_is_terminal run"
    and lease: "now < dl" "0 < td_us (cf_lease_seconds cfg)" "\<not> blank w"
    and attempts: "attempts_ready (ids 0) tn sid d" and events: "events_ready (ids 1) tn (ss_run_id step) d"
  shows "\<exists>res d'. claim_lease env cfg ids tn w trace step run dl now enow d = Ok (res, d')"
proof -
  note st = steps_get_inv [OF inv step(1)] and rn = runs_get_inv [OF inv iso run(1)]
  obtain r1 where wake: "wake_run run now = Ok r1" using wake_run_total [OF run(2)] by blast
  have n: "attempts_next_no tn tn (ss_id step) d = Ok (latest_attempt_no tn sid d + 1)"
    using st(5) by (simp add: attempts_next_no_def assert_tenant_def)
  obtain s1 a where claim: "LeaseService_claim (cf_lease_seconds cfg) (ids 0) step
      (latest_attempt_no tn sid d + 1) w now dl = Ok (s1, a)"
    using claim_Ok_iff [of "cf_lease_seconds cfg" "ids 0" step "latest_attempt_no tn sid d + 1" w now dl]
      step(2) lease latest_attempt_no_nonneg [OF inv] by auto
  have a: "sa_tenant_id a = tn" "sa_step_id a = sid" "sa_id a = ids 0"
    "sa_attempt_no a = latest_attempt_no tn sid d + 1"
    "sa_idempotency_key a = uuid_str (sa_step_id a) @ '':'' @ int_str (sa_attempt_no a)"
    using claim st by (auto simp: claim_Ok_iff)
  let ?d1 = "d\<lparr>tbl_attempts := tbl_attempts d @ [attempt_row a]\<rparr>"
  have add: "attempts_add tn a d = Ok ?d1 \<and> db_inv c ?d1"
    by (rule attempts_add_inv [OF inv _ _ a(5) claim_attempt(1,2) [OF claim]])
      (use a attempts in \<open>auto simp: attempts_ready_def\<close>)
  have s1: "search_step_step step s1" by (rule claim_attempt(5) [OF claim])
  have lin: "step_lineage step s1" by (rule search_step_step_lineage [OF s1])
  have s1_refs: "step_refs_wf s1" using claim st(3) by (auto simp: claim_Ok_iff step_refs_wf_def)
  have "\<exists>d2. steps_save tn s1 ?d1 = Ok (SearchStep_mark_persisted s1, d2) \<and> db_inv c d2
      \<and> set (tbl_steps d2) = insert (step_row s1) (set (tbl_steps ?d1) - {step_row step})
      \<and> tbl_runs d2 = tbl_runs ?d1 \<and> tbl_attempts d2 = tbl_attempts ?d1
      \<and> tbl_events d2 = tbl_events ?d1 \<and> tbl_outbox d2 = tbl_outbox ?d1"
    by (rule steps_save_inv [OF conjunct2 [OF add] _ st(4) lin search_step_step_inv [OF s1 st(2)] s1_refs])
      (use st lin in \<open>simp_all add: step_lineage_def\<close>)
  then obtain d2 where d2: "steps_save tn s1 ?d1 = Ok (SearchStep_mark_persisted s1, d2)" "db_inv c d2"
    "tbl_runs d2 = tbl_runs d" "tbl_events d2 = tbl_events d" by auto
  have r1: "run_step\<^sup>*\<^sup>* run r1" by (rule wake_run_steps(1) [OF wake])
  have rlin: "run_lineage run r1" by (rule run_steps_lineage [OF r1])
  have "\<exists>d3. runs_save c tn r1 d2 = Ok (SearchRun_mark_persisted r1, d3) \<and> db_inv c d3
      \<and> set (tbl_runs d3) = insert (run_row c r1) (set (tbl_runs d2) - {run_row c run})
      \<and> tbl_steps d3 = tbl_steps d2 \<and> tbl_attempts d3 = tbl_attempts d2
      \<and> tbl_events d3 = tbl_events d2 \<and> tbl_outbox d3 = tbl_outbox d2"
    by (rule runs_save_inv [OF d2(2) _ rn(3) rlin run_steps_inv [OF r1 rn(2)]])
      (use rn rlin d2 in \<open>simp_all add: run_lineage_def\<close>)
  then obtain d3 where d3: "runs_save c tn r1 d2 = Ok (SearchRun_mark_persisted r1, d3)"
    "tbl_events d3 = tbl_events d" using d2(4) by auto
  have ids: "sr_tenant_id (SearchRun_mark_persisted r1) = tn"
    "sr_id (SearchRun_mark_persisted r1) = ss_run_id step"
    using rlin rn by (simp_all add: run_lineage_def SearchRun_mark_persisted_def)
  have "\<exists>e d4. add_event (ids 1) enow tn (SearchRun_mark_persisted r1) ''STEP_STARTED'' p d3 = Ok (e, d4)" for p
    by (rule add_event_total)
      (use events ids d3(2) in \<open>simp_all add: events_ready_def blank_iff py_space_def\<close>)
  then obtain f g where ev: "\<And>p. add_event (ids 1) enow tn (SearchRun_mark_persisted r1)
      ''STEP_STARTED'' p d3 = Ok (f p, g p)" by metis
  show ?thesis
    unfolding claim_lease_def wake n rbind.simps claim prod.case conjunct1 [OF add] d2(1) env d3(1) ev
    by simp
qed

lemma transact_Ok: "transact body d = (Ok x, d') \<Longrightarrow> body d = Ok (Ok x, d')"
  by (auto simp: transact_def split: result.splits)

lemma skip_with_unclaimed: "skip_with disp ev d = Ok (Ok (c, e), d') \<Longrightarrow> cr_claimed c = None"
  by (auto simp: skip_with_def ClaimResult_skipped_def ClaimResult_new_def split: if_splits)

lemma claim_deadline_unclaimed:
  "claim_past_hard_deadline env ids tn step run now enow d = Ok (Ok (c, e), d') \<Longrightarrow> cr_claimed c = None"
  "claim_past_phase_deadline env hook ids tn trace step run now enow d = Ok (Ok (c, e), d')
     \<Longrightarrow> cr_claimed c = None"
  by (auto simp: claim_past_hard_deadline_def claim_past_phase_deadline_def dest: skip_with_unclaimed)

lemma store_claim_acquired:
  assumes "store_claim env cfg hook ids tn sid w trace now enow d = (Ok (cl, ev), d')"
    and "cr_claimed cl = Some claimed"
  obtains step run where "steps_get (de_conv env) tn tn sid d = Ok (Some step)"
    "ss_status step = Step_READY"
    "runs_get (de_conv env) (de_iso env) tn tn (ss_run_id step) d = Ok (Some run)"
    "\<not> SearchRun_is_terminal run" "now < bs_hard_deadline_at (sr_budget run)"
    "claim_lease env cfg ids tn w trace step run
       (BudgetGuard_deadline_for (sr_budget run) (phase_for_step (ss_step_type step))) now enow d
       = Ok (Ok (cl, ev), d')"
proof -
  note body = transact_Ok [OF assms(1) [unfolded store_claim_def]]
  from body obtain step where step: "steps_get (de_conv env) tn tn sid d = Ok (Some step)"
    using assms(2) by (auto dest: skip_with_unclaimed split: option.split_asm)
  with body have ready: "ss_status step = Step_READY"
    using assms(2) by (auto dest: skip_with_unclaimed split: if_split_asm)
  with body step obtain run where
    run: "runs_get (de_conv env) (de_iso env) tn tn (ss_run_id step) d = Ok (Some run)"
    using assms(2) by (auto dest: skip_with_unclaimed split: option.split_asm)
  with body step ready have live: "\<not> SearchRun_is_terminal run"
    using assms(2) by (auto dest: skip_with_unclaimed split: if_split_asm)
  with body step ready run have hard: "now < bs_hard_deadline_at (sr_budget run)"
    using assms(2) by (auto dest: claim_deadline_unclaimed split: if_split_asm)
  have "claim_lease env cfg ids tn w trace step run
      (BudgetGuard_deadline_for (sr_budget run) (phase_for_step (ss_step_type step))) now enow d
      = Ok (Ok (cl, ev), d')"
    using body step ready run live hard assms(2)
    by (auto simp: Let_def dest: claim_deadline_unclaimed split: if_split_asm)
  with step ready run live hard that show ?thesis by blast
qed

text \<open>
  A granted claim: the step is RUNNING, exactly one attempt was added, it is the current
  one, and claiming the step again is ignored.
\<close>

lemma store_claim_effect:
  assumes inv: "db_inv (de_iso env) d" and iso: "iso_roundtrip (de_iso env)"
    and claim: "store_claim env cfg hook ids tn sid w trace now enow d = (Ok (cl, ev), d')"
    and got: "cr_claimed cl = Some claimed"
  shows "db_inv (de_iso env) d'"
    and "tbl_attempts d' = tbl_attempts d @ [attempt_row (cs_attempt claimed)]"
    and "sa_attempt_no (cs_attempt claimed) = latest_attempt_no tn sid d + 1"
    and "cx_tenant_id (cs_context claimed) = tn" "cx_step_id (cs_context claimed) = sid"
    and "now < sa_leased_until (cs_attempt claimed)"
      "sa_leased_until (cs_attempt claimed) \<le> cx_deadline_at (cs_context claimed)"
    and "store_claim env2 cfg2 hook2 ids2 tn sid w2 trace2 now2 enow2 d'
      = (Ok (\<lparr>cr_claimed = None, cr_disposition = Disp_IGNORED\<rparr>, None), d')"
proof -
  from store_claim_acquired [OF claim got] obtain step run where
    step: "steps_get (de_conv env) tn tn sid d = Ok (Some step)"
    and run: "runs_get (de_conv env) (de_iso env) tn tn (ss_run_id step) d = Ok (Some run)"
    and lease: "claim_lease env cfg ids tn w trace step run
      (BudgetGuard_deadline_for (sr_budget run) (phase_for_step (ss_step_type step))) now enow d
      = Ok (Ok (cl, ev), d')"
    by blast
  note st = steps_get_inv [OF inv step]
  from claim_lease_effect [OF inv iso refl step run lease] got obtain s1 dl where
    l: "LeaseService_claim (cf_lease_seconds cfg) (ids 0) step (latest_attempt_no tn sid d + 1) w
        now dl = Ok (s1, cs_attempt claimed)"
    and ctx: "cx_tenant_id (cs_context claimed) = tn" "cx_step_id (cs_context claimed) = sid"
      "cx_deadline_at (cs_context claimed) = dl"
    and d': "db_inv (de_iso env) d'" "step_row s1 \<in> set (tbl_steps d')"
      "tbl_attempts d' = tbl_attempts d @ [attempt_row (cs_attempt claimed)]"
    by auto
  from d' ctx show "db_inv (de_iso env) d'"
    "tbl_attempts d' = tbl_attempts d @ [attempt_row (cs_attempt claimed)]"
    "cx_tenant_id (cs_context claimed) = tn" "cx_step_id (cs_context claimed) = sid" by auto
  from l show "sa_attempt_no (cs_attempt claimed) = latest_attempt_no tn sid d + 1"
    by (auto simp: claim_Ok_iff)
  from claim_attempt [OF l] l ctx show "now < sa_leased_until (cs_attempt claimed)"
    "sa_leased_until (cs_attempt claimed) \<le> cx_deadline_at (cs_context claimed)"
    by (auto simp: claim_Ok_iff)
  have s1: "step_inv s1" "step_refs_wf s1" "ss_tenant_id s1 = tn" "ss_id s1 = sid"
    using search_step_step_inv [OF claim_attempt(5) [OF l] st(2)] l st
    by (auto simp: claim_Ok_iff step_refs_wf_def)
  have "steps_get (de_conv env2) tn tn sid d' = Ok (Some (SearchStep_mark_persisted s1))"
    using steps_get_row [OF d'(1,2) s1(1,2)] s1(3,4) by simp
  moreover have "ss_status (SearchStep_mark_persisted s1) = Step_RUNNING"
    using claim_attempt(4) [OF l] by (simp add: SearchStep_mark_persisted_def)
  ultimately show "store_claim env2 cfg2 hook2 ids2 tn sid w2 trace2 now2 enow2 d'
      = (Ok (\<lparr>cr_claimed = None, cr_disposition = Disp_IGNORED\<rparr>, None), d')"
    by (simp add: store_claim_def transact_def skip_with_def ClaimResult_skipped_def
        ClaimResult_new_def)
qed

lemma store_claim_granted:
  assumes "db_inv (de_iso env) d" and "iso_roundtrip (de_iso env)"
    and "steps_get (de_conv env) tn tn s d = Ok (Some step)" and "ss_status step = Step_READY"
    and "runs_get (de_conv env) (de_iso env) tn tn (ss_run_id step) d = Ok (Some run)"
    and "\<not> SearchRun_is_terminal run"
    and "now < BudgetGuard_deadline_for (sr_budget run) (phase_for_step (ss_step_type step))"
    and "0 < td_us (cf_lease_seconds cfg)" and "\<not> blank w"
    and "attempts_ready (ids 0) tn s d" and "events_ready (ids 1) tn (ss_run_id step) d"
  shows "\<exists>cl ev d' claimed. store_claim env cfg hook ids tn s w trace now enow d = (Ok (cl, Some ev), d')
     \<and> cr_claimed cl = Some claimed \<and> cx_step_id (cs_context claimed) = s"
proof -
  let ?dl = "BudgetGuard_deadline_for (sr_budget run) (phase_for_step (ss_step_type step))"
  have "?dl \<le> bs_hard_deadline_at (sr_budget run)"
    using runs_get_inv(2) [OF assms(1,2,5)] by (intro deadline_for_le_hard) (simp add: run_inv_def)
  with assms(7) have hard: "now < bs_hard_deadline_at (sr_budget run)" by simp
  from claim_lease_total [OF assms(1,2) refl assms(3-11)] obtain res d' where
    lease: "claim_lease env cfg ids tn w trace step run ?dl now enow d = Ok (res, d')" by blast
  from claim_lease_effect [OF assms(1,2) refl assms(3,5) lease] obtain a ctx ev where
    res: "res = Ok (\<lparr>cr_claimed = Some \<lparr>cs_attempt = a, cs_context = ctx\<rparr>,
                    cr_disposition = Disp_CLAIMED\<rparr>, Some ev)" "cx_step_id ctx = s" by blast
  have "store_claim env cfg hook ids tn s w trace now enow d = (res, d')"
    using assms(3-7) hard lease by (simp add: store_claim_def transact_def Let_def)
  with res show ?thesis by auto
qed

section \<open>Fencing\<close>

lemma load_current_stale: "\<not> is_current_attempt claimed d \<Longrightarrow> load_current env claimed d = Ok x \<Longrightarrow> x = None"
  by (auto simp: load_current_def Let_def split: option.split_asm if_split_asm)

lemma stale_succeed:
  assumes "\<not> is_current_attempt claimed d"
  shows "snd (store_succeed env hook ids claimed res trace now enow d) = d"
    and "fst (store_succeed env hook ids claimed res trace now enow d) = Ok (disp, ev)
      \<Longrightarrow> disp = Disp_STALE \<and> ev = None"
  using load_current_stale [OF assms, of env]
  by (cases "load_current env claimed d"; auto simp: store_succeed_def transact_def Let_def)+

lemma stale_fail:
  assumes "\<not> is_current_attempt claimed d"
  shows "snd (store_fail env cfg hook ids claimed err trace now enow d) = d"
    and "fst (store_fail env cfg hook ids claimed err trace now enow d) = Ok (disp, ev)
      \<Longrightarrow> disp = Disp_STALE \<and> ev = None"
  using load_current_stale [OF assms, of env]
  by (cases "load_current env claimed d"; auto simp: store_fail_def transact_def Let_def)+

lemma stale_renew:
  assumes "\<not> is_current_attempt claimed d"
  shows "snd (store_renew env cfg now (claimed, d)) = (claimed, d)"
    "fst (store_renew env cfg now (claimed, d)) \<noteq> Ok True"
  using assms by (auto simp: store_renew_def Let_def split: result.split option.split)

text \<open>A newer attempt of the same step, or a finished row, fences the old worker off.\<close>

lemma newer_attempt_not_current:
  assumes "row \<in> set (tbl_attempts d)" "at_tenant_id row = cx_tenant_id (cs_context claimed)"
    "at_step_id row = cx_step_id (cs_context claimed)"
    "sa_attempt_no (cs_attempt claimed) < at_attempt_no row"
  shows "\<not> is_current_attempt claimed d"
  using latest_attempt_no_ge [OF assms(1,2,3)] assms(4)
  by (auto simp: is_current_attempt_def split: option.splits)

section \<open>Retries are bounded\<close>

lemma fail_step_cases:
  assumes "fail_step cfg run step err n now = Ok (s1, disp, ty)"
  shows "disp = Disp_RETRY_SCHEDULED \<longleftrightarrow>
     \<not> SearchRun_is_terminal run \<and> te_category err \<noteq> CANCELLED \<and> te_retryable err
     \<and> n < attempt_limit cfg (ss_step_type step)
     \<and> now + td_us (retry_delay cfg n) < bs_hard_deadline_at (sr_budget run)"
    and "disp = Disp_RETRY_SCHEDULED \<Longrightarrow> ss_status s1 = Step_RETRY_WAIT
      \<and> ss_retry_at s1 = Some (now + td_us (retry_delay cfg n))"
    and "disp \<noteq> Disp_RETRY_SCHEDULED \<Longrightarrow> ss_status s1 \<in> {Step_FAILED, Step_CANCELLED}"
    and "search_step_step step s1"
proof -
  have ops: "SearchStep_cancel step = Ok s1 \<or> SearchStep_fail step = Ok s1
      \<or> (\<exists>t. SearchStep_retry_later step t = Ok s1)"
    using assms by (auto simp: fail_step_def Let_def split: if_splits)
  then show "search_step_step step s1"
    by (blast intro: search_step_step.intros)
qed (use assms in \<open>auto simp: fail_step_def Let_def SearchStep_retry_later_def
      SearchStep_fail_def SearchStep_cancel_def split: if_splits\<close>)

end
