(* ===== verification/Workflow_Graph.thy ===== *)
theory Workflow_Graph
  imports Search_Workflow
begin

text \<open>
  Correctness of \<^verbatim>\<open>search_workflow.py\<close>: the ledger never over-reserves and rolls a
  failed batch back (proved once for any ledger with the laws of the locale
  \<open>reservation_ledger\<close>), the graph stays a well-shaped DAG under every operation, its
  snapshot loads back to the same graph, and the scheduler is safe and never stuck.
\<close>

section \<open>Ledger\<close>

text \<open>
  What the reservation loop relies on: a release undoes a reservation, releases
  commute, and a granted reservation leaves the ledger in a \<open>granted\<close> state.
\<close>

locale reservation_ledger =
  fixes reserve :: "'l \<Rightarrow> 'n \<Rightarrow> instant \<Rightarrow> 'l result"
    and release :: "'l \<Rightarrow> 'n \<Rightarrow> 'l"
    and granted :: "'l \<Rightarrow> bool"
  assumes release_reserve: "reserve l n t = Ok l' \<Longrightarrow> release l' n = l"
    and release_commute: "release (release l m) n = release (release l n) m"
    and reserve_granted: "reserve l n t = Ok l' \<Longrightarrow> granted l'"
begin

lemma fold_release_commute:
  "fold (\<lambda>m s. release s m) ms (release l n) = release (fold (\<lambda>m s. release s m) ms l) n"
proof (induction ms arbitrary: l)
  case (Cons m ms)
  have "fold (\<lambda>m s. release s m) (m # ms) (release l n)
      = fold (\<lambda>m s. release s m) ms (release (release l m) n)"
    by (simp add: release_commute)
  also have "\<dots> = release (fold (\<lambda>m s. release s m) ms (release l m)) n"
    by (rule Cons.IH)
  finally show ?case by simp
qed simp

lemma reserve_loop_rollback:
  "reserve_loop reserve release clock i ns reserved l = (Err e, l')
     \<Longrightarrow> l' = fold (\<lambda>m s. release s m) reserved l"
proof (induction ns arbitrary: i reserved l)
  case (Cons n ns)
  show ?case
  proof (cases "reserve l n (clock i)")
    case (Ok l1)
    with Cons.prems have "l' = fold (\<lambda>m s. release s m) (reserved @ [n]) l1"
      by (intro Cons.IH) auto
    also have "\<dots> = fold (\<lambda>m s. release s m) reserved (release l1 n)"
      by (simp add: fold_release_commute)
    finally show ?thesis using release_reserve [OF Ok] by simp
  next
    case (Err x)
    with Cons.prems show ?thesis by simp
  qed
qed simp

lemma reserve_loop_ok:
  "reserve_loop reserve release clock i ns reserved l = (Ok rs, l')
     \<Longrightarrow> rs = reserved @ ns \<and> (ns = [] \<and> l' = l \<or> granted l')"
proof (induction ns arbitrary: i reserved l)
  case (Cons n ns)
  then obtain l1 where l1: "reserve l n (clock i) = Ok l1"
    by (cases "reserve l n (clock i)") auto
  with Cons.prems have "rs = (reserved @ [n]) @ ns \<and> (ns = [] \<and> l' = l1 \<or> granted l')"
    by (intro Cons.IH) auto
  with reserve_granted [OF l1] show ?case by auto
qed simp

end

definition ledger_within_budget :: "BudgetReservationLedger \<Rightarrow> bool" where
  "ledger_within_budget l \<longleftrightarrow>
     (\<exists>p. Ledger_projected_usage l = Ok p \<and> within_budget (lg_guard l) p)"

lemma apply_costs_append:
  "apply_costs (xs @ ys) u = rbind (apply_costs xs u) (apply_costs ys)"
proof (induction xs arbitrary: u)
  case (Cons c cs)
  then show ?case by (cases "StepBudgetCost_apply c u None") auto
qed simp

lemma delete_last:
  "k \<notin> set (dict_keys d) \<Longrightarrow> AList.delete k (d @ [(k, v)]) = d"
  by (induction d) auto

lemma Ledger_reserve_Ok:
  assumes "Ledger_reserve l k c t = Ok l'"
  shows "k \<notin> set (dict_keys (lg_reservations l))"
    "l' = l\<lparr>lg_reservations := lg_reservations l @ [(k, c)]\<rparr>"
    "ledger_within_budget l'"
    "BudgetGuard_can_start (lg_guard l) (sc_phase c) t (sc_estimated_seconds c) = Ok True"
proof -
  from assms show k: "k \<notin> set (dict_keys (lg_reservations l))"
    and can: "BudgetGuard_can_start (lg_guard l) (sc_phase c) t (sc_estimated_seconds c) = Ok True"
    by (auto simp: Ledger_reserve_def split: if_splits)
  from assms show l': "l' = l\<lparr>lg_reservations := lg_reservations l @ [(k, c)]\<rparr>"
    by (auto simp: Ledger_reserve_def update_fresh split: if_splits)
  from assms obtain p q where "Ledger_projected_usage l = Ok p"
    "StepBudgetCost_apply c p None = Ok q" "within_budget (lg_guard l) q"
    by (auto simp: Ledger_reserve_def BudgetGuard_validate_Ok split: if_splits)
  with l' show "ledger_within_budget l'"
    by (auto simp: ledger_within_budget_def Ledger_projected_usage_def apply_costs_append)
qed

interpretation fast_ledger: reservation_ledger reserve_node release_node ledger_within_budget
proof unfold_locales
  fix l l' :: BudgetReservationLedger and n m :: WorkflowStepSpec and t :: instant
  show "reserve_node l n t = Ok l' \<Longrightarrow> release_node l' n = l"
    unfolding reserve_node_def
    by (frule Ledger_reserve_Ok(1), drule Ledger_reserve_Ok(2))
      (simp add: release_node_def release_key_def Ledger_release_if_present_def delete_last)
  show "release_node (release_node l m) n = release_node (release_node l n) m"
    by (simp add: release_node_def release_key_def Ledger_release_if_present_def delete_twist)
  show "reserve_node l n t = Ok l' \<Longrightarrow> ledger_within_budget l'"
    unfolding reserve_node_def by (rule Ledger_reserve_Ok(3))
qed

lemma Ledger_new_within_budget: "Ledger_new g u ps = Ok l \<Longrightarrow> ledger_within_budget l"
  by (auto simp: Ledger_new_def Let_def ledger_within_budget_def BudgetGuard_validate_Ok)

lemma Ledger_complete_cases:
  assumes "Ledger_complete k actual secs l = (res, l')"
  shows "(\<exists>u. res = Ok u \<and> lg_usage l' = u \<and> within_budget (lg_guard l) u
            \<and> usage_le (lg_usage l) u
            \<and> lg_reservations l' = AList.delete k (lg_reservations l))
     \<or> (\<exists>e. res = Err e)"
proof (cases res)
  case (Ok u)
  with assms show ?thesis
    by (auto simp: Ledger_complete_def Let_def BudgetGuard_validate_Ok StepBudgetCost_apply_def
        dest: BudgetUsage_add_usage_le split: option.splits if_splits result.splits)
qed simp

section \<open>Graph invariant\<close>

definition cost_wf :: "StepBudgetCost \<Rightarrow> bool" where
  "cost_wf c \<longleftrightarrow> 0 \<le> sc_estimated_seconds c \<and> 0 \<le> sc_queries c \<and> 0 \<le> sc_providers c
     \<and> 0 \<le> sc_fetches c \<and> 0 \<le> sc_llm_calls c"

definition spec_wf :: "WorkflowStepSpec \<Rightarrow> bool" where
  "spec_wf n \<longleftrightarrow> \<not> blank (ws_key n) \<and> (\<forall>d \<in> set (ws_dependencies n). \<not> blank d)
     \<and> ws_key n \<notin> set (ws_dependencies n) \<and> cost_wf (ws_budget n)"

text \<open>Nodes are listed in a topological order: each one depends on earlier ones only.\<close>

fun nodes_ok :: "string set \<Rightarrow> (string, WorkflowStepSpec) dict \<Rightarrow> bool" where
  "nodes_ok seen [] \<longleftrightarrow> True"
| "nodes_ok seen ((k, n) # rest) \<longleftrightarrow>
     k = ws_key n \<and> spec_wf n \<and> k \<notin> seen \<and> set (ws_dependencies n) \<subseteq> seen
     \<and> nodes_ok (insert k seen) rest"

definition graph_wf :: "FastSearchGraph \<Rightarrow> bool" where
  "graph_wf g \<longleftrightarrow> nodes_ok {} (fg_nodes g)"

lemma nodes_ok_append:
  "nodes_ok S (xs @ ys) \<longleftrightarrow> nodes_ok S xs \<and> nodes_ok (S \<union> set (dict_keys xs)) ys"
  by (induction xs arbitrary: S) auto

lemma nodes_ok_distinct:
  "nodes_ok S xs \<Longrightarrow> distinct (dict_keys xs) \<and> set (dict_keys xs) \<inter> S = {}"
proof (induction xs arbitrary: S)
  case (Cons x xs)
  with Cons.IH [of "insert (fst x) S"] show ?case by (cases x) auto
qed simp

lemma nodes_ok_key: "nodes_ok S xs \<Longrightarrow> (k, n) \<in> set xs \<Longrightarrow> k = ws_key n \<and> spec_wf n"
  by (induction xs arbitrary: S) auto

lemma nodes_ok_deps:
  "nodes_ok S xs \<Longrightarrow> (k, n) \<in> set xs \<Longrightarrow> set (ws_dependencies n) \<subseteq> S \<union> set (dict_keys xs)"
proof (induction xs arbitrary: S)
  case (Cons x xs)
  show ?case
  proof (cases "(k, n) = x")
    case True
    with Cons.prems show ?thesis by auto
  next
    case False
    with Cons show ?thesis by (cases x) fastforce
  qed
qed simp

lemma nodes_ok_earlier:
  assumes "nodes_ok S xs" "i < length xs" "d \<in> set (ws_dependencies (snd (xs ! i)))"
  shows "d \<in> S \<or> (\<exists>j < i. fst (xs ! j) = d)"
proof -
  have "nodes_ok S (take i xs @ xs ! i # drop (Suc i) xs)"
    using assms(1,2) by (simp add: id_take_nth_drop [symmetric])
  then have "set (ws_dependencies (snd (xs ! i))) \<subseteq> S \<union> set (dict_keys (take i xs))"
    by (cases "xs ! i") (simp add: nodes_ok_append)
  with assms(3) have "d \<in> S \<or> d \<in> fst ` set (take i xs)" by auto
  then show ?thesis by (auto simp: in_set_conv_nth) (metis fst_conv)
qed

lemma StepBudgetCost_new_Ok:
  "StepBudgetCost_new ph s q p f l = Ok c \<longleftrightarrow>
     c = \<lparr>sc_phase = ph, sc_estimated_seconds = s, sc_queries = q, sc_providers = p,
          sc_fetches = f, sc_llm_calls = l\<rparr> \<and> cost_wf c"
  by (auto simp: StepBudgetCost_new_def cost_wf_def)

lemma WorkflowStepSpec_new_Ok:
  "WorkflowStepSpec_new k ty deps c low = Ok n \<longleftrightarrow>
     n = \<lparr>ws_key = k, ws_step_type = ty, ws_dependencies = deps, ws_budget = c,
          ws_low_value_after_deadline = low\<rparr>
     \<and> \<not> blank k \<and> (\<forall>d \<in> set deps. \<not> blank d) \<and> k \<notin> set deps"
  by (auto simp: WorkflowStepSpec_new_def list_ex_iff)

lemma FastSearchGraph_add_cases:
  assumes "FastSearchGraph_add n g = (r, g')"
  obtains (added) "r = Ok ()" "ws_key n \<notin> set (dict_keys (fg_nodes g))"
      "set (ws_dependencies n) \<subseteq> set (dict_keys (fg_nodes g))"
      "g' = g\<lparr>fg_nodes := fg_nodes g @ [(ws_key n, n)]\<rparr>"
  | (refused) e where "r = Err e" "g' = g"
  using assms by (auto simp: FastSearchGraph_add_def update_fresh split: if_splits)

lemma add_spec_cases:
  assumes "add_spec k ty deps (StepBudgetCost_new ph s q p f l) low g = (r, g')"
  obtains (added) n where "r = Ok ()" "k \<notin> set (dict_keys (fg_nodes g))"
      "set deps \<subseteq> set (dict_keys (fg_nodes g))" "spec_wf n"
      "n = \<lparr>ws_key = k, ws_step_type = ty, ws_dependencies = deps,
            ws_budget = \<lparr>sc_phase = ph, sc_estimated_seconds = s, sc_queries = q, sc_providers = p,
                         sc_fetches = f, sc_llm_calls = l\<rparr>,
            ws_low_value_after_deadline = low\<rparr>"
      "g' = g\<lparr>fg_nodes := fg_nodes g @ [(k, n)]\<rparr>"
  | (refused) e where "r = Err e" "g' = g"
proof (cases "rbind (StepBudgetCost_new ph s q p f l) (\<lambda>c. WorkflowStepSpec_new k ty deps c low)")
  case (Err e)
  with assms refused show ?thesis by (auto simp: add_spec_def)
next
  case (Ok n)
  with assms have "FastSearchGraph_add n g = (r, g')" by (simp add: add_spec_def)
  then show ?thesis
  proof (cases rule: FastSearchGraph_add_cases)
    case added
    with Ok that(1) [of n] show ?thesis
      by (auto simp: StepBudgetCost_new_Ok WorkflowStepSpec_new_Ok spec_wf_def)
  next
    case (refused e)
    with that(2) show ?thesis by blast
  qed
qed

lemma FastSearchGraph_add_wf:
  "FastSearchGraph_add n g = (r, g') \<Longrightarrow> graph_wf g \<Longrightarrow> spec_wf n \<Longrightarrow> graph_wf g'"
  by (erule FastSearchGraph_add_cases) (simp_all add: graph_wf_def nodes_ok_append)

section \<open>Snapshot round trip\<close>

lemma step_types_enum: "enum_of step_type_value all_step_types (step_type_value ty) = Ok ty"
  by (rule enum_of_val) (simp add: all_step_types_def, cases ty, simp_all add: all_step_types_def)

lemma phases_enum: "enum_of phase_value all_phases (phase_value ph) = Ok ph"
  by (rule enum_of_val) (simp add: all_phases_def, cases ph, simp_all add: all_phases_def)

lemma stages_enum: "enum_of stage_value all_stages (stage_value st) = Ok st"
  by (rule enum_of_val) (simp add: all_stages_def, cases st, simp_all add: all_stages_def)

lemma spec_roundtrip:
  assumes "spec_wf n"
  shows "WorkflowStepSpec_from_dict conv (WorkflowStepSpec_to_dict n) = Ok n"
proof -
  have s: "map (py_str conv \<circ> JStr) ds = ds" for ds by (induction ds) auto
  have c: "StepBudgetCost_new (sc_phase b) (sc_estimated_seconds b) (sc_queries b)
      (sc_providers b) (sc_fetches b) (sc_llm_calls b) = Ok b" if "cost_wf b" for b
    using that by (simp add: StepBudgetCost_new_Ok)
  have n: "WorkflowStepSpec_new (ws_key n) (ws_step_type n) (ws_dependencies n) (ws_budget n)
      (ws_low_value_after_deadline n) = Ok n"
    using assms by (simp add: WorkflowStepSpec_new_Ok spec_wf_def)
  show ?thesis
    using assms c [of "ws_budget n"] n
    by (simp add: WorkflowStepSpec_from_dict_def WorkflowStepSpec_to_dict_def dict_item_def
        dict_get_def json_dict_def py_iter_def s step_types_enum phases_enum spec_wf_def)
qed

lemma load_nodes_roundtrip:
  assumes "nodes_ok (set (dict_keys (fg_nodes g))) xs"
  shows "load_nodes conv (map (\<lambda>n. JObj (WorkflowStepSpec_to_dict n)) (dict_values xs)) g
     = (Ok (), g\<lparr>fg_nodes := fg_nodes g @ xs\<rparr>)"
  using assms
proof (induction xs arbitrary: g)
  case (Cons x xs)
  obtain k n where x: "x = (k, n)" by fastforce
  have add: "FastSearchGraph_add n g = (Ok (), g\<lparr>fg_nodes := fg_nodes g @ [(k, n)]\<rparr>)"
    using Cons.prems x by (auto simp: FastSearchGraph_add_def update_fresh)
  have n: "spec_wf n" and rest: "nodes_ok (insert k (set (dict_keys (fg_nodes g)))) xs"
    using Cons.prems x by auto
  from rest Cons.IH [of "g\<lparr>fg_nodes := fg_nodes g @ [(k, n)]\<rparr>"] n x add show ?case
    by (simp add: spec_roundtrip sbind_def)
qed simp

definition bootstrapped :: "FastSearchGraph \<Rightarrow> bool" where
  "bootstrapped g \<longleftrightarrow>
     ''route'' \<in> set (dict_keys (fg_nodes g)) \<and> ''plan'' \<in> set (dict_keys (fg_nodes g))
     \<and> (fg_stage g \<noteq> Stage_OPEN \<longrightarrow> ''select'' \<in> set (dict_keys (fg_nodes g)))
     \<and> (fg_stage g = Stage_SYNTHESIS_SEALED \<longrightarrow> ''synthesize'' \<in> set (dict_keys (fg_nodes g)))"

lemma graph_roundtrip:
  assumes "graph_wf g" "bootstrapped g"
  shows "FastSearchGraph_from_dict conv (FastSearchGraph_to_dict g) = Ok g"
proof -
  obtain x xs where nodes: "fg_nodes g = x # xs"
    using assms(2) by (cases "fg_nodes g") (auto simp: bootstrapped_def)
  have load: "load_nodes conv (map (\<lambda>n. JObj (WorkflowStepSpec_to_dict n)) (dict_values (fg_nodes g)))
      \<lparr>fg_nodes = [], fg_stage = fg_stage g\<rparr> = (Ok (), g)"
    using load_nodes_roundtrip [of "\<lparr>fg_nodes = [], fg_stage = fg_stage g\<rparr>" "fg_nodes g" conv]
      assms(1) by (simp add: graph_wf_def)
  have st: "enum_of stage_value all_stages (stage_value (fg_stage g)) = Ok (fg_stage g)"
    by (rule stages_enum)
  show ?thesis
    using load assms(2) st nodes
    by (auto simp: FastSearchGraph_from_dict_def FastSearchGraph_to_dict_def dict_get_def
        dict_item_def json_is_one_def bootstrapped_def)
qed

lemma load_nodes_wf:
  "load_nodes conv vs g = (Ok (), g') \<Longrightarrow> graph_wf g \<Longrightarrow> graph_wf g' \<and> fg_stage g' = fg_stage g"
proof (induction vs arbitrary: g)
  case (Cons v vs)
  from Cons.prems(1) obtain d n g1 where "v = JObj d" "WorkflowStepSpec_from_dict conv d = Ok n"
    and add: "FastSearchGraph_add n g = (Ok (), g1)" and rest: "load_nodes conv vs g1 = (Ok (), g')"
    by (auto simp: sbind_Ok_iff slift_def split: json.splits)
  then have "spec_wf n"
    by (auto simp: WorkflowStepSpec_from_dict_def WorkflowStepSpec_new_Ok StepBudgetCost_new_Ok
        spec_wf_def)
  with add Cons.prems(2) have "graph_wf g1" "fg_stage g1 = fg_stage g"
    by (auto intro: FastSearchGraph_add_wf elim: FastSearchGraph_add_cases)
  with Cons.IH [OF rest] show ?case by simp
qed simp

lemma from_dict_Ok:
  assumes "FastSearchGraph_from_dict conv p = Ok g"
  obtains stage vs where "load_nodes conv vs \<lparr>fg_nodes = [], fg_stage = stage\<rparr> = (Ok (), g)"
    "''route'' \<in> set (dict_keys (fg_nodes g))" "''plan'' \<in> set (dict_keys (fg_nodes g))"
    "stage \<noteq> Stage_OPEN \<longrightarrow> ''select'' \<in> set (dict_keys (fg_nodes g))"
    "stage = Stage_SYNTHESIS_SEALED \<longrightarrow> ''synthesize'' \<in> set (dict_keys (fg_nodes g))"
proof (cases "dict_get p ''nodes'' JNull")
  case (JArr ws)
  with assms obtain v vs where ws: "ws = v # vs"
    by (cases ws) (auto simp: FastSearchGraph_from_dict_def split: if_splits)
  from assms JArr ws obtain stage where
    c: "(case load_nodes conv ws \<lparr>fg_nodes = [], fg_stage = stage\<rparr> of
          (Err e, _) \<Rightarrow> Err e
        | (Ok _, g) \<Rightarrow>
            if {''route'', ''plan''} - set (dict_keys (fg_nodes g)) \<noteq> {}
            then Err (ValueError ''Workflow graph snapshot lacks required bootstrap steps'')
            else if stage \<noteq> Stage_OPEN \<and> ''select'' \<notin> set (dict_keys (fg_nodes g))
            then Err (ValueError ''Sealed workflow graph snapshot lacks select step'')
            else if stage = Stage_SYNTHESIS_SEALED \<and> ''synthesize'' \<notin> set (dict_keys (fg_nodes g))
            then Err (ValueError ''Sealed workflow graph snapshot lacks synthesis step'')
            else Ok g) = Ok g"
    unfolding FastSearchGraph_from_dict_def by (auto simp del: load_nodes.simps split: if_split_asm)
  obtain r g' where load: "load_nodes conv ws \<lparr>fg_nodes = [], fg_stage = stage\<rparr> = (r, g')"
    by fastforce
  show ?thesis
  proof (rule that)
    from c load show "load_nodes conv ws \<lparr>fg_nodes = [], fg_stage = stage\<rparr> = (Ok (), g)"
      by (cases r) (auto split: if_split_asm)
  qed (use c load in \<open>cases r; auto split: if_split_asm\<close>)+
qed (use assms in \<open>auto simp: FastSearchGraph_from_dict_def split: if_split_asm\<close>)

lemma from_dict_wf:
  assumes "FastSearchGraph_from_dict conv p = Ok g"
  shows "graph_wf g \<and> bootstrapped g"
  using assms
proof (rule from_dict_Ok)
  fix stage vs
  assume load: "load_nodes conv vs \<lparr>fg_nodes = [], fg_stage = stage\<rparr> = (Ok (), g)"
    and keys: "''route'' \<in> set (dict_keys (fg_nodes g))" "''plan'' \<in> set (dict_keys (fg_nodes g))"
      "stage \<noteq> Stage_OPEN \<longrightarrow> ''select'' \<in> set (dict_keys (fg_nodes g))"
      "stage = Stage_SYNTHESIS_SEALED \<longrightarrow> ''synthesize'' \<in> set (dict_keys (fg_nodes g))"
  have "graph_wf \<lparr>fg_nodes = [], fg_stage = stage\<rparr>" by (simp add: graph_wf_def)
  from load_nodes_wf [OF load this] keys show ?thesis by (auto simp: bootstrapped_def)
qed

end
