(* ===== verification/Workflow_Schedule.thy ===== *)
theory Workflow_Schedule
  imports Workflow_Graph
begin

text \<open>
  The FAST graphs that the methods of \<open>FastSearchGraph\<close> can build (\<open>built\<close>), their
  shape, and what the scheduler does on them: it submits only startable steps, and as
  long as the bootstrap steps do not fail it is never stuck, so that every step,
  synthesis included, ends after at most as many rounds as the graph has nodes.
\<close>

section \<open>Reachable graphs\<close>

inductive built :: "FastSearchGraph \<Rightarrow> bool" where
  new: "FastSearchGraph_new = Ok g \<Longrightarrow> built g"
| add_discovery: "built g \<Longrightarrow> FastSearchGraph_add_discovery q p s g = (r, g') \<Longrightarrow> built g'"
| seal_discovery: "built g \<Longrightarrow> FastSearchGraph_seal_discovery g = (ru, g') \<Longrightarrow> built g'"
| add_fetch: "built g \<Longrightarrow> FastSearchGraph_add_fetch_pipeline sk fs g = (rp, g') \<Longrightarrow> built g'"
| seal_synthesis: "built g \<Longrightarrow> FastSearchGraph_seal_synthesis g = (ru, g') \<Longrightarrow> built g'"

definition type_in :: "FastSearchGraph \<Rightarrow> StepType \<Rightarrow> string \<Rightarrow> bool" where
  "type_in g ty k \<longleftrightarrow> (\<exists>m. (k, m) \<in> set (fg_nodes g) \<and> ws_step_type m = ty)"

definition node_shape :: "FastSearchGraph \<Rightarrow> WorkflowStepSpec \<Rightarrow> bool" where
  "node_shape g n \<longleftrightarrow>
     (case ws_step_type n of
        ROUTE \<Rightarrow> ws_dependencies n = []
      | PLAN \<Rightarrow> ws_dependencies n = [''route'']
      | DISCOVERY \<Rightarrow> ws_dependencies n = [''plan'']
      | SELECT \<Rightarrow> list_all (type_in g DISCOVERY) (ws_dependencies n)
                  \<or> ws_dependencies n = [''plan'']
      | FETCH \<Rightarrow> ws_dependencies n = [''select'']
      | EXTRACT \<Rightarrow> ws_key n \<notin> {''route'', ''plan'', ''select''}
      | VERIFY \<Rightarrow> ws_key n \<notin> {''route'', ''plan'', ''select''}
                  \<and> (list_all (type_in g EXTRACT) (ws_dependencies n)
                     \<or> ws_dependencies n = [''select''])
      | SYNTHESIZE \<Rightarrow> list_all (type_in g VERIFY) (ws_dependencies n)
      | COMPLETE \<Rightarrow> False)"

definition fast_inv :: "FastSearchGraph \<Rightarrow> bool" where
  "fast_inv g \<longleftrightarrow> graph_wf g \<and> (\<forall>(k, n) \<in> set (fg_nodes g). node_shape g n)"

lemma type_in_mono: "set (fg_nodes g) \<subseteq> set (fg_nodes g') \<Longrightarrow> type_in g ty k \<Longrightarrow> type_in g' ty k"
  by (auto simp: type_in_def)

lemma type_in_key: "type_in g ty k \<Longrightarrow> k \<in> fst ` set (fg_nodes g)"
  by (force simp: type_in_def)

lemma node_shape_mono:
  assumes "set (fg_nodes g) \<subseteq> set (fg_nodes g')" "node_shape g n"
  shows "node_shape g' n"
  using assms type_in_mono [OF assms(1)]
  by (cases "ws_step_type n") (auto simp: node_shape_def list_all_iff)

lemma type_in_keys_of_type: "list_all (type_in g ty) (keys_of_type ty g)"
  by (auto simp: list_all_iff keys_of_type_def type_in_def)

lemma fast_inv_stage [simp]: "fast_inv (g\<lparr>fg_stage := st\<rparr>) \<longleftrightarrow> fast_inv g"
proof -
  have "type_in (g\<lparr>fg_stage := st\<rparr>) = type_in g" by (auto simp: type_in_def fun_eq_iff)
  then have "node_shape (g\<lparr>fg_stage := st\<rparr>) n = node_shape g n" for n
    unfolding node_shape_def by (simp only:)
  then show ?thesis by (simp add: fast_inv_def graph_wf_def)
qed

lemma add_spec_inv:
  assumes add: "add_spec k ty deps (StepBudgetCost_new ph s q p f l) low g = (r, g')"
    and inv: "fast_inv g"
    and shape: "\<And>n. ws_key n = k \<Longrightarrow> ws_step_type n = ty \<Longrightarrow> ws_dependencies n = deps \<Longrightarrow> node_shape g n"
  shows "fast_inv g' \<and> set (fg_nodes g) \<subseteq> set (fg_nodes g') \<and> fg_stage g' = fg_stage g
     \<and> (r = Ok () \<longrightarrow> type_in g' ty k)"
  using add
proof (cases rule: add_spec_cases)
  case (added n)
  then have n: "ws_key n = k" "ws_step_type n = ty" "ws_dependencies n = deps" by auto
  have sub: "set (fg_nodes g) \<subseteq> set (fg_nodes g')" using added by auto
  have "graph_wf g'"
    using inv added n by (simp add: fast_inv_def graph_wf_def nodes_ok_append)
  moreover have "\<forall>(k, n) \<in> set (fg_nodes g'). node_shape g' n"
    using inv shape [OF n] added(6) node_shape_mono [OF sub] by (auto simp: fast_inv_def)
  ultimately show ?thesis using added n sub by (auto simp: fast_inv_def type_in_def)
next
  case (refused e)
  with inv show ?thesis by simp
qed

section \<open>Operations keep the invariant\<close>

lemma bootstrapped_mono:
  "bootstrapped g \<Longrightarrow> set (fg_nodes g) \<subseteq> set (fg_nodes g') \<Longrightarrow> fg_stage g' = fg_stage g \<Longrightarrow> bootstrapped g'"
  by (auto simp: bootstrapped_def)

lemma sbind_cases:
  assumes "sbind m f s = (r, t)"
  obtains (ok) x s' where "m s = (Ok x, s')" "f x s' = (r, t)"
  | (err) e where "m s = (Err e, t)" "r = Err e"
  using assms by (auto simp: sbind_def split: prod.splits result.splits)

lemma add_discovery_inv:
  assumes op: "FastSearchGraph_add_discovery q p s g = (r, g')" and inv: "fast_inv g" "bootstrapped g"
  shows "fast_inv g' \<and> bootstrapped g'"
proof (cases "fg_stage g \<noteq> Stage_OPEN \<or> blank q")
  case True
  with assms show ?thesis by (auto simp: FastSearchGraph_add_discovery_def split: if_split_asm)
next
  case False
  obtain r1 g1 where add: "add_spec (''discover:'' @ q) DISCOVERY [''plan'']
      (StepBudgetCost_new Phase_DISCOVERY s 1 p 0 0) True g = (r1, g1)" by fastforce
  have "fast_inv g1 \<and> set (fg_nodes g) \<subseteq> set (fg_nodes g1) \<and> fg_stage g1 = fg_stage g"
    using add_spec_inv [OF add inv(1)] by (simp add: node_shape_def)
  moreover from op False add have "g' = g1"
    by (auto simp: FastSearchGraph_add_discovery_def Let_def slift_def elim!: sbind_cases)
  ultimately show ?thesis using inv(2) bootstrapped_mono by blast
qed

lemma seal_discovery_inv:
  assumes op: "FastSearchGraph_seal_discovery g = (r, g')" and inv: "fast_inv g" "bootstrapped g"
  shows "fast_inv g' \<and> bootstrapped g'"
proof (cases "fg_stage g \<noteq> Stage_OPEN")
  case True
  with assms show ?thesis by (auto simp: FastSearchGraph_seal_discovery_def)
next
  case False
  let ?deps = "if keys_of_type DISCOVERY g = [] then [''plan''] else keys_of_type DISCOVERY g"
  obtain r1 g1 where add: "add_spec ''select'' SELECT ?deps
      (StepBudgetCost_new Phase_DISCOVERY (fl (2 / 10)) 0 0 0 0) True g = (r1, g1)" by fastforce
  have g1: "fast_inv g1 \<and> set (fg_nodes g) \<subseteq> set (fg_nodes g1) \<and> fg_stage g1 = fg_stage g
      \<and> (r1 = Ok () \<longrightarrow> type_in g1 SELECT ''select'')"
    by (rule add_spec_inv [OF add inv(1)])
      (auto simp: node_shape_def type_in_keys_of_type split: if_splits)
  then have b1: "bootstrapped g1" using inv(2) bootstrapped_mono by blast
  from op False add have "g' = g1 \<or> r1 = Ok () \<and> g' = g1\<lparr>fg_stage := Stage_DISCOVERY_SEALED\<rparr>"
    by (auto simp: FastSearchGraph_seal_discovery_def Let_def set_stage_def elim!: sbind_cases)
  with g1 b1 show ?thesis
    by (auto simp: bootstrapped_def dest: type_in_key)
qed

lemma add_fetch_inv:
  assumes op: "FastSearchGraph_add_fetch_pipeline sk fs g = (r, g')"
    and inv: "fast_inv g" "bootstrapped g"
  shows "fast_inv g' \<and> bootstrapped g'"
proof (cases "fg_stage g \<noteq> Stage_DISCOVERY_SEALED \<or> blank sk")
  case True
  with assms show ?thesis by (auto simp: FastSearchGraph_add_fetch_pipeline_def split: if_split_asm)
next
  case False
  obtain r1 g1 where add1: "add_spec (''fetch:'' @ sk) FETCH [''select'']
      (StepBudgetCost_new Phase_FETCH_EXTRACT fs 0 0 1 0) True g = (r1, g1)" by fastforce
  obtain r2 g2 where add2: "add_spec (''extract:'' @ sk) EXTRACT [''fetch:'' @ sk]
      (StepBudgetCost_new Phase_FETCH_EXTRACT (fl (2 / 10)) 0 0 0 0) True g1 = (r2, g2)"
    by fastforce
  have g1: "fast_inv g1 \<and> set (fg_nodes g) \<subseteq> set (fg_nodes g1) \<and> fg_stage g1 = fg_stage g"
    using add_spec_inv [OF add1 inv(1)] by (simp add: node_shape_def)
  then have g2: "fast_inv g2 \<and> set (fg_nodes g1) \<subseteq> set (fg_nodes g2) \<and> fg_stage g2 = fg_stage g1"
    using add_spec_inv [OF add2] by (simp add: node_shape_def)
  from op False add1 add2 have "g' = g1 \<or> g' = g2"
    by (auto simp: FastSearchGraph_add_fetch_pipeline_def Let_def slift_def elim!: sbind_cases)
  with g1 g2 inv(2) bootstrapped_mono show ?thesis by metis
qed

lemma seal_synthesis_inv:
  assumes op: "FastSearchGraph_seal_synthesis g = (r, g')" and inv: "fast_inv g" "bootstrapped g"
  shows "fast_inv g' \<and> bootstrapped g'"
proof (cases "fg_stage g \<noteq> Stage_DISCOVERY_SEALED")
  case True
  with assms show ?thesis by (auto simp: FastSearchGraph_seal_synthesis_def)
next
  case False
  let ?deps = "if keys_of_type EXTRACT g = [] then [''select''] else keys_of_type EXTRACT g"
  obtain r1 g1 where add1: "add_spec ''verify'' VERIFY ?deps
      (StepBudgetCost_new Phase_VERIFY (fl (3 / 10)) 0 0 0 0) True g = (r1, g1)" by fastforce
  obtain r2 g2 where add2: "add_spec ''synthesize'' SYNTHESIZE [''verify'']
      (StepBudgetCost_new Phase_SYNTHESIZE (fl (8 / 10)) 0 0 0 0) False g1 = (r2, g2)" by fastforce
  have g1: "fast_inv g1 \<and> set (fg_nodes g) \<subseteq> set (fg_nodes g1) \<and> fg_stage g1 = fg_stage g
      \<and> (r1 = Ok () \<longrightarrow> type_in g1 VERIFY ''verify'')"
    by (rule add_spec_inv [OF add1 inv(1)])
      (auto simp: node_shape_def type_in_keys_of_type split: if_splits)
  then have b1: "bootstrapped g1" using inv(2) bootstrapped_mono by blast
  have g2: "fast_inv g2 \<and> set (fg_nodes g1) \<subseteq> set (fg_nodes g2) \<and> fg_stage g2 = fg_stage g1
      \<and> (r2 = Ok () \<longrightarrow> type_in g2 SYNTHESIZE ''synthesize'')" if "r1 = Ok ()"
    using add_spec_inv [OF add2] g1 that by (simp add: node_shape_def)
  from op False add1 add2 have "g' = g1 \<or> r1 = Ok () \<and> g' = g2
      \<or> r1 = Ok () \<and> r2 = Ok () \<and> g' = g2\<lparr>fg_stage := Stage_SYNTHESIS_SEALED\<rparr>"
    by (auto simp: FastSearchGraph_seal_synthesis_def Let_def set_stage_def elim!: sbind_cases)
  moreover have b2: "bootstrapped g2" if "r1 = Ok ()"
    using g2 that b1 bootstrapped_mono by blast
  moreover have "bootstrapped (g2\<lparr>fg_stage := Stage_SYNTHESIS_SEALED\<rparr>)"
    if "r1 = Ok ()" "r2 = Ok ()"
    using b2 g1 g2 False that by (auto simp: bootstrapped_def dest: type_in_key)
  ultimately show ?thesis using g1 g2 b1 by auto
qed

lemma FastSearchGraph_new_inv:
  assumes "FastSearchGraph_new = Ok g"
  shows "fast_inv g \<and> bootstrapped g"
proof -
  let ?g0 = "\<lparr>fg_nodes = [], fg_stage = Stage_OPEN\<rparr>"
  from assms obtain g1 where
    add1: "add_spec ''route'' ROUTE [] (StepBudgetCost_new Phase_ROUTE_PLAN (fl (1 / 10)) 0 0 0 0)
      False ?g0 = (Ok (), g1)"
    and add2: "add_spec ''plan'' PLAN [''route'']
      (StepBudgetCost_new Phase_ROUTE_PLAN (fl (8 / 10)) 0 0 0 0) False g1 = (Ok (), g)"
    by (auto simp: FastSearchGraph_new_def FastSearchGraph_init_def
        elim!: sbind_cases split: prod.splits result.splits)
  have "fast_inv ?g0" by (simp add: fast_inv_def graph_wf_def)
  from add_spec_inv [OF add1 this] have g1: "fast_inv g1" "type_in g1 ROUTE ''route''"
    "fg_stage g1 = Stage_OPEN" by (auto simp: node_shape_def)
  from add_spec_inv [OF add2 g1(1)] have "fast_inv g" "type_in g PLAN ''plan''"
    "set (fg_nodes g1) \<subseteq> set (fg_nodes g)" "fg_stage g = fg_stage g1" by (auto simp: node_shape_def)
  with g1 show ?thesis by (auto simp: bootstrapped_def dest!: type_in_key)
qed

lemma FastSearchGraph_new_Ok: "\<exists>g. FastSearchGraph_new = Ok g"
proof -
  have "\<not> blank ''route''" "\<not> blank ''plan''" by code_simp+
  then show ?thesis
    by (auto simp: FastSearchGraph_new_def FastSearchGraph_init_def add_spec_def sbind_def slift_def
        StepBudgetCost_new_def WorkflowStepSpec_new_def FastSearchGraph_add_def fl_nonneg not_less)
qed

lemma built_inv: "built g \<Longrightarrow> fast_inv g \<and> bootstrapped g"
  by (induction rule: built.induct)
    (blast dest: FastSearchGraph_new_inv add_discovery_inv seal_discovery_inv add_fetch_inv
      seal_synthesis_inv)+

text \<open>The synthesis step is never of low value after the deadline.\<close>

definition synthesis_kept :: "FastSearchGraph \<Rightarrow> bool" where
  "synthesis_kept g \<longleftrightarrow>
     (\<forall>n. (''synthesize'', n) \<in> set (fg_nodes g) \<longrightarrow> \<not> ws_low_value_after_deadline n)"

definition keeps_synthesis :: "(FastSearchGraph, 'a) prog \<Rightarrow> bool" where
  "keeps_synthesis m \<longleftrightarrow> (\<forall>g r g'. m g = (r, g') \<longrightarrow> synthesis_kept g \<longrightarrow> synthesis_kept g')"

lemma keeps_synthesisD:
  "m g = (r, g') \<Longrightarrow> keeps_synthesis m \<Longrightarrow> synthesis_kept g \<Longrightarrow> synthesis_kept g'"
  by (simp add: keeps_synthesis_def)

lemma keeps_add_spec [intro!]:
  assumes "k = ''synthesize'' \<Longrightarrow> \<not> low"
  shows "keeps_synthesis (add_spec k ty deps (StepBudgetCost_new ph s q p f l) low)"
  unfolding keeps_synthesis_def
proof (intro allI impI)
  fix g r g'
  assume "add_spec k ty deps (StepBudgetCost_new ph s q p f l) low g = (r, g')" "synthesis_kept g"
  then show "synthesis_kept g'"
    by (cases rule: add_spec_cases) (use assms in \<open>auto simp: synthesis_kept_def\<close>)
qed

lemma keeps_simple [intro!]: "keeps_synthesis (set_stage st)" "keeps_synthesis (slift x)"
  by (auto simp: keeps_synthesis_def set_stage_def slift_def synthesis_kept_def)

lemma keeps_sbind [intro!]:
  assumes "keeps_synthesis m" "\<And>x. keeps_synthesis (f x)"
  shows "keeps_synthesis (sbind m f)"
  using assms unfolding keeps_synthesis_def by (blast elim: sbind_cases)

lemma built_synthesis_kept: "built g \<Longrightarrow> synthesis_kept g"
proof (induction rule: built.induct)
  case (new g)
  have start: "synthesis_kept \<lparr>fg_nodes = [], fg_stage = Stage_OPEN\<rparr>" by (simp add: synthesis_kept_def)
  from new obtain r where "FastSearchGraph_init \<lparr>fg_nodes = [], fg_stage = Stage_OPEN\<rparr> = (r, g)"
    by (auto simp: FastSearchGraph_new_def split: prod.splits result.splits)
  then show ?case
    by (rule keeps_synthesisD [OF _ _ start]) (auto simp: FastSearchGraph_init_def)
next
  case (add_discovery g q p s r g')
  then show ?case
    by (auto simp: FastSearchGraph_add_discovery_def Let_def split: if_splits elim!: keeps_synthesisD)
next
  case (seal_discovery g ru g')
  have "keeps_synthesis (sbind (add_spec ''select'' SELECT ds (StepBudgetCost_new ph e q p f l) True)
      (\<lambda>_. set_stage st))" for ds ph e q p f l st
    by auto
  from seal_discovery keeps_synthesisD [OF _ this] show ?case
    by (auto simp: FastSearchGraph_seal_discovery_def Let_def split: if_splits)
next
  case (add_fetch g sk fs rp g')
  then show ?case
    by (auto simp: FastSearchGraph_add_fetch_pipeline_def Let_def split: if_splits
        elim!: keeps_synthesisD)
next
  case (seal_synthesis g ru g')
  have "keeps_synthesis (sbind (add_spec ''verify'' VERIFY ds (StepBudgetCost_new ph e q p f l) True)
      (\<lambda>_. sbind (add_spec ''synthesize'' SYNTHESIZE [''verify'']
        (StepBudgetCost_new ph2 e2 q2 p2 f2 l2) False) (\<lambda>_. set_stage st)))"
    for ds ph e q p f l ph2 e2 q2 p2 f2 l2 st
    by auto
  from seal_synthesis keeps_synthesisD [OF _ this] show ?case
    by (auto simp: FastSearchGraph_seal_synthesis_def Let_def split: if_splits)
qed

section \<open>What the scheduler submits\<close>

definition dep_type :: "FastSearchGraph \<Rightarrow> StepType list \<Rightarrow> string \<Rightarrow> bool" where
  "dep_type g tys d \<longleftrightarrow> (\<exists>ty \<in> set tys. type_in g ty d)"

definition deps_ready :: "FastSearchGraph \<Rightarrow> statuses \<Rightarrow> WorkflowStepSpec \<Rightarrow> bool" where
  "deps_ready g st n \<longleftrightarrow>
     (let ds = ws_dependencies n in
      if ws_step_type n \<in> {SELECT, SYNTHESIZE} \<and> list_all (dep_type g [DISCOVERY, VERIFY]) ds
      then list_all (dep_terminal st) ds
      else if ws_step_type n = VERIFY \<and> list_all (dep_type g [EXTRACT]) ds
      then list_all (dep_terminal st) ds \<and> list_ex (dep_succeeded st) ds
      else list_all (dep_succeeded st) ds)"

lemma graph_wf_lookup:
  "graph_wf g \<Longrightarrow> map_of (fg_nodes g) k = Some n \<longleftrightarrow> (k, n) \<in> set (fg_nodes g)"
  using nodes_ok_distinct [of "{}" "fg_nodes g"] by (auto simp: graph_wf_def)

lemma dep_type_in_pure:
  assumes "graph_wf g" "k \<in> set (dict_keys (fg_nodes g))"
  shows "dep_type_in g tys k = Ok (dep_type g tys k)"
proof -
  from assms(2) obtain n where n: "map_of (fg_nodes g) k = Some n"
    by (metis map_of_eq_None_iff not_None_eq list.set_map)
  then have "(k, m) \<in> set (fg_nodes g) \<longleftrightarrow> m = n" for m
    using graph_wf_lookup [OF assms(1), of k m] by auto
  then show ?thesis using n by (auto simp: dep_type_in_def dep_type_def type_in_def)
qed

lemma dependencies_satisfied_pure:
  assumes wf: "graph_wf g" and n: "(k, n) \<in> set (fg_nodes g)"
  shows "dependencies_satisfied g st n = Ok (deps_ready g st n)"
proof -
  have "set (ws_dependencies n) \<subseteq> set (dict_keys (fg_nodes g))"
    using nodes_ok_deps [of "{}" "fg_nodes g" k n] wf n by (simp add: graph_wf_def)
  then have "rall (dep_type_in g tys) (ws_dependencies n)
      = Ok (list_all (dep_type g tys) (ws_dependencies n))" for tys
    using dep_type_in_pure [OF wf] by (intro rall_pure) auto
  then show ?thesis by (auto simp: dependencies_satisfied_def deps_ready_def Let_def)
qed

definition open_for_submit :: "FastSearchGraph \<Rightarrow> statuses \<Rightarrow> string \<times> WorkflowStepSpec \<Rightarrow> bool" where
  "open_for_submit g st kn \<longleftrightarrow>
     status_or_ready st (fst kn) = Step_READY \<and> \<not> must_skip st kn \<and> deps_ready g st (snd kn)"

lemma advance_before_deadline:
  assumes wf: "graph_wf g" and sealed: "fg_stage g = Stage_SYNTHESIS_SEALED"
    and known: "set (dict_keys st) \<subseteq> set (dict_keys (fg_nodes g))"
    and time: "now < BudgetGuard_non_synthesis_deadline b"
  shows "FastSearchGraph_advance g st b now =
     Ok \<lparr>wa_submit = map snd (filter (open_for_submit g st) (fg_nodes g)), wa_cancel = [],
         wa_skip = map fst (filter (must_skip st) (fg_nodes g)),
         wa_release_reservations = [], wa_deadline_fallback = False\<rparr>"
proof -
  let ?skip = "map fst (filter (must_skip st) (fg_nodes g))"
  have uniq: "m = n" if "(k, n) \<in> set (fg_nodes g)" "(k, m) \<in> set (fg_nodes g)" for k n m
    using that graph_wf_lookup [OF wf, of k n] graph_wf_lookup [OF wf, of k m] by simp
  have skip: "k \<in> set ?skip \<longleftrightarrow> must_skip st (k, n)" if "(k, n) \<in> set (fg_nodes g)" for k n
  proof -
    have "k \<in> set ?skip \<longleftrightarrow> (\<exists>m. (k, m) \<in> set (fg_nodes g) \<and> must_skip st (k, m))"
      by (simp only: set_map set_filter) force
    also have "\<dots> \<longleftrightarrow> must_skip st (k, n)" using that uniq by blast
    finally show ?thesis .
  qed
  have "rfilter (\<lambda>(key, node). if status_or_ready st key = Step_READY \<and> key \<notin> set ?skip
          then dependencies_satisfied g st node else Ok False) (fg_nodes g)
      = Ok (filter (open_for_submit g st) (fg_nodes g))"
  proof (rule rfilter_pure)
    fix x
    assume "x \<in> set (fg_nodes g)"
    moreover obtain k n where x: "x = (k, n)" by fastforce
    ultimately have "(k, n) \<in> set (fg_nodes g)" by simp
    from skip [OF this] dependencies_satisfied_pure [OF wf this]
    show "(case x of (key, node) \<Rightarrow> if status_or_ready st key = Step_READY \<and> key \<notin> set ?skip
          then dependencies_satisfied g st node else Ok False) = Ok (open_for_submit g st x)"
      by (simp add: x open_for_submit_def del: set_map)
  qed
  with sealed known time show ?thesis
    by (simp add: FastSearchGraph_advance_def Let_def)
qed

section \<open>The scheduler is never stuck\<close>

definition settled :: "FastSearchGraph \<Rightarrow> statuses \<Rightarrow> bool" where
  "settled g st \<longleftrightarrow>
     set (dict_keys st) \<subseteq> set (dict_keys (fg_nodes g))
     \<and> (\<forall>k s. map_of st k = Some s \<longrightarrow> step_terminal s)
     \<and> (\<forall>k \<in> {''route'', ''plan'', ''select''}. \<forall>s. map_of st k = Some s \<longrightarrow> s = Step_SUCCEEDED)"

lemma settled_ready_iff: "settled g st \<Longrightarrow> status_or_ready st k = Step_READY \<longleftrightarrow> map_of st k = None"
  by (auto simp: settled_def status_or_ready_def step_terminal_def split: option.splits)

lemma settled_dep:
  "settled g st \<Longrightarrow> map_of st d \<noteq> None \<Longrightarrow> dep_terminal st d"
  "settled g st \<Longrightarrow> map_of st d \<noteq> None \<Longrightarrow> d \<in> {''route'', ''plan'', ''select''} \<Longrightarrow> dep_succeeded st d"
  by (auto simp: settled_def dep_terminal_def dep_succeeded_def split: option.splits)

text \<open>The first step that is still open has settled dependencies, and can be handled.\<close>

lemma open_node_handled:
  assumes shape: "node_shape g n" and st: "settled g st"
    and deps: "\<forall>d \<in> set (ws_dependencies n). map_of st d \<noteq> None"
    and ready: "map_of st k = None"
  shows "must_skip st (k, n) \<or> open_for_submit g st (k, n)"
proof -
  have rd: "status_or_ready st k = Step_READY" using ready by (simp add: status_or_ready_def)
  have done_deps: "list_all (dep_terminal st) (ws_dependencies n)"
    using deps settled_dep(1) [OF st] by (auto simp: list_all_iff)
  have succ: "dep_succeeded st d"
    if "d \<in> set (ws_dependencies n)" "d \<in> {''route'', ''plan'', ''select''}" for d
    using that deps settled_dep(2) [OF st] by blast
  have all_bool: "list_all (\<lambda>d. \<not> P d) xs \<longleftrightarrow> \<not> list_ex P xs" for P and xs :: "string list"
    by (auto simp: list_all_iff list_ex_iff)
  show ?thesis
  proof (cases "ws_step_type n")
    case EXTRACT
    then show ?thesis using rd done_deps
      by (auto simp: must_skip_def open_for_submit_def deps_ready_def list_all_iff list_ex_iff)
  next
    case VERIFY
    then show ?thesis using rd done_deps shape succ
      by (auto simp: must_skip_def open_for_submit_def deps_ready_def node_shape_def all_bool
          dep_type_def list_all_iff)
  next
    case SYNTHESIZE
    then show ?thesis using rd done_deps shape
      by (auto simp: must_skip_def open_for_submit_def deps_ready_def node_shape_def dep_type_def
          list_all_iff)
  next
    case SELECT
    then show ?thesis using rd done_deps shape succ
      by (auto simp: must_skip_def open_for_submit_def deps_ready_def node_shape_def dep_type_def
          list_all_iff)
  qed (use rd done_deps shape succ in
    \<open>auto simp: must_skip_def open_for_submit_def deps_ready_def node_shape_def\<close>)
qed

lemma nodes_ok_prefix_deps:
  "nodes_ok {} (xs @ (k, n) # ys) \<Longrightarrow> set (ws_dependencies n) \<subseteq> set (dict_keys xs)"
  by (simp add: nodes_ok_append)

lemma first_open_node:
  assumes inv: "fast_inv g" and st: "settled g st"
    and ex: "\<exists>k \<in> set (dict_keys (fg_nodes g)). map_of st k = None"
  shows "\<exists>kn \<in> set (fg_nodes g). map_of st (fst kn) = None
     \<and> (must_skip st kn \<or> open_for_submit g st kn)"
proof -
  from ex have "\<exists>kn \<in> set (fg_nodes g). map_of st (fst kn) = None" by auto
  from split_list_first_prop [OF this] obtain xs kn ys where
    split: "fg_nodes g = xs @ kn # ys" "map_of st (fst kn) = None"
    "\<forall>x \<in> set xs. map_of st (fst x) \<noteq> None" by blast
  obtain k n where kn: "kn = (k, n)" by fastforce
  have "set (ws_dependencies n) \<subseteq> set (dict_keys xs)"
    using inv split(1) kn by (intro nodes_ok_prefix_deps) (auto simp: fast_inv_def graph_wf_def)
  then have "\<forall>d \<in> set (ws_dependencies n). map_of st d \<noteq> None"
    using split(3) by auto
  moreover have "node_shape g n" using inv split(1) kn by (auto simp: fast_inv_def)
  ultimately have "must_skip st kn \<or> open_for_submit g st kn"
    using open_node_handled [OF _ st] split(2) kn by auto
  with split show ?thesis by auto
qed

section \<open>Rounds of scheduling\<close>

text \<open>
  One round: every submitted step ends with the status that the workers report
  (\<open>outcome\<close>), every skipped step is marked skipped. \<open>drive\<close> iterates rounds at a time
  before the non-synthesis deadline.
\<close>

definition settle :: "(string \<Rightarrow> StepStatus) \<Rightarrow> WorkflowAdvance \<Rightarrow> statuses \<Rightarrow> statuses" where
  "settle outcome adv st =
     fold (\<lambda>k. AList.update k Step_SKIPPED) (wa_skip adv)
       (fold (\<lambda>k. AList.update k (outcome k)) (map ws_key (wa_submit adv)) st)"

fun drive ::
  "(string \<Rightarrow> StepStatus) \<Rightarrow> FastSearchGraph \<Rightarrow> BudgetSnapshot \<Rightarrow> instant \<Rightarrow> nat \<Rightarrow> statuses \<Rightarrow> statuses"
where
  "drive outcome g b now 0 st = st"
| "drive outcome g b now (Suc rounds) st =
     (case FastSearchGraph_advance g st b now of
        Err e \<Rightarrow> st
      | Ok adv \<Rightarrow> drive outcome g b now rounds (settle outcome adv st))"

lemma map_of_fold_update:
  "map_of (fold (\<lambda>k. AList.update k (f k)) ks st) k = (if k \<in> set ks then Some (f k) else map_of st k)"
  by (induction ks arbitrary: st) (auto simp: update_conv')

lemma keys_fold_update:
  "set (dict_keys (fold (\<lambda>k. AList.update k (f k)) ks st)) = set (dict_keys st) \<union> set ks"
  by (auto simp: dom_map_of_conv_image_fst [symmetric] dom_def map_of_fold_update)

lemma map_of_settle:
  "map_of (settle outcome adv st) k =
     (if k \<in> set (wa_skip adv) then Some Step_SKIPPED
      else if k \<in> ws_key ` set (wa_submit adv) then Some (outcome k) else map_of st k)"
  by (simp add: settle_def map_of_fold_update [of "\<lambda>_. Step_SKIPPED"] map_of_fold_update)

lemma settled_settle:
  assumes inv: "fast_inv g" and st: "settled g st"
    and out: "\<forall>k. step_terminal (outcome k)" "\<forall>k \<in> {''route'', ''plan'', ''select''}. outcome k = Step_SUCCEEDED"
    and skip: "set (wa_skip adv) \<subseteq> fst ` set (filter (must_skip st) (fg_nodes g))"
    and submit: "ws_key ` set (wa_submit adv) \<subseteq> set (dict_keys (fg_nodes g))"
  shows "settled g (settle outcome adv st)"
proof -
  have "k \<notin> {''route'', ''plan'', ''select''}" if "k \<in> set (wa_skip adv)" for k
  proof -
    from that skip obtain n where n: "(k, n) \<in> set (fg_nodes g)" "must_skip st (k, n)" by auto
    with inv have "node_shape g n" "k = ws_key n"
      using nodes_ok_key [of "{}" "fg_nodes g" k n] by (auto simp: fast_inv_def graph_wf_def)
    with n(2) show ?thesis by (auto simp: node_shape_def must_skip_def)
  qed
  moreover have "set (dict_keys (settle outcome adv st)) \<subseteq> set (dict_keys (fg_nodes g))"
    using st skip submit unfolding settle_def keys_fold_update [of "\<lambda>_. Step_SKIPPED"] keys_fold_update
    by (auto simp: settled_def)
  ultimately show ?thesis
    using st out by (auto simp: settled_def map_of_settle step_terminal_def split: if_splits)
qed

definition open_keys :: "FastSearchGraph \<Rightarrow> statuses \<Rightarrow> string set" where
  "open_keys g st = {k \<in> set (dict_keys (fg_nodes g)). map_of st k = None}"

lemma round_progress:
  assumes inv: "fast_inv g" and sealed: "fg_stage g = Stage_SYNTHESIS_SEALED"
    and time: "now < BudgetGuard_non_synthesis_deadline b" and st: "settled g st"
    and out: "\<forall>k. step_terminal (outcome k)" "\<forall>k \<in> {''route'', ''plan'', ''select''}. outcome k = Step_SUCCEEDED"
  shows "\<exists>adv. FastSearchGraph_advance g st b now = Ok adv \<and> settled g (settle outcome adv st)
     \<and> open_keys g (settle outcome adv st) \<subseteq> open_keys g st
     \<and> (open_keys g st \<noteq> {} \<longrightarrow> open_keys g (settle outcome adv st) \<noteq> open_keys g st)"
proof -
  let ?sub = "filter (open_for_submit g st) (fg_nodes g)"
  let ?skip = "filter (must_skip st) (fg_nodes g)"
  have wf: "graph_wf g" using inv by (simp add: fast_inv_def)
  have known: "set (dict_keys st) \<subseteq> set (dict_keys (fg_nodes g))" using st by (simp add: settled_def)
  define adv where "adv = \<lparr>wa_submit = map snd ?sub, wa_cancel = [], wa_skip = map fst ?skip,
    wa_release_reservations = [], wa_deadline_fallback = False\<rparr>"
  have adv: "FastSearchGraph_advance g st b now = Ok adv"
    unfolding adv_def by (rule advance_before_deadline [OF wf sealed known time])
  have key: "ws_key (snd kn) = fst kn" if "kn \<in> set (fg_nodes g)" for kn
    using nodes_ok_key [of "{}" "fg_nodes g" "fst kn" "snd kn"] that wf by (simp add: graph_wf_def)
  have sub_keys: "ws_key ` set (wa_submit adv) = fst ` set ?sub"
    unfolding adv_def by (auto simp: image_image key intro!: image_cong)
  have settled: "settled g (settle outcome adv st)"
    using sub_keys by (intro settled_settle [OF inv st out]) (auto simp: adv_def)
  have keys: "open_keys g (settle outcome adv st) = open_keys g st - (fst ` set ?skip \<union> fst ` set ?sub)"
    unfolding open_keys_def map_of_settle sub_keys by (auto simp: adv_def)
  have "\<exists>k \<in> open_keys g st. k \<in> fst ` set ?skip \<union> fst ` set ?sub" if "open_keys g st \<noteq> {}"
  proof -
    from that have "\<exists>k \<in> set (dict_keys (fg_nodes g)). map_of st k = None"
      by (auto simp: open_keys_def)
    from first_open_node [OF inv st this] show ?thesis by (force simp: open_keys_def)
  qed
  with adv settled keys show ?thesis by blast
qed

lemma drive_finishes:
  assumes inv: "fast_inv g" and sealed: "fg_stage g = Stage_SYNTHESIS_SEALED"
    and time: "now < BudgetGuard_non_synthesis_deadline b"
    and out: "\<forall>k. step_terminal (outcome k)" "\<forall>k \<in> {''route'', ''plan'', ''select''}. outcome k = Step_SUCCEEDED"
  shows "settled g st \<Longrightarrow> card (open_keys g st) \<le> rounds
     \<Longrightarrow> settled g (drive outcome g b now rounds st) \<and> open_keys g (drive outcome g b now rounds st) = {}"
proof (induction rounds arbitrary: st)
  case 0
  then show ?case by (simp add: open_keys_def)
next
  case (Suc rounds)
  from round_progress [OF inv sealed time Suc.prems(1) out] obtain adv where
    adv: "FastSearchGraph_advance g st b now = Ok adv" "settled g (settle outcome adv st)"
    "open_keys g (settle outcome adv st) \<subseteq> open_keys g st"
    "open_keys g st \<noteq> {} \<longrightarrow> open_keys g (settle outcome adv st) \<noteq> open_keys g st" by blast
  have fin: "finite (open_keys g st)" by (simp add: open_keys_def)
  have "card (open_keys g (settle outcome adv st)) \<le> rounds"
  proof (cases "open_keys g st = {}")
    case True
    with adv(3) show ?thesis by simp
  next
    case False
    with adv(3,4) have "card (open_keys g (settle outcome adv st)) < card (open_keys g st)"
      by (intro psubset_card_mono [OF fin]) auto
    with Suc.prems(2) show ?thesis by simp
  qed
  with Suc.IH [OF adv(2)] adv(1) show ?case by simp
qed

end
