(* ===== verification/Query_Planning.thy ===== *)
theory Query_Planning
  imports Evidence Budget_Policy
begin

text \<open>
  \<^verbatim>\<open>sana/modules/search_planning\<close>: query limits (\<^verbatim>\<open>policy.py\<close>), the deterministic query
  compiler (\<^verbatim>\<open>query_compiler.py\<close>) and the expansion planner (\<^verbatim>\<open>expansion.py\<close>). The
  Unicode tables behind \<^verbatim>\<open>str.casefold\<close>, NFKC normalization and the class \<^verbatim>\<open>\w\<close>, and
  SHA-256, are the fields of \<open>text_ops\<close>. The compiler's two regular expressions are
  modelled: token runs by \<open>key_tokens\<close>, unsafe fragments by the small matcher \<open>rx\<close>. The
  order in which the planner sums a Python set is an argument.
\<close>

section \<open>Text helpers\<close>

record text_ops =
  casefold :: "utext \<Rightarrow> utext"
  nfkc :: "utext \<Rightarrow> utext"
  word_char :: "nat \<Rightarrow> bool"
  text_sha :: "utext \<Rightarrow> string"

definition ascii_text :: "string \<Rightarrow> utext" where
  "ascii_text s = map of_char s"

function text_words :: "utext \<Rightarrow> utext list" where
  "text_words t =
     (let s = dropWhile text_space t in
      if s = [] then []
      else takeWhile (\<lambda>c. \<not> text_space c) s # text_words (dropWhile (\<lambda>c. \<not> text_space c) s))"
  by pat_completeness auto

lemma length_dropWhile_less:
  "x \<in> set t \<Longrightarrow> \<not> P x \<Longrightarrow> length (dropWhile (\<lambda>c. \<not> P c) (dropWhile P t)) < length t"
  by (induction t) (auto simp: less_Suc_eq_le length_dropWhile_le less_imp_le)

termination text_words
  by (relation "measure length") (auto intro: length_dropWhile_less)

declare text_words.simps [simp del]

fun join_space :: "utext list \<Rightarrow> utext" where
  "join_space [] = []"
| "join_space [x] = x"
| "join_space (x # y # ys) = x @ [32] @ join_space (y # ys)"

definition text_rstrip :: "utext \<Rightarrow> utext" where
  "text_rstrip t = rev (dropWhile text_space (rev t))"

definition alnum :: "nat \<Rightarrow> bool" where
  "alnum c \<longleftrightarrow> 48 \<le> c \<and> c \<le> 57 \<or> 65 \<le> c \<and> c \<le> 90 \<or> 97 \<le> c \<and> c \<le> 122"

definition ascii_lower :: "nat \<Rightarrow> nat" where
  "ascii_lower c = (if 65 \<le> c \<and> c \<le> 90 then c + 32 else c)"

function key_tokens :: "utext \<Rightarrow> utext list" where
  "key_tokens t =
     (let s = dropWhile (\<lambda>c. \<not> alnum c) t in
      if s = [] then [] else takeWhile alnum s # key_tokens (dropWhile alnum s))"
  by pat_completeness auto

termination key_tokens
  using length_dropWhile_less [where P = "\<lambda>c. \<not> alnum c"]
  by (relation "measure length") auto

declare key_tokens.simps [simp del]

text \<open>The concatenations of literals and whitespace runs that the unsafe pattern uses.\<close>

datatype rx = Lit utext | Opt utext | OneOf "utext list" | Spaces nat

fun rx_rests :: "rx \<Rightarrow> utext \<Rightarrow> utext list" where
  "rx_rests (Lit s) t = (if take (length s) t = s then [drop (length s) t] else [])"
| "rx_rests (Opt s) t = (if take (length s) t = s then [drop (length s) t, t] else [t])"
| "rx_rests (OneOf ss) t =
     concat (map (\<lambda>s. if take (length s) t = s then [drop (length s) t] else []) ss)"
| "rx_rests (Spaces n) t =
     map (\<lambda>k. drop k t) [n..<Suc (length (takeWhile text_space t))]"

fun rx_match :: "rx list \<Rightarrow> utext \<Rightarrow> bool" where
  "rx_match [] t \<longleftrightarrow> True"
| "rx_match (r # rs) t \<longleftrightarrow> list_ex (rx_match rs) (rx_rests r t)"

definition rx_search :: "rx list \<Rightarrow> utext \<Rightarrow> bool" where
  "rx_search rs t \<longleftrightarrow> list_ex (\<lambda>i. rx_match rs (drop i t)) [0..<Suc (length t)]"

section \<open>policy.py\<close>

record SearchPlanningPolicy =
  pp_version :: string
  pp_max_facts :: int
  pp_max_query_characters :: int
  pp_fast_max_queries_per_fact :: int
  pp_research_max_queries_per_fact :: int
  pp_fast_max_queries :: int
  pp_research_initial_max_queries :: int
  pp_research_total_max_queries :: int

definition SearchPlanningPolicy_default :: SearchPlanningPolicy where
  "SearchPlanningPolicy_default =
     \<lparr>pp_version = ''search-v12'', pp_max_facts = 8, pp_max_query_characters = 64,
      pp_fast_max_queries_per_fact = 1, pp_research_max_queries_per_fact = 3,
      pp_fast_max_queries = 4, pp_research_initial_max_queries = 8,
      pp_research_total_max_queries = 12\<rparr>"

definition query_limit :: "SearchPlanningPolicy \<Rightarrow> SearchMode \<Rightarrow> bool \<Rightarrow> int" where
  "query_limit p mode expansion =
     (if mode = FAST then pp_fast_max_queries p
      else if expansion then pp_research_total_max_queries p
      else pp_research_initial_max_queries p)"

section \<open>query\_compiler.py\<close>

definition unsafe_patterns :: "rx list list" where
  "unsafe_patterns =
     [[Lit (ascii_text ''sana''), Opt [39, 115], Spaces 1,
       OneOf [ascii_text ''memory'', ascii_text ''private'']],
      [Lit (ascii_text ''user''), Opt [39, 115], Spaces 1, Lit (ascii_text ''private'')],
      [Lit (ascii_text ''ignore''), Spaces 1,
       OneOf [ascii_text ''web'', ascii_text ''search'', ascii_text ''evidence'']],
      [Lit (ascii_text ''do''), Spaces 1, Lit (ascii_text ''not''), Spaces 1,
       Lit (ascii_text ''mention'')],
      [Lit (ascii_text ''access''), Spaces 1, Lit (ascii_text ''limitation''),
       Opt (ascii_text ''s'')],
      [Lit (ascii_text ''private''), Spaces 1, Lit (ascii_text ''memory'')],
      [Lit (ascii_text ''sana''), Spaces 0, Opt [30340], Spaces 0,
       Lit [31169, 20154, 35760, 24518]],
      [Lit [31169, 20154, 35760, 24518]],
      [Lit [21512, 29702, 32534, 36896]],
      [Lit [19981, 35201, 35828, 20320, 26080, 27861, 35775, 38382]]]"

definition unsafe_fragment :: "utext \<Rightarrow> bool" where
  "unsafe_fragment t \<longleftrightarrow> list_ex (\<lambda>p. rx_search p (map ci_char t)) unsafe_patterns"

definition excluded_terms :: "utext list" where
  "excluded_terms =
     map ascii_text
       [''answer'', ''background'', ''evidence'', ''fact'', ''gap'', ''info'', ''information'',
        ''ignore'', ''memory'', ''overview'', ''profile'', ''purpose'', ''reveal'', ''result'',
        ''sana'', ''source'', ''status'', ''user'']"

fun collect_terms :: "utext list \<Rightarrow> utext list \<Rightarrow> utext list \<Rightarrow> utext list" where
  "collect_terms excluded [] terms = terms"
| "collect_terms excluded (raw # raws) terms =
     (let candidate = map ascii_lower raw in
      if length candidate < 2 \<or> candidate \<in> set excluded \<or> candidate \<in> set terms
      then collect_terms excluded raws terms
      else if length (terms @ [candidate]) = 4 then terms @ [candidate]
      else collect_terms excluded raws (terms @ [candidate]))"

definition semantic_key_terms ::
  "FactRequirement \<Rightarrow> utext \<Rightarrow> utext \<Rightarrow> utext list \<Rightarrow> utext list" where
  "semantic_key_terms f entity subject keyword_groups =
     (let sources = [entity, if subject = [] then fq_subject f else subject] @ keyword_groups;
          excluded = map (map ascii_lower) (key_tokens (join_space sources)) @ excluded_terms
      in collect_terms excluded (key_tokens (ascii_text (fq_key f))) [])"

fun fact_keywords :: "bool \<Rightarrow> FactType \<Rightarrow> utext list list" where
  "fact_keywords True CHARACTER_CHANGES =
     [[[25913, 21160], [23448, 26041, 34917, 19969]], [[24179, 34913, 24615, 35843, 25972], [26356, 26032]], [[25216, 33021, 25913, 21160]]]"
| "fact_keywords True VERSION =
     [[[24403, 21069, 31283, 23450, 29256, 26412], [23448, 26041]], [[26368, 26032, 29256, 26412, 21495]], [[26368, 26032, 26356, 26032]]]"
| "fact_keywords True PATCH_NOTES =
     [[[34917, 19969, 35828, 26126], [23448, 26041]], [[26356, 26032, 26085, 24535]], [[29256, 26412, 20844, 21578]]]"
| "fact_keywords True TEAM_META =
     [[[24403, 21069, 29256, 26412], [37197, 38431]], [[38453, 23481], ascii_text ''meta''], [[25490, 20301, 28909, 38376, 38453, 23481]]]"
| "fact_keywords True CURRENT_VALUE =
     [[[24403, 21069]], [[26368, 26032]], [[23448, 26041, 25968, 25454]]]"
| "fact_keywords True COMPARISON =
     [[[23545, 27604]], [[21306, 21035]], [[20248, 32570, 28857]]]"
| "fact_keywords True BACKGROUND =
     [[[32972, 26223]], [[20171, 32461]], [[23448, 26041, 36164, 26009]]]"
| "fact_keywords False CHARACTER_CHANGES =
     [[ascii_text ''changes'', ascii_text ''official patch''], [ascii_text ''balance update''], [ascii_text ''ability changes'']]"
| "fact_keywords False VERSION =
     [[ascii_text ''latest stable version'', ascii_text ''official''], [ascii_text ''current version number''], [ascii_text ''latest release'']]"
| "fact_keywords False PATCH_NOTES =
     [[ascii_text ''official patch notes''], [ascii_text ''changelog''], [ascii_text ''release notes'']]"
| "fact_keywords False TEAM_META =
     [[ascii_text ''current meta'', ascii_text ''team composition''], [ascii_text ''best lineup''], [ascii_text ''ranked team picks'']]"
| "fact_keywords False CURRENT_VALUE =
     [[ascii_text ''current''], [ascii_text ''latest''], [ascii_text ''official data'']]"
| "fact_keywords False COMPARISON =
     [[ascii_text ''comparison''], [ascii_text ''differences''], [ascii_text ''pros and cons'']]"
| "fact_keywords False BACKGROUND =
     [[ascii_text ''background''], [ascii_text ''overview''], [ascii_text ''official profile'']]"

function fit_parts :: "int \<Rightarrow> utext list \<Rightarrow> utext list" where
  "fit_parts limit parts =
     (if limit < int (length (join_space parts)) \<and> 2 < length parts
      then fit_parts limit (butlast parts) else parts)"
  by pat_completeness auto

termination fit_parts
  by (relation "measure (\<lambda>(limit, parts). length parts)") auto

declare fit_parts.simps [simp del]

definition fit_query :: "SearchPlanningPolicy \<Rightarrow> utext \<Rightarrow> utext list \<Rightarrow> utext result" where
  "fit_query p entity components =
     (let limit = pp_max_query_characters p;
          query = join_space (fit_parts limit (entity # components)) in
      if limit < int (length query)
      then if limit < int (length entity)
           then Err (ValueError ''Canonical entity exceeds query character limit'')
           else Ok (text_rstrip (py_slice query 0 limit))
      else Ok query)"

fun first_safe :: "utext list \<Rightarrow> utext" where
  "first_safe [] = ascii_text ''public evidence''"
| "first_safe (candidate # candidates) =
     (let normalized = text_strip (join_space (text_words candidate)) in
      if normalized \<noteq> [] \<and> \<not> unsafe_fragment normalized then normalized
      else first_safe candidates)"

definition safe_entity :: "NormalizedIntent \<Rightarrow> FactRequirement \<Rightarrow> utext" where
  "safe_entity intent f = first_safe ([ni_entity intent] @ ni_aliases intent @ [fq_subject f])"

function sub_nonword :: "(nat \<Rightarrow> bool) \<Rightarrow> utext \<Rightarrow> utext" where
  "sub_nonword word [] = []"
| "sub_nonword word (c # cs) =
     (if word c then c # sub_nonword word cs
      else 32 # sub_nonword word (dropWhile (\<lambda>c. \<not> word c) cs))"
  by pat_completeness auto

termination sub_nonword
  by (relation "measure (\<lambda>(word, t). length t)") (auto simp: le_imp_less_Suc length_dropWhile_le)

definition query_signature :: "text_ops \<Rightarrow> utext \<Rightarrow> string option \<Rightarrow> string" where
  "query_signature ops query fact_key =
     (let normalized = text_strip (sub_nonword (word_char ops) (casefold ops (nfkc ops query))) in
      text_sha ops
        (case fact_key of
           None \<Rightarrow> normalized
         | Some k \<Rightarrow> casefold ops (nfkc ops (ascii_text k)) @ [0] @ normalized))"

definition freshness_days :: "FactRequirement \<Rightarrow> int option" where
  "freshness_days f =
     (case fq_freshness f of Fresh_CURRENT \<Rightarrow> Some 45 | Fresh_RECENT \<Rightarrow> Some 180 | Fresh_STABLE \<Rightarrow> None)"

definition variants_of :: "bool \<Rightarrow> FactRequirement list \<Rightarrow> string \<Rightarrow> utext list list" where
  "variants_of chinese facts key =
     (case map_of (rev (map (\<lambda>f. (fq_key f, fact_keywords chinese (fq_fact_type f))) facts)) key of
        None \<Rightarrow> [] | Some vs \<Rightarrow> vs)"

definition compile_candidates ::
  "bool \<Rightarrow> int \<Rightarrow> FactRequirement list \<Rightarrow> (FactRequirement \<times> nat \<times> utext list) list" where
  "compile_candidates chinese per_fact_limit facts =
     concat (map (\<lambda>i. concat (map (\<lambda>f.
       let vs = variants_of chinese facts (fq_key f) in
       if i < length vs then [(f, i, vs ! i)] else []) facts)) [0..<nat per_fact_limit])"

definition candidate_text ::
  "text_ops \<Rightarrow> SearchPlanningPolicy \<Rightarrow> NormalizedIntent \<Rightarrow> FactRequirement \<Rightarrow> utext list \<Rightarrow> utext result"
where
  "candidate_text ops p intent f words =
     (let entity = safe_entity intent f;
          stripped = text_strip (fq_subject f);
          subject = (if unsafe_fragment stripped then entity else stripped);
          components = (if casefold ops subject \<noteq> casefold ops entity then [subject] else [])
            @ semantic_key_terms f entity subject words @ words
      in fit_query p entity components)"

fun compile_loop ::
  "text_ops \<Rightarrow> SearchPlanningPolicy \<Rightarrow> NormalizedIntent \<Rightarrow> int \<Rightarrow> int
     \<Rightarrow> (FactRequirement \<times> nat \<times> utext list) list \<Rightarrow> QuerySpec list \<Rightarrow> string list
     \<Rightarrow> QuerySpec list result" where
  "compile_loop ops p intent plan_revision limit [] queries signatures = Ok queries"
| "compile_loop ops p intent plan_revision limit ((f, i, words) # rest) queries signatures =
     rbind (candidate_text ops p intent f words) (\<lambda>txt.
       let signature = query_signature ops txt (Some (fq_key f)) in
       if signature \<in> set signatures
       then compile_loop ops p intent plan_revision limit rest queries signatures
       else
         rbind (QuerySpec_new
                  (''q:'' @ int_str plan_revision @ '':'' @ fq_key f @ '':'' @ int_str (int i + 1))
                  (fq_key f) txt signature (ni_locale intent) (freshness_days f) plan_revision
                  [(''fact_type'', fact_type_value (fq_fact_type f)),
                   (''source_kind'', case fq_preferred_source_kinds f of [] \<Rightarrow> ''web'' | k # _ \<Rightarrow> k)])
           (\<lambda>q. if limit \<le> int (length (queries @ [q])) then Ok (queries @ [q])
                else compile_loop ops p intent plan_revision limit rest (queries @ [q])
                       (signatures @ [signature])))"

definition QueryCompiler_compile ::
  "text_ops \<Rightarrow> SearchPlanningPolicy \<Rightarrow> NormalizedIntent \<Rightarrow> SearchMode \<Rightarrow> int \<Rightarrow> bool \<Rightarrow> string list
     \<Rightarrow> QuerySpec list result" where
  "QueryCompiler_compile ops p intent mode plan_revision expansion existing_signatures =
     (let total_limit = query_limit p mode expansion;
          limit = (if expansion then max 0 (total_limit - int (card (set existing_signatures)))
                   else total_limit) in
      if limit = 0 then Ok []
      else
        let per_fact_limit = (if mode = FAST then pp_fast_max_queries_per_fact p
                              else pp_research_max_queries_per_fact p);
            chinese = (take 2 (py_lower (ni_locale intent)) = ''zh'')
        in compile_loop ops p intent plan_revision limit
             (compile_candidates chinese per_fact_limit (ni_facts intent)) [] existing_signatures)"

section \<open>expansion.py\<close>

datatype ExpansionStopReason =
    EXPAND | MAX_ROUNDS | LOW_EXPECTED_GAIN | QUERY_BUDGET_EXHAUSTED | NO_REQUIRED_GAPS

record RevisionStep =
  rs_step_key :: string
  rs_step_type :: StepType
  rs_plan_revision :: int
  rs_query_key :: string

record ExpansionDecision =
  ed_should_expand :: bool
  ed_plan_revision :: int
  ed_queries :: "QuerySpec list"
  ed_steps :: "RevisionStep list"
  ed_expected_gain :: pyfloat
  ed_reason :: ExpansionStopReason
  ed_gain_by_fact :: "(string, pyfloat) dict"

definition ExpansionDecision_new ::
  "bool \<Rightarrow> int \<Rightarrow> QuerySpec list \<Rightarrow> RevisionStep list \<Rightarrow> pyfloat \<Rightarrow> ExpansionStopReason
     \<Rightarrow> (string, pyfloat) dict \<Rightarrow> ExpansionDecision result" where
  "ExpansionDecision_new should_expand plan_revision queries steps expected_gain reason gain_by_fact =
     (if plan_revision < 1 then Err (ValueError ''Expansion revision must be positive'')
      else if \<not> (0 \<le> expected_gain \<and> expected_gain \<le> 1)
      then Err (ValueError ''Expansion expected gain must be between zero and one'')
      else if should_expand \<noteq> (queries \<noteq> [] \<and> steps \<noteq> [])
      then Err (ValueError ''Expansion decision does not match generated work'')
      else if should_expand \<and> reason \<noteq> EXPAND
      then Err (ValueError ''Expanding decision requires EXPAND reason'')
      else if \<not> should_expand \<and> reason = EXPAND
      then Err (ValueError ''Stopped decision cannot use EXPAND reason'')
      else if length queries \<noteq> length steps
      then Err (ValueError ''Every expansion query requires one discovery Step'')
      else if list_ex (\<lambda>q. qs_plan_revision q \<noteq> plan_revision) queries
      then Err (ValueError ''Expansion query belongs to another revision'')
      else if list_ex (\<lambda>(s, q). rs_plan_revision s \<noteq> plan_revision \<or> rs_query_key s \<noteq> qs_key q)
                (zip steps queries)
      then Err (ValueError ''Expansion Step does not match its query'')
      else if list_ex (\<lambda>v. \<not> (0 \<le> v \<and> v \<le> 1)) (dict_values gain_by_fact)
      then Err (ValueError ''Per-fact evidence gain must be between zero and one'')
      else Ok \<lparr>ed_should_expand = should_expand, ed_plan_revision = plan_revision,
               ed_queries = queries, ed_steps = steps, ed_expected_gain = expected_gain,
               ed_reason = reason, ed_gain_by_fact = gain_by_fact\<rparr>)"

record ExpansionPlanner =
  ep_policy :: SearchPlanningPolicy
  ep_minimum_gain :: pyfloat
  ep_max_rounds :: int

definition ExpansionPlanner_new ::
  "SearchPlanningPolicy \<Rightarrow> pyfloat \<Rightarrow> int \<Rightarrow> ExpansionPlanner result" where
  "ExpansionPlanner_new policy minimum_expected_gain max_expansion_rounds =
     (if \<not> (0 \<le> minimum_expected_gain \<and> minimum_expected_gain \<le> 1) \<or> max_expansion_rounds < 1
      then Err (ValueError ''Expansion policy values are invalid'')
      else Ok \<lparr>ep_policy = policy, ep_minimum_gain = minimum_expected_gain,
               ep_max_rounds = max_expansion_rounds\<rparr>)"

text \<open>
  \<^verbatim>\<open>sum\<close> over floats as CPython 3.12 (the interpreter of \<^verbatim>\<open>deployment/Dockerfile\<close>) computes
  it: the first value, then compensated additions, the correction added at the end.
\<close>

fun sum_loop :: "pyfloat \<Rightarrow> pyfloat \<Rightarrow> pyfloat list \<Rightarrow> pyfloat" where
  "sum_loop s c [] = (if c \<noteq> 0 then fadd s c else s)"
| "sum_loop s c (x # xs) =
     (let t = fadd s x in
      sum_loop t
        (fadd c (if \<bar>x\<bar> \<le> \<bar>s\<bar> then fadd (fadd s (- t)) x else fadd (fadd x (- t)) s)) xs)"

fun py_sum :: "pyfloat list \<Rightarrow> pyfloat" where
  "py_sum [] = 0"
| "py_sum (x # xs) = sum_loop x 0 xs"

definition expansion_stop ::
  "int \<Rightarrow> ExpansionStopReason \<Rightarrow> (string, pyfloat) dict \<Rightarrow> ExpansionDecision result" where
  "expansion_stop next_revision reason gain_by_fact =
     ExpansionDecision_new False next_revision [] [] 0 reason gain_by_fact"

definition ExpansionPlanner_plan ::
  "text_ops \<Rightarrow> (string set \<Rightarrow> string list) \<Rightarrow> ExpansionPlanner \<Rightarrow> NormalizedIntent \<Rightarrow> int \<Rightarrow> int
     \<Rightarrow> string list \<Rightarrow> ExpectedEvidenceGain list \<Rightarrow> QuerySpec list \<Rightarrow> ExpansionDecision result" where
  "ExpansionPlanner_plan ops set_order planner intent current_revision completed_rounds
       gap_fact_keys gains existing_queries =
     (if current_revision < 1 \<or> completed_rounds < 0
      then Err (ValueError ''Expansion revision and round counters are invalid'')
      else
        let next_revision = current_revision + 1 in
        if ep_max_rounds planner \<le> completed_rounds
        then expansion_stop next_revision MAX_ROUNDS []
        else if gap_fact_keys = [] then expansion_stop next_revision NO_REQUIRED_GAPS []
        else
          let gain_by_fact =
                fold (\<lambda>g. AList.update (eg_fact_key g) (eg_score g))
                  (filter (\<lambda>g. eg_fact_key g \<in> set gap_fact_keys) gains) [];
              selected_keys =
                map fst (filter (\<lambda>(_, score). ep_minimum_gain planner \<le> score) gain_by_fact) in
          if selected_keys = [] then expansion_stop next_revision LOW_EXPECTED_GAIN gain_by_fact
          else
            let selected_facts =
                  filter (\<lambda>f. fq_required f \<and> fq_key f \<in> set selected_keys) (ni_facts intent) in
            if selected_facts = [] then expansion_stop next_revision NO_REQUIRED_GAPS gain_by_fact
            else
              rbind (NormalizedIntent_new (ni_entity intent) (ni_aliases intent) (ni_locale intent)
                       selected_facts (ni_requires_comparison intent)
                       (ni_requires_complete_sources intent)) (\<lambda>narrowed.
              rbind (QueryCompiler_compile ops (ep_policy planner) narrowed RESEARCH next_revision
                       True (fromkeys (map qs_signature existing_queries))) (\<lambda>queries.
                if queries = []
                then expansion_stop next_revision QUERY_BUDGET_EXHAUSTED gain_by_fact
                else
                  let steps = map (\<lambda>q. \<lparr>rs_step_key = ''discover:'' @ qs_key q,
                                rs_step_type = DISCOVERY, rs_plan_revision = next_revision,
                                rs_query_key = qs_key q\<rparr>) queries;
                      keys = set (map fq_key selected_facts) in
                  rbind (traverse (\<lambda>k. case map_of gain_by_fact k of
                                     None \<Rightarrow> Err (KeyError k) | Some v \<Rightarrow> Ok v)
                           (set_order keys)) (\<lambda>scores.
                    ExpansionDecision_new True next_revision queries steps
                      (fdiv (py_sum scores) (of_nat (card keys))) EXPAND gain_by_fact))))"

section \<open>Compiled queries are bounded and new\<close>

lemma length_text_rstrip: "length (text_rstrip t) \<le> length t"
  by (simp add: text_rstrip_def length_dropWhile_le [of text_space "rev t", simplified])

lemma fit_query_length:
  assumes "fit_query p entity cs = Ok q" "0 \<le> pp_max_query_characters p"
  shows "int (length q) \<le> pp_max_query_characters p"
proof -
  let ?limit = "pp_max_query_characters p"
  have "length (text_rstrip (py_slice t 0 ?limit)) \<le> nat ?limit" for t :: utext
    using length_text_rstrip [of "py_slice t 0 ?limit"] assms(2) by (simp add: py_slice_nonneg)
  then have "int (length (text_rstrip (py_slice t 0 ?limit))) \<le> ?limit" for t :: utext
    using assms(2) by (simp add: le_nat_iff)
  with assms show ?thesis
    by (auto simp: fit_query_def Let_def split: if_splits)
qed

definition query_ok :: "SearchPlanningPolicy \<Rightarrow> string set \<Rightarrow> int \<Rightarrow> QuerySpec \<Rightarrow> bool" where
  "query_ok p keys plan_revision q \<longleftrightarrow>
     int (length (qs_text q)) \<le> pp_max_query_characters p \<and> \<not> text_blank (qs_text q)
     \<and> qs_fact_key q \<in> keys \<and> qs_plan_revision q = plan_revision"

lemma QuerySpec_new_Ok:
  "QuerySpec_new k fk t sg loc fd r md = Ok q \<Longrightarrow>
     qs_text q = t \<and> \<not> text_blank t \<and> qs_fact_key q = fk \<and> qs_signature q = sg
     \<and> qs_plan_revision q = r \<and> qs_key q = k"
  by (auto simp: QuerySpec_new_def split: if_splits option.splits)

lemma compile_loop_spec:
  assumes "compile_loop ops p intent r limit cands qs sigs = Ok out"
    and "int (length qs) < limit" "0 \<le> pp_max_query_characters p"
  shows "\<exists>new. out = qs @ new \<and> int (length out) \<le> limit
     \<and> distinct (map qs_signature new) \<and> set (map qs_signature new) \<inter> set sigs = {}
     \<and> (\<forall>q \<in> set new. query_ok p (fq_key ` fst ` set cands) r q)"
  using assms
proof (induction ops p intent r limit cands qs sigs rule: compile_loop.induct)
  case (2 ops p intent r limit f i ws rest qs sigs)
  from "2.prems"(1) obtain t where t: "candidate_text ops p intent f ws = Ok t" by auto
  have len: "int (length t) \<le> pp_max_query_characters p"
    using t "2.prems"(3) by (auto simp: candidate_text_def Let_def intro: fit_query_length)
  let ?sig = "query_signature ops t (Some (fq_key f))"
  have weaken: "query_ok p (fq_key ` fst ` set ((f, i, ws) # rest)) r q"
    if "query_ok p (fq_key ` fst ` set rest) r q" for q
    using that by (auto simp: query_ok_def)
  show ?case
  proof (cases "?sig \<in> set sigs")
    case True
    with "2.prems" t "2.IH"(1) [OF refl True] weaken show ?thesis by (auto simp: Let_def)
  next
    case False
    with "2.prems"(1) t obtain q where
      q: "QuerySpec_new (''q:'' @ int_str r @ '':'' @ fq_key f @ '':'' @ int_str (int i + 1))
            (fq_key f) t ?sig (ni_locale intent) (freshness_days f) r
            [(''fact_type'', fact_type_value (fq_fact_type f)),
             (''source_kind'', case fq_preferred_source_kinds f of [] \<Rightarrow> ''web'' | k # _ \<Rightarrow> k)] = Ok q"
      and out: "(if limit \<le> int (length (qs @ [q])) then Ok (qs @ [q])
          else compile_loop ops p intent r limit rest (qs @ [q]) (sigs @ [?sig])) = Ok out"
      by (auto simp: Let_def)
    have qok: "query_ok p (fq_key ` fst ` set ((f, i, ws) # rest)) r q" and sig: "qs_signature q = ?sig"
      using QuerySpec_new_Ok [OF q] len by (auto simp: query_ok_def)
    show ?thesis
    proof (cases "limit \<le> int (length (qs @ [q]))")
      case True
      with out "2.prems"(2) qok sig False show ?thesis by auto
    next
      case more: False
      with out have "compile_loop ops p intent r limit rest (qs @ [q]) (sigs @ [?sig]) = Ok out" by simp
      from "2.IH"(2) [OF refl False more this] more "2.prems"(3) obtain new where
        new: "out = (qs @ [q]) @ new" "int (length out) \<le> limit" "distinct (map qs_signature new)"
          "set (map qs_signature new) \<inter> set (sigs @ [?sig]) = {}"
          "\<forall>x \<in> set new. query_ok p (fq_key ` fst ` set rest) r x" by auto
      then show ?thesis using qok sig False weaken by (intro exI [of _ "q # new"]) auto
    qed
  qed
qed auto

lemma candidates_facts: "fst ` set (compile_candidates z n fs) \<subseteq> set fs"
  by (auto simp: compile_candidates_def Let_def split: if_splits)

lemma query_limit_default_pos: "0 < query_limit SearchPlanningPolicy_default m e"
  by (simp add: query_limit_def SearchPlanningPolicy_default_def)

lemma compile_spec:
  assumes "QueryCompiler_compile ops SearchPlanningPolicy_default intent mode r ex sigs = Ok qs"
  shows "distinct (map qs_signature qs)" "set (map qs_signature qs) \<inter> set sigs = {}"
    "\<forall>q \<in> set qs. query_ok SearchPlanningPolicy_default (fq_key ` set (ni_facts intent)) r q"
    "int (length qs) \<le> query_limit SearchPlanningPolicy_default mode ex"
    "ex \<Longrightarrow> qs \<noteq> [] \<Longrightarrow> int (card (set sigs)) + int (length qs)
        \<le> query_limit SearchPlanningPolicy_default mode ex"
proof -
  let ?p = SearchPlanningPolicy_default
  define limit where "limit = (if ex then max 0 (query_limit ?p mode ex - int (card (set sigs)))
    else query_limit ?p mode ex)"
  have pos: "0 \<le> limit" using query_limit_default_pos [of mode ex] by (auto simp: limit_def)
  have "qs = [] \<or> distinct (map qs_signature qs) \<and> set (map qs_signature qs) \<inter> set sigs = {}
     \<and> (\<forall>q \<in> set qs. query_ok ?p (fq_key ` set (ni_facts intent)) r q) \<and> int (length qs) \<le> limit"
  proof (cases "limit = 0")
    case True
    with assms show ?thesis by (simp add: QueryCompiler_compile_def limit_def Let_def)
  next
    case False
    from assms False obtain z n where
      "compile_loop ops ?p intent r limit (compile_candidates z n (ni_facts intent)) [] sigs = Ok qs"
      unfolding QueryCompiler_compile_def limit_def [symmetric] Let_def by (auto split: if_splits)
    from compile_loop_spec [OF this] pos False have
      loop: "int (length qs) \<le> limit" "distinct (map qs_signature qs)"
        "set (map qs_signature qs) \<inter> set sigs = {}"
        "\<forall>q \<in> set qs. query_ok ?p (fq_key ` fst ` set (compile_candidates z n (ni_facts intent))) r q"
      by (auto simp: SearchPlanningPolicy_default_def)
    have "query_ok ?p (fq_key ` set (ni_facts intent)) r q"
      if "query_ok ?p (fq_key ` fst ` set (compile_candidates z n (ni_facts intent))) r q" for q
      using that candidates_facts [of z n "ni_facts intent"] by (auto simp: query_ok_def)
    with loop show ?thesis by blast
  qed
  with pos show "distinct (map qs_signature qs)" "set (map qs_signature qs) \<inter> set sigs = {}"
    "\<forall>q \<in> set qs. query_ok ?p (fq_key ` set (ni_facts intent)) r q"
    "int (length qs) \<le> query_limit ?p mode ex"
    "ex \<Longrightarrow> qs \<noteq> [] \<Longrightarrow> int (card (set sigs)) + int (length qs) \<le> query_limit ?p mode ex"
    using query_limit_default_pos [of mode ex]
    by (cases qs; auto simp: limit_def max_def split: if_splits)+
qed

section \<open>Compilation never fails on a validated intent\<close>

lemma text_words_Nil [simp]: "text_words [] = []"
  by (simp add: text_words.simps [of "[]"])

lemma text_blank_strip: "text_blank (text_strip t) \<longleftrightarrow> text_strip t = []"
proof -
  have "text_blank (text_strip t) \<longleftrightarrow> text_blank t"
    by (simp add: text_blank_iff text_strip_def set_dropWhile_space)
  then show ?thesis by (simp add: text_blank_def)
qed

lemma text_words_dropWhile: "text_words (dropWhile text_space t) = text_words t"
  by (subst (1 2) text_words.simps) (simp add: Let_def)

lemma dropWhile_non_space:
  "dropWhile (\<lambda>c. \<not> text_space c) s = c # cs \<Longrightarrow> text_space c"
  by (metis hd_dropWhile list.distinct(1) list.sel(1))

lemma join_words_length: "length (join_space (text_words t)) \<le> length (dropWhile text_space t)"
proof (induction t rule: text_words.induct)
  case (1 t)
  let ?s = "dropWhile text_space t"
  let ?w = "takeWhile (\<lambda>c. \<not> text_space c) ?s" and ?r = "dropWhile (\<lambda>c. \<not> text_space c) ?s"
  show ?case
  proof (cases "?s = []")
    case True
    then show ?thesis by (subst text_words.simps) (simp add: Let_def)
  next
    case False
    have words: "text_words t = ?w # text_words ?r"
      using False by (subst text_words.simps) (simp add: Let_def)
    have len: "length ?s = length ?w + length ?r"
      by (metis length_append takeWhile_dropWhile_id)
    show ?thesis
    proof (cases "text_words ?r")
      case Nil
      with words len show ?thesis by simp
    next
      case (Cons v vs)
      then have "?r \<noteq> []" by (metis list.distinct(1) text_words_Nil)
      then obtain c cs where r: "?r = c # cs" by (cases ?r) auto
      then have "length (dropWhile text_space ?r) \<le> length cs"
        using dropWhile_non_space [OF r] by (simp add: length_dropWhile_le)
      with "1.IH" [OF refl False] Cons words len r show ?thesis by simp
    qed
  qed
qed

lemma text_words_trailing: "list_all text_space z \<Longrightarrow> text_words (t @ z) = text_words t"
proof (induction t rule: text_words.induct)
  case (1 t)
  let ?s = "dropWhile text_space t"
  have z: "dropWhile text_space z = []" "takeWhile (\<lambda>c. \<not> text_space c) z = []"
    "dropWhile (\<lambda>c. \<not> text_space c) z = z"
    using "1.prems" by (cases z; auto simp: list_all_iff)+
  show ?case
  proof (cases "?s = []")
    case True
    then have "dropWhile text_space (t @ z) = []" using z(1) by (simp add: list_all_iff)
    with True show ?thesis by (subst (1 2) text_words.simps) (simp add: Let_def)
  next
    case False
    then have s: "dropWhile text_space (t @ z) = ?s @ z"
      by (metis dropWhile_append dropWhile_eq_Nil_conv)
    have tw: "takeWhile (\<lambda>c. \<not> text_space c) (?s @ z) = takeWhile (\<lambda>c. \<not> text_space c) ?s"
      by (cases "\<forall>c \<in> set ?s. \<not> text_space c")
        (simp_all add: takeWhile_append z(2) takeWhile_eq_all_conv [THEN iffD2] del: dropWhile_eq_Nil_conv)
    have dw: "dropWhile (\<lambda>c. \<not> text_space c) (?s @ z) = dropWhile (\<lambda>c. \<not> text_space c) ?s @ z"
      using z(3) by (cases "\<forall>c \<in> set ?s. \<not> text_space c") (auto simp: dropWhile_append)
    have "text_words (t @ z) = takeWhile (\<lambda>c. \<not> text_space c) ?s
        # text_words (dropWhile (\<lambda>c. \<not> text_space c) ?s @ z)"
      using False s tw dw by (subst text_words.simps) (simp add: Let_def)
    also have "\<dots> = text_words t"
      using False "1.IH" [OF refl False "1.prems"] by (subst (2) text_words.simps) (simp add: Let_def)
    finally show ?thesis .
  qed
qed

lemma join_words_strip_length: "length (join_space (text_words t)) \<le> length (text_strip t)"
proof -
  let ?u = "dropWhile text_space t"
  let ?tail = "rev (takeWhile text_space (rev ?u))"
  have u: "?u = text_strip t @ ?tail"
    by (metis rev_append rev_rev_ident takeWhile_dropWhile_id text_strip_def)
  have "text_words t = text_words (text_strip t @ ?tail)"
    using text_words_dropWhile [of t] u by simp
  also have "\<dots> = text_words (text_strip t)"
    by (rule text_words_trailing) (auto simp: list_all_iff dest: set_takeWhileD)
  finally show ?thesis
    using join_words_length [of "text_strip t"] length_dropWhile_le [of text_space "text_strip t"]
    by simp
qed

lemma first_safe_bounds:
  assumes "\<forall>c \<in> set cands. length (text_strip c) \<le> n" "15 \<le> n"
  shows "length (first_safe cands) \<le> n \<and> \<not> text_blank (first_safe cands)"
  using assms(1)
proof (induction cands)
  case Nil
  have "length (ascii_text ''public evidence'') = 15" "\<not> text_blank (ascii_text ''public evidence'')"
    by code_simp+
  with assms(2) show ?case by simp
next
  case (Cons c cs)
  let ?n = "text_strip (join_space (text_words c))"
  have "length ?n \<le> length (join_space (text_words c))"
    using length_dropWhile_le [of text_space "rev (dropWhile text_space (join_space (text_words c)))"]
      length_dropWhile_le [of text_space "join_space (text_words c)"]
    by (simp add: text_strip_def)
  then have "length ?n \<le> n" using join_words_strip_length [of c] Cons.prems by auto
  moreover have "\<not> text_blank ?n" if "?n \<noteq> []"
    using that by (simp add: text_blank_strip)
  ultimately show ?case using Cons by (auto simp: Let_def)
qed

lemma fit_parts_head: "\<exists>cs'. fit_parts n (e # cs) = e # cs'"
proof (induction n "e # cs" arbitrary: cs rule: fit_parts.induct)
  case (1 n cs)
  show ?case
  proof (cases "n < int (length (join_space (e # cs))) \<and> 2 < length (e # cs)")
    case True
    then have "butlast (e # cs) = e # butlast cs" by (cases cs) auto
    with "1" True show ?thesis by (subst fit_parts.simps) simp
  next
    case False
    then show ?thesis by (subst fit_parts.simps) auto
  qed
qed

lemma join_space_head: "\<exists>rest. join_space (e # cs) = e @ rest"
  by (cases cs) auto

lemma fit_query_total:
  assumes "int (length e) \<le> pp_max_query_characters p" "\<not> text_blank e"
  shows "\<exists>q. fit_query p e cs = Ok q \<and> \<not> text_blank q"
proof -
  let ?n = "pp_max_query_characters p"
  obtain cs' rest where q: "join_space (fit_parts ?n (e # cs)) = e @ rest"
    using fit_parts_head [of ?n e cs] join_space_head [of e] by metis
  have "take (nat ?n) (e @ rest) = e @ take (nat ?n - length e) rest" using assms(1) by simp
  moreover have "\<not> text_blank (text_rstrip t)" if "\<not> text_blank t" for t
    using that by (simp add: text_blank_iff text_rstrip_def set_dropWhile_space)
  ultimately have "\<not> text_blank (text_rstrip (py_slice (e @ rest) 0 ?n))"
    using assms by (simp add: py_slice_nonneg text_blank_iff)
      (metis Un_iff set_append text_blank_iff)
  moreover have "\<not> text_blank (e @ rest)" using assms(2) by (auto simp: text_blank_iff)
  ultimately show ?thesis using assms(1) by (simp add: fit_query_def Let_def q not_less)
qed

definition intent_valid :: "NormalizedIntent \<Rightarrow> bool" where
  "intent_valid i \<longleftrightarrow>
     length (text_strip (ni_entity i)) \<le> 64
     \<and> (\<forall>a \<in> set (ni_aliases i). length (text_strip a) \<le> 64)
     \<and> (\<forall>f \<in> set (ni_facts i). \<not> blank (fq_key f) \<and> length (text_strip (fq_subject f)) \<le> 64)"

lemma candidate_text_total:
  assumes "intent_valid i" "f \<in> set (ni_facts i)"
  shows "\<exists>t. candidate_text ops SearchPlanningPolicy_default i f ws = Ok t \<and> \<not> text_blank t"
proof -
  have "length (safe_entity i f) \<le> 64 \<and> \<not> text_blank (safe_entity i f)"
    unfolding safe_entity_def
    by (rule first_safe_bounds) (use assms in \<open>auto simp: intent_valid_def\<close>)
  then show ?thesis
    by (auto simp: candidate_text_def Let_def SearchPlanningPolicy_default_def intro!: fit_query_total)
qed

lemma compile_loop_total:
  assumes "intent_valid i" "fst ` set cands \<subseteq> set (ni_facts i)" "1 \<le> r"
  shows "\<exists>qs'. compile_loop ops SearchPlanningPolicy_default i r limit cands qs sigs = Ok qs'"
  using assms(2)
proof (induction cands arbitrary: qs sigs)
  case (Cons c cands)
  obtain f n ws where c: "c = (f, n, ws)" by (cases c) auto
  with Cons.prems have f: "f \<in> set (ni_facts i)" by auto
  from candidate_text_total [OF assms(1) f] obtain t where
    t: "candidate_text ops SearchPlanningPolicy_default i f ws = Ok t" "\<not> text_blank t" by blast
  have "\<not> blank (''q:'' @ k)" for k by (simp add: blank_iff py_space_def)
  moreover have "\<not> blank (fq_key f)" using assms(1) f by (simp add: intent_valid_def)
  moreover have "\<not> (case freshness_days f of None \<Rightarrow> False | Some d \<Rightarrow> d < 1)"
    by (cases "fq_freshness f") (auto simp: freshness_days_def)
  ultimately have "\<exists>q. QuerySpec_new (''q:'' @ k) (fq_key f) t sg l (freshness_days f) r md = Ok q"
    for k sg l md
    using t(2) assms(3) by (simp add: QuerySpec_new_def)
  then show ?case
    using Cons t(1) c by (auto simp: Let_def) (metis rbind.simps(1))
qed auto

lemma compile_total:
  assumes "intent_valid i" "1 \<le> r"
  shows "\<exists>qs. QueryCompiler_compile ops SearchPlanningPolicy_default i mode r ex sigs = Ok qs"
  using compile_loop_total [OF assms(1) candidates_facts assms(2)]
  by (simp add: QueryCompiler_compile_def Let_def)

lemma NormalizedIntent_new_valid:
  assumes new: "NormalizedIntent_new e al loc fs c cs = Ok i"
    and facts: "\<forall>f \<in> set fs. \<exists>k ft d s r fr co ps. FactRequirement_new k ft d s r fr co ps = Ok f"
  shows "intent_valid i"
proof -
  have al: "ni_aliases i = al"
    using new by (auto simp: NormalizedIntent_new_def split: if_splits)
  have "\<not> blank (fq_key f) \<and> length (text_strip (fq_subject f)) \<le> 64" if "f \<in> set fs" for f
    using facts that by (fastforce simp: FactRequirement_new_Ok short_semantic_term_def)
  then show ?thesis
    using NormalizedIntent_new_Ok [OF new] al
    by (fastforce simp: intent_valid_def short_semantic_term_def)
qed

end
