(* ===== verification/Research_Workflow.thy ===== *)
theory Research_Workflow
  imports Query_Planning Search_Workflow
begin

text \<open>
  \<^verbatim>\<open>sana/modules/orchestration/research_workflow.py\<close>: when a FAST run is worth upgrading,
  the upgrade itself, the guards on scheduling and expansion, recovery of expansion
  steps and the terminal outcome.
\<close>

section \<open>FastUpgradePolicy\<close>

record FastUpgradeDecision =
  fu_should_upgrade :: bool
  fu_gap_fact_ids :: "uuid list"
  fu_reason_codes :: "string list"
  fu_status_by_fact :: "(uuid, FactCoverage) dict"

definition FastUpgradeDecision_new ::
  "bool \<Rightarrow> uuid list \<Rightarrow> string list \<Rightarrow> (uuid, FactCoverage) dict \<Rightarrow> FastUpgradeDecision result" where
  "FastUpgradeDecision_new should_upgrade gap_fact_ids reason_codes status_by_fact =
     (if should_upgrade \<noteq> (reason_codes \<noteq> [])
      then Err (ValueError ''FAST upgrade decision and reasons disagree'')
      else Ok \<lparr>fu_should_upgrade = should_upgrade, fu_gap_fact_ids = gap_fact_ids,
               fu_reason_codes = reason_codes, fu_status_by_fact = status_by_fact\<rparr>)"

definition fact_is_gap :: "NormalizedIntent \<Rightarrow> FactRequirement \<Rightarrow> FactCoverage \<Rightarrow> bool" where
  "fact_is_gap intent f status \<longleftrightarrow>
     status \<in> {Cov_OPEN, Cov_PARTIAL}
     \<or> status = Cov_COVERED
         \<and> (fq_consequence f = Conseq_HIGH \<or> ni_requires_complete_sources intent)"

definition gap_reasons :: "NormalizedIntent \<Rightarrow> FactRequirement \<Rightarrow> FactCoverage \<Rightarrow> string list" where
  "gap_reasons intent f status =
     (if status = Cov_PARTIAL then [''evidence_conflict''] else [])
     @ (if status = Cov_OPEN \<and> fq_freshness f \<noteq> Fresh_STABLE then [''strong_freshness_gap''] else [])
     @ (if fq_consequence f = Conseq_HIGH \<and> status \<noteq> Cov_VERIFIED
        then [''high_consequence_gap''] else [])
     @ (if ni_requires_complete_sources intent \<and> status \<noteq> Cov_VERIFIED
        then [''complete_coverage_gap''] else [])"

fun upgrade_loop ::
  "uuid \<Rightarrow> uuid \<Rightarrow> NormalizedIntent \<Rightarrow> (string, uuid) dict \<Rightarrow> (uuid, CoverageAssessment) dict
     \<Rightarrow> FactRequirement list \<Rightarrow> uuid list \<Rightarrow> string list \<Rightarrow> (uuid, FactCoverage) dict
     \<Rightarrow> (uuid list \<times> string list \<times> (uuid, FactCoverage) dict) result" where
  "upgrade_loop tenant_id run_id intent fact_ids coverage [] gaps reasons statuses =
     Ok (gaps, reasons, statuses)"
| "upgrade_loop tenant_id run_id intent fact_ids coverage (f # fs) gaps reasons statuses =
     (if \<not> fq_required f
      then upgrade_loop tenant_id run_id intent fact_ids coverage fs gaps reasons statuses
      else case map_of fact_ids (fq_key f) of
             None \<Rightarrow> Err (ValueError (''Missing persisted ID for fact: '' @ fq_key f))
           | Some fact_id \<Rightarrow>
               let assessment = map_of coverage fact_id in
               if (case assessment of
                     None \<Rightarrow> False
                   | Some a \<Rightarrow> ca_tenant_id a \<noteq> tenant_id \<or> ca_run_id a \<noteq> run_id
                       \<or> ca_fact_key a \<noteq> fq_key f)
               then Err (ValueError ''Coverage assessment tenant/run/fact mismatch'')
               else
                 let status = (case assessment of None \<Rightarrow> Cov_OPEN | Some a \<Rightarrow> ca_status a);
                     statuses' = AList.update fact_id status statuses in
                 if \<not> fact_is_gap intent f status
                 then upgrade_loop tenant_id run_id intent fact_ids coverage fs gaps reasons statuses'
                 else upgrade_loop tenant_id run_id intent fact_ids coverage fs (gaps @ [fact_id])
                        (reasons @ gap_reasons intent f status) statuses')"

definition FastUpgradePolicy_evaluate ::
  "uuid \<Rightarrow> uuid \<Rightarrow> NormalizedIntent \<Rightarrow> (string, uuid) dict \<Rightarrow> (uuid, CoverageAssessment) dict
     \<Rightarrow> FastUpgradeDecision result" where
  "FastUpgradePolicy_evaluate tenant_id run_id intent fact_ids coverage =
     rbind (upgrade_loop tenant_id run_id intent fact_ids coverage (ni_facts intent) [] [] [])
       (\<lambda>(gaps, reasons, statuses).
          let reason_codes = fromkeys reasons in
          FastUpgradeDecision_new (reason_codes \<noteq> []) gaps reason_codes statuses)"

section \<open>ResearchWorkflow\<close>

record ResearchOutcome =
  ro_quality :: AnswerQuality
  ro_reason :: StopReason

definition ResearchWorkflow_upgrade_fast_run ::
  "SearchRun \<Rightarrow> FastUpgradeDecision \<Rightarrow> SearchPolicy \<Rightarrow> SearchRun result" where
  "ResearchWorkflow_upgrade_fast_run run decision policy =
     (if \<not> fu_should_upgrade decision
      then Err (ValueError ''FAST run has no valuable upgrade reason'')
      else if sp_version policy \<noteq> rd_policy_version (sr_routing run)
      then Err (ValueError ''Upgrade policy version differs from the run snapshot'')
      else
        rbind (RoutingDecision_new RESEARCH
                 (fromkeys (rd_reason_codes (sr_routing run) @ [''fast_value_upgrade'']
                            @ fu_reason_codes decision))
                 (sp_version policy) 1) (\<lambda>routing.
        rbind (SearchPolicy_snapshot policy RESEARCH (Aware (bs_created_at (sr_budget run)))) (\<lambda>budget.
        rbind (BudgetGuard_validate budget (sr_usage run)) (\<lambda>_.
          SearchRun_upgrade_to_research run routing budget))))"

definition ResearchWorkflow_can_schedule ::
  "SearchRun \<Rightarrow> BudgetPhase \<Rightarrow> instant \<Rightarrow> pyfloat \<Rightarrow> bool result" where
  "ResearchWorkflow_can_schedule run phase now estimated_seconds =
     (if sr_mode run \<noteq> RESEARCH \<or> sr_status run \<notin> {Run_RUNNING, Run_WAITING} then Ok False
      else BudgetGuard_can_start (sr_budget run) phase (Aware now) estimated_seconds)"

definition ResearchWorkflow_record_expansion :: "SearchRun \<Rightarrow> SearchRun result" where
  "ResearchWorkflow_record_expansion run =
     (if sr_mode run \<noteq> RESEARCH \<or> SearchRun_is_terminal run
      then Err (InvariantViolation ''Only an active RESEARCH run can expand'')
      else
        rbind (BudgetUsage_add (sr_usage run) 0 0 0 0 0 0 1 None 0) (\<lambda>usage.
        rbind (BudgetGuard_validate (sr_budget run) usage) (\<lambda>_.
          SearchRun_record_usage run usage)))"

definition ResearchWorkflow_recover_new_steps ::
  "ExpansionDecision \<Rightarrow> (int \<times> string, StepStatus) dict \<Rightarrow> RevisionStep list" where
  "ResearchWorkflow_recover_new_steps decision persisted_statuses =
     (if \<not> ed_should_expand decision then []
      else filter (\<lambda>s. (rs_plan_revision s, rs_step_key s) \<notin> set (dict_keys persisted_statuses))
             (ed_steps decision))"

definition ResearchWorkflow_hard_deadline_reached :: "SearchRun \<Rightarrow> instant \<Rightarrow> bool" where
  "ResearchWorkflow_hard_deadline_reached run now \<longleftrightarrow> bs_hard_deadline_at (sr_budget run) \<le> now"

definition ResearchWorkflow_outcome :: "FactCoverage list \<Rightarrow> bool \<Rightarrow> bool \<Rightarrow> ResearchOutcome" where
  "ResearchWorkflow_outcome required_fact_statuses stopped_for_low_gain deadline_reached =
     (if required_fact_statuses \<noteq> [] \<and> list_all (\<lambda>s. s = Cov_VERIFIED) required_fact_statuses
      then \<lparr>ro_quality = Quality_COMPLETE, ro_reason = FACTS_COVERED\<rparr>
      else if deadline_reached then \<lparr>ro_quality = Quality_PARTIAL, ro_reason = TIME_BUDGET\<rparr>
      else if stopped_for_low_gain
      then \<lparr>ro_quality = Quality_PARTIAL, ro_reason = INSUFFICIENT_EVIDENCE\<rparr>
      else \<lparr>ro_quality = Quality_PARTIAL, ro_reason = INSUFFICIENT_EVIDENCE\<rparr>)"

section \<open>When a FAST run is upgraded\<close>

definition fact_status ::
  "(string, uuid) dict \<Rightarrow> (uuid, CoverageAssessment) dict \<Rightarrow> FactRequirement \<Rightarrow> FactCoverage" where
  "fact_status fact_ids coverage f =
     (case map_of fact_ids (fq_key f) of
        None \<Rightarrow> Cov_OPEN
      | Some i \<Rightarrow> (case map_of coverage i of None \<Rightarrow> Cov_OPEN | Some a \<Rightarrow> ca_status a))"

text \<open>
  The value of an upgrade: a conflict, a fresh fact without evidence, or anything short
  of verified where the consequence is high or complete sources were asked for.
\<close>

definition worth_upgrading :: "NormalizedIntent \<Rightarrow> FactRequirement \<Rightarrow> FactCoverage \<Rightarrow> bool" where
  "worth_upgrading intent f status \<longleftrightarrow>
     status = Cov_PARTIAL \<or> status = Cov_OPEN \<and> fq_freshness f \<noteq> Fresh_STABLE
     \<or> status \<noteq> Cov_VERIFIED
         \<and> (fq_consequence f = Conseq_HIGH \<or> ni_requires_complete_sources intent)"

lemma gap_reasons_iff:
  "fact_is_gap i f s \<and> gap_reasons i f s \<noteq> [] \<longleftrightarrow> worth_upgrading i f s"
  by (cases s) (auto simp: fact_is_gap_def gap_reasons_def worth_upgrading_def)

lemma upgrade_loop_spec:
  assumes "upgrade_loop t r i ids cov fs gaps reasons sts = Ok (gaps', reasons', sts')"
  shows "\<exists>new. reasons' = reasons @ new
     \<and> set new = (\<Union>f \<in> {f \<in> set fs. fq_required f \<and> fact_is_gap i f (fact_status ids cov f)}.
                    set (gap_reasons i f (fact_status ids cov f)))"
  using assms
proof (induction fs arbitrary: gaps reasons sts)
  case (Cons f fs)
  let ?S = "\<lambda>gs. \<Union>f \<in> {f \<in> set gs. fq_required f \<and> fact_is_gap i f (fact_status ids cov f)}.
    set (gap_reasons i f (fact_status ids cov f))"
  show ?case
  proof (cases "fq_required f")
    case False
    with Cons.prems Cons.IH show ?thesis by fastforce
  next
    case True
    with Cons.prems obtain fid where fid: "map_of ids (fq_key f) = Some fid"
      by (auto split: option.splits)
    let ?st = "fact_status ids cov f"
    have st: "(case map_of cov fid of None \<Rightarrow> Cov_OPEN | Some a \<Rightarrow> ca_status a) = ?st"
      using fid by (simp add: fact_status_def)
    from Cons.prems True fid st obtain gaps1 reasons1 sts1 where
      rec: "upgrade_loop t r i ids cov fs gaps1 reasons1 sts1 = Ok (gaps', reasons', sts')"
      and reasons1: "reasons1 = reasons @ (if fact_is_gap i f ?st then gap_reasons i f ?st else [])"
      by (auto simp: Let_def split: if_splits)
    from Cons.IH [OF rec] obtain new where
      new: "reasons' = reasons1 @ new" "set new = ?S fs" by blast
    have "{g \<in> set (f # fs). fq_required g \<and> fact_is_gap i g (fact_status ids cov g)}
        = (if fact_is_gap i f ?st then {f} else {})
          \<union> {g \<in> set fs. fq_required g \<and> fact_is_gap i g (fact_status ids cov g)}"
      using True by auto
    then have "?S (f # fs) = set (if fact_is_gap i f ?st then gap_reasons i f ?st else []) \<union> ?S fs"
      by auto
    with new reasons1 show ?thesis by auto
  qed
qed auto

lemma evaluate_upgrade_iff:
  assumes "FastUpgradePolicy_evaluate t r i ids cov = Ok d"
  shows "fu_should_upgrade d \<longleftrightarrow>
     (\<exists>f \<in> set (ni_facts i). fq_required f \<and> worth_upgrading i f (fact_status ids cov f))"
proof -
  from assms obtain gaps reasons sts where
    loop: "upgrade_loop t r i ids cov (ni_facts i) [] [] [] = Ok (gaps, reasons, sts)"
    and d: "fu_should_upgrade d \<longleftrightarrow> reasons \<noteq> []"
    by (auto simp: FastUpgradePolicy_evaluate_def FastUpgradeDecision_new_def Let_def split: if_splits)
  from upgrade_loop_spec [OF loop] have
    "set reasons = (\<Union>f \<in> {f \<in> set (ni_facts i). fq_required f \<and> fact_is_gap i f (fact_status ids cov f)}.
       set (gap_reasons i f (fact_status ids cov f)))" by simp
  moreover have "reasons \<noteq> [] \<longleftrightarrow> set reasons \<noteq> {}" by simp
  ultimately show ?thesis
    unfolding d gap_reasons_iff [symmetric] by auto
qed

section \<open>Upgrades and expansions\<close>

lemma upgrade_Ok_run_step:
  assumes "ResearchWorkflow_upgrade_fast_run run d p = Ok run'"
  shows "run_step run run'" "sr_mode run' = RESEARCH" "within_budget (sr_budget run') (sr_usage run')"
    "BudgetSnapshot_wf (sr_budget run')"
proof -
  from assms obtain routing budget where
    snap: "SearchPolicy_snapshot p RESEARCH (Aware (bs_created_at (sr_budget run))) = Ok budget"
    and within: "within_budget budget (sr_usage run)" and rt: "RoutingDecision_wf routing"
    and up: "SearchRun_upgrade_to_research run routing budget = Ok run'"
    by (auto simp: ResearchWorkflow_upgrade_fast_run_def BudgetGuard_validate_Ok
        RoutingDecision_new_Ok split: if_splits)
  show "run_step run run'" using up snap rt by (auto intro: run_step.upgrade dest: snapshot_Ok_wf)
  show "sr_mode run' = RESEARCH" "within_budget (sr_budget run') (sr_usage run')"
    "BudgetSnapshot_wf (sr_budget run')"
    using up within snap by (auto simp: SearchRun_upgrade_Ok sr_mode_def dest: snapshot_Ok_wf)
qed

lemma record_expansion_Ok:
  assumes "ResearchWorkflow_record_expansion run = Ok run'"
  shows "bu_expansion_rounds (sr_usage run') = bu_expansion_rounds (sr_usage run) + 1"
    "within_budget (sr_budget run') (sr_usage run')" "sr_budget run' = sr_budget run"
    "run_step run run'" "sr_mode run' = RESEARCH"
proof -
  from assms obtain u where mode: "sr_mode run = RESEARCH"
    and u: "BudgetUsage_add (sr_usage run) 0 0 0 0 0 0 1 None 0 = Ok u"
    and within: "within_budget (sr_budget run) u"
    and rec: "SearchRun_record_usage run u = Ok run'"
    by (auto simp: ResearchWorkflow_record_expansion_def BudgetGuard_validate_Ok split: if_splits)
  from u have "bu_expansion_rounds u = bu_expansion_rounds (sr_usage run) + 1"
    by (auto simp: BudgetUsage_add_def BudgetUsage_new_Ok)
  with rec within mode show "bu_expansion_rounds (sr_usage run') = bu_expansion_rounds (sr_usage run) + 1"
    "within_budget (sr_budget run') (sr_usage run')" "sr_budget run' = sr_budget run"
    "sr_mode run' = RESEARCH"
    by (auto simp: SearchRun_record_usage_Ok sr_mode_def)
  show "run_step run run'" using rec BudgetUsage_add_wf [OF u] by (auto intro: run_step.record_usage)
qed

fun expand_times :: "nat \<Rightarrow> SearchRun \<Rightarrow> SearchRun result" where
  "expand_times 0 run = Ok run"
| "expand_times (Suc n) run = rbind (ResearchWorkflow_record_expansion run) (expand_times n)"

lemma expand_times_bound:
  "expand_times n run = Ok run' \<Longrightarrow>
     bu_expansion_rounds (sr_usage run') = bu_expansion_rounds (sr_usage run) + int n
     \<and> (0 < n \<longrightarrow> bu_expansion_rounds (sr_usage run') \<le> bs_max_expansion_rounds (sr_budget run))"
proof (induction n arbitrary: run)
  case (Suc n)
  then obtain r1 where r1: "ResearchWorkflow_record_expansion run = Ok r1"
    and rest: "expand_times n r1 = Ok run'" by auto
  note step = record_expansion_Ok [OF r1]
  from Suc.IH [OF rest] step show ?case
    by (cases n) (auto simp: within_budget_def)
qed simp

lemma expand_times_steps: "expand_times n run = Ok run' \<Longrightarrow> run_step\<^sup>*\<^sup>* run run'"
proof (induction n arbitrary: run)
  case (Suc n)
  then obtain r1 where r1: "ResearchWorkflow_record_expansion run = Ok r1"
    and rest: "expand_times n r1 = Ok run'" by auto
  from record_expansion_Ok(4) [OF r1] Suc.IH [OF rest] show ?case
    by (rule converse_rtranclp_into_rtranclp)
qed simp

lemma recover_after_persist:
  assumes "set (map (\<lambda>s. (rs_plan_revision s, rs_step_key s))
      (ResearchWorkflow_recover_new_steps d st)) \<subseteq> set (dict_keys st')"
    and "set (dict_keys st) \<subseteq> set (dict_keys st')"
  shows "ResearchWorkflow_recover_new_steps d st' = []"
  using assms by (force simp: ResearchWorkflow_recover_new_steps_def filter_empty_conv split: if_splits)

section \<open>Outcomes fit the run\<close>

lemma fast_finish_Ok_iff:
  "is_ok (FastSearchWorkflow_finish run (FastSearchWorkflow_outcome sts fb) now) \<longleftrightarrow>
     sr_mode run = FAST \<and> sr_status run = Run_RUNNING"
  by (auto simp: FastSearchWorkflow_finish_def FastSearchWorkflow_outcome_def is_ok_iff
      SearchRun_succeed_Ok)

lemma research_outcome_Ok_iff:
  "is_ok (SearchRun_succeed run (ro_quality (ResearchWorkflow_outcome sts lg dl))
            (ro_reason (ResearchWorkflow_outcome sts lg dl)) (Aware now)) \<longleftrightarrow>
     sr_status run = Run_RUNNING"
  by (auto simp: ResearchWorkflow_outcome_def is_ok_iff SearchRun_succeed_Ok)

end
