(* ===== verification/Sana_Samples.thy ===== *)
theory Sana_Samples
  imports Step_Execution_Proofs Workflow_Schedule Research_Workflow
begin

text \<open>
  Concrete values on which the properties are applied: a tenant with one run, its first
  steps, a codec for timestamps, and a database that holds them.
\<close>

definition tid :: uuid where "tid = 1"
definition rid :: uuid where "rid = 2"
definition sid :: uuid where "sid = 3"

definition sample_hash :: string where
  "sample_hash = replicate 64 (CHR ''a'')"

definition sample_artifact :: ArtifactRef where
  "sample_artifact = \<lparr>ar_uri = ''s3://run/input'', ar_sha256 = sample_hash\<rparr>"

definition sample_routing :: RoutingDecision where
  "sample_routing =
     \<lparr>rd_mode = FAST, rd_reason_codes = [''default''], rd_policy_version = ''search-v12'',
      rd_confidence = 1\<rparr>"

definition sample_budget :: BudgetSnapshot where
  "sample_budget =
     \<lparr>bs_policy_version = ''search-v12'', bs_created_at = 0, bs_soft_deadline_at = 14000000,
      bs_hard_deadline_at = 15000000, bs_synthesis_reserve_seconds = 1, bs_max_queries = 4,
      bs_max_providers = 2, bs_max_fetches = 4, bs_max_llm_calls = 4,
      bs_max_expansion_rounds = 1, bs_phase_seconds = [(''discovery'', 4)]\<rparr>"

definition sample_run :: SearchRun where
  "sample_run =
     \<lparr>sr_id = rid, sr_tenant_id = tid, sr_conversation_id = 7, sr_message_id = 8,
      sr_response_run_id = 9, sr_routing = sample_routing, sr_budget = sample_budget,
      sr_status = Run_QUEUED, sr_answer_quality = Quality_NONE, sr_stop_reason = None,
      sr_usage = empty_usage, sr_started_at = None, sr_completed_at = None, sr_version = 0,
      sr_persisted_version = 0\<rparr>"

definition sample_step :: SearchStep where
  "sample_step =
     \<lparr>ss_id = sid, ss_tenant_id = tid, ss_run_id = rid, ss_step_key = ''route'',
      ss_step_type = ROUTE, ss_plan_revision = 1, ss_input_ref = sample_artifact,
      ss_status = Step_READY, ss_output_ref = None, ss_retry_at = None, ss_version = 0,
      ss_persisted_version = 0\<rparr>"

definition sample_trace :: trace_context where
  "sample_trace =
     \<lparr>trace_id = replicate 32 (CHR ''1''), span_id = replicate 16 (CHR ''2''),
      trace_flags = ''01'', baggage = []\<rparr>"

text \<open>A codec with the documented round trip: a sign followed by the value in unary.\<close>

definition sample_codec :: iso_codec where
  "sample_codec =
     \<lparr>iso = (\<lambda>t. (if t < 0 then CHR ''-'' else CHR ''+'') # replicate (nat \<bar>t\<bar>) (CHR ''1'')),
      from_iso = (\<lambda>s. case s of
          [] \<Rightarrow> Err (ValueError ''Invalid isoformat string'')
        | c # cs \<Rightarrow> Ok (Aware (if c = CHR ''-'' then - int (length cs) else int (length cs))))\<rparr>"

definition sample_conv :: py_conv where
  "sample_conv =
     \<lparr>show_other = (\<lambda>_. ''?''), parse_int = (\<lambda>_. Err (ValueError ''invalid literal for int()'')),
      parse_float = (\<lambda>_. Err (ValueError ''could not convert string to float''))\<rparr>"

definition sample_env :: db_env where
  "sample_env = \<lparr>de_conv = sample_conv, de_iso = sample_codec\<rparr>"

definition sample_config :: store_config where
  "sample_config =
     \<lparr>cf_lease_seconds = 5, cf_retry_base_seconds = 1, cf_retry_max_seconds = 8,
      cf_max_attempts = 3, cf_fetch_max_attempts = 2, cf_lease_extension_seconds = 5\<rparr>"

definition sample_hook :: "unit completion_hook" where
  "sample_hook =
     \<lparr>on_success = (\<lambda>d r s _ _. Ok (r, s, d)), on_failure = (\<lambda>d r s _ _ _. Ok (r, s, d))\<rparr>"

definition sample_db :: db where
  "sample_db =
     \<lparr>tbl_runs = [run_row sample_codec sample_run], tbl_steps = [step_row sample_step],
      tbl_attempts = [], tbl_events = [], tbl_outbox = []\<rparr>"

section \<open>The samples are well-formed\<close>

lemma sample_codec_roundtrip: "iso_roundtrip sample_codec"
  by (auto simp: iso_roundtrip_def sample_codec_def)

lemma sample_routing_wf: "RoutingDecision_wf sample_routing"
  by code_simp

lemma sample_budget_wf: "BudgetSnapshot_wf sample_budget"
  by code_simp

lemma sample_run_inv: "run_inv sample_run"
  by code_simp

lemma sample_artifact_wf: "ArtifactRef_wf sample_artifact"
  by code_simp

lemma sample_step_inv: "step_inv sample_step" "step_refs_wf sample_step"
  using sample_artifact_wf by (code_simp, simp add: step_refs_wf_def sample_step_def)

lemma sample_db_inv: "db_inv sample_codec sample_db"
  using sample_run_inv sample_step_inv by (auto simp: db_inv_def sample_db_def)

lemma sample_fresh_run: "fresh_run rid tid 7 8 9 sample_routing sample_budget = Ok sample_run"
  by code_simp

lemma sample_step_loads:
  "steps_get conv tid tid sid sample_db = Ok (Some (SearchStep_mark_persisted sample_step))"
  using steps_get_row [OF sample_db_inv _ sample_step_inv, of conv]
  by (simp add: sample_db_def sample_step_def)

lemma sample_run_loads:
  "runs_get conv sample_codec tid tid rid sample_db = Ok (Some (SearchRun_mark_persisted sample_run))"
proof -
  have "rr_tenant_id (run_row sample_codec sample_run) = tid"
    "rr_id (run_row sample_codec sample_run) = rid"
    by (simp_all add: run_row_def sample_run_def)
  then show ?thesis
    using run_row_roundtrip [OF sample_codec_roundtrip sample_run_inv, of conv]
    by (simp add: runs_get_def assert_tenant_def sample_db_def)
qed

end
