(* ===== verification/Lifecycle_Properties.thy ===== *)
theory Lifecycle_Properties
  imports Sana_Samples
begin

text \<open>
  What the aggregates of \<^verbatim>\<open>orchestration/domain.py\<close>, the budget policy, the leases and the
  recovery decisions guarantee. Each property is followed by its application to the
  sample values.
\<close>

section \<open>Runs\<close>

text \<open>
  C5. A run that was created from a checked routing decision and a policy snapshot, and then
  changed by any sequence of its operations, has a row that loads back to exactly that run,
  with its version marked as persisted: no reachable state is refused by the checks of
  \<^verbatim>\<open>SearchRun.rehydrate\<close>, and no column is lost. The timestamp codec is only assumed to
  read back what it wrote.
\<close>

theorem reachable_run_reloads:
  assumes "RoutingDecision_new mode codes version confidence = Ok routing"
    and "SearchPolicy_snapshot policy mode created = Ok budget"
    and "fresh_run i tn cv m rr routing budget = Ok r0"
    and "run_step\<^sup>*\<^sup>* r0 r"
    and "iso_roundtrip codec"
  shows "run_from_record conv codec (run_row codec r) = Ok (SearchRun_mark_persisted r)"
proof -
  from assms(1) have "RoutingDecision_wf routing" by (auto simp: op_Ok)
  moreover from assms(2) have "BudgetSnapshot_wf budget" by (rule snapshot_Ok_wf)
  ultimately have "run_inv r0" by (rule fresh_run_inv [OF assms(3)])
  with assms(4) have "run_inv r" by (rule run_steps_inv)
  with assms(5) show ?thesis by (rule run_row_roundtrip)
qed

definition sample_policy :: SearchPolicy where
  "sample_policy =
     \<lparr>sp_version = ''search-v12'',
      sp_fast = \<lparr>mp_soft_seconds = 14, mp_hard_seconds = 15, mp_synthesis_reserve_seconds = 1,
        mp_max_queries = 4, mp_max_providers = 2, mp_max_fetches = 4, mp_max_llm_calls = 4,
        mp_max_expansion_rounds = 1, mp_phase_seconds = [(''discovery'', 4)]\<rparr>,
      sp_research = \<lparr>mp_soft_seconds = 120, mp_hard_seconds = 120,
        mp_synthesis_reserve_seconds = 8, mp_max_queries = 12, mp_max_providers = 4,
        mp_max_fetches = 12, mp_max_llm_calls = 8, mp_max_expansion_rounds = 2,
        mp_phase_seconds = [(''discovery'', 28)]\<rparr>\<rparr>"

definition running_run :: SearchRun where
  "running_run = sample_run\<lparr>sr_status := Run_RUNNING, sr_version := 1, sr_started_at := Some 5\<rparr>"

definition finished_run :: SearchRun where
  "finished_run =
     running_run\<lparr>sr_status := Run_SUCCEEDED, sr_version := 2, sr_answer_quality := Quality_PARTIAL,
       sr_stop_reason := Some TIME_BUDGET, sr_completed_at := Some 9\<rparr>"

lemma running_run_step: "run_step sample_run running_run"
proof (rule run_step.start)
  show "SearchRun_start sample_run (Aware 5) = Ok running_run" by code_simp
qed

lemma finished_run_step: "run_step running_run finished_run"
proof (rule run_step.succeed)
  show "SearchRun_succeed running_run Quality_PARTIAL TIME_BUDGET (Aware 9) = Ok finished_run"
    by code_simp
qed

lemma finished_run_steps: "run_step\<^sup>*\<^sup>* sample_run finished_run"
  using running_run_step finished_run_step by (meson r_into_rtranclp rtranclp_trans)

theorem reachable_run_reloads_witness:
  "run_from_record sample_conv sample_codec (run_row sample_codec finished_run)
     = Ok (SearchRun_mark_persisted finished_run)"
proof (rule reachable_run_reloads)
  show "RoutingDecision_new FAST [''default''] ''search-v12'' 1 = Ok sample_routing" by code_simp
  show "SearchPolicy_snapshot sample_policy FAST (Aware 0) = Ok sample_budget" by code_simp
qed (rule sample_fresh_run finished_run_steps sample_codec_roundtrip)+

text \<open>
  C19. A terminal run (SUCCEEDED, FAILED or CANCELLED) accepts no operation at all: any sequence
  of operations that starts there leaves the run as it is, its answer quality, stop reason,
  usage and version included.
\<close>

theorem terminal_run_final:
  assumes "run_step\<^sup>*\<^sup>* r r'" and "SearchRun_is_terminal r"
  shows "r' = r"
  using assms by (auto simp: SearchRun_is_terminal_def intro: run_machine.terminal_final)

theorem terminal_run_final_witness: "{r'. run_step\<^sup>*\<^sup>* finished_run r'} = {finished_run}"
proof -
  have "SearchRun_is_terminal finished_run" by code_simp
  with terminal_run_final show ?thesis by blast
qed



section \<open>Steps and attempts\<close>

text \<open>
  C37. A step built by its constructor and changed by any sequence of its operations keeps its
  invariant (an output exactly when it SUCCEEDED, a retry time while it waits for a retry and
  none while it runs), and its row loads back to exactly that step as long as its output
  reference was built by \<^verbatim>\<open>ArtifactRef\<close>.
\<close>

theorem reachable_step_reloads:
  assumes "ArtifactRef_new u h = Ok inp"
    and "SearchStep_new i tn r key ty n inp None 0 = Ok s0"
    and "search_step_step\<^sup>*\<^sup>* s0 s"
    and "\<forall>a. ss_output_ref s = Some a \<longrightarrow> (\<exists>v g. ArtifactRef_new v g = Ok a)"
  shows "step_inv s
    \<and> step_from_record conv (step_row s) = Ok (SearchStep_mark_persisted s)"
proof (intro conjI)
  from SearchStep_new_inv [OF assms(2)] assms(3) show inv: "step_inv s"
    by (blast intro: search_step_steps_inv)
  have "ss_input_ref s = inp"
    using search_step_steps_lineage [OF assms(3)] assms(2)
    by (auto simp: SearchStep_new_def step_lineage_def split: if_splits)
  with assms(1,4) have "step_refs_wf s" by (auto simp: step_refs_wf_def dest: ArtifactRef_new_Ok)
  with inv show "step_from_record conv (step_row s) = Ok (SearchStep_mark_persisted s)"
    by (rule step_row_roundtrip)
qed

definition running_step :: SearchStep where
  "running_step = sample_step\<lparr>ss_status := Step_RUNNING, ss_version := 1\<rparr>"

lemma running_step_step: "search_step_step sample_step running_step"
proof (rule search_step_step.start)
  show "SearchStep_start sample_step = Ok running_step" by code_simp
qed

theorem reachable_step_reloads_witness:
  "step_from_record sample_conv (step_row running_step)
     = Ok (SearchStep_mark_persisted running_step)"
proof (rule reachable_step_reloads [THEN conjunct2])
  show "ArtifactRef_new ''s3://run/input'' sample_hash = Ok sample_artifact" by code_simp
  show "SearchStep_new sid tid rid ''route'' ROUTE 1 sample_artifact None 0 = Ok sample_step"
    by code_simp
  show "search_step_step\<^sup>*\<^sup>* sample_step running_step" using running_step_step by blast
qed (simp add: running_step_def sample_step_def)

text \<open>
  The attempt of a granted lease: whatever renewals and completions follow, its lease
  never passes its deadline and never shrinks, it keeps its invariant (positive number,
  lease and deadline after the start, exactly one of output and error once it is complete),
  and after its completion no operation is possible.
\<close>

lemma leased_attempt_bounded:
  assumes "LeaseService_claim ls u step n w now dl = Ok (step', a0)"
    and "attempt_step\<^sup>*\<^sup>* a0 a"
  shows "sa_leased_until a0 \<le> sa_leased_until a
    \<and> sa_leased_until a \<le> dl
    \<and> attempt_inv a
    \<and> (StepAttempt_is_complete a \<longrightarrow> \<not> attempt_step a b)"
proof (intro conjI)
  note claim = claim_attempt [OF assms(1)]
  have dl: "sa_deadline_at a0 = dl" using assms(1) by (auto simp: claim_Ok_iff)
  from attempt_lease_le_deadline [OF assms(2) claim(2)] dl
  show "sa_leased_until a0 \<le> sa_leased_until a" "sa_leased_until a \<le> dl" by auto
  from assms(2) claim(1) show "attempt_inv a" by (rule attempt_steps_inv)
  show "StepAttempt_is_complete a \<longrightarrow> \<not> attempt_step a b"
    by (auto simp: StepAttempt_is_complete_def dest: attempt_complete_stuck)
qed

definition sample_attempt :: StepAttempt where
  "sample_attempt =
     \<lparr>sa_id = 11, sa_tenant_id = tid, sa_run_id = rid, sa_step_id = sid, sa_attempt_no = 1,
      sa_idempotency_key = uuid_str sid @ '':1'', sa_lease_owner = ''w1'',
      sa_leased_until = 5000010, sa_deadline_at = 9000000, sa_started_at = 10,
      sa_input_ref = sample_artifact, sa_completed_at = None, sa_output_ref = None,
      sa_error = None\<rparr>"

lemma sample_claim:
  "LeaseService_claim 5 11 sample_step 1 ''w1'' 10 9000000 = Ok (running_step, sample_attempt)"
  by code_simp

text \<open>
  The idempotency key of an attempt identifies the step and the attempt number: two granted
  leases with the same key are the same attempt number of the same step.
\<close>

lemma idempotency_key_identifies:
  assumes "LeaseService_claim ls u step n w now dl = Ok (step', a)"
    and "LeaseService_claim ls2 u2 step2 n2 w2 now2 dl2 = Ok (step2', a2)"
  shows "sa_idempotency_key a = sa_idempotency_key a2 \<longleftrightarrow> ss_id step = ss_id step2 \<and> n = n2"
  using assms idempotency_key_inj [OF assms] by (auto simp: claim_Ok_iff)

section \<open>Recovery\<close>



text \<open>
  A trace context that passed its constructor survives the outbox: decoding what
  \<^verbatim>\<open>trace_context_to_dict\<close> wrote gives the same context.
\<close>

lemma trace_context_survives_outbox:
  assumes "TraceContext_new t s f bag = Ok c"
  shows "trace_context_from_dict conv (trace_context_to_dict c) = Ok c"
  using TraceContext_new_wf [OF assms] by (rule trace_context_roundtrip)

section \<open>Budgets\<close>

text \<open>
  C35. \<^verbatim>\<open>BudgetGuard.validate\<close> accepts exactly the usages within the snapshot (every counter
  and every phase that has a limit), and refuses the others with a non-retryable BUDGET error.
\<close>

theorem budget_guard_exact:
  "(within_budget b u \<longrightarrow> BudgetGuard_validate b u = Ok ())
   \<and> (\<not> within_budget b u \<longrightarrow>
        (\<exists>e. BudgetGuard_validate b u = Err (TypedError e) \<and> te_category e = BUDGET
           \<and> \<not> te_retryable e))"
  using BudgetGuard_validate_Ok [of b u "()"] validate_error [of b u]
  by (cases "BudgetGuard_validate b u") auto

theorem budget_guard_exact_witness:
  "BudgetGuard_validate sample_budget empty_usage = Ok ()
   \<and> (\<exists>e. BudgetGuard_validate sample_budget (empty_usage\<lparr>bu_query_count := 5\<rparr>) = Err (TypedError e)
         \<and> te_category e = BUDGET \<and> \<not> te_retryable e)"
proof -
  have "within_budget sample_budget empty_usage"
    "\<not> within_budget sample_budget (empty_usage\<lparr>bu_query_count := 5\<rparr>)"
    by (simp_all add: within_budget_def sample_budget_def empty_usage_def)
  with budget_guard_exact show ?thesis by blast
qed

text \<open>
  Work that \<^verbatim>\<open>can_start\<close> admits outside the synthesis phase ends, by its estimate, with the
  whole synthesis reserve still left before the hard deadline.
\<close>

lemma admitted_work_leaves_reserve:
  assumes "SearchPolicy_snapshot policy mode created = Ok b"
    and "BudgetGuard_can_start b ph now est = Ok True" and "ph \<noteq> Phase_SYNTHESIZE"
  shows "\<exists>t. now = Aware t \<and> 0 \<le> est
     \<and> t + td_us est + td_us (bs_synthesis_reserve_seconds b) < bs_hard_deadline_at b"
  using snapshot_Ok_wf [OF assms(1)] assms(2,3) by (rule can_start_leaves_reserve)

text \<open>
  The shipped policy always yields a snapshot, in both modes: deadlines are ordered, the
  synthesis reserve is positive, an unused budget is within it, and the research deadline is
  later than the fast one, so that an upgrade of the same run is possible.
\<close>

lemma default_policy_snapshots:
  "\<exists>fast research.
     SearchPolicy_snapshot SearchPolicy_default FAST (Aware t) = Ok fast
     \<and> SearchPolicy_snapshot SearchPolicy_default RESEARCH (Aware t) = Ok research
     \<and> BudgetSnapshot_wf fast \<and> BudgetSnapshot_wf research
     \<and> within_budget fast empty_usage \<and> within_budget research empty_usage
     \<and> bs_hard_deadline_at fast < bs_hard_deadline_at research"
proof -
  obtain f r where f: "SearchPolicy_snapshot SearchPolicy_default FAST (Aware t) = Ok f"
    and r: "SearchPolicy_snapshot SearchPolicy_default RESEARCH (Aware t) = Ok r"
    using default_snapshot_Ok by blast
  have wf: "BudgetSnapshot_wf f" "BudgetSnapshot_wf r"
    using f r by (blast intro: snapshot_Ok_wf)+
  moreover have "within_budget b empty_usage" if "BudgetSnapshot_wf b" for b
    using that by (simp add: wf_defs within_budget_def empty_usage_def)
  moreover have "bs_hard_deadline_at f < bs_hard_deadline_at r"
    using snapshot_fields [OF f] snapshot_fields [OF r]
    by (simp add: SearchPolicy_default_def default_fast_policy_def default_research_policy_def)
  ultimately show ?thesis using f r by blast
qed

end
