(* ===== verification/Workflow_Properties.thy ===== *)
theory Workflow_Properties
  imports Sana_Samples
begin

text \<open>
  What \<^verbatim>\<open>search_workflow.py\<close> and \<^verbatim>\<open>research_workflow.py\<close> guarantee: reservations, graph
  snapshots, scheduling, upgrades, expansions and outcomes.
\<close>

section \<open>Reservations\<close>

text \<open>
  C17. Reserving a batch of submissions is all or nothing: if any reservation raises, the ledger
  is exactly what it was after the requested releases; if none raises, every submitted step is
  reserved and the projected usage is within the budget.
\<close>

theorem reserve_submissions_atomic:
  assumes "FastSearchWorkflow_reserve_submissions clock adv l = (res, l')"
  shows "(res = Err e \<longrightarrow> l' = fold (\<lambda>k s. release_key s k) (wa_release_reservations adv) l)
    \<and> (res = Ok rs \<longrightarrow> rs = wa_submit adv \<and> (rs \<noteq> [] \<longrightarrow> ledger_within_budget l'))"
  using assms fast_ledger.reserve_loop_rollback [of clock 0 "wa_submit adv" "[]"]
    fast_ledger.reserve_loop_ok [of clock 0 "wa_submit adv" "[]"]
  unfolding FastSearchWorkflow_reserve_submissions_def by (auto, force)

definition sample_cost :: StepBudgetCost where
  "sample_cost =
     \<lparr>sc_phase = Phase_DISCOVERY, sc_estimated_seconds = 1, sc_queries = 3, sc_providers = 1,
      sc_fetches = 0, sc_llm_calls = 0\<rparr>"

definition sample_node :: "string \<Rightarrow> WorkflowStepSpec" where
  "sample_node k =
     \<lparr>ws_key = k, ws_step_type = DISCOVERY, ws_dependencies = [''plan''], ws_budget = sample_cost,
      ws_low_value_after_deadline = True\<rparr>"

definition sample_ledger :: BudgetReservationLedger where
  "sample_ledger =
     \<lparr>lg_guard = sample_budget, lg_usage = empty_usage, lg_reservations = []\<rparr>"

definition sample_advance :: WorkflowAdvance where
  "sample_advance =
     \<lparr>wa_submit = [sample_node ''a'', sample_node ''b''], wa_cancel = [], wa_skip = [],
      wa_release_reservations = [], wa_deadline_fallback = False\<rparr>"

theorem reserve_submissions_atomic_witness:
  "snd (FastSearchWorkflow_reserve_submissions (\<lambda>_. 0) sample_advance sample_ledger) = sample_ledger"
proof -
  have "\<not> is_ok (fst (FastSearchWorkflow_reserve_submissions (\<lambda>_. 0) sample_advance sample_ledger))"
    by code_simp
  then obtain e l' where
    r: "FastSearchWorkflow_reserve_submissions (\<lambda>_. 0) sample_advance sample_ledger = (Err e, l')"
    by (metis is_ok.elims(3) prod.collapse)
  from reserve_submissions_atomic [OF r, of e, THEN conjunct1] have "l' = sample_ledger"
    by (simp add: sample_advance_def)
  with r show ?thesis by simp
qed



section \<open>Graphs\<close>

text \<open>
  C27. The snapshot of every graph that the graph's own operations can build loads back to the
  same graph: node order, dependencies, costs and stage.
\<close>

theorem built_graph_roundtrip:
  assumes "built g"
  shows "FastSearchGraph_from_dict conv (FastSearchGraph_to_dict g) = Ok g"
  using built_inv [OF assms] by (auto simp: fast_inv_def intro: graph_roundtrip)

definition graph0 :: FastSearchGraph where
  "graph0 = (case FastSearchGraph_new of Ok g \<Rightarrow> g | Err _ \<Rightarrow> \<lparr>fg_nodes = [], fg_stage = Stage_OPEN\<rparr>)"

definition graph1 :: FastSearchGraph where
  "graph1 = snd (FastSearchGraph_seal_discovery (snd (FastSearchGraph_add_discovery ''q1'' 1 2 graph0)))"

definition sample_graph :: FastSearchGraph where
  "sample_graph =
     snd (FastSearchGraph_seal_synthesis (snd (FastSearchGraph_add_fetch_pipeline ''s1'' 2 graph1)))"

lemma sample_graph_built: "built sample_graph"
proof -
  obtain g where "FastSearchGraph_new = Ok g" using FastSearchGraph_new_Ok by blast
  then have "graph0 = g" unfolding graph0_def by (metis result.case(1))
  with \<open>FastSearchGraph_new = Ok g\<close> have "built graph0" by (auto intro: built.new)
  then have "built graph1"
    unfolding graph1_def by (metis built.add_discovery built.seal_discovery prod.collapse)
  then show ?thesis
    unfolding sample_graph_def by (metis built.add_fetch built.seal_synthesis prod.collapse)
qed

lemma sample_graph_sealed: "fg_stage sample_graph = Stage_SYNTHESIS_SEALED"
  by code_simp

theorem built_graph_roundtrip_witness:
  "FastSearchGraph_from_dict sample_conv (FastSearchGraph_to_dict sample_graph) = Ok sample_graph"
  by (rule built_graph_roundtrip [OF sample_graph_built])

text \<open>
  C29. Whatever snapshot \<^verbatim>\<open>from_dict\<close> accepts, the result is an acyclic graph: step keys are
  unique, every dependency of a node is an earlier node, the bootstrap steps are present, and
  so are the steps that the stage promises.
\<close>

theorem loaded_graph_acyclic:
  assumes "FastSearchGraph_from_dict conv payload = Ok g"
  shows "distinct (dict_keys (fg_nodes g))
    \<and> (i < length (fg_nodes g) \<longrightarrow> d \<in> set (ws_dependencies (snd (fg_nodes g ! i)))
      \<longrightarrow> (\<exists>j < i. fst (fg_nodes g ! j) = d))
    \<and> bootstrapped g"
proof (intro conjI)
  from from_dict_wf [OF assms] have wf: "nodes_ok {} (fg_nodes g)" and "bootstrapped g"
    by (auto simp: graph_wf_def)
  then show "distinct (dict_keys (fg_nodes g))" "bootstrapped g"
    using nodes_ok_distinct by blast+
  show "i < length (fg_nodes g) \<longrightarrow> d \<in> set (ws_dependencies (snd (fg_nodes g ! i)))
      \<longrightarrow> (\<exists>j < i. fst (fg_nodes g ! j) = d)"
    using nodes_ok_earlier [OF wf] by blast
qed

lemma sample_graph_loads:
  "FastSearchGraph_from_dict sample_conv (FastSearchGraph_to_dict sample_graph) = Ok sample_graph"
  using built_inv [OF sample_graph_built] by (auto simp: fast_inv_def intro: graph_roundtrip)

theorem loaded_graph_acyclic_witness: "distinct (dict_keys (fg_nodes sample_graph))"
  by (rule loaded_graph_acyclic [OF sample_graph_loads, THEN conjunct1])

section \<open>Scheduling\<close>



text \<open>
  Before the deadline a step is submitted exactly when it is unstarted, not to be skipped,
  and its dependencies allow it: every dependency succeeded, except that a fan-in over
  discoveries or verifications only waits for them to end, and a verification needs one
  successful extraction. Nothing is cancelled, and no other step is touched.
\<close>

lemma submissions_are_startable:
  assumes "built g" and "fg_stage g = Stage_SYNTHESIS_SEALED"
    and "set (dict_keys st) \<subseteq> set (dict_keys (fg_nodes g))"
    and "now < BudgetGuard_non_synthesis_deadline b"
  shows "\<exists>adv. FastSearchGraph_advance g st b now = Ok adv
     \<and> (\<forall>n. n \<in> set (wa_submit adv) \<longleftrightarrow>
          (\<exists>k. (k, n) \<in> set (fg_nodes g) \<and> map_of st k \<in> {None, Some Step_READY}
             \<and> \<not> must_skip st (k, n) \<and> deps_ready g st n))
     \<and> (\<forall>k. k \<in> set (wa_skip adv) \<longleftrightarrow> (\<exists>n. (k, n) \<in> set (fg_nodes g) \<and> must_skip st (k, n)))
     \<and> wa_cancel adv = [] \<and> \<not> wa_deadline_fallback adv"
proof -
  have wf: "graph_wf g" using built_inv [OF assms(1)] by (simp add: fast_inv_def)
  have rd: "status_or_ready st k = Step_READY \<longleftrightarrow> map_of st k \<in> {None, Some Step_READY}" for k
    by (auto simp: status_or_ready_def split: option.splits)
  show ?thesis
    unfolding advance_before_deadline [OF wf assms(2-4)]
    by (auto simp: open_for_submit_def rd simp del: insert_iff) (force simp: image_iff)+
qed

text \<open>
  C28. At the non-synthesis deadline the scheduler falls back: it returns, it submits at most the
  synthesis step (exactly when that has not started), cancels exactly the open steps that are
  of low value after the deadline, which never include synthesis, and releases the
  reservations of those that are not running.
\<close>

theorem deadline_falls_back_to_synthesis:
  assumes "built g" and "fg_stage g = Stage_SYNTHESIS_SEALED"
    and "set (dict_keys st) \<subseteq> set (dict_keys (fg_nodes g))"
    and "BudgetGuard_non_synthesis_deadline b \<le> now"
  shows "\<exists>adv. FastSearchGraph_advance g st b now = Ok adv \<and> wa_deadline_fallback adv
     \<and> map ws_key (wa_submit adv)
         = (if status_or_ready st ''synthesize'' = Step_READY then [''synthesize''] else [])
     \<and> ''synthesize'' \<notin> set (wa_cancel adv)
     \<and> set (wa_cancel adv) = {k. \<exists>n. (k, n) \<in> set (fg_nodes g) \<and> ws_low_value_after_deadline n
           \<and> \<not> step_terminal (status_or_ready st k)}
     \<and> set (wa_release_reservations adv)
         = {k \<in> set (wa_cancel adv). status_or_ready st k \<noteq> Step_RUNNING}"
proof -
  have boot: "''synthesize'' \<in> set (dict_keys (fg_nodes g))" and wf: "graph_wf g"
    using built_inv [OF assms(1)] assms(2) by (auto simp: bootstrapped_def fast_inv_def)
  from boot obtain n where n: "map_of (fg_nodes g) ''synthesize'' = Some n"
    by (metis map_of_eq_None_iff not_None_eq list.set_map)
  then have mem: "(''synthesize'', n) \<in> set (fg_nodes g)" by (rule map_of_SomeD)
  then have key: "ws_key n = ''synthesize''"
    using nodes_ok_key [of "{}" "fg_nodes g"] wf by (auto simp: graph_wf_def)
  have low: "\<not> ws_low_value_after_deadline n"
    using built_synthesis_kept [OF assms(1)] mem by (simp add: synthesis_kept_def)
  have only: "m = n" if "(''synthesize'', m) \<in> set (fg_nodes g)" for m
    using that n graph_wf_lookup [OF wf, of "''synthesize''" m] by simp
  have open_iff: "s \<in> {Step_READY, Step_RUNNING, Step_RETRY_WAIT} \<longleftrightarrow> \<not> step_terminal s" for s
    by (cases s) (auto simp: step_terminal_def)
  have release: "s \<in> {Step_READY, Step_RETRY_WAIT} \<longleftrightarrow> \<not> step_terminal s \<and> s \<noteq> Step_RUNNING" for s
    by (cases s) (auto simp: step_terminal_def)
  show ?thesis
    using assms(2-4) n key low only
    by (auto simp: FastSearchGraph_advance_def Let_def open_iff release simp del: insert_iff)
      (force simp: image_iff)
qed

theorem deadline_falls_back_to_synthesis_witness:
  "\<exists>adv. FastSearchGraph_advance sample_graph [(''route'', Step_SUCCEEDED)] sample_budget 13000000
     = Ok adv \<and> map ws_key (wa_submit adv) = [''synthesize'']"
proof -
  have "set (dict_keys [(''route'', Step_SUCCEEDED)]) \<subseteq> set (dict_keys (fg_nodes sample_graph))"
    "BudgetGuard_non_synthesis_deadline sample_budget \<le> 13000000" by code_simp+
  from deadline_falls_back_to_synthesis [OF sample_graph_built sample_graph_sealed this]
  show ?thesis by (auto simp: status_or_ready_def)
qed

end
