(* ===== verification/Research_Properties.thy ===== *)
theory Research_Properties
  imports Lifecycle_Properties
begin

text \<open>
  What \<^verbatim>\<open>research_workflow.py\<close> guarantees: when a FAST run is upgraded and what the upgrade
  does, the bound on expansions, recovery of expansion steps, and outcomes that the run
  accepts.
\<close>

section \<open>Upgrades\<close>

text \<open>
  C33. The upgrade policy asks for research exactly when some required fact is worth it: its
  evidence conflicts, it is a fresh fact without evidence, or it is not verified although its
  consequence is high or complete sources were requested. A decision always comes with
  reasons when, and only when, it asks for the upgrade.
\<close>

theorem upgrade_exactly_when_valuable:
  assumes "FastUpgradePolicy_evaluate tn r intent ids coverage = Ok d"
  shows "(fu_should_upgrade d \<longleftrightarrow>
     (\<exists>f \<in> set (ni_facts intent). fq_required f \<and> worth_upgrading intent f (fact_status ids coverage f)))
    \<and> (fu_should_upgrade d \<longleftrightarrow> fu_reason_codes d \<noteq> [])"
proof (intro conjI)
  show "fu_should_upgrade d \<longleftrightarrow>
     (\<exists>f \<in> set (ni_facts intent). fq_required f \<and> worth_upgrading intent f (fact_status ids coverage f))"
    by (rule evaluate_upgrade_iff [OF assms])
  show "fu_should_upgrade d \<longleftrightarrow> fu_reason_codes d \<noteq> []"
    using assms by (auto simp: FastUpgradePolicy_evaluate_def FastUpgradeDecision_new_def Let_def
        split: if_splits)
qed

definition sample_fact :: FactRequirement where
  "sample_fact =
     \<lparr>fq_key = ''version'', fq_fact_type = VERSION, fq_description = ascii_text ''latest version'',
      fq_subject = ascii_text ''PostgreSQL'', fq_required = True, fq_freshness = Fresh_CURRENT,
      fq_consequence = Conseq_MEDIUM, fq_preferred_source_kinds = []\<rparr>"

definition sample_intent :: NormalizedIntent where
  "sample_intent =
     \<lparr>ni_entity = ascii_text ''PostgreSQL'', ni_aliases = [], ni_locale = ''en-US'',
      ni_facts = [sample_fact], ni_requires_comparison = False,
      ni_requires_complete_sources = False\<rparr>"

definition sample_decision :: FastUpgradeDecision where
  "sample_decision =
     \<lparr>fu_should_upgrade = True, fu_gap_fact_ids = [5], fu_reason_codes = [''strong_freshness_gap''],
      fu_status_by_fact = [(5, Cov_OPEN)]\<rparr>"

lemma sample_evaluate:
  "FastUpgradePolicy_evaluate tid rid sample_intent [(''version'', 5)] [] = Ok sample_decision"
  by code_simp

theorem upgrade_exactly_when_valuable_witness:
  "fu_should_upgrade sample_decision \<longleftrightarrow>
     (\<exists>f \<in> set (ni_facts sample_intent). fq_required f
        \<and> worth_upgrading sample_intent f (fact_status [(''version'', 5)] [] f))"
  by (rule upgrade_exactly_when_valuable [OF sample_evaluate, THEN conjunct1])

text \<open>
  C34. A successful upgrade is a legal step of the run: it becomes a RESEARCH run with the same
  start time and policy version and a later hard deadline, its usage so far fits the new
  budget, and status, usage and identity are kept.
\<close>

theorem upgrade_keeps_run_consistent:
  assumes "ResearchWorkflow_upgrade_fast_run run d p = Ok run'" and "run_inv run"
  shows "run_inv run'
    \<and> sr_mode run' = RESEARCH
    \<and> within_budget (sr_budget run') (sr_usage run')
    \<and> sr_status run' = sr_status run \<and> sr_usage run' = sr_usage run \<and> sr_id run' = sr_id run
      \<and> bs_created_at (sr_budget run') = bs_created_at (sr_budget run)
      \<and> bs_hard_deadline_at (sr_budget run) < bs_hard_deadline_at (sr_budget run')"
proof -
  note up = upgrade_Ok_run_step [OF assms(1)]
  have "run_inv run'" by (rule run_step_inv [OF up(1) assms(2)])
  moreover have "sr_mode run' = RESEARCH" "within_budget (sr_budget run') (sr_usage run')"
    using up by auto
  moreover from assms(1) obtain routing budget where
    "SearchRun_upgrade_to_research run routing budget = Ok run'"
    by (auto simp: ResearchWorkflow_upgrade_fast_run_def split: if_splits)
  then have "sr_status run' = sr_status run \<and> sr_usage run' = sr_usage run \<and> sr_id run' = sr_id run
      \<and> bs_created_at (sr_budget run') = bs_created_at (sr_budget run)
      \<and> bs_hard_deadline_at (sr_budget run) < bs_hard_deadline_at (sr_budget run')"
    by (auto simp: op_Ok)
  ultimately show ?thesis by blast
qed

lemma running_run_inv: "run_inv running_run"
  by (rule run_step_inv [OF running_run_step sample_run_inv])

theorem upgrade_keeps_run_consistent_witness:
  "\<exists>run'. ResearchWorkflow_upgrade_fast_run running_run sample_decision sample_policy = Ok run'
     \<and> sr_mode run' = RESEARCH"
proof -
  have "is_ok (ResearchWorkflow_upgrade_fast_run running_run sample_decision sample_policy)"
    by code_simp
  then obtain run' where
    up: "ResearchWorkflow_upgrade_fast_run running_run sample_decision sample_policy = Ok run'"
    by (auto simp: is_ok_iff)
  with upgrade_keeps_run_consistent [OF up running_run_inv, THEN conjunct2, THEN conjunct1] show ?thesis by blast
qed

section \<open>Expansions\<close>

text \<open>
  Expansions are bounded by the snapshot: recording \<open>n\<close> rounds in a row counts exactly
  \<open>n\<close> more rounds, never beyond the maximum of the run's budget, and the run stays an active
  RESEARCH run within its budget.
\<close>

lemma expansion_rounds_bounded:
  assumes "expand_times n run = Ok run'" and "0 < n"
  shows "bu_expansion_rounds (sr_usage run') = bu_expansion_rounds (sr_usage run) + int n
    \<and> bu_expansion_rounds (sr_usage run') \<le> bs_max_expansion_rounds (sr_budget run)
    \<and> (run_inv run \<longrightarrow> run_inv run')"
proof (intro conjI)
  show "bu_expansion_rounds (sr_usage run') = bu_expansion_rounds (sr_usage run) + int n"
    "bu_expansion_rounds (sr_usage run') \<le> bs_max_expansion_rounds (sr_budget run)"
    using expand_times_bound [OF assms(1)] assms(2) by auto
  show "run_inv run \<longrightarrow> run_inv run'"
    using run_steps_inv [OF expand_times_steps [OF assms(1)]] by blast
qed

definition research_run :: SearchRun where
  "research_run =
     running_run\<lparr>sr_routing := sample_routing\<lparr>rd_mode := RESEARCH\<rparr>,
       sr_budget := sample_budget\<lparr>bs_max_expansion_rounds := 2\<rparr>\<rparr>"

text \<open>
  Recovery of expansion steps is idempotent: it yields exactly the planned steps that are not
  yet persisted, and once those are persisted, in whatever status, recovering again yields
  nothing, so a crash between planning and persisting neither loses nor duplicates a step.
\<close>

lemma recover_new_steps_idempotent:
  "(ed_should_expand d \<longrightarrow>
      set (ResearchWorkflow_recover_new_steps d st)
        = {s \<in> set (ed_steps d). (rs_plan_revision s, rs_step_key s) \<notin> set (dict_keys st)})
   \<and> ResearchWorkflow_recover_new_steps d
      (st @ map (\<lambda>s. ((rs_plan_revision s, rs_step_key s), status s))
         (ResearchWorkflow_recover_new_steps d st)) = []"
proof -
  have "ResearchWorkflow_recover_new_steps d
      (st @ map (\<lambda>s. ((rs_plan_revision s, rs_step_key s), status s))
         (ResearchWorkflow_recover_new_steps d st)) = []"
    by (rule recover_after_persist [of d st]) auto
  then show ?thesis by (auto simp: ResearchWorkflow_recover_new_steps_def)
qed

definition sample_revision_step :: RevisionStep where
  "sample_revision_step =
     \<lparr>rs_step_key = ''discover:q'', rs_step_type = DISCOVERY, rs_plan_revision = 2,
      rs_query_key = ''q''\<rparr>"

definition sample_expansion :: ExpansionDecision where
  "sample_expansion =
     \<lparr>ed_should_expand = True, ed_plan_revision = 2, ed_queries = [],
      ed_steps = [sample_revision_step], ed_expected_gain = 1, ed_reason = EXPAND,
      ed_gain_by_fact = []\<rparr>"

section \<open>Outcomes\<close>

text \<open>
  The outcome computed from the fact coverage never contradicts the run's own rules: a
  RUNNING run of the right mode can always be finished with it (no combination of coverage,
  low gain and deadline is refused), the answer is COMPLETE exactly when there are required
  facts and all of them are covered (FAST) or verified (RESEARCH).
\<close>

lemma outcomes_accepted:
  "(is_ok (FastSearchWorkflow_finish run (FastSearchWorkflow_outcome sts fallback) now)
      \<longleftrightarrow> sr_mode run = FAST \<and> sr_status run = Run_RUNNING)
   \<and> (is_ok (SearchRun_succeed run (ro_quality (ResearchWorkflow_outcome sts low deadline))
        (ro_reason (ResearchWorkflow_outcome sts low deadline)) (Aware now))
      \<longleftrightarrow> sr_status run = Run_RUNNING)
   \<and> (fo_quality (FastSearchWorkflow_outcome sts fallback) = Quality_COMPLETE
      \<longleftrightarrow> sts \<noteq> [] \<and> set sts \<subseteq> {Cov_COVERED, Cov_VERIFIED})
   \<and> (ro_quality (ResearchWorkflow_outcome sts low deadline) = Quality_COMPLETE
      \<longleftrightarrow> sts \<noteq> [] \<and> set sts \<subseteq> {Cov_VERIFIED})"
  using fast_finish_Ok_iff [of run sts fallback now] research_outcome_Ok_iff [of run sts low deadline now]
  by (auto simp: FastSearchWorkflow_outcome_def ResearchWorkflow_outcome_def list_all_iff)

end
