(* ===== verification/Evidence_Properties.thy ===== *)
theory Evidence_Properties
  imports Sana_Samples
begin

text \<open>
  What the content, evidence and query-planning modules guarantee: chunks tile a document,
  evidence quotes are exact spans of it, coverage follows the accepted evidence of the fact
  only, gains are probabilities, and compiled queries are bounded and new.
\<close>

section \<open>Chunks\<close>

text \<open>
  C30. Chunking never fails and loses nothing: for every non-empty text the chunker returns
  chunks, each an exact span of the text of at most the configured length, numbered from zero,
  starting strictly later than the one before, and together covering every position.
\<close>

theorem chunks_tile_text:
  assumes "DocumentChunker_new max_characters overlap = Ok c" and "t \<noteq> []"
  shows "\<exists>ks. DocumentChunker_chunk sha tokens c t = Ok ks
     \<and> (\<forall>k \<in> set ks. chunk_exact t k \<and> int (length (dc_text k)) \<le> max_characters)
     \<and> map dc_ordinal ks = map int [0..<length ks]
     \<and> sorted_wrt (<) (map dc_start_offset ks)
     \<and> (\<forall>i < length t. \<exists>k \<in> set ks. dc_start_offset k \<le> int i \<and> int i < dc_end_offset k)"
proof -
  from assms(1) have c: "0 < ck_max c" "int (ck_max c) = max_characters"
    by (auto simp: DocumentChunker_new_def split: if_splits)
  from chunk_loop_spec [of 0 t c 0 sha tokens] assms(2) c obtain ks where
    ks: "chunk_loop sha tokens c t 0 0 = Ok ks"
      "\<forall>x \<in> set ks. chunk_exact t x \<and> length (dc_text x) \<le> ck_max c"
      "chunks_linked 0 0 (int (length t)) ks" by auto
  note linked = chunks_linked_spec [OF ks(3)]
  have "\<exists>k \<in> set ks. dc_start_offset k \<le> int i \<and> int i < dc_end_offset k" if "i < length t" for i
    using that by (intro linked(3)) auto
  with ks linked c assms(2) show ?thesis by (auto simp: DocumentChunker_chunk_def)
qed

definition sample_text :: utext where
  "sample_text = ascii_text ''PostgreSQL 17 is the current stable release.''"

definition sample_sha :: "utext \<Rightarrow> string" where
  "sample_sha t = map char_of (take 64 t)"

definition sample_chunker :: DocumentChunker where
  "sample_chunker = \<lparr>ck_max = 100, ck_overlap = 10\<rparr>"

lemma sample_chunker_new: "DocumentChunker_new 100 10 = Ok sample_chunker"
  by code_simp

theorem chunks_tile_text_witness:
  "\<exists>ks. DocumentChunker_chunk sample_sha (\<lambda>_. 7) sample_chunker sample_text = Ok ks
     \<and> (\<forall>i < length sample_text. \<exists>k \<in> set ks. dc_start_offset k \<le> int i \<and> int i < dc_end_offset k)"
proof -
  have "sample_text \<noteq> []" by code_simp
  from chunks_tile_text [OF sample_chunker_new this] show ?thesis by blast
qed

section \<open>Evidence\<close>

text \<open>
  C15. Every evidence candidate that the builder returns is grounded: its quote is exactly the
  text of the document version between its offsets, its hash is the hash of that quote, and
  tenant, document and version are those of the document version. No quote that the document
  does not contain becomes evidence.
\<close>

theorem evidence_is_grounded:
  assumes "EvidenceBuilder_build sha urlsplit u tn r f v cid k d url ident st q qs sc au = Ok c"
  shows "grounded_in sha v c
    \<and> ec_quote c = q
    \<and> ec_tenant_id c = tn
    \<and> ec_fact_requirement_id c = f
    \<and> ec_run_id c = r"
  using build_grounded [OF assms] assms
  by (auto simp: EvidenceBuilder_build_def grounded_in_def split: if_splits)

definition sample_urlsplit :: url_splitter where
  "sample_urlsplit url = Ok (''https'', Some ''postgresql.org'')"

definition sample_version :: DocumentVersion where
  "sample_version =
     \<lparr>dv_id = 21, dv_tenant_id = tid, dv_document_id = 22, dv_content_hash = sample_sha sample_text,
      dv_text = sample_text, dv_media_type = ''text/html'', dv_language = None, dv_fetched_at = 0\<rparr>"

definition sample_chunk :: DocumentChunk where
  "sample_chunk =
     \<lparr>dc_ordinal = 0, dc_text = sample_text, dc_text_hash = sample_sha sample_text,
      dc_token_count = 7, dc_start_offset = 0, dc_end_offset = int (length sample_text)\<rparr>"

definition sample_quote :: utext where
  "sample_quote = ascii_text ''PostgreSQL 17''"

theorem evidence_is_grounded_witness:
  "\<exists>c. EvidenceBuilder_build sample_sha sample_urlsplit 23 tid rid 5 sample_version 24 sample_chunk 22
      ''https://postgresql.org'' ''postgresql.org'' SUPPORTS sample_quote 0 1 Auth_OFFICIAL = Ok c
     \<and> grounded_in sample_sha sample_version c"
proof -
  have "is_ok (EvidenceBuilder_build sample_sha sample_urlsplit 23 tid rid 5 sample_version 24
      sample_chunk 22 ''https://postgresql.org'' ''postgresql.org'' SUPPORTS sample_quote 0 1
      Auth_OFFICIAL)" by code_simp
  then obtain c where c: "EvidenceBuilder_build sample_sha sample_urlsplit 23 tid rid 5 sample_version
      24 sample_chunk 22 ''https://postgresql.org'' ''postgresql.org'' SUPPORTS sample_quote 0 1
      Auth_OFFICIAL = Ok c" by (auto simp: is_ok_iff)
  with evidence_is_grounded [OF c, THEN conjunct1] show ?thesis by blast
qed

text \<open>
  Chunker and builder fit together: any non-empty span of any chunk that the chunker cut from
  a document version is accepted as evidence, when the source is an HTTP(S) URL with an
  identity and the score lies between zero and one.
\<close>

lemma chunk_spans_are_evidence:
  assumes "DocumentChunker_new max_characters overlap = Ok c"
    and "DocumentChunker_chunk sha tokens c (dv_text v) = Ok ks" and "k \<in> set ks"
    and "0 \<le> a" "a < b" "b \<le> int (length (dc_text k))"
    and "EvidenceSource_new urlsplit (dv_document_id v) (dv_id v) cid url ident au = Ok s"
    and "0 \<le> sc" "sc \<le> 1"
  shows "\<exists>e. EvidenceBuilder_build sha urlsplit u (dv_tenant_id v) r f v cid k (dv_document_id v)
      url ident st (py_slice (dc_text k) a b) a sc au = Ok e \<and> grounded_in sha v e"
proof -
  from assms(1) have "0 < ck_max c" by (auto simp: DocumentChunker_new_def split: if_splits)
  moreover from assms(2,3) have t: "dv_text v \<noteq> []" by (auto simp: DocumentChunker_chunk_def)
  ultimately have "chunk_exact (dv_text v) k"
    using chunk_loop_spec [of 0 "dv_text v" c 0 sha tokens] assms(2,3)
    by (auto simp: DocumentChunker_chunk_def)
  from build_complete [OF this assms(4-9)] show ?thesis
    using build_grounded(1) by (fastforce simp: is_ok_iff)
qed

section \<open>Coverage and gain\<close>

text \<open>
  Coverage of a fact depends only on the accepted evidence of that tenant, run and fact, each
  item counted once: evidence of other facts, runs or tenants and rejected evidence never
  changes the assessment.
\<close>

lemma coverage_ignores_foreign_evidence:
  "CoverageEvaluator_evaluate tn r f requirement (filter (evidence_applies tn r f) ev) disc
     = CoverageEvaluator_evaluate tn r f requirement ev disc
   \<and> distinct (ca_evidence_ids (CoverageEvaluator_evaluate tn r f requirement ev disc))
   \<and> set (ca_evidence_ids (CoverageEvaluator_evaluate tn r f requirement ev disc))
     = ve_id ` {v \<in> set ev. evidence_applies tn r f v}"
proof -
  have ids: "ca_evidence_ids (CoverageEvaluator_evaluate tn r f requirement ev disc)
      = map ve_id (accepted_evidence tn r f ev)"
    by (simp add: CoverageEvaluator_evaluate_def Let_def accepted_evidence_def)
  show ?thesis
    unfolding ids using evaluate_filter accepted_evidence_spec(1,3) by auto
qed


text \<open>
  The expected gain of another round is always defined for an assessment of the same fact and
  lies between zero and one; a verified fact has none to gain.
\<close>

lemma gain_is_a_probability:
  assumes "0 \<le> source_novelty" "source_novelty \<le> 1" "0 \<le> query_novelty" "query_novelty \<le> 1"
    and "ca_fact_key a = fq_key requirement"
  shows "\<exists>g. EvidenceGainEstimator_estimate requirement a source_novelty query_novelty official = Ok g
     \<and> eg_fact_key g = fq_key requirement \<and> 0 \<le> eg_score g \<and> eg_score g \<le> 1
     \<and> (ca_status a = Cov_VERIFIED \<longrightarrow> eg_score g = 0)"
  using assms by (rule estimate_Ok)

definition version_fact :: FactRequirement where
  "version_fact =
     \<lparr>fq_key = ''version'', fq_fact_type = VERSION, fq_description = ascii_text ''latest'',
      fq_subject = ascii_text ''Go'', fq_required = True, fq_freshness = Fresh_CURRENT,
      fq_consequence = Conseq_HIGH, fq_preferred_source_kinds = []\<rparr>"

section \<open>Queries\<close>

text \<open>
  C39. Compiled queries are bounded and new: at most the limit of the mode (in an expansion, at
  most what the previous queries left of the total), each a non-blank text of at most 64
  characters for a fact of the intent, with signatures distinct from each other and from all
  previous ones.
\<close>

theorem compiled_queries_bounded:
  assumes "QueryCompiler_compile ops SearchPlanningPolicy_default intent mode revision expansion sigs
      = Ok qs"
  shows "distinct (map qs_signature qs)
    \<and> set (map qs_signature qs) \<inter> set sigs = {}
    \<and> (\<forall>q \<in> set qs. length (qs_text q) \<le> 64 \<and> \<not> text_blank (qs_text q)
      \<and> qs_fact_key q \<in> fq_key ` set (ni_facts intent) \<and> qs_plan_revision q = revision)
    \<and> int (length qs) \<le> query_limit SearchPlanningPolicy_default mode expansion
    \<and> (expansion \<and> qs \<noteq> [] \<longrightarrow> int (card (set sigs)) + int (length qs)
      \<le> query_limit SearchPlanningPolicy_default mode expansion)"
  using compile_spec [OF assms]
  by (auto simp: query_ok_def SearchPlanningPolicy_default_def)

lemmas planning_eval =
  ascii_text_def blank_iff py_space_def text_blank_iff text_space_def text_strip_def
  validate_search_term_def conversational_def sentence_chars_def conversational_terms_def ci_char_def

definition version_intent :: NormalizedIntent where
  "version_intent =
     \<lparr>ni_entity = ascii_text ''Go'', ni_aliases = [], ni_locale = ''en-US'',
      ni_facts = [version_fact], ni_requires_comparison = False,
      ni_requires_complete_sources = False\<rparr>"

definition sample_ops :: text_ops where
  "sample_ops =
     \<lparr>casefold = map ascii_lower, nfkc = (\<lambda>t. t), word_char = alnum, text_sha = map char_of\<rparr>"

lemma version_fact_new:
  "FactRequirement_new ''version'' VERSION (ascii_text ''latest'') (ascii_text ''Go'') True
     Fresh_CURRENT Conseq_HIGH [] = Ok version_fact"
  by (simp add: FactRequirement_new_def version_fact_def planning_eval)

lemma version_intent_new:
  "NormalizedIntent_new (ascii_text ''Go'') [] ''en-US'' [version_fact] False False = Ok version_intent"
  by (simp add: NormalizedIntent_new_def version_intent_def planning_eval)

lemma version_intent_valid: "intent_valid version_intent"
proof (rule NormalizedIntent_new_valid [OF version_intent_new])
  show "\<forall>f \<in> set [version_fact]. \<exists>k ft d s r fr co ps.
      FactRequirement_new k ft d s r fr co ps = Ok f" using version_fact_new by (simp, blast)
qed

theorem compiled_queries_bounded_witness:
  "\<exists>qs. QueryCompiler_compile sample_ops SearchPlanningPolicy_default version_intent FAST 1 False []
      = Ok qs \<and> int (length qs) \<le> query_limit SearchPlanningPolicy_default FAST False"
proof -
  obtain qs where qs: "QueryCompiler_compile sample_ops SearchPlanningPolicy_default
      version_intent FAST 1 False [] = Ok qs" using compile_total [OF version_intent_valid] by force
  with compiled_queries_bounded [OF qs, THEN conjunct2, THEN conjunct2, THEN conjunct2, THEN conjunct1] show ?thesis by blast
qed

text \<open>
  C40. Compilation never raises on an intent that passed the constructors of the planning domain:
  the entity always fits the query length, whatever is unsafe is replaced, and a query of
  every kind can be built for every revision.
\<close>

theorem compilation_total:
  assumes "NormalizedIntent_new e aliases loc facts comparison complete_sources = Ok intent"
    and "\<forall>f \<in> set facts. \<exists>k ft d s r fr co ps. FactRequirement_new k ft d s r fr co ps = Ok f"
    and "1 \<le> revision"
  shows "\<exists>qs. QueryCompiler_compile ops SearchPlanningPolicy_default intent mode revision expansion
      sigs = Ok qs"
  using NormalizedIntent_new_valid [OF assms(1,2)] assms(3) by (rule compile_total)

theorem compilation_total_witness:
  "\<exists>qs. QueryCompiler_compile sample_ops SearchPlanningPolicy_default version_intent RESEARCH 2 True
      [] = Ok qs"
proof (rule compilation_total [OF version_intent_new])
  show "\<forall>f \<in> set [version_fact]. \<exists>k ft d s r fr co ps.
      FactRequirement_new k ft d s r fr co ps = Ok f" using version_fact_new by (simp, blast)
qed simp

end
