(* ===== verification/Durability_Properties.thy ===== *)
theory Durability_Properties
  imports Sana_Samples
begin

text \<open>
  What the SQL repositories and the step executor guarantee when several workers share a
  database: no lost updates, one owner per claim, no effect of a stale worker, bounded
  retries, and an outbox that does not publish twice.
\<close>

section \<open>Optimistic locking\<close>

text \<open>
  C13. No lost update on runs: when one of two workers that loaded the same version of a run has
  saved a change, the save of the other is refused.
\<close>

theorem run_updates_not_lost:
  assumes "db_inv codec d" and "runs_save codec scope a d = Ok (a', d')"
    and "sr_tenant_id b = sr_tenant_id a" "sr_id b = sr_id a"
    and "sr_persisted_version b = sr_persisted_version a"
    and "sr_version a \<noteq> sr_persisted_version a"
  shows "\<exists>e. runs_save codec scope b d' = Err e"
proof -
  have "distinct (map fst (run_versions d))"
    using assms(1) by (auto simp: db_inv_def run_versions_def distinct_map inj_on_def comp_def)
  from run_table.no_lost_update [OF this assms(2)] assms(3-6)
  show ?thesis by (cases "runs_save codec scope b d'") auto
qed

definition renamed_run :: SearchRun where
  "renamed_run = sample_run\<lparr>sr_status := Run_RUNNING, sr_version := 1, sr_started_at := Some 5\<rparr>"

definition cancelled_run :: SearchRun where
  "cancelled_run =
     sample_run\<lparr>sr_status := Run_CANCELLED, sr_version := 1, sr_stop_reason := Some USER_CANCELLED,
       sr_completed_at := Some 6\<rparr>"

lemma replace_single:
  "is_ok (runs_save sample_codec tid renamed_run sample_db)"
  by (simp add: runs_save_def assert_tenant_def Let_def renamed_run_def sample_run_def sample_db_def
      run_row_def)

theorem run_updates_not_lost_witness:
  "\<exists>r' d' e. runs_save sample_codec tid renamed_run sample_db = Ok (r', d')
     \<and> runs_save sample_codec tid cancelled_run d' = Err e"
proof -
  from replace_single obtain r' d' where
    save: "runs_save sample_codec tid renamed_run sample_db = Ok (r', d')"
    by (auto simp: is_ok_iff)
  from run_updates_not_lost [OF sample_db_inv save, of cancelled_run] save show ?thesis
    by (auto simp: cancelled_run_def renamed_run_def sample_run_def)
qed

text \<open>
  No lost update on steps: of two workers that loaded the same version of a step only the
  first one's change is stored.
\<close>

lemma step_updates_not_lost:
  assumes "db_inv codec d" and "steps_save scope a d = Ok (a', d')"
    and "ss_tenant_id b = ss_tenant_id a" "ss_id b = ss_id a"
    and "ss_persisted_version b = ss_persisted_version a"
    and "ss_version a \<noteq> ss_persisted_version a"
  shows "\<exists>e. steps_save scope b d' = Err e"
proof -
  have "distinct (map fst (step_versions d))"
    using assms(1) by (auto simp: db_inv_def step_versions_def distinct_map inj_on_def comp_def)
  from step_table.no_lost_update [OF this assms(2)] assms(3-6)
  show ?thesis by (cases "steps_save scope b d'") auto
qed

section \<open>Claims\<close>

text \<open>
  C14. A claim is never refused without cause: a READY step of a live run is leased whenever its
  phase deadline and the run's hard deadline lie ahead, the lease has a positive length, the
  worker has a name, and the new identifiers are fresh; the attempt number, idempotency key
  and versions can then not collide with anything stored.
\<close>

theorem ready_step_is_claimed:
  assumes "db_inv (de_iso env) d" and "iso_roundtrip (de_iso env)"
    and "steps_get (de_conv env) tn tn s d = Ok (Some step)" and "ss_status step = Step_READY"
    and "runs_get (de_conv env) (de_iso env) tn tn (ss_run_id step) d = Ok (Some run)"
    and "\<not> SearchRun_is_terminal run"
    and "now < BudgetGuard_deadline_for (sr_budget run) (phase_for_step (ss_step_type step))"
    and "0 < td_us (cf_lease_seconds cfg)" and "\<not> blank w"
    and "attempts_ready (ids 0) tn s d" and "events_ready (ids 1) tn (ss_run_id step) d"
  shows "\<exists>cl ev d' claimed. store_claim env cfg hook ids tn s w trace now enow d = (Ok (cl, Some ev), d')
     \<and> cr_claimed cl = Some claimed \<and> cx_step_id (cs_context claimed) = s"
  using assms by (rule store_claim_granted)

definition sample_ids :: "nat \<Rightarrow> uuid" where
  "sample_ids n = 100 + of_nat n"

lemma sample_env_inv:
  "db_inv (de_iso sample_env) sample_db" "iso_roundtrip (de_iso sample_env)"
  by (simp_all add: sample_env_def sample_db_inv sample_codec_roundtrip)

lemma sample_env_run_loads:
  "runs_get (de_conv sample_env) (de_iso sample_env) tid tid
     (ss_run_id (SearchStep_mark_persisted sample_step)) sample_db
   = Ok (Some (SearchRun_mark_persisted sample_run))"
  using sample_run_loads by (simp add: sample_env_def SearchStep_mark_persisted_def sample_step_def)

lemma sample_claimable:
  "ss_status (SearchStep_mark_persisted sample_step) = Step_READY"
  "\<not> SearchRun_is_terminal (SearchRun_mark_persisted sample_run)"
  "10 < BudgetGuard_deadline_for (sr_budget (SearchRun_mark_persisted sample_run))
     (phase_for_step (ss_step_type (SearchStep_mark_persisted sample_step)))"
  "0 < td_us (cf_lease_seconds sample_config)" "\<not> blank ''w1''"
  by code_simp+

lemma sample_fresh:
  "attempts_ready (sample_ids 0) tid sid sample_db"
  "events_ready (sample_ids 1) tid (ss_run_id (SearchStep_mark_persisted sample_step)) sample_db"
  by (simp_all add: attempts_ready_def events_ready_def sample_db_def)

lemmas sample_claim_facts =
  sample_env_inv sample_step_loads sample_claimable(1) sample_env_run_loads sample_claimable(2-5)
  sample_fresh

theorem ready_step_is_claimed_witness:
  "\<exists>cl ev d' claimed. store_claim sample_env sample_config sample_hook sample_ids tid sid ''w1''
       sample_trace 10 11 sample_db = (Ok (cl, Some ev), d')
     \<and> cr_claimed cl = Some claimed \<and> cx_step_id (cs_context claimed) = sid"
  by (rule ready_step_is_claimed) (rule sample_claim_facts)+

lemma sample_claim_granted:
  "\<exists>cl ev d' claimed. store_claim sample_env sample_config sample_hook sample_ids tid sid ''w1''
       sample_trace 10 11 sample_db = (Ok (cl, Some ev), d')
     \<and> cr_claimed cl = Some claimed \<and> cx_step_id (cs_context claimed) = sid"
  by (rule store_claim_granted) (rule sample_claim_facts)+

text \<open>
  C1. A granted claim is exclusive. It adds exactly one attempt row, numbered after all earlier
  attempts of the step and leased beyond the present but not beyond its deadline, keeps every
  row consistent, and from then on any other worker that claims the step, at whatever time and
  with whatever configuration, is told to ignore it and changes nothing.
\<close>

theorem claim_is_exclusive:
  assumes "db_inv (de_iso env) d" and "iso_roundtrip (de_iso env)"
    and "store_claim env cfg hook ids tn s w trace now enow d = (Ok (cl, ev), d')"
    and "cr_claimed cl = Some claimed"
  shows "db_inv (de_iso env) d'
    \<and> tbl_attempts d' = tbl_attempts d @ [attempt_row (cs_attempt claimed)]
    \<and> (\<forall>row \<in> set (tbl_attempts d). at_tenant_id row = tn \<and> at_step_id row = s
      \<longrightarrow> at_attempt_no row < sa_attempt_no (cs_attempt claimed))
    \<and> now < sa_leased_until (cs_attempt claimed)
    \<and> sa_leased_until (cs_attempt claimed) \<le> cx_deadline_at (cs_context claimed)
    \<and> store_claim env2 cfg2 hook2 ids2 tn s w2 trace2 now2 enow2 d'
      = (Ok (\<lparr>cr_claimed = None, cr_disposition = Disp_IGNORED\<rparr>, None), d')"
proof (intro conjI)
  note eff = store_claim_effect [OF assms]
  show "\<forall>row \<in> set (tbl_attempts d). at_tenant_id row = tn \<and> at_step_id row = s
      \<longrightarrow> at_attempt_no row < sa_attempt_no (cs_attempt claimed)"
    using eff(3) latest_attempt_no_ge by fastforce
qed (rule store_claim_effect [OF assms])+

theorem claim_is_exclusive_witness:
  "\<exists>cl ev d'. store_claim sample_env sample_config sample_hook sample_ids tid sid ''w1'' sample_trace
       10 11 sample_db = (Ok (cl, ev), d')
     \<and> store_claim sample_env sample_config sample_hook (\<lambda>n. 200 + of_nat n) tid sid ''w2''
         sample_trace 12 13 d'
       = (Ok (\<lparr>cr_claimed = None, cr_disposition = Disp_IGNORED\<rparr>, None), d')"
proof -
  from sample_claim_granted obtain cl ev d' claimed where
    claim: "store_claim sample_env sample_config sample_hook sample_ids tid sid ''w1'' sample_trace
      10 11 sample_db = (Ok (cl, ev), d')" "cr_claimed cl = Some claimed" by blast
  from claim_is_exclusive [OF sample_env_inv claim, THEN conjunct2, THEN conjunct2, THEN conjunct2, THEN conjunct2, THEN conjunct2] claim(1) show ?thesis by blast
qed

section \<open>Stale workers\<close>

text \<open>
  C4. A worker that lost its step is fenced off: once a later attempt of the step exists, once its
  own attempt is completed, or once another owner holds it, its success, failure and lease
  renewal leave the database exactly as it is; success and failure, if they return, report
  STALE, and a renewal is never granted.
\<close>

theorem stale_worker_is_fenced:
  assumes "\<not> is_current_attempt claimed d"
  shows "snd (store_succeed env hook ids claimed res trace now enow d) = d
    \<and> snd (store_fail env cfg hook ids claimed err trace now enow d) = d
    \<and> snd (store_renew env cfg now (claimed, d)) = (claimed, d)
    \<and> (fst (store_succeed env hook ids claimed res trace now enow d) = Ok (disp, ev) \<longrightarrow> disp = Disp_STALE)
    \<and> (fst (store_fail env cfg hook ids claimed err trace now enow d) = Ok (disp, ev) \<longrightarrow> disp = Disp_STALE)
    \<and> fst (store_renew env cfg now (claimed, d)) \<noteq> Ok True"
proof (intro conjI)
  show "snd (store_renew env cfg now (claimed, d)) = (claimed, d)"
    "fst (store_renew env cfg now (claimed, d)) \<noteq> Ok True"
    by (rule stale_renew [OF assms])+
  show "snd (store_succeed env hook ids claimed res trace now enow d) = d"
    "snd (store_fail env cfg hook ids claimed err trace now enow d) = d"
    by (rule stale_succeed(1) [OF assms] stale_fail(1) [OF assms])+
  show "fst (store_succeed env hook ids claimed res trace now enow d) = Ok (disp, ev) \<longrightarrow> disp = Disp_STALE"
    using stale_succeed(2) [OF assms] by blast
  show "fst (store_fail env cfg hook ids claimed err trace now enow d) = Ok (disp, ev) \<longrightarrow> disp = Disp_STALE"
    using stale_fail(2) [OF assms] by blast
qed

definition sample_context :: StepExecutionContext where
  "sample_context =
     \<lparr>cx_tenant_id = tid, cx_run_id = rid, cx_step_id = sid, cx_step_key = ''route'',
      cx_step_type = ROUTE, cx_attempt_id = 11, cx_attempt_no = 1, cx_trace_context = sample_trace,
      cx_deadline_at = 9000000, cx_input_ref = sample_artifact\<rparr>"

definition old_attempt :: StepAttempt where
  "old_attempt =
     \<lparr>sa_id = 11, sa_tenant_id = tid, sa_run_id = rid, sa_step_id = sid, sa_attempt_no = 1,
      sa_idempotency_key = uuid_str sid @ '':1'', sa_lease_owner = ''w1'',
      sa_leased_until = 5000010, sa_deadline_at = 9000000, sa_started_at = 10,
      sa_input_ref = sample_artifact, sa_completed_at = None, sa_output_ref = None,
      sa_error = None\<rparr>"

definition old_claim :: ClaimedStep where
  "old_claim = \<lparr>cs_attempt = old_attempt, cs_context = sample_context\<rparr>"

definition taken_over_db :: db where
  "taken_over_db =
     sample_db\<lparr>tbl_attempts := [attempt_row old_attempt, attempt_row (old_attempt
       \<lparr>sa_id := 12, sa_attempt_no := 2, sa_idempotency_key := uuid_str sid @ '':2'',
        sa_lease_owner := ''w2'', sa_leased_until := 8000000\<rparr>)]\<rparr>"

theorem stale_worker_is_fenced_witness:
  "snd (store_succeed sample_env sample_hook sample_ids old_claim
     \<lparr>ex_output_ref = sample_artifact, ex_actual_cost = \<lparr>sc_phase = Phase_ROUTE_PLAN,
        sc_estimated_seconds = 0, sc_queries = 0, sc_providers = 0, sc_fetches = 0, sc_llm_calls = 0\<rparr>\<rparr>
     sample_trace 20 21 taken_over_db) = taken_over_db"
proof -
  have "\<not> is_current_attempt old_claim taken_over_db"
    by (simp add: is_current_attempt_def old_claim_def sample_context_def old_attempt_def
        taken_over_db_def attempt_row_def latest_attempt_no_def)
  from stale_worker_is_fenced [OF this, THEN conjunct1] show ?thesis .
qed

section \<open>Failures\<close>




text \<open>
  A handler's result is only used in time and for a live run: the bounded handler returns a
  result only if the operation returned it, neither probe saw a cancellation, and both the
  start and the end lie before the step's deadline.
\<close>

lemma handler_result_in_time:
  assumes "BoundedStepHandler_handle ctx env = Ok r"
  shows "\<not> he_cancelled_before env
    \<and> he_cancelled_after env = Some False
    \<and> he_now_before env < cx_deadline_at ctx
    \<and> he_now_after env < cx_deadline_at ctx
    \<and> he_outcome env (total_seconds (cx_deadline_at ctx - he_now_start env)) = Some (Ok r)"
  using assms
  by (auto simp: BoundedStepHandler_handle_def StepExecutionContext_checkpoint_def Let_def
      split: if_splits option.splits result.splits)

definition quick_handler :: handler_env where
  "quick_handler =
     \<lparr>he_cancelled_before = False, he_now_before = 20,
      he_outcome = (\<lambda>_. Some (Ok \<lparr>ex_output_ref = sample_artifact,
        ex_actual_cost = \<lparr>sc_phase = Phase_ROUTE_PLAN, sc_estimated_seconds = 0, sc_queries = 0,
          sc_providers = 0, sc_fetches = 0, sc_llm_calls = 0\<rparr>\<rparr>)),
      he_now_start = 20, he_cancelled_after = Some False, he_now_after = 30\<rparr>"

text \<open>
  The registry of the FAST pipeline is always built, and it resolves every step type except
  COMPLETE, each to the operation of that name; for COMPLETE it raises, which the executor
  turns into a permanent, non-retryable error.
\<close>

lemma fast_registry_complete:
  "\<exists>registry. build_fast_handler_registry ops = Ok registry
     \<and> Registry_resolve registry ROUTE = Ok (fop_route ops)
     \<and> Registry_resolve registry PLAN = Ok (fop_plan ops)
     \<and> Registry_resolve registry DISCOVERY = Ok (fop_discovery ops)
     \<and> Registry_resolve registry SELECT = Ok (fop_select ops)
     \<and> Registry_resolve registry FETCH = Ok (fop_fetch ops)
     \<and> Registry_resolve registry EXTRACT = Ok (fop_extract ops)
     \<and> Registry_resolve registry VERIFY = Ok (fop_verify ops)
     \<and> Registry_resolve registry SYNTHESIZE = Ok (fop_synthesize ops)
     \<and> (\<exists>x e. Registry_resolve registry COMPLETE = Err x \<and> error_for x = Ok e
          \<and> te_category e = PERMANENT \<and> \<not> te_retryable e)"
proof -
  have "is_ok (typed_error_new PERMANENT ''step_handler_missing''
      ''No operation is configured for the claimed Step type'' (Some False) [])"
    by code_simp
  then obtain e where e: "typed_error_new PERMANENT ''step_handler_missing''
      ''No operation is configured for the claimed Step type'' (Some False) [] = Ok e"
    by (auto simp: is_ok_iff)
  then have "te_category e = PERMANENT" "\<not> te_retryable e"
    by (auto simp: typed_error_new_def Let_def split: if_splits)
  with e have "\<exists>e. typed_error_new PERMANENT ''step_handler_missing''
      ''No operation is configured for the claimed Step type'' (Some False) [] = Ok e
      \<and> te_category e = PERMANENT \<and> \<not> te_retryable e" by blast
  then show ?thesis
    by (simp add: build_fast_handler_registry_def Registry_register_def Registry_resolve_def
        error_for_def)
qed

section \<open>Outbox\<close>

text \<open>
  A message that was marked as published is not handed out again, while marking one message
  leaves every other pending message of the tenant claimable.
\<close>

lemma published_message_not_reclaimed:
  "(\<forall>m n. (m, n) \<in> set (outbox_claim_unpublished scope now limit (outbox_mark_published scope i t d))
      \<longrightarrow> om_id m \<noteq> i)
   \<and> (\<forall>x \<in> set (tbl_outbox d). om_id (ob_message x) \<noteq> i
      \<longrightarrow> x \<in> set (tbl_outbox (outbox_mark_published scope i t d)))"
proof -
  have "x \<in> set (tbl_outbox (outbox_mark_published scope i t d))"
    if "x \<in> set (tbl_outbox d)" "om_id (ob_message x) \<noteq> i" for x
    using that by (force simp: outbox_mark_published_def outbox_match_def image_iff)
  then show ?thesis using published_not_claimed by blast
qed

definition sample_message :: OutboxMessage where
  "sample_message =
     \<lparr>om_id = 31, om_tenant_id = tid, om_aggregate_type = ''search_step'', om_aggregate_id = sid,
      om_event_type = ''STEP_READY'', om_payload = [(''step_id'', JStr (uuid_str sid))],
      om_trace_context = sample_trace, om_dedupe_key = ''k'', om_available_at = 0, om_created_at = 0\<rparr>"

definition outbox_db :: db where
  "outbox_db =
     sample_db\<lparr>tbl_outbox := [\<lparr>ob_message = sample_message, ob_published_at = None,
       ob_publish_attempts = 0, ob_last_error = None\<rparr>]\<rparr>"

end
