(* ===== verification/Conversation.thy ===== *)
theory Conversation
  imports Budget_Policy Step_Execution
begin

text \<open>
  Conversations and the submission of a message: \<^verbatim>\<open>sana/modules/conversation/domain.py\<close> with the
  conversation and response-run repositories of \<^verbatim>\<open>platform/db/repositories.py\<close>, and the
  services \<^verbatim>\<open>DatabaseConversationCatalogService\<close> and \<^verbatim>\<open>DatabaseRunApplicationService\<close> of
  \<^verbatim>\<open>app/api/services.py\<close>. The tables of conversations, messages and response runs stand beside
  the work tables \<open>db\<close> of the orchestration. SHA-256 is the argument \<open>sha\<close>, from the text
  to its hex digest; the clock reading and the fresh identifiers are arguments too. A
  service call returns its value and the tables it leaves: those it found, when it raises.
\<close>

section \<open>Values\<close>

datatype MessageRole = Role_USER | Role_ASSISTANT | Role_SYSTEM

fun message_role_value :: "MessageRole \<Rightarrow> string" where
  "message_role_value Role_USER = ''USER''"
| "message_role_value Role_ASSISTANT = ''ASSISTANT''"
| "message_role_value Role_SYSTEM = ''SYSTEM''"

record MessageDraft =
  md_id :: uuid
  md_tenant_id :: uuid
  md_conversation_id :: uuid
  md_author_user_id :: uuid
  md_role :: MessageRole
  md_content :: utext
  md_idempotency_key :: string
  md_created_at :: instant

record ResponseRunDraft =
  rn_id :: uuid
  rn_tenant_id :: uuid
  rn_conversation_id :: uuid
  rn_message_id :: uuid
  rn_status :: string
  rn_created_at :: instant

record SubmissionReceipt =
  sm_message_id :: uuid
  sm_response_run_id :: uuid
  sm_search_run_id :: uuid
  sm_status :: string
  sm_duplicate :: bool
  sm_request_hash :: "string option"

definition normalized_content_sha256 :: "(utext \<Rightarrow> string) \<Rightarrow> utext \<Rightarrow> string result" where
  "normalized_content_sha256 sha content =
     (let normalized = text_strip content in
      if normalized = [] then Err (ValueError ''Message content cannot be empty'')
      else Ok (sha normalized))"

record SubmitMessageCommand =
  sc_tenant_id :: uuid
  sc_user_id :: uuid
  sc_conversation_id :: uuid
  sc_content :: utext
  sc_idempotency_key :: string
  sc_routing :: RoutingDecision
  sc_trace_context :: trace_context

definition SubmitMessageCommand_new ::
  "uuid \<Rightarrow> uuid \<Rightarrow> uuid \<Rightarrow> utext \<Rightarrow> string \<Rightarrow> RoutingDecision \<Rightarrow> trace_context
     \<Rightarrow> SubmitMessageCommand result" where
  "SubmitMessageCommand_new tenant user conversation content key routing trace =
     (if text_strip content = [] then Err (ValueError ''Message content cannot be empty'')
      else if \<not> (1 \<le> length (py_strip key) \<and> length (py_strip key) \<le> 200)
      then Err (ValueError ''Idempotency-Key must contain between 1 and 200 characters'')
      else Ok \<lparr>sc_tenant_id = tenant, sc_user_id = user, sc_conversation_id = conversation,
               sc_content = content, sc_idempotency_key = key, sc_routing = routing,
               sc_trace_context = trace\<rparr>)"

section \<open>Rows\<close>

record ConversationRow =
  cv_id :: uuid
  cv_tenant_id :: uuid
  cv_user_id :: uuid
  cv_title :: utext
  cv_status :: string
  cv_creation_key :: "string option"
  cv_creation_hash :: "string option"
  cv_created_at :: instant
  cv_updated_at :: instant

record MessageRow =
  mg_id :: uuid
  mg_tenant_id :: uuid
  mg_conversation_id :: uuid
  mg_author_user_id :: "uuid option"
  mg_role :: string
  mg_content :: utext
  mg_idempotency_key :: "string option"
  mg_created_at :: instant

record ResponseRunRow =
  pr_id :: uuid
  pr_tenant_id :: uuid
  pr_conversation_id :: uuid
  pr_message_id :: uuid
  pr_status :: string
  pr_output_message_id :: "uuid option"
  pr_created_at :: instant
  pr_updated_at :: instant

record chat_db =
  ch_conversations :: "ConversationRow list"
  ch_messages :: "MessageRow list"
  ch_response_runs :: "ResponseRunRow list"
  ch_work :: db

text \<open>A value that does not fit its column.\<close>

definition data_error :: exn where
  "data_error = RuntimeError ''DataError''"

section \<open>Repositories\<close>

definition conversation_owned :: "uuid \<Rightarrow> uuid \<Rightarrow> uuid \<Rightarrow> chat_db \<Rightarrow> bool" where
  "conversation_owned tenant conversation user d =
     list_ex (\<lambda>v. cv_tenant_id v = tenant \<and> cv_id v = conversation \<and> cv_user_id v = user)
       (ch_conversations d)"

definition lock_owned_by :: "uuid \<Rightarrow> uuid \<Rightarrow> uuid \<Rightarrow> uuid \<Rightarrow> chat_db \<Rightarrow> bool result" where
  "lock_owned_by scope tenant conversation user d =
     rbind (assert_tenant scope tenant) (\<lambda>_. Ok (conversation_owned tenant conversation user d))"

text \<open>The join of messages, response runs and search runs; \<^verbatim>\<open>one_or_none\<close> raises on a second row.\<close>

definition submission_rows ::
  "uuid \<Rightarrow> uuid \<Rightarrow> string \<Rightarrow> chat_db \<Rightarrow> (MessageRow \<times> ResponseRunRow \<times> SearchRunRecord) list" where
  "submission_rows tenant conversation key d =
     concat (map (\<lambda>m. concat (map (\<lambda>p. map (\<lambda>s. (m, p, s))
         (filter (\<lambda>s. rr_tenant_id s = pr_tenant_id p \<and> rr_response_run_id s = pr_id p)
            (tbl_runs (ch_work d))))
         (filter (\<lambda>p. pr_tenant_id p = mg_tenant_id m \<and> pr_message_id p = mg_id m)
            (ch_response_runs d))))
       (filter (\<lambda>m. mg_tenant_id m = tenant \<and> mg_conversation_id m = conversation
                    \<and> mg_idempotency_key m = Some key) (ch_messages d)))"

definition find_submission ::
  "(utext \<Rightarrow> string) \<Rightarrow> uuid \<Rightarrow> uuid \<Rightarrow> uuid \<Rightarrow> string \<Rightarrow> chat_db \<Rightarrow> SubmissionReceipt option result" where
  "find_submission sha scope tenant conversation key d =
     rbind (assert_tenant scope tenant) (\<lambda>_.
       case submission_rows tenant conversation key d of
         [] \<Rightarrow> Ok None
       | [(m, p, s)] \<Rightarrow>
           rbind (normalized_content_sha256 sha (mg_content m)) (\<lambda>h.
             Ok (Some \<lparr>sm_message_id = mg_id m, sm_response_run_id = pr_id p,
                       sm_search_run_id = rr_id s, sm_status = rr_status s,
                       sm_duplicate = False, sm_request_hash = Some h\<rparr>))
       | _ \<Rightarrow> Err (RuntimeError ''MultipleResultsFound''))"

definition message_row :: "MessageDraft \<Rightarrow> MessageRow" where
  "message_row m =
     \<lparr>mg_id = md_id m, mg_tenant_id = md_tenant_id m, mg_conversation_id = md_conversation_id m,
      mg_author_user_id = Some (md_author_user_id m), mg_role = message_role_value (md_role m),
      mg_content = md_content m, mg_idempotency_key = Some (md_idempotency_key m),
      mg_created_at = md_created_at m\<rparr>"

text \<open>Insertions check the primary and unique keys and the foreign keys of the new row.\<close>

definition add_message :: "uuid \<Rightarrow> MessageDraft \<Rightarrow> chat_db \<Rightarrow> chat_db result" where
  "add_message scope m d =
     rbind (assert_tenant scope (md_tenant_id m)) (\<lambda>_.
       if list_ex (\<lambda>x. mg_id x = md_id m
             \<or> mg_tenant_id x = md_tenant_id m \<and> mg_conversation_id x = md_conversation_id m
               \<and> mg_idempotency_key x = Some (md_idempotency_key m)) (ch_messages d)
          \<or> \<not> list_ex (\<lambda>v. cv_id v = md_conversation_id m) (ch_conversations d)
       then Err integrity_error
       else Ok (d\<lparr>ch_messages := ch_messages d @ [message_row m]\<rparr>))"

definition response_run_row :: "ResponseRunDraft \<Rightarrow> ResponseRunRow" where
  "response_run_row p =
     \<lparr>pr_id = rn_id p, pr_tenant_id = rn_tenant_id p, pr_conversation_id = rn_conversation_id p,
      pr_message_id = rn_message_id p, pr_status = rn_status p, pr_output_message_id = None,
      pr_created_at = rn_created_at p, pr_updated_at = rn_created_at p\<rparr>"

definition response_runs_add :: "uuid \<Rightarrow> ResponseRunDraft \<Rightarrow> chat_db \<Rightarrow> chat_db result" where
  "response_runs_add scope p d =
     rbind (assert_tenant scope (rn_tenant_id p)) (\<lambda>_.
       if list_ex (\<lambda>x. pr_id x = rn_id p) (ch_response_runs d)
          \<or> \<not> list_ex (\<lambda>m. mg_id m = rn_message_id p) (ch_messages d)
          \<or> \<not> list_ex (\<lambda>v. cv_id v = rn_conversation_id p) (ch_conversations d)
       then Err integrity_error
       else Ok (d\<lparr>ch_response_runs := ch_response_runs d @ [response_run_row p]\<rparr>))"

text \<open>A repository call on the work tables within the same unit of work.\<close>

definition on_work :: "(db \<Rightarrow> db result) \<Rightarrow> chat_db \<Rightarrow> chat_db result" where
  "on_work f d = rbind (f (ch_work d)) (\<lambda>w. Ok (d\<lparr>ch_work := w\<rparr>))"

section \<open>ConversationService\<close>

text \<open>The aggregates of a new submission, in the order the code builds them.\<close>

record submission =
  sn_message :: MessageDraft
  sn_response_run :: ResponseRunDraft
  sn_run :: SearchRun
  sn_step :: SearchStep
  sn_outbox :: OutboxMessage
  sn_event :: RunEventData

definition build_submission ::
  "SearchPolicy \<Rightarrow> (nat \<Rightarrow> uuid) \<Rightarrow> instant \<Rightarrow> SubmitMessageCommand \<Rightarrow> string \<Rightarrow> submission result" where
  "build_submission policy ids now cmd request_hash =
     (let tenant = sc_tenant_id cmd; mode = rd_mode (sc_routing cmd);
          message = \<lparr>md_id = ids 0, md_tenant_id = tenant,
            md_conversation_id = sc_conversation_id cmd, md_author_user_id = sc_user_id cmd,
            md_role = Role_USER, md_content = text_strip (sc_content cmd),
            md_idempotency_key = py_strip (sc_idempotency_key cmd), md_created_at = now\<rparr>;
          response_run = \<lparr>rn_id = ids 1, rn_tenant_id = tenant,
            rn_conversation_id = sc_conversation_id cmd, rn_message_id = ids 0,
            rn_status = ''QUEUED'', rn_created_at = now\<rparr> in
      rbind (SearchPolicy_snapshot policy mode (Aware now)) (\<lambda>budget.
      rbind (SearchRun_new (ids 2) tenant (sc_conversation_id cmd) (ids 0) (ids 1)
               (sc_routing cmd) budget empty_usage None None 0) (\<lambda>run.
      rbind (ArtifactRef_new (''db://messages/'' @ uuid_str (ids 0)) request_hash) (\<lambda>input_ref.
      rbind (SearchStep_new (ids 3) tenant (ids 2) ''route'' ROUTE 1 input_ref None 0) (\<lambda>step.
      rbind (OutboxMessage_new (ids 4) tenant ''search_step'' (ids 3)
               (if mode = FAST then ''STEP_READY_FAST'' else ''STEP_READY_RESEARCH'')
               [(''step_id'', JStr (uuid_str (ids 3)))] (sc_trace_context cmd)
               (''step-ready:'' @ uuid_str (ids 3)) (Aware now) (Aware now)) (\<lambda>outbox.
      rbind (RunEventData_new (ids 5) tenant (ids 2) 1 ''RUN_QUEUED''
               [(''mode'', JStr (search_mode_value mode))] (Aware now)) (\<lambda>event.
        Ok \<lparr>sn_message = message, sn_response_run = response_run, sn_run = run, sn_step = step,
            sn_outbox = outbox, sn_event = event\<rparr>)))))))"

definition store_submission :: "iso_codec \<Rightarrow> uuid \<Rightarrow> submission \<Rightarrow> chat_db \<Rightarrow> chat_db result" where
  "store_submission c scope s d =
     rbind (add_message scope (sn_message s) d) (\<lambda>d1.
     rbind (response_runs_add scope (sn_response_run s) d1) (\<lambda>d2.
     rbind (on_work (runs_add c scope (sn_run s)) d2) (\<lambda>d3.
     rbind (on_work (steps_add scope (sn_step s)) d3) (\<lambda>d4.
     rbind (on_work (outbox_add scope (sn_outbox s)) d4) (\<lambda>d5.
       on_work (events_add scope (sn_event s)) d5)))))"

definition submit_body ::
  "(utext \<Rightarrow> string) \<Rightarrow> iso_codec \<Rightarrow> SearchPolicy \<Rightarrow> (nat \<Rightarrow> uuid) \<Rightarrow> instant \<Rightarrow> SubmitMessageCommand
     \<Rightarrow> chat_db \<Rightarrow> (SubmissionReceipt \<times> chat_db) result" where
  "submit_body sha c policy ids now cmd d =
     (let tenant = sc_tenant_id cmd; key = py_strip (sc_idempotency_key cmd) in
      if rd_policy_version (sc_routing cmd) \<noteq> sp_version policy
      then Err (invariant_violation_code ''Routing decision uses a different search policy version''
                  ''policy_version_mismatch'' [])
      else
        rbind (normalized_content_sha256 sha (text_strip (sc_content cmd))) (\<lambda>request_hash.
        rbind (lock_owned_by tenant tenant (sc_conversation_id cmd) (sc_user_id cmd) d) (\<lambda>owned.
          if \<not> owned
          then Err (invariant_violation_code ''Conversation does not belong to the authenticated user''
                      ''conversation_not_found'' [])
          else
            rbind (find_submission sha tenant tenant (sc_conversation_id cmd) key d) (\<lambda>existing.
              case existing of
                Some e \<Rightarrow>
                  if sm_request_hash e \<noteq> Some request_hash
                  then Err (invariant_violation_code
                         ''Idempotency-Key was already used for different content''
                         ''idempotency_conflict'' [])
                  else Ok (e\<lparr>sm_duplicate := True, sm_request_hash := Some request_hash\<rparr>, d)
              | None \<Rightarrow>
                  rbind (build_submission policy ids now cmd request_hash) (\<lambda>s.
                  rbind (store_submission c tenant s d) (\<lambda>d'.
                    Ok (\<lparr>sm_message_id = ids 0, sm_response_run_id = ids 1,
                         sm_search_run_id = ids 2,
                         sm_status = run_status_value (sr_status (sn_run s)),
                         sm_duplicate = False, sm_request_hash = Some request_hash\<rparr>, d')))))))"

definition submit_message ::
  "(utext \<Rightarrow> string) \<Rightarrow> iso_codec \<Rightarrow> SearchPolicy \<Rightarrow> (nat \<Rightarrow> uuid) \<Rightarrow> instant \<Rightarrow> SubmitMessageCommand
     \<Rightarrow> chat_db \<Rightarrow> SubmissionReceipt result \<times> chat_db" where
  "submit_message sha c policy ids now cmd d =
     (case submit_body sha c policy ids now cmd d of Ok (x, d') \<Rightarrow> (Ok x, d') | Err e \<Rightarrow> (Err e, d))"

section \<open>The conversation catalog\<close>

record ConversationView =
  vw_id :: uuid
  vw_title :: utext
  vw_status :: string
  vw_created_at :: instant
  vw_updated_at :: instant

definition conversation_view :: "ConversationRow \<Rightarrow> ConversationView" where
  "conversation_view v =
     \<lparr>vw_id = cv_id v, vw_title = cv_title v, vw_status = cv_status v,
      vw_created_at = cv_created_at v, vw_updated_at = cv_updated_at v\<rparr>"

text \<open>The title of an untitled conversation, by its three code points.\<close>

definition default_title :: utext where
  "default_title = [26032, 20250, 35805]"

definition create_body ::
  "(utext \<Rightarrow> string) \<Rightarrow> uuid \<Rightarrow> instant \<Rightarrow> uuid \<Rightarrow> uuid \<Rightarrow> utext \<Rightarrow> string option \<Rightarrow> chat_db
     \<Rightarrow> (ConversationView \<times> chat_db) result" where
  "create_body sha new_id now tenant user title idempotency_key d =
     (let normalized_title = (if text_strip title = [] then default_title else text_strip title);
          key = (case idempotency_key of
                   None \<Rightarrow> None
                 | Some k \<Rightarrow> if k = [] then None else Some (py_strip k)) in
      if (case key of None \<Rightarrow> False | Some k \<Rightarrow> \<not> (1 \<le> length k \<and> length k \<le> 200))
      then Err (ValueError ''Idempotency-Key must contain between 1 and 200 characters'')
      else
        let request_hash = map_option (\<lambda>_. sha normalized_title) key;
            row = \<lparr>cv_id = new_id, cv_tenant_id = tenant, cv_user_id = user,
                   cv_title = normalized_title, cv_status = ''ACTIVE'', cv_creation_key = key,
                   cv_creation_hash = request_hash, cv_created_at = now, cv_updated_at = now\<rparr>;
            same_key = (\<lambda>v. key \<noteq> None \<and> cv_tenant_id v = tenant \<and> cv_user_id v = user
                             \<and> cv_creation_key v = key) in
        if 500 < length normalized_title then Err data_error
        else
          case find same_key (ch_conversations d) of
            Some v \<Rightarrow>
              if cv_creation_hash v \<noteq> request_hash
              then Err (invariant_violation_code
                     ''Idempotency-Key was already used for a different title''
                     ''idempotency_conflict'' [])
              else Ok (conversation_view v, d)
          | None \<Rightarrow>
              if list_ex (\<lambda>v. cv_id v = new_id) (ch_conversations d) then Err integrity_error
              else Ok (conversation_view row,
                       d\<lparr>ch_conversations := ch_conversations d @ [row]\<rparr>))"

definition create_conversation ::
  "(utext \<Rightarrow> string) \<Rightarrow> uuid \<Rightarrow> instant \<Rightarrow> uuid \<Rightarrow> uuid \<Rightarrow> utext \<Rightarrow> string option \<Rightarrow> chat_db
     \<Rightarrow> ConversationView result \<times> chat_db" where
  "create_conversation sha new_id now tenant user title idempotency_key d =
     (case create_body sha new_id now tenant user title idempotency_key d of
        Ok (x, d') \<Rightarrow> (Ok x, d') | Err e \<Rightarrow> (Err e, d))"

section \<open>DatabaseRunApplicationService\<close>

text \<open>\<^verbatim>\<open>cancel\<close>: the run as the view shows it, and the event that is mirrored to Redis.\<close>

definition cancel_run ::
  "db_env \<Rightarrow> uuid \<Rightarrow> instant \<Rightarrow> uuid \<Rightarrow> uuid \<Rightarrow> 'x tables
     \<Rightarrow> (SearchRun option \<times> RunEventData option) result \<times> 'x tables" where
  "cancel_run env new_id now tenant run_id =
     transact (\<lambda>d.
       rbind (runs_get (de_conv env) (de_iso env) tenant tenant run_id d) (\<lambda>found.
         case found of
           None \<Rightarrow> Ok (Ok (None, None), d)
         | Some run \<Rightarrow>
             if SearchRun_is_terminal run then Ok (Ok (Some run, None), d)
             else
               rbind (SearchRun_cancel run (Aware now)) (\<lambda>r1.
               rbind (runs_save (de_iso env) tenant r1 d) (\<lambda>(r2, d1).
               rbind (events_next_sequence tenant tenant run_id d1) (\<lambda>sequence.
               rbind (RunEventData_new new_id tenant run_id sequence ''RUN_CANCELLED''
                        [(''stop_reason'', JStr ''USER_CANCELLED'')] (Aware now)) (\<lambda>event.
               rbind (events_add tenant event d1) (\<lambda>d2.
                 Ok (Ok (Some r2, Some event), d2))))))))"

end
