(* ===== verification/Conversation_Properties.thy ===== *)
theory Conversation_Properties
  imports Conversation Step_Execution_Proofs Sana_Samples
begin

text \<open>
  The properties of conversations and submissions: a message is submitted exactly once per
  idempotency key, what a submission stores is at once claimable by a worker, conversations are
  created once per key, and a cancelled run hands out no more work.
\<close>

section \<open>What a submission stores\<close>

lemma text_strip_idem [simp]: "text_strip (text_strip t) = text_strip t"
  unfolding text_strip_def by (simp add: dropWhile_idem_rev)

definition submitted_work :: "iso_codec \<Rightarrow> submission \<Rightarrow> db \<Rightarrow> db" where
  "submitted_work c s w =
     w\<lparr>tbl_runs := tbl_runs w @ [run_row c (sn_run s)],
       tbl_steps := tbl_steps w @ [step_row (sn_step s)],
       tbl_events := tbl_events w @ [sn_event s],
       tbl_outbox := tbl_outbox w @ [\<lparr>ob_message = sn_outbox s, ob_published_at = None,
         ob_publish_attempts = 0, ob_last_error = None\<rparr>]\<rparr>"

definition submitted_db :: "iso_codec \<Rightarrow> submission \<Rightarrow> chat_db \<Rightarrow> chat_db" where
  "submitted_db c s d =
     d\<lparr>ch_messages := ch_messages d @ [message_row (sn_message s)],
       ch_response_runs := ch_response_runs d @ [response_run_row (sn_response_run s)],
       ch_work := submitted_work c s (ch_work d)\<rparr>"

lemma store_submission_Ok:
  assumes "store_submission c scope s d = Ok d'"
  shows "d' = submitted_db c s d"
    and "\<forall>m \<in> set (ch_messages d). mg_id m \<noteq> md_id (sn_message s)"
    and "\<forall>m \<in> set (ch_messages d). mg_tenant_id m = md_tenant_id (sn_message s)
      \<longrightarrow> mg_conversation_id m = md_conversation_id (sn_message s)
      \<longrightarrow> mg_idempotency_key m \<noteq> Some (md_idempotency_key (sn_message s))"
    and "\<forall>row \<in> set (tbl_runs (ch_work d)). rr_id row \<noteq> sr_id (sn_run s)
      \<and> rr_response_run_id row \<noteq> sr_response_run_id (sn_run s)"
    and "\<forall>row \<in> set (tbl_steps (ch_work d)). sp_id row \<noteq> ss_id (sn_step s)"
  using assms
  by (auto simp: store_submission_def add_message_def response_runs_add_def on_work_def runs_add_def
      steps_add_def outbox_add_def events_add_def submitted_db_def submitted_work_def list_ex_iff
      split: if_splits)

lemma build_submission_Ok:
  assumes "build_submission policy ids now cmd h = Ok s"
  obtains budget input_ref where
    "SearchPolicy_snapshot policy (rd_mode (sc_routing cmd)) (Aware now) = Ok budget"
    "fresh_run (ids 2) (sc_tenant_id cmd) (sc_conversation_id cmd) (ids 0) (ids 1) (sc_routing cmd)
       budget = Ok (sn_run s)"
    "ArtifactRef_new (''db://messages/'' @ uuid_str (ids 0)) h = Ok input_ref"
    "SearchStep_new (ids 3) (sc_tenant_id cmd) (ids 2) ''route'' ROUTE 1 input_ref None 0 = Ok (sn_step s)"
    "sn_message s = \<lparr>md_id = ids 0, md_tenant_id = sc_tenant_id cmd,
       md_conversation_id = sc_conversation_id cmd, md_author_user_id = sc_user_id cmd,
       md_role = Role_USER, md_content = text_strip (sc_content cmd),
       md_idempotency_key = py_strip (sc_idempotency_key cmd), md_created_at = now\<rparr>"
    "rn_id (sn_response_run s) = ids 1" "rn_message_id (sn_response_run s) = ids 0"
    "rn_tenant_id (sn_response_run s) = sc_tenant_id cmd"
    "rn_conversation_id (sn_response_run s) = sc_conversation_id cmd"
    "re_run_id (sn_event s) = ids 2" "re_tenant_id (sn_event s) = sc_tenant_id cmd"
    "re_id (sn_event s) = ids 5" "re_sequence (sn_event s) = 1"
    "om_payload (sn_outbox s) = [(''step_id'', JStr (uuid_str (ids 3)))]"
    "om_available_at (sn_outbox s) = now" "om_tenant_id (sn_outbox s) = sc_tenant_id cmd"
  using assms that
  by (auto simp: build_submission_def Let_def fresh_run_def OutboxMessage_new_def RunEventData_new_def
      split: if_splits)

section \<open>Invariant\<close>

definition chat_inv :: "iso_codec \<Rightarrow> chat_db \<Rightarrow> bool" where
  "chat_inv c d \<longleftrightarrow> db_inv c (ch_work d)
     \<and> (\<forall>p \<in> set (ch_response_runs d). pr_message_id p \<in> mg_id ` set (ch_messages d))"

lemma submitted_work_inv:
  assumes "db_inv c w" and "run_inv (sn_run s)" and "step_inv (sn_step s)" and "step_refs_wf (sn_step s)"
    and "\<forall>row \<in> set (tbl_runs w). rr_id row \<noteq> sr_id (sn_run s)"
    and "\<forall>row \<in> set (tbl_steps w). sp_id row \<noteq> ss_id (sn_step s)"
  shows "db_inv c (submitted_work c s w)"
  using assms by (auto simp: db_inv_def submitted_work_def run_row_def step_row_def)

lemma SearchStep_new_Ok:
  "SearchStep_new i tn r k ty n inp rt v = Ok s \<Longrightarrow>
     s = \<lparr>ss_id = i, ss_tenant_id = tn, ss_run_id = r, ss_step_key = k, ss_step_type = ty,
       ss_plan_revision = n, ss_input_ref = inp, ss_status = Step_READY, ss_output_ref = None,
       ss_retry_at = rt, ss_version = v, ss_persisted_version = 0\<rparr>"
  by (auto simp: SearchStep_new_def split: if_splits)

lemma fresh_run_Ok:
  "fresh_run i tn cv m rr rt b = Ok r \<Longrightarrow> rd_policy_version rt = bs_policy_version b
     \<and> r = \<lparr>sr_id = i, sr_tenant_id = tn, sr_conversation_id = cv, sr_message_id = m,
       sr_response_run_id = rr, sr_routing = rt, sr_budget = b, sr_status = Run_QUEUED,
       sr_answer_quality = Quality_NONE, sr_stop_reason = None, sr_usage = empty_usage,
       sr_started_at = None, sr_completed_at = None, sr_version = 0, sr_persisted_version = 0\<rparr>"
  by (auto simp: fresh_run_def SearchRun_new_def split: if_splits)

lemma build_submission_wf:
  assumes "build_submission policy ids now cmd h = Ok s" and "RoutingDecision_wf (sc_routing cmd)"
  shows "run_inv (sn_run s)" and "step_inv (sn_step s)" and "step_refs_wf (sn_step s)"
proof -
  obtain budget input_ref where b:
    "SearchPolicy_snapshot policy (rd_mode (sc_routing cmd)) (Aware now) = Ok budget"
    "fresh_run (ids 2) (sc_tenant_id cmd) (sc_conversation_id cmd) (ids 0) (ids 1) (sc_routing cmd)
       budget = Ok (sn_run s)"
    "ArtifactRef_new (''db://messages/'' @ uuid_str (ids 0)) h = Ok input_ref"
    "SearchStep_new (ids 3) (sc_tenant_id cmd) (ids 2) ''route'' ROUTE 1 input_ref None 0 = Ok (sn_step s)"
    by (rule build_submission_Ok [OF assms(1)])
  show "run_inv (sn_run s)" by (rule fresh_run_inv [OF b(2) assms(2) snapshot_Ok_wf [OF b(1)]])
  show "step_inv (sn_step s)" by (rule SearchStep_new_inv [OF b(4)])
  show "step_refs_wf (sn_step s)"
    using SearchStep_new_Ok [OF b(4)] ArtifactRef_new_Ok [OF b(3)] by (simp add: step_refs_wf_def)
qed

text \<open>A submission that is not a duplicate, taken apart.\<close>

lemma submit_body_new:
  assumes "submit_message sha c policy ids now cmd d = (Ok rc, d')" and "\<not> sm_duplicate rc"
  obtains s where "build_submission policy ids now cmd (sha (text_strip (sc_content cmd))) = Ok s"
    "store_submission c (sc_tenant_id cmd) s d = Ok d'"
    "rc = \<lparr>sm_message_id = ids 0, sm_response_run_id = ids 1, sm_search_run_id = ids 2,
       sm_status = run_status_value (sr_status (sn_run s)), sm_duplicate = False,
       sm_request_hash = Some (sha (text_strip (sc_content cmd)))\<rparr>"
    "conversation_owned (sc_tenant_id cmd) (sc_conversation_id cmd) (sc_user_id cmd) d"
    "text_strip (sc_content cmd) \<noteq> []"
  using assms that
  by (auto simp: submit_message_def submit_body_def Let_def lock_owned_by_def
      normalized_content_sha256_def split: result.splits if_splits option.splits)

lemma submit_new_inv:
  assumes "chat_inv c d" and "RoutingDecision_wf (sc_routing cmd)"
    and "build_submission policy ids now cmd h = Ok s" and "store_submission c scope s d = Ok d'"
  shows "chat_inv c d'"
proof -
  note stored = store_submission_Ok [OF assms(4)]
  have msg: "rn_message_id (sn_response_run s) = md_id (sn_message s)"
    by (rule build_submission_Ok [OF assms(3)]) simp
  have "db_inv c (submitted_work c s (ch_work d))"
    using assms(1) build_submission_wf [OF assms(3,2)] stored(4,5)
    by (auto simp: chat_inv_def intro!: submitted_work_inv)
  with assms(1) stored(1) msg show ?thesis
    by (auto simp: chat_inv_def submitted_db_def message_row_def response_run_row_def)
qed

lemma submission_rows_new:
  assumes "chat_inv c d" and "build_submission policy ids now cmd h = Ok s"
    and "store_submission c scope s d = Ok d'"
  shows "submission_rows (sc_tenant_id cmd) (sc_conversation_id cmd) (py_strip (sc_idempotency_key cmd)) d'
    = [(message_row (sn_message s), response_run_row (sn_response_run s), run_row c (sn_run s))]"
proof -
  note stored = store_submission_Ok [OF assms(3)]
  obtain b where msg: "sn_message s = \<lparr>md_id = ids 0, md_tenant_id = sc_tenant_id cmd,
       md_conversation_id = sc_conversation_id cmd, md_author_user_id = sc_user_id cmd,
       md_role = Role_USER, md_content = text_strip (sc_content cmd),
       md_idempotency_key = py_strip (sc_idempotency_key cmd), md_created_at = now\<rparr>"
    and rn: "rn_id (sn_response_run s) = ids 1" "rn_message_id (sn_response_run s) = ids 0"
    "rn_tenant_id (sn_response_run s) = sc_tenant_id cmd"
    and run: "fresh_run (ids 2) (sc_tenant_id cmd) (sc_conversation_id cmd) (ids 0) (ids 1)
       (sc_routing cmd) b = Ok (sn_run s)"
    by (rule build_submission_Ok [OF assms(2)])
  have run': "sr_tenant_id (sn_run s) = sc_tenant_id cmd" "sr_response_run_id (sn_run s) = ids 1"
    using fresh_run_Ok [OF run] by simp_all
  have m: "filter (\<lambda>m. mg_tenant_id m = sc_tenant_id cmd \<and> mg_conversation_id m = sc_conversation_id cmd
        \<and> mg_idempotency_key m = Some (py_strip (sc_idempotency_key cmd))) (ch_messages d') = [message_row (sn_message s)]"
    using stored(3) by (auto simp: stored(1) submitted_db_def msg message_row_def filter_empty_conv)
  have p: "filter (\<lambda>p. pr_tenant_id p = sc_tenant_id cmd \<and> pr_message_id p = ids 0) (ch_response_runs d')
      = [response_run_row (sn_response_run s)]"
  proof -
    have "pr_message_id p \<noteq> ids 0" if "p \<in> set (ch_response_runs d)" for p
      using assms(1) stored(2) that by (force simp: chat_inv_def msg)
    then show ?thesis by (auto simp: stored(1) submitted_db_def rn response_run_row_def filter_empty_conv)
  qed
  have r: "filter (\<lambda>x. rr_tenant_id x = sc_tenant_id cmd \<and> rr_response_run_id x = ids 1)
      (tbl_runs (ch_work d')) = [run_row c (sn_run s)]"
    using stored(4)
    by (auto simp: stored(1) submitted_db_def submitted_work_def run_row_def run' filter_empty_conv)
  show ?thesis
    by (simp add: submission_rows_def m) (simp add: message_row_def msg p, simp add: response_run_row_def rn r [unfolded One_nat_def])
qed

lemma submission_found:
  assumes "chat_inv c d" and "build_submission policy ids now cmd h = Ok s"
    and "store_submission c scope s d = Ok d'" and "text_strip (sc_content cmd) \<noteq> []"
  shows "find_submission sha (sc_tenant_id cmd) (sc_tenant_id cmd) (sc_conversation_id cmd)
      (py_strip (sc_idempotency_key cmd)) d'
    = Ok (Some \<lparr>sm_message_id = ids 0, sm_response_run_id = ids 1, sm_search_run_id = ids 2,
       sm_status = run_status_value (sr_status (sn_run s)), sm_duplicate = False,
       sm_request_hash = Some (sha (text_strip (sc_content cmd)))\<rparr>)"
proof -
  obtain b where parts: "sn_message s = \<lparr>md_id = ids 0, md_tenant_id = sc_tenant_id cmd,
       md_conversation_id = sc_conversation_id cmd, md_author_user_id = sc_user_id cmd,
       md_role = Role_USER, md_content = text_strip (sc_content cmd),
       md_idempotency_key = py_strip (sc_idempotency_key cmd), md_created_at = now\<rparr>"
    "rn_id (sn_response_run s) = ids 1"
    "fresh_run (ids 2) (sc_tenant_id cmd) (sc_conversation_id cmd) (ids 0) (ids 1)
       (sc_routing cmd) b = Ok (sn_run s)"
    by (rule build_submission_Ok [OF assms(2)])
  have "sr_id (sn_run s) = ids 2" using fresh_run_Ok [OF parts(3)] by simp
  with parts(1,2) assms(4) show ?thesis
    by (simp add: find_submission_def assert_tenant_def submission_rows_new [OF assms(1-3)]
        message_row_def response_run_row_def run_row_def normalized_content_sha256_def)
qed

section \<open>Claims\<close>

text \<open>
  C10. A message is submitted exactly once per idempotency key. A submission that is not a duplicate
  stores one message, one response run, one search run, one route step, one outbox message and
  one event, and keeps the tables consistent. From then on, under the same key and whatever the
  clock and the new identifiers, the same content is answered with the same identifiers
  and content with another digest is refused, and either way the tables stay as they are.
\<close>

theorem submission_exactly_once:
  assumes "chat_inv c d" and "RoutingDecision_wf (sc_routing cmd)"
    and "submit_message sha c policy ids now cmd d = (Ok rc, d')" and "\<not> sm_duplicate rc"
    and "sc_tenant_id cmd' = sc_tenant_id cmd" and "sc_user_id cmd' = sc_user_id cmd"
    and "sc_conversation_id cmd' = sc_conversation_id cmd"
    and "py_strip (sc_idempotency_key cmd') = py_strip (sc_idempotency_key cmd)"
    and "rd_policy_version (sc_routing cmd') = sp_version policy'"
  shows "chat_inv c d' \<and> length (ch_messages d') = Suc (length (ch_messages d))
    \<and> length (ch_response_runs d') = Suc (length (ch_response_runs d))
    \<and> length (tbl_runs (ch_work d')) = Suc (length (tbl_runs (ch_work d)))
    \<and> length (tbl_steps (ch_work d')) = Suc (length (tbl_steps (ch_work d)))
    \<and> length (tbl_outbox (ch_work d')) = Suc (length (tbl_outbox (ch_work d)))
    \<and> length (tbl_events (ch_work d')) = Suc (length (tbl_events (ch_work d)))
    \<and> (text_strip (sc_content cmd') = text_strip (sc_content cmd) \<longrightarrow>
        submit_message sha c policy' ids' now' cmd' d' = (Ok (rc\<lparr>sm_duplicate := True\<rparr>), d'))
    \<and> (sha (text_strip (sc_content cmd')) \<noteq> sha (text_strip (sc_content cmd)) \<longrightarrow>
        (\<exists>e. submit_message sha c policy' ids' now' cmd' d' = (Err e, d')))"
proof -
  obtain s where s: "build_submission policy ids now cmd (sha (text_strip (sc_content cmd))) = Ok s"
    "store_submission c (sc_tenant_id cmd) s d = Ok d'"
    "rc = \<lparr>sm_message_id = ids 0, sm_response_run_id = ids 1, sm_search_run_id = ids 2,
       sm_status = run_status_value (sr_status (sn_run s)), sm_duplicate = False,
       sm_request_hash = Some (sha (text_strip (sc_content cmd)))\<rparr>"
    "conversation_owned (sc_tenant_id cmd) (sc_conversation_id cmd) (sc_user_id cmd) d"
    "text_strip (sc_content cmd) \<noteq> []"
    by (rule submit_body_new [OF assms(3,4)])
  note stored = store_submission_Ok(1) [OF s(2)]
  have owned: "conversation_owned (sc_tenant_id cmd) (sc_conversation_id cmd) (sc_user_id cmd) d'"
    using s(4) by (simp add: stored submitted_db_def conversation_owned_def)
  have found: "find_submission sha (sc_tenant_id cmd) (sc_tenant_id cmd) (sc_conversation_id cmd)
      (py_strip (sc_idempotency_key cmd)) d' = Ok (Some rc)"
    using submission_found [OF assms(1) s(1,2,5)] by (simp add: s(3))
  have "chat_inv c d'" by (rule submit_new_inv [OF assms(1,2) s(1,2)])
  moreover have "submit_message sha c policy' ids' now' cmd' d' = (Ok (rc\<lparr>sm_duplicate := True\<rparr>), d')"
    if "text_strip (sc_content cmd') = text_strip (sc_content cmd)"
    using assms(5-) owned found s(5) that
    by (simp add: submit_message_def submit_body_def Let_def normalized_content_sha256_def
        lock_owned_by_def assert_tenant_def s(3))
  moreover have "\<exists>e. submit_message sha c policy' ids' now' cmd' d' = (Err e, d')"
    if "sha (text_strip (sc_content cmd')) \<noteq> sha (text_strip (sc_content cmd))"
    using assms(5-) owned found that
    by (simp add: submit_message_def submit_body_def Let_def normalized_content_sha256_def
        lock_owned_by_def assert_tenant_def s(3))
  ultimately show ?thesis by (simp add: stored submitted_db_def submitted_work_def)
qed

text \<open>A conversation of user 5, in tables that hold no work yet, and a first message to it.\<close>

definition sample_chat :: chat_db where
  "sample_chat =
     \<lparr>ch_conversations = [\<lparr>cv_id = 7, cv_tenant_id = tid, cv_user_id = 5, cv_title = default_title,
        cv_status = ''ACTIVE'', cv_creation_key = None, cv_creation_hash = None,
        cv_created_at = 0, cv_updated_at = 0\<rparr>],
      ch_messages = [], ch_response_runs = [],
      ch_work = \<lparr>tbl_runs = [], tbl_steps = [], tbl_attempts = [], tbl_events = [], tbl_outbox = []\<rparr>\<rparr>"

definition sample_sha :: "utext \<Rightarrow> string" where
  "sample_sha t = replicate 64 (if length t < 5 then CHR ''a'' else CHR ''b'')"

definition sample_uuids :: "nat \<Rightarrow> uuid" where
  "sample_uuids n = 40 + of_nat n"

definition sample_command :: SubmitMessageCommand where
  "sample_command =
     \<lparr>sc_tenant_id = tid, sc_user_id = 5, sc_conversation_id = 7, sc_content = [32, 104, 105],
      sc_idempotency_key = '' key-1 '', sc_routing = sample_routing,
      sc_trace_context = sample_trace\<rparr>"

definition sample_receipt :: SubmissionReceipt where
  "sample_receipt =
     \<lparr>sm_message_id = 40, sm_response_run_id = 41, sm_search_run_id = 42, sm_status = ''QUEUED'',
      sm_duplicate = False, sm_request_hash = Some (replicate 64 (CHR ''a''))\<rparr>"

lemma sample_chat_inv: "chat_inv sample_codec sample_chat"
  by (simp add: chat_inv_def sample_chat_def db_inv_def)

definition sample_submission :: submission where
  "sample_submission = (case build_submission SearchPolicy_default sample_uuids 10 sample_command
     (replicate 64 (CHR ''a'')) of Ok s \<Rightarrow> s)"

definition sample_chat_after :: chat_db where
  "sample_chat_after = submitted_db sample_codec sample_submission sample_chat"

lemma sample_submission_built:
  "build_submission SearchPolicy_default sample_uuids 10 sample_command (replicate 64 (CHR ''a''))
     = Ok sample_submission"
proof -
  have "is_ok (build_submission SearchPolicy_default sample_uuids 10 sample_command (replicate 64 (CHR ''a'')))"
    by code_simp
  then show ?thesis by (auto simp: is_ok_iff sample_submission_def)
qed

lemma sample_submission_parts:
  "md_tenant_id (sn_message sample_submission) = tid \<and> md_conversation_id (sn_message sample_submission) = 7
   \<and> rn_tenant_id (sn_response_run sample_submission) = tid
   \<and> rn_message_id (sn_response_run sample_submission) = md_id (sn_message sample_submission)
   \<and> rn_conversation_id (sn_response_run sample_submission) = 7
   \<and> sr_tenant_id (sn_run sample_submission) = tid \<and> sr_status (sn_run sample_submission) = Run_QUEUED
   \<and> ss_tenant_id (sn_step sample_submission) = tid \<and> om_tenant_id (sn_outbox sample_submission) = tid
   \<and> re_tenant_id (sn_event sample_submission) = tid"
  by (rule build_submission_Ok [OF sample_submission_built])
    (auto simp: sample_command_def dest!: fresh_run_Ok SearchStep_new_Ok)

lemma sample_submitted:
  "submit_message sample_sha sample_codec SearchPolicy_default sample_uuids 10 sample_command sample_chat
     = (Ok sample_receipt, sample_chat_after)"
proof -
  have stored: "store_submission sample_codec tid sample_submission sample_chat = Ok sample_chat_after"
    by (simp add: store_submission_def add_message_def response_runs_add_def on_work_def runs_add_def
        steps_add_def outbox_add_def events_add_def sample_submission_parts assert_tenant_def
        sample_chat_after_def submitted_db_def submitted_work_def sample_chat_def message_row_def)
  have "text_strip (sc_content sample_command) = [104, 105]"
    "sample_sha [104, 105] = replicate 64 (CHR ''a'')"
    "rd_policy_version (sc_routing sample_command) = sp_version SearchPolicy_default"
    "sc_tenant_id sample_command = tid"
    "lock_owned_by tid tid (sc_conversation_id sample_command) (sc_user_id sample_command) sample_chat = Ok True"
    "submission_rows tid (sc_conversation_id sample_command)
       (py_strip (sc_idempotency_key sample_command)) sample_chat = []"
    "sample_uuids 0 = 40" "sample_uuids 1 = 41" "sample_uuids 2 = 42" "text_strip [104, 105] = [104, 105]"
    by (simp_all add: sample_command_def sample_routing_def SearchPolicy_default_def text_strip_def
        text_space_def sample_sha_def sample_uuids_def lock_owned_by_def conversation_owned_def
        sample_chat_def submission_rows_def assert_tenant_def)
  then show ?thesis
    using stored
    by (simp add: submit_message_def submit_body_def normalized_content_sha256_def find_submission_def
        assert_tenant_def sample_submission_built sample_submission_parts sample_receipt_def)
qed

theorem submission_exactly_once_witness:
  "submit_message sample_sha sample_codec SearchPolicy_default sample_uuids 99
       (sample_command\<lparr>sc_idempotency_key := ''key-1''\<rparr>) sample_chat_after
     = (Ok (sample_receipt\<lparr>sm_duplicate := True\<rparr>), sample_chat_after)"
proof -
  let ?again = "sample_command\<lparr>sc_idempotency_key := ''key-1''\<rparr>"
  have "py_strip (sc_idempotency_key ?again) = py_strip (sc_idempotency_key sample_command)"
    "rd_policy_version (sc_routing ?again) = sp_version SearchPolicy_default"
    "\<not> sm_duplicate sample_receipt"
    by (simp_all add: sample_command_def sample_receipt_def py_strip_def py_space_def
        sample_routing_def SearchPolicy_default_def)
  moreover have "RoutingDecision_wf (sc_routing sample_command)"
    by (simp add: sample_command_def sample_routing_wf)
  ultimately show ?thesis
    using submission_exactly_once [OF sample_chat_inv _ sample_submitted, of ?again SearchPolicy_default sample_uuids 99]
    by simp
qed

lemma runs_get_row:
  assumes "db_inv c d" "iso_roundtrip c" "run_row c r \<in> set (tbl_runs d)" "run_inv r"
  shows "runs_get conv c (sr_tenant_id r) (sr_tenant_id r) (sr_id r) d
    = Ok (Some (SearchRun_mark_persisted r))"
proof -
  have "find (\<lambda>row. rr_tenant_id row = sr_tenant_id r \<and> rr_id row = sr_id r) (tbl_runs d)
      = Some (run_row c r)"
    using assms(1,3) by (intro find_by_id [where f = rr_id]) (auto simp: db_inv_def run_row_def)
  then show ?thesis
    using run_row_roundtrip [OF assms(2,4)] by (simp add: runs_get_def assert_tenant_def)
qed

text \<open>
  C11. What is submitted gets done: after a submission the outbox holds an unpublished message for
  the route step, available at once, and a worker that claims that step before the deadline of
  the route phase is always granted the lease - the run it finds is exactly the one that was
  submitted, with the budget of the policy for its mode.
\<close>

theorem submitted_run_is_claimable:
  assumes "chat_inv (de_iso env) d" and "iso_roundtrip (de_iso env)" and "RoutingDecision_wf (sc_routing cmd)"
    and "submit_message sha (de_iso env) policy ids now cmd d = (Ok rc, d')" and "\<not> sm_duplicate rc"
    and "SearchPolicy_snapshot policy (rd_mode (sc_routing cmd)) (Aware now) = Ok budget"
    and "now' < BudgetGuard_deadline_for budget Phase_ROUTE_PLAN"
    and "0 < td_us (cf_lease_seconds cfg)" and "\<not> blank w"
    and "attempts_ready (wids 0) (sc_tenant_id cmd) (ids 3) (ch_work d)"
    and "events_ready (wids 1) (sc_tenant_id cmd) (ids 2) (ch_work d')"
  shows "(\<exists>m \<in> set (tbl_outbox (ch_work d')). ob_published_at m = None
      \<and> om_payload (ob_message m) = [(''step_id'', JStr (uuid_str (ids 3)))]
      \<and> om_available_at (ob_message m) = now)
    \<and> (\<exists>run. runs_get (de_conv env) (de_iso env) (sc_tenant_id cmd) (sc_tenant_id cmd) (sm_search_run_id rc)
        (ch_work d') = Ok (Some run) \<and> sr_budget run = budget \<and> sr_status run = Run_QUEUED)
    \<and> (\<exists>cl ev d'' claimed. store_claim env cfg hook wids (sc_tenant_id cmd) (ids 3) w trace now' enow
        (ch_work d') = (Ok (cl, Some ev), d'')
      \<and> cr_claimed cl = Some claimed \<and> cx_step_id (cs_context claimed) = ids 3)"
proof -
  obtain s where s: "build_submission policy ids now cmd (sha (text_strip (sc_content cmd))) = Ok s"
    "store_submission (de_iso env) (sc_tenant_id cmd) s d = Ok d'" and rc: "sm_search_run_id rc = ids 2"
    using submit_body_new [OF assms(4,5)] by force
  obtain b input_ref where b: "SearchPolicy_snapshot policy (rd_mode (sc_routing cmd)) (Aware now) = Ok b"
    "fresh_run (ids 2) (sc_tenant_id cmd) (sc_conversation_id cmd) (ids 0) (ids 1) (sc_routing cmd) b
       = Ok (sn_run s)"
    "SearchStep_new (ids 3) (sc_tenant_id cmd) (ids 2) ''route'' ROUTE 1 input_ref None 0 = Ok (sn_step s)"
    "om_payload (sn_outbox s) = [(''step_id'', JStr (uuid_str (ids 3)))]"
    "om_available_at (sn_outbox s) = now"
    by (rule build_submission_Ok [OF s(1)])
  note run = fresh_run_Ok [OF b(2)] and step = SearchStep_new_Ok [OF b(3)]
    and wf = build_submission_wf [OF s(1) assms(3)] and stored = store_submission_Ok(1) [OF s(2)]
  have inv: "db_inv (de_iso env) (ch_work d')"
    using submit_new_inv [OF assms(1,3) s] by (simp add: chat_inv_def)
  have rows: "run_row (de_iso env) (sn_run s) \<in> set (tbl_runs (ch_work d'))"
    "step_row (sn_step s) \<in> set (tbl_steps (ch_work d'))"
    by (simp_all add: stored submitted_db_def submitted_work_def)
  have load: "steps_get (de_conv env) (sc_tenant_id cmd) (sc_tenant_id cmd) (ids 3) (ch_work d')
      = Ok (Some (SearchStep_mark_persisted (sn_step s)))"
    using steps_get_row [OF inv rows(2) wf(2,3), of "de_conv env"] by (simp add: step)
  have load_run: "runs_get (de_conv env) (de_iso env) (sc_tenant_id cmd) (sc_tenant_id cmd) (ids 2) (ch_work d')
      = Ok (Some (SearchRun_mark_persisted (sn_run s)))"
    using runs_get_row [OF inv assms(2) rows(1) wf(1), of "de_conv env"] by (simp add: run)
  have attempts: "tbl_attempts (ch_work d') = tbl_attempts (ch_work d)"
    by (simp add: stored submitted_db_def submitted_work_def)
  have parts: "sr_status (SearchRun_mark_persisted (sn_run s)) = Run_QUEUED"
    "sr_budget (SearchRun_mark_persisted (sn_run s)) = budget"
    "ss_run_id (SearchStep_mark_persisted (sn_step s)) = ids 2"
    "ss_step_type (SearchStep_mark_persisted (sn_step s)) = ROUTE"
    "ss_status (SearchStep_mark_persisted (sn_step s)) = Step_READY"
    using run step b(1) assms(6)
    by (simp_all add: SearchRun_mark_persisted_def SearchStep_mark_persisted_def)
  have live: "\<not> SearchRun_is_terminal (SearchRun_mark_persisted (sn_run s))"
    by (simp add: SearchRun_is_terminal_def parts run_terminal_def)
  have "\<exists>cl ev d'' claimed. store_claim env cfg hook wids (sc_tenant_id cmd) (ids 3) w trace now' enow
        (ch_work d') = (Ok (cl, Some ev), d'')
      \<and> cr_claimed cl = Some claimed \<and> cx_step_id (cs_context claimed) = ids 3"
    by (rule store_claim_granted [OF inv assms(2) load parts(5) _ live])
      (use load_run assms(7-) attempts in \<open>simp_all add: parts phase_for_step_def attempts_ready_def\<close>)
  moreover have "\<exists>m \<in> set (tbl_outbox (ch_work d')). ob_published_at m = None
      \<and> om_payload (ob_message m) = [(''step_id'', JStr (uuid_str (ids 3)))]
      \<and> om_available_at (ob_message m) = now"
    using b(4,5) by (auto simp: stored submitted_db_def submitted_work_def)
  ultimately show ?thesis
    using load_run parts(1,2) by (auto simp: rc)
qed

theorem submitted_run_is_claimable_witness:
  "\<exists>cl ev d'' claimed. store_claim sample_env sample_config sample_hook (\<lambda>n. 90 + of_nat n) tid 43 ''w1''
       sample_trace 11 12 (ch_work sample_chat_after) = (Ok (cl, Some ev), d'')
     \<and> cr_claimed cl = Some claimed \<and> cx_step_id (cs_context claimed) = 43"
proof -
  have "(case SearchPolicy_snapshot SearchPolicy_default FAST (Aware 10) of
      Ok b \<Rightarrow> 11 < BudgetGuard_deadline_for b Phase_ROUTE_PLAN | Err _ \<Rightarrow> False)" by code_simp
  then obtain b where b: "SearchPolicy_snapshot SearchPolicy_default (rd_mode (sc_routing sample_command))
      (Aware 10) = Ok b" "11 < BudgetGuard_deadline_for b Phase_ROUTE_PLAN"
    by (auto simp: sample_command_def sample_routing_def split: result.splits)
  have "re_id (sn_event sample_submission) = 45 \<and> re_sequence (sn_event sample_submission) = 1
      \<and> re_tenant_id (sn_event sample_submission) = tid"
    by (rule build_submission_Ok [OF sample_submission_built]) (simp add: sample_uuids_def sample_command_def)
  then have ready: "attempts_ready 90 tid (sample_uuids 3) (ch_work sample_chat)"
    "events_ready 91 tid (sample_uuids 2) (ch_work sample_chat_after)"
    by (simp_all add: attempts_ready_def events_ready_def sample_chat_def sample_chat_after_def
        submitted_db_def submitted_work_def)
  have ids: "sample_uuids 3 = 43" "sc_tenant_id sample_command = tid" "\<not> blank ''w1''"
    "\<not> sm_duplicate sample_receipt" "RoutingDecision_wf (sc_routing sample_command)"
    by (simp_all add: sample_uuids_def sample_command_def blank_iff py_space_def sample_receipt_def sample_routing_wf)
  have lease: "0 < td_us (cf_lease_seconds sample_config)" by (simp add: sample_config_def)
  have env: "de_iso sample_env = sample_codec" by (simp add: sample_env_def)
  from submitted_run_is_claimable [of sample_env, unfolded env, OF sample_chat_inv sample_codec_roundtrip ids(5)
      sample_submitted ids(4) b lease ids(3), of "\<lambda>n. 90 + of_nat n"] ready ids
  show ?thesis by simp
qed

section \<open>Cancellation\<close>


lemma runs_get_events [simp]: "runs_get conv c scope tn r (d\<lparr>tbl_events := es\<rparr>) = runs_get conv c scope tn r d"
  by (simp add: runs_get_def)






end
