(* ===== verification/Campaign_Domain.thy ===== *)
theory Campaign_Domain
  imports Shared_Kernel
begin

text \<open>
  The shadow-campaign values of \<^verbatim>\<open>sana/modules/shadow_campaign/domain.py\<close>: the
  enumerations and the state machine \<^verbatim>\<open>CampaignLifecycle\<close>. An operation returns the updated
  record or the exception it raises; every operation raises before it assigns a field.
  The canonical-JSON helpers of the same file print Unicode text and are not modelled; where
  another component stores their digest, the digest function is a parameter.
\<close>

section \<open>Enumerations\<close>

datatype CampaignStatus =
    Camp_CREATED | Camp_RUNNING | Camp_STOPPING | Camp_PAUSED | Camp_AWAITING_REVIEW
  | Camp_COMPLETED | Camp_ABORTED

datatype GateStatus = Gate_PENDING | Gate_PASS | Gate_FAIL | Gate_INSUFFICIENT_SAMPLE

datatype StopIntent =
    Intent_NONE | Intent_PAUSE | Intent_ABORT | Intent_FATAL | Intent_BUDGET | Intent_CALL_CEILING

datatype SchedulingState =
    Sched_PENDING | Sched_CLAIMED | Sched_CONVERSATION_BOUND | Sched_SUBMITTED | Sched_COLLECTED
  | Sched_FAILED | Sched_SKIPPED

datatype ReservationState = Resv_NONE | Resv_ACTIVE | Resv_SETTLED | Resv_RELEASED

datatype ErrorClass =
    Class_CANDIDATE_DEFECT | Class_PERMANENT_CONFIGURATION | Class_INFRASTRUCTURE
  | Class_PROVIDER_TRANSIENT | Class_CONTENT_GAP

fun campaign_status_value :: "CampaignStatus \<Rightarrow> string" where
  "campaign_status_value Camp_CREATED = ''CREATED''"
| "campaign_status_value Camp_RUNNING = ''RUNNING''"
| "campaign_status_value Camp_STOPPING = ''STOPPING''"
| "campaign_status_value Camp_PAUSED = ''PAUSED''"
| "campaign_status_value Camp_AWAITING_REVIEW = ''AWAITING_REVIEW''"
| "campaign_status_value Camp_COMPLETED = ''COMPLETED''"
| "campaign_status_value Camp_ABORTED = ''ABORTED''"

definition campaign_transitions :: "(CampaignStatus \<times> CampaignStatus list) list" where
  "campaign_transitions =
     [(Camp_CREATED, [Camp_RUNNING, Camp_ABORTED]),
      (Camp_RUNNING, [Camp_STOPPING, Camp_AWAITING_REVIEW, Camp_COMPLETED]),
      (Camp_STOPPING, [Camp_PAUSED, Camp_AWAITING_REVIEW, Camp_COMPLETED, Camp_ABORTED]),
      (Camp_PAUSED, [Camp_RUNNING, Camp_ABORTED]),
      (Camp_AWAITING_REVIEW, [Camp_COMPLETED, Camp_ABORTED]),
      (Camp_COMPLETED, []),
      (Camp_ABORTED, [])]"

section \<open>CampaignLifecycle\<close>

record CampaignLifecycle =
  cl_id :: uuid
  cl_tenant_id :: uuid
  cl_created_by_user_id :: uuid
  cl_max_runs :: int
  cl_planned_count :: int
  cl_status :: CampaignStatus
  cl_gate_status :: GateStatus
  cl_stop_intent :: StopIntent
  cl_stop_reason :: "string option"
  cl_started_at :: "instant option"
  cl_review_deadline_at :: "instant option"
  cl_completed_at :: "instant option"
  cl_version :: int
  cl_persisted_version :: int

definition campaign_terminal :: "CampaignStatus \<Rightarrow> bool" where
  "campaign_terminal s \<longleftrightarrow> s \<in> {Camp_COMPLETED, Camp_ABORTED}"

definition Campaign_is_terminal :: "CampaignLifecycle \<Rightarrow> bool" where
  "Campaign_is_terminal c = campaign_terminal (cl_status c)"

definition Campaign_mark_persisted :: "CampaignLifecycle \<Rightarrow> CampaignLifecycle" where
  "Campaign_mark_persisted c = c\<lparr>cl_persisted_version := cl_version c\<rparr>"

text \<open>
  The checks on a loaded campaign. The awareness checks of the timestamps are passed by the
  values of a \<^verbatim>\<open>timestamptz\<close> column, which the record holds as instants.
\<close>

definition Campaign_validate_loaded_state :: "CampaignLifecycle \<Rightarrow> unit result" where
  "Campaign_validate_loaded_state c =
     (if cl_version c < 0 \<or> cl_max_runs c < 1
         \<or> \<not> (0 \<le> cl_planned_count c \<and> cl_planned_count c \<le> cl_max_runs c)
      then Err (InvariantViolation ''Campaign planning counters are invalid'')
      else if cl_status c = Camp_CREATED \<and> (cl_started_at c \<noteq> None \<or> cl_completed_at c \<noteq> None)
      then Err (InvariantViolation ''Persisted CREATED campaign has run timestamps'')
      else if cl_status c \<noteq> Camp_CREATED \<and> cl_status c \<noteq> Camp_ABORTED \<and> cl_started_at c = None
      then Err (InvariantViolation ''Persisted active campaign has no started_at'')
      else if cl_status c = Camp_STOPPING
         \<and> (cl_stop_intent c = Intent_NONE
            \<or> blank (case cl_stop_reason c of None \<Rightarrow> [] | Some s \<Rightarrow> s))
      then Err (InvariantViolation ''Persisted STOPPING campaign has no stop intent'')
      else if cl_status c = Camp_AWAITING_REVIEW \<and> cl_review_deadline_at c = None
      then Err (InvariantViolation ''Persisted review campaign has no deadline'')
      else if Campaign_is_terminal c \<noteq> (cl_completed_at c \<noteq> None)
      then Err (InvariantViolation ''Persisted campaign terminal timestamp is inconsistent'')
      else if cl_status c = Camp_COMPLETED \<and> cl_gate_status c = Gate_PENDING
      then Err (InvariantViolation ''Persisted completed campaign has no gate decision'')
      else case (cl_started_at c, cl_completed_at c) of
          (Some s, Some e) \<Rightarrow>
            if e < s then Err (InvariantViolation ''Persisted campaign timestamps move backwards'')
            else Ok ()
        | _ \<Rightarrow> Ok ())"

definition Campaign_rehydrate ::
  "uuid \<Rightarrow> uuid \<Rightarrow> uuid \<Rightarrow> int \<Rightarrow> int \<Rightarrow> CampaignStatus \<Rightarrow> GateStatus \<Rightarrow> StopIntent \<Rightarrow> string option
     \<Rightarrow> instant option \<Rightarrow> instant option \<Rightarrow> instant option \<Rightarrow> int \<Rightarrow> CampaignLifecycle result" where
  "Campaign_rehydrate i tenant user max_runs planned status gate intent reason started review
       completed version =
     (let c = \<lparr>cl_id = i, cl_tenant_id = tenant, cl_created_by_user_id = user,
               cl_max_runs = max_runs, cl_planned_count = planned, cl_status = status,
               cl_gate_status = gate, cl_stop_intent = intent, cl_stop_reason = reason,
               cl_started_at = started, cl_review_deadline_at = review,
               cl_completed_at = completed, cl_version = version,
               cl_persisted_version = version\<rparr> in
      rbind (Campaign_validate_loaded_state c) (\<lambda>_. Ok c))"

definition Campaign_require_not_before_start ::
  "CampaignLifecycle \<Rightarrow> instant \<Rightarrow> string \<Rightarrow> unit result" where
  "Campaign_require_not_before_start c moment field_name =
     (case cl_started_at c of
        None \<Rightarrow> Ok ()
      | Some s \<Rightarrow>
          if moment < s
          then Err (InvariantViolation (field_name @ '' cannot precede campaign start''))
          else Ok ())"

definition Campaign_transition :: "CampaignLifecycle \<Rightarrow> CampaignStatus \<Rightarrow> CampaignLifecycle result" where
  "Campaign_transition c target =
     rbind (assert_transition campaign_status_value (cl_status c) target campaign_transitions
              ''campaign'') (\<lambda>_.
       Ok (c\<lparr>cl_status := target, cl_version := cl_version c + 1\<rparr>))"

definition Campaign_start :: "CampaignLifecycle \<Rightarrow> datetime \<Rightarrow> CampaignLifecycle result" where
  "Campaign_start c d =
     rbind (require_aware d ''started_at'') (\<lambda>moment.
     rbind (Campaign_require_not_before_start c moment ''started_at'') (\<lambda>_.
       if cl_planned_count c \<noteq> cl_max_runs c
       then Err (invariant_violation_code
              ''Campaign cannot start before every planned run is materialized''
              ''campaign_not_materialized'' [])
       else
         rbind (Campaign_transition c Camp_RUNNING) (\<lambda>c1.
           Ok (c1\<lparr>cl_started_at := (case cl_started_at c1 of None \<Rightarrow> Some moment | Some s \<Rightarrow> Some s),
                  cl_stop_intent := Intent_NONE, cl_stop_reason := None\<rparr>))))"

definition Campaign_resume :: "CampaignLifecycle \<Rightarrow> datetime \<Rightarrow> CampaignLifecycle result" where
  "Campaign_resume c d =
     rbind (require_aware d ''resumed_at'') (\<lambda>moment.
     rbind (Campaign_require_not_before_start c moment ''resumed_at'') (\<lambda>_.
     rbind (Campaign_transition c Camp_RUNNING) (\<lambda>c1.
       Ok (c1\<lparr>cl_stop_intent := Intent_NONE, cl_stop_reason := None,
              cl_review_deadline_at := None\<rparr>))))"

definition Campaign_request_stop ::
  "CampaignLifecycle \<Rightarrow> StopIntent \<Rightarrow> string \<Rightarrow> CampaignLifecycle result" where
  "Campaign_request_stop c intent reason =
     (let normalized_reason = py_strip reason in
      if intent = Intent_NONE
      then Err (InvariantViolation ''Stopping a campaign requires a stop intent'')
      else if normalized_reason = []
      then Err (InvariantViolation ''Stopping a campaign requires a reason'')
      else
        rbind (Campaign_transition c Camp_STOPPING) (\<lambda>c1.
          Ok (c1\<lparr>cl_stop_intent := intent, cl_stop_reason := Some normalized_reason\<rparr>)))"

definition Campaign_escalate_stop ::
  "CampaignLifecycle \<Rightarrow> StopIntent \<Rightarrow> string \<Rightarrow> CampaignLifecycle result" where
  "Campaign_escalate_stop c intent reason =
     (let normalized_reason = py_strip reason in
      if cl_status c \<noteq> Camp_STOPPING
      then Err (invariant_violation_code ''Only a STOPPING campaign can escalate its stop intent''
                  ''campaign_not_stopping'' [])
      else if cl_stop_intent c \<noteq> Intent_PAUSE \<or> intent \<in> {Intent_NONE, Intent_PAUSE}
      then Err (invariant_violation_code ''Campaign stop intent cannot be downgraded or replaced''
                  ''stop_intent_escalation_invalid'' [])
      else if normalized_reason = []
      then Err (InvariantViolation ''Stop escalation requires a reason'')
      else Ok (c\<lparr>cl_stop_intent := intent, cl_stop_reason := Some normalized_reason,
                 cl_version := cl_version c + 1\<rparr>))"

definition Campaign_settle_stop :: "CampaignLifecycle \<Rightarrow> datetime \<Rightarrow> CampaignLifecycle result" where
  "Campaign_settle_stop c d =
     rbind (require_aware d ''stop settled_at'') (\<lambda>moment.
     rbind (Campaign_require_not_before_start c moment ''stop settled_at'') (\<lambda>_.
       let target = (if cl_stop_intent c = Intent_PAUSE then Camp_PAUSED else Camp_ABORTED) in
       rbind (Campaign_transition c target) (\<lambda>c1.
         Ok (if target = Camp_ABORTED then c1\<lparr>cl_completed_at := Some moment\<rparr> else c1))))"

definition Campaign_await_review ::
  "CampaignLifecycle \<Rightarrow> datetime \<Rightarrow> datetime \<Rightarrow> CampaignLifecycle result" where
  "Campaign_await_review c d dl =
     rbind (require_aware d ''awaiting_review_at'') (\<lambda>moment.
     rbind (require_aware dl ''review_deadline_at'') (\<lambda>deadline.
     rbind (Campaign_require_not_before_start c moment ''awaiting_review_at'') (\<lambda>_.
       if deadline \<le> moment
       then Err (InvariantViolation ''Review deadline must be after review start'')
       else
         rbind (Campaign_transition c Camp_AWAITING_REVIEW) (\<lambda>c1.
           Ok (c1\<lparr>cl_review_deadline_at := Some deadline\<rparr>)))))"

definition Campaign_complete ::
  "CampaignLifecycle \<Rightarrow> GateStatus \<Rightarrow> datetime \<Rightarrow> CampaignLifecycle result" where
  "Campaign_complete c decision d =
     rbind (require_aware d ''completed_at'') (\<lambda>moment.
     rbind (Campaign_require_not_before_start c moment ''completed_at'') (\<lambda>_.
       if decision = Gate_PENDING
       then Err (InvariantViolation ''Campaign completion requires a final gate decision'')
       else
         rbind (Campaign_transition c Camp_COMPLETED) (\<lambda>c1.
           Ok (c1\<lparr>cl_gate_status := decision, cl_completed_at := Some moment\<rparr>))))"

definition Campaign_abort :: "CampaignLifecycle \<Rightarrow> string \<Rightarrow> datetime \<Rightarrow> CampaignLifecycle result" where
  "Campaign_abort c reason d =
     rbind (require_aware d ''completed_at'') (\<lambda>moment.
     rbind (Campaign_require_not_before_start c moment ''completed_at'') (\<lambda>_.
       let normalized_reason = py_strip reason in
       if normalized_reason = []
       then Err (InvariantViolation ''Campaign abort requires a reason'')
       else
         rbind (Campaign_transition c Camp_ABORTED) (\<lambda>c1.
           Ok (c1\<lparr>cl_stop_intent := Intent_ABORT, cl_stop_reason := Some normalized_reason,
                  cl_completed_at := Some moment\<rparr>))))"

section \<open>The machine\<close>

inductive campaign_step :: "CampaignLifecycle \<Rightarrow> CampaignLifecycle \<Rightarrow> bool" where
  start: "Campaign_start c d = Ok c' \<Longrightarrow> campaign_step c c'"
| resume: "Campaign_resume c d = Ok c' \<Longrightarrow> campaign_step c c'"
| request_stop: "Campaign_request_stop c intent reason = Ok c' \<Longrightarrow> campaign_step c c'"
| escalate_stop: "Campaign_escalate_stop c intent reason = Ok c' \<Longrightarrow> campaign_step c c'"
| settle_stop: "Campaign_settle_stop c d = Ok c' \<Longrightarrow> campaign_step c c'"
| await_review: "Campaign_await_review c d dl = Ok c' \<Longrightarrow> campaign_step c c'"
| complete_campaign: "Campaign_complete c decision d = Ok c' \<Longrightarrow> campaign_step c c'"
| abort: "Campaign_abort c reason d = Ok c' \<Longrightarrow> campaign_step c c'"

text \<open>A campaign as the constructor builds it, with the counters of its plan.\<close>

definition fresh_campaign :: "uuid \<Rightarrow> uuid \<Rightarrow> uuid \<Rightarrow> int \<Rightarrow> int \<Rightarrow> CampaignLifecycle" where
  "fresh_campaign i tenant user max_runs planned =
     \<lparr>cl_id = i, cl_tenant_id = tenant, cl_created_by_user_id = user, cl_max_runs = max_runs,
      cl_planned_count = planned, cl_status = Camp_CREATED, cl_gate_status = Gate_PENDING,
      cl_stop_intent = Intent_NONE, cl_stop_reason = None, cl_started_at = None,
      cl_review_deadline_at = None, cl_completed_at = None, cl_version = 0,
      cl_persisted_version = 0\<rparr>"

section \<open>Invariant\<close>

text \<open>What the checks on load demand, as a predicate.\<close>

definition campaign_inv :: "CampaignLifecycle \<Rightarrow> bool" where
  "campaign_inv c \<longleftrightarrow>
     0 \<le> cl_version c \<and> 1 \<le> cl_max_runs c \<and> 0 \<le> cl_planned_count c
     \<and> cl_planned_count c \<le> cl_max_runs c
     \<and> (cl_status c = Camp_CREATED \<longrightarrow> cl_started_at c = None)
     \<and> (cl_status c \<notin> {Camp_CREATED, Camp_ABORTED} \<longrightarrow> cl_started_at c \<noteq> None)
     \<and> (cl_status c = Camp_STOPPING \<longrightarrow> cl_stop_intent c \<noteq> Intent_NONE
          \<and> (\<exists>s. cl_stop_reason c = Some s \<and> \<not> blank s))
     \<and> (cl_status c = Camp_AWAITING_REVIEW \<longrightarrow> cl_review_deadline_at c \<noteq> None)
     \<and> (campaign_terminal (cl_status c) \<longleftrightarrow> cl_completed_at c \<noteq> None)
     \<and> (cl_status c = Camp_COMPLETED \<longrightarrow> cl_gate_status c \<noteq> Gate_PENDING)
     \<and> (\<forall>s e. cl_started_at c = Some s \<longrightarrow> cl_completed_at c = Some e \<longrightarrow> s \<le> e)"

lemma validate_loaded_iff: "Campaign_validate_loaded_state c = Ok u \<longleftrightarrow> campaign_inv c"
  by (auto simp: Campaign_validate_loaded_state_def campaign_inv_def Campaign_is_terminal_def
      campaign_terminal_def split: option.splits)

lemma campaign_transition_cases:
  "transition_allowed campaign_transitions s t \<longleftrightarrow>
     (s, t) \<in> {(Camp_CREATED, Camp_RUNNING), (Camp_CREATED, Camp_ABORTED),
       (Camp_RUNNING, Camp_STOPPING), (Camp_RUNNING, Camp_AWAITING_REVIEW),
       (Camp_RUNNING, Camp_COMPLETED), (Camp_STOPPING, Camp_PAUSED),
       (Camp_STOPPING, Camp_AWAITING_REVIEW), (Camp_STOPPING, Camp_COMPLETED),
       (Camp_STOPPING, Camp_ABORTED), (Camp_PAUSED, Camp_RUNNING), (Camp_PAUSED, Camp_ABORTED),
       (Camp_AWAITING_REVIEW, Camp_COMPLETED), (Camp_AWAITING_REVIEW, Camp_ABORTED)}"
  by (cases s) (auto simp: transition_allowed_def campaign_transitions_def)

lemma terminal_in_campaign: "terminal_in campaign_transitions s \<longleftrightarrow> campaign_terminal s"
  by (cases s) (auto simp: terminal_in_def campaign_transition_cases campaign_terminal_def)

lemma Campaign_transition_Ok:
  "Campaign_transition c t = Ok c' \<longleftrightarrow>
     transition_allowed campaign_transitions (cl_status c) t
     \<and> c' = c\<lparr>cl_status := t, cl_version := cl_version c + 1\<rparr>"
  by (auto simp: Campaign_transition_def)

lemma require_not_before_Ok:
  "Campaign_require_not_before_start c t f = Ok u \<longleftrightarrow> (\<forall>s. cl_started_at c = Some s \<longrightarrow> s \<le> t)"
  by (auto simp: Campaign_require_not_before_start_def split: option.splits)

lemma strip_not_blank: "py_strip s \<noteq> [] \<Longrightarrow> \<not> blank (py_strip s)"
  by (simp add: blank_def)

lemmas campaign_op_defs =
  Campaign_start_def Campaign_resume_def Campaign_request_stop_def Campaign_escalate_stop_def
  Campaign_settle_stop_def Campaign_await_review_def Campaign_complete_def Campaign_abort_def

text \<open>
  \<^verbatim>\<open>start\<close> and \<^verbatim>\<open>resume\<close> share their transition target, so that \<^verbatim>\<open>resume\<close> accepts a campaign
  that was never started. The runner (\<^verbatim>\<open>app/shadow_runner.py\<close>) calls it on PAUSED campaigns
  only; \<open>runner_step\<close> is the machine under that guard.
\<close>

definition runner_step :: "CampaignLifecycle \<Rightarrow> CampaignLifecycle \<Rightarrow> bool" where
  "runner_step c c' \<longleftrightarrow> campaign_step c c'
     \<and> ((\<exists>d. Campaign_resume c d = Ok c') \<longrightarrow> cl_status c = Camp_PAUSED)"

lemma campaign_ops_Ok [op_Ok]:
  "Campaign_start c d = Ok c' \<longleftrightarrow> (\<exists>t. d = Aware t \<and> (\<forall>s. cl_started_at c = Some s \<longrightarrow> s \<le> t)
     \<and> cl_planned_count c = cl_max_runs c \<and> cl_status c \<in> {Camp_CREATED, Camp_PAUSED}
     \<and> c' = c\<lparr>cl_status := Camp_RUNNING, cl_version := cl_version c + 1,
               cl_started_at := (case cl_started_at c of None \<Rightarrow> Some t | Some s \<Rightarrow> Some s),
               cl_stop_intent := Intent_NONE, cl_stop_reason := None\<rparr>)"
  "Campaign_resume c d = Ok c' \<longleftrightarrow> (\<exists>t. d = Aware t \<and> (\<forall>s. cl_started_at c = Some s \<longrightarrow> s \<le> t)
     \<and> cl_status c \<in> {Camp_CREATED, Camp_PAUSED}
     \<and> c' = c\<lparr>cl_status := Camp_RUNNING, cl_version := cl_version c + 1,
               cl_stop_intent := Intent_NONE, cl_stop_reason := None,
               cl_review_deadline_at := None\<rparr>)"
  "Campaign_request_stop c i r = Ok c' \<longleftrightarrow> i \<noteq> Intent_NONE \<and> py_strip r \<noteq> []
     \<and> cl_status c = Camp_RUNNING
     \<and> c' = c\<lparr>cl_status := Camp_STOPPING, cl_version := cl_version c + 1,
               cl_stop_intent := i, cl_stop_reason := Some (py_strip r)\<rparr>"
  "Campaign_escalate_stop c i r = Ok c' \<longleftrightarrow> cl_status c = Camp_STOPPING
     \<and> cl_stop_intent c = Intent_PAUSE \<and> i \<notin> {Intent_NONE, Intent_PAUSE} \<and> py_strip r \<noteq> []
     \<and> c' = c\<lparr>cl_stop_intent := i, cl_stop_reason := Some (py_strip r),
               cl_version := cl_version c + 1\<rparr>"
  "Campaign_settle_stop c d = Ok c' \<longleftrightarrow> (\<exists>t. d = Aware t \<and> (\<forall>s. cl_started_at c = Some s \<longrightarrow> s \<le> t)
     \<and> (cl_stop_intent c = Intent_PAUSE \<and> cl_status c = Camp_STOPPING
          \<and> c' = c\<lparr>cl_status := Camp_PAUSED, cl_version := cl_version c + 1\<rparr>
        \<or> cl_stop_intent c \<noteq> Intent_PAUSE
          \<and> cl_status c \<in> {Camp_CREATED, Camp_STOPPING, Camp_PAUSED, Camp_AWAITING_REVIEW}
          \<and> c' = c\<lparr>cl_status := Camp_ABORTED, cl_version := cl_version c + 1,
                    cl_completed_at := Some t\<rparr>))"
  "Campaign_await_review c d dl = Ok c' \<longleftrightarrow> (\<exists>t u. d = Aware t \<and> dl = Aware u
     \<and> (\<forall>s. cl_started_at c = Some s \<longrightarrow> s \<le> t) \<and> t < u
     \<and> cl_status c \<in> {Camp_RUNNING, Camp_STOPPING}
     \<and> c' = c\<lparr>cl_status := Camp_AWAITING_REVIEW, cl_version := cl_version c + 1,
               cl_review_deadline_at := Some u\<rparr>)"
  "Campaign_complete c g d = Ok c' \<longleftrightarrow> (\<exists>t. d = Aware t \<and> (\<forall>s. cl_started_at c = Some s \<longrightarrow> s \<le> t)
     \<and> g \<noteq> Gate_PENDING \<and> cl_status c \<in> {Camp_RUNNING, Camp_STOPPING, Camp_AWAITING_REVIEW}
     \<and> c' = c\<lparr>cl_status := Camp_COMPLETED, cl_version := cl_version c + 1,
               cl_gate_status := g, cl_completed_at := Some t\<rparr>)"
  "Campaign_abort c r d = Ok c' \<longleftrightarrow> (\<exists>t. d = Aware t \<and> (\<forall>s. cl_started_at c = Some s \<longrightarrow> s \<le> t)
     \<and> py_strip r \<noteq> []
     \<and> cl_status c \<in> {Camp_CREATED, Camp_STOPPING, Camp_PAUSED, Camp_AWAITING_REVIEW}
     \<and> c' = c\<lparr>cl_status := Camp_ABORTED, cl_version := cl_version c + 1,
               cl_stop_intent := Intent_ABORT, cl_stop_reason := Some (py_strip r),
               cl_completed_at := Some t\<rparr>)"
  by (cases d; cases dl; auto simp: campaign_op_defs Campaign_transition_Ok require_not_before_Ok
      campaign_transition_cases Let_def split: if_splits)+

lemma campaign_step_shape:
  assumes "campaign_step c c'"
  shows "cl_version c' = cl_version c + 1"
    and "cl_status c' = cl_status c \<and> cl_status c = Camp_STOPPING
      \<or> transition_allowed campaign_transitions (cl_status c) (cl_status c')"
proof -
  show "cl_version c' = cl_version c + 1" using assms by cases (auto simp: op_Ok)
  show "cl_status c' = cl_status c \<and> cl_status c = Camp_STOPPING
      \<or> transition_allowed campaign_transitions (cl_status c) (cl_status c')"
    using assms by cases (auto simp: op_Ok transition_allowed_def campaign_transitions_def)
qed

lemma campaign_step_inv:
  assumes "campaign_step c c'" and "campaign_inv c"
    and "cl_status c \<noteq> Camp_CREATED \<or> (\<nexists>d. Campaign_resume c d = Ok c')"
  shows "campaign_inv c'"
  using assms(1)
proof cases
  case (start d)
  with assms(2) show ?thesis
    by (cases "cl_started_at c"; clarsimp simp: op_Ok;
        auto simp: campaign_inv_def campaign_terminal_def)
next
  case (resume d)
  with assms(3) have "cl_status c \<noteq> Camp_CREATED" by blast
  with resume(1) assms(2) show ?thesis
    by (clarsimp simp: op_Ok) (auto simp: campaign_inv_def campaign_terminal_def)
next
  case (settle_stop d)
  with assms(2) show ?thesis
    by (cases "cl_stop_intent c = Intent_PAUSE"; clarsimp simp: op_Ok;
        auto simp: campaign_inv_def campaign_terminal_def)
qed (use assms(2) in \<open>clarsimp simp: op_Ok; auto simp: campaign_inv_def campaign_terminal_def
      strip_not_blank\<close>)+

lemma runner_steps_inv:
  assumes "runner_step\<^sup>*\<^sup>* c c'" and "campaign_inv c"
  shows "campaign_inv c'"
  using assms
proof (induction rule: rtranclp_induct)
  case (step y z)
  then have "cl_status y \<noteq> Camp_CREATED \<or> (\<nexists>d. Campaign_resume y d = Ok z)"
    by (auto simp: runner_step_def)
  with step show ?case by (blast intro: campaign_step_inv dest: runner_step_def [THEN iffD1])
qed

lemma Campaign_rehydrate_Ok:
  "Campaign_rehydrate i tn u m p st g it rs sa rd ca v = Ok c \<longleftrightarrow>
     c = \<lparr>cl_id = i, cl_tenant_id = tn, cl_created_by_user_id = u, cl_max_runs = m,
          cl_planned_count = p, cl_status = st, cl_gate_status = g, cl_stop_intent = it,
          cl_stop_reason = rs, cl_started_at = sa, cl_review_deadline_at = rd,
          cl_completed_at = ca, cl_version = v, cl_persisted_version = v\<rparr>
     \<and> campaign_inv c"
  by (auto simp: Campaign_rehydrate_def Let_def validate_loaded_iff)

interpretation campaign_machine: sealed_machine campaign_step cl_status cl_version campaign_transitions
proof unfold_locales
  fix s t :: CampaignLifecycle
  assume "campaign_step s t"
  from campaign_step_shape [OF this]
  show "cl_status t = cl_status s \<or> transition_allowed campaign_transitions (cl_status s) (cl_status t)"
    and "cl_version t = cl_version s + 1" by auto
next
  fix s t :: CampaignLifecycle
  assume "terminal_in campaign_transitions (cl_status s)"
  then have "\<not> transition_allowed campaign_transitions (cl_status s) u" "campaign_terminal (cl_status s)" for u
    by (simp_all add: terminal_in_def flip: terminal_in_campaign)
  then show "\<not> campaign_step s t"
    using campaign_step_shape(2) [of s t] by (auto simp: campaign_terminal_def)
qed

end
