(* ===== verification/Py_Decimal.thy ===== *)
theory Py_Decimal
  imports Shared_Kernel
begin

text \<open>
  The part of Python's \<^verbatim>\<open>decimal\<close> module that the campaign budget uses, under its standard
  context (28 significant digits, half-even rounding). A finite \<^verbatim>\<open>Decimal\<close> is the rational
  it denotes: the budget compares and adds values, and neither depends on trailing zeros.
  Sums of money amounts (multiples of \<open>10\<^sup>-\<^sup>1\<^sup>0\<close> below \<open>10\<^sup>1\<^sup>8\<close>) are exact, which is
  what the ledger lemmas of the later theories rest on.
\<close>

datatype py_decimal = DecFinite rat | DecSpecial

section \<open>Rounding\<close>

text \<open>The exponent of the leading digit: \<open>10\<^sup>k \<le> x < 10\<^sup>k\<^sup>+\<^sup>1\<close>.\<close>

definition log10_floor :: "rat \<Rightarrow> int" where
  "log10_floor x =
     (if 1 \<le> x then int (length (nat_str (nat \<lfloor>x\<rfloor>))) - 1
      else - int (length (nat_str (nat (\<lceil>1 / x\<rceil> - 1)))))"

definition dec_fix :: "rat \<Rightarrow> rat" where
  "dec_fix x =
     (if x = 0 then 0
      else let unit = 10 powi (log10_floor \<bar>x\<bar> - 27) in
           sgn x * (of_int (round_half_even (\<bar>x\<bar> / unit)) * unit))"

definition dec_add :: "rat \<Rightarrow> rat \<Rightarrow> rat" where
  "dec_add x y = dec_fix (x + y)"

definition dec_sub :: "rat \<Rightarrow> rat \<Rightarrow> rat" where
  "dec_sub x y = dec_fix (x - y)"

text \<open>
  \<^verbatim>\<open>quantize(Decimal("0.0000000001"), rounding=ROUND_HALF_UP)\<close> of a non-negative value,
  \<open>None\<close> for the \<^verbatim>\<open>InvalidOperation\<close> of a result with more than 28 digits.
\<close>

definition quanta :: "rat \<Rightarrow> int" where
  "quanta x = \<lfloor>x * 10 ^ 10 + 1 / 2\<rfloor>"

definition quantize_money :: "rat \<Rightarrow> rat option" where
  "quantize_money x =
     (if 10 ^ 28 \<le> quanta x then None else Some (of_int (quanta x) / 10 ^ 10))"

section \<open>Parsing\<close>

text \<open>\<^verbatim>\<open>Decimal(text)\<close>: sign, digits with an optional point, optional exponent; \<open>None\<close> when invalid.\<close>

definition is_digit :: "char \<Rightarrow> bool" where
  "is_digit c = (let n = (of_char c :: nat) in 48 \<le> n \<and> n \<le> 57)"

fun digits_value :: "string \<Rightarrow> nat \<Rightarrow> nat" where
  "digits_value [] acc = acc"
| "digits_value (c # cs) acc = digits_value cs (acc * 10 + (of_char c - 48))"

definition parse_sign :: "string \<Rightarrow> bool \<times> string" where
  "parse_sign s =
     (case s of c # cs \<Rightarrow> if c = CHR ''-'' then (True, cs)
                          else if c = CHR ''+'' then (False, cs) else (False, s)
      | [] \<Rightarrow> (False, s))"

definition parse_exponent :: "string \<Rightarrow> int option" where
  "parse_exponent s =
     (case s of
        [] \<Rightarrow> Some 0
      | c # cs \<Rightarrow>
          if lower_char c = CHR ''e''
          then (case parse_sign cs of (neg, ds) \<Rightarrow>
                  if ds \<noteq> [] \<and> list_all is_digit ds
                  then Some (if neg then - int (digits_value ds 0) else int (digits_value ds 0))
                  else None)
          else None)"

definition parse_decimal :: "string \<Rightarrow> py_decimal option" where
  "parse_decimal text =
     (case parse_sign (filter (\<lambda>c. c \<noteq> CHR ''_'') (py_strip text)) of (neg, body) \<Rightarrow>
        if py_lower body \<in> {''inf'', ''infinity''}
           \<or> rev (dropWhile is_digit (rev (py_lower body))) \<in> {''nan'', ''snan''}
        then Some DecSpecial
        else
          let whole = takeWhile is_digit body; rest = dropWhile is_digit body;
              frac = (case rest of c # cs \<Rightarrow> if c = CHR ''.'' then takeWhile is_digit cs else []
                      | [] \<Rightarrow> []);
              tail = (case rest of c # cs \<Rightarrow> if c = CHR ''.'' then dropWhile is_digit cs else rest
                      | [] \<Rightarrow> []) in
          if whole @ frac = [] then None
          else map_option (\<lambda>e. DecFinite
                 ((if neg then -1 else 1) * (of_nat (digits_value (whole @ frac) 0)
                    * 10 powi (e - int (length frac)))))
                 (parse_exponent tail))"

section \<open>Exactness on money amounts\<close>

text \<open>The amounts the budget stores: multiples of the money quantum.\<close>

definition on_grid :: "rat \<Rightarrow> bool" where
  "on_grid x \<longleftrightarrow> (\<exists>n :: int. x = of_int n / 10 ^ 10)"

lemma on_grid_0 [simp, intro]: "on_grid 0"
  unfolding on_grid_def by (rule exI [of _ 0]) simp

lemma on_grid_add [intro]: "on_grid x \<Longrightarrow> on_grid y \<Longrightarrow> on_grid (x + y)"
  unfolding on_grid_def by (metis add_divide_distrib of_int_add)

lemma on_grid_diff [intro]: "on_grid x \<Longrightarrow> on_grid y \<Longrightarrow> on_grid (x - y)"
  unfolding on_grid_def by (metis diff_divide_distrib of_int_diff)

lemma quantize_money_Some:
  assumes "quantize_money x = Some y" and "0 \<le> x"
  shows "on_grid y" "0 \<le> y"
proof -
  from assms(1) have y: "y = of_int (quanta x) / 10 ^ 10"
    by (simp add: quantize_money_def split: if_splits)
  then show "on_grid y" by (auto simp: on_grid_def)
  from assms(2) have "0 \<le> quanta x" by (simp add: quanta_def)
  with y show "0 \<le> y" by simp
qed

lemma quantize_money_grid:
  assumes "on_grid x" and "x < 10 ^ 18"
  shows "quantize_money x = Some x"
proof -
  from assms(1) obtain n where n: "x = of_int n / 10 ^ 10" by (auto simp: on_grid_def)
  then have "quanta x = \<lfloor>of_int n + 1 / 2 :: rat\<rfloor>" by (simp add: quanta_def)
  also have "\<dots> = n" by (rule floor_unique) auto
  finally have q: "quanta x = n" .
  have "(of_int n :: rat) < 10 ^ 28" using assms(2) n by (simp add: field_simps)
  then have "n < 10 ^ 28" by (metis of_int_less_iff of_int_numeral of_int_power)
  with q have "\<not> 10 ^ 28 \<le> quanta x" by simp
  then have "quantize_money x = Some (of_int n / 10 ^ 10)" by (simp add: quantize_money_def q)
  then show ?thesis by (simp only: n)
qed

lemma length_nat_str_le: "n < 10 ^ m \<Longrightarrow> 0 < m \<Longrightarrow> length (nat_str n) \<le> m"
proof (induction m arbitrary: n)
  case (Suc m)
  show ?case
  proof (cases "n < 10")
    case True
    then show ?thesis by (simp add: nat_str.simps)
  next
    case False
    with Suc.prems have "n div 10 < 10 ^ m" by (simp add: less_mult_imp_div_less mult.commute)
    moreover have "0 < m" using False Suc.prems by (cases m) auto
    ultimately show ?thesis using Suc.IH False by (simp add: nat_str.simps [of n])
  qed
qed simp

lemma log10_floor_le:
  assumes "0 < x" and "x < 10 ^ 18"
  shows "log10_floor x \<le> 17"
proof (cases "1 \<le> x")
  case True
  from assms(2) have "\<lfloor>x\<rfloor> < 10 ^ 18" by (simp add: floor_less_iff)
  then have "nat \<lfloor>x\<rfloor> < 10 ^ 18" using True by (subst nat_less_iff) simp_all
  from length_nat_str_le [OF this] True show ?thesis by (simp add: log10_floor_def)
qed (simp add: log10_floor_def)

lemma dec_fix_grid:
  assumes "on_grid x" and "\<bar>x\<bar> < 10 ^ 18"
  shows "dec_fix x = x"
proof (cases "x = 0")
  case False
  from assms(1) obtain n where n: "x = of_int n / 10 ^ 10" by (auto simp: on_grid_def)
  define u where "u = 17 - log10_floor \<bar>x\<bar>"
  have u: "0 \<le> u" using log10_floor_le [of "\<bar>x\<bar>"] False assms(2) by (simp add: u_def)
  have unit: "(10 :: rat) powi (log10_floor \<bar>x\<bar> - 27) = 1 / (10 ^ 10 * 10 ^ nat u)"
  proof -
    have "log10_floor \<bar>x\<bar> - 27 = - int (10 + nat u)" using u by (simp add: u_def)
    then show ?thesis by (simp only: power_int_minus power_int_of_nat power_add) (simp add: inverse_eq_divide)
  qed
  have scaled: "\<bar>x\<bar> / (1 / (10 ^ 10 * 10 ^ nat u)) = of_int (\<bar>n\<bar> * 10 ^ nat u)"
    by (simp add: n abs_divide)
  have "dec_fix x = sgn x * (of_int (\<bar>n\<bar> * 10 ^ nat u) * (1 / (10 ^ 10 * 10 ^ nat u)))"
    using False unfolding dec_fix_def Let_def unit scaled round_half_even_of_int by (simp only: if_False)
  also have "\<dots> = sgn x * \<bar>x\<bar>" by (simp add: n abs_divide)
  finally show ?thesis by (simp add: sgn_mult_abs)
qed (simp add: dec_fix_def)

lemma dec_add_grid:
  "on_grid x \<Longrightarrow> on_grid y \<Longrightarrow> \<bar>x + y\<bar> < 10 ^ 18 \<Longrightarrow> dec_add x y = x + y"
  unfolding dec_add_def by (rule dec_fix_grid) auto

lemma dec_sub_grid:
  "on_grid x \<Longrightarrow> on_grid y \<Longrightarrow> \<bar>x - y\<bar> < 10 ^ 18 \<Longrightarrow> dec_sub x y = x - y"
  unfolding dec_sub_def by (rule dec_fix_grid) auto

section \<open>Evaluation\<close>

text \<open>Code equations that compute on the numerator and denominator.\<close>

function decimal_length :: "int \<Rightarrow> int" where
  "decimal_length n = (if n < 10 then 1 else decimal_length (n div 10) + 1)"
  by auto
termination by (relation "measure nat") auto

declare decimal_length.simps [simp del]

lemma length_nat_str: "int (length (nat_str n)) = decimal_length (int n)"
proof (induction n rule: nat_str.induct)
  case (1 n)
  then show ?case
    by (subst nat_str.simps, subst decimal_length.simps) (simp add: zdiv_int)
qed

lemma log10_floor_code [code]:
  "log10_floor x =
     (case quotient_of x of (p, q) \<Rightarrow>
        if q \<le> p then decimal_length (p div q) - 1
        else if p \<le> 0 then - 1 else - decimal_length ((q - 1) div p))"
proof -
  obtain p q where pq: "quotient_of x = (p, q)" by fastforce
  note x = rat_of_quotient [OF pq]
  have one: "1 \<le> x \<longleftrightarrow> q \<le> p" using x by (simp add: pos_le_divide_eq)
  have floor: "\<lfloor>x\<rfloor> = p div q" using x by (simp add: floor_divide_of_int_eq)
  have ceil: "\<lceil>1 / x\<rceil> - 1 = (q - 1) div p" if "0 < p"
  proof -
    have "\<lceil>1 / x\<rceil> = - ((- q) div p)"
      using x floor_divide_of_int_eq [of "- q" p, where ?'a = rat] by (simp add: ceiling_def)
    also have "(- q) div p = - ((q - 1) div p) - 1"
    proof (rule int_div_pos_eq)
      show "- q = p * (- ((q - 1) div p) - 1) + (p - 1 - (q - 1) mod p)"
        using div_mult_mod_eq [of "q - 1" p] by (simp add: algebra_simps)
    qed (use pos_mod_bound [OF that, of "q - 1"] pos_mod_sign [OF that, of "q - 1"] in linarith)+
    finally show ?thesis by simp
  qed
  have "0 \<le> p div q" if "q \<le> p" using that x by (simp add: pos_imp_zdiv_nonneg_iff)
  moreover have "nat (\<lceil>1 / x\<rceil> - 1) = 0" if "p \<le> 0"
  proof -
    have "1 / x \<le> 0" using that x by (simp add: divide_nonneg_nonpos)
    then have "\<lceil>1 / x\<rceil> \<le> \<lceil>0 :: rat\<rceil>" by (rule ceiling_mono)
    then show ?thesis by (simp only: ceiling_zero)
  qed
  moreover have "0 < x" if "0 < p" using that x by simp
  moreover have "0 \<le> (q - 1) div p" if "0 < p" using that x by (simp add: pos_imp_zdiv_nonneg_iff)
  ultimately show ?thesis
    using decimal_length.simps [of 0] ceil
    by (auto simp: log10_floor_def pq one floor length_nat_str not_le)
qed

lemma dec_fix_code [code]:
  "dec_fix x = (case quotient_of x of (p, q) \<Rightarrow> if p = 0 then 0 else scaled_round 10 (log10_floor \<bar>x\<bar> - 27) p q)"
proof -
  obtain p q where pq: "quotient_of x = (p, q)" by fastforce
  have "x = 0 \<longleftrightarrow> p = 0" using rat_of_quotient [OF pq] by auto
  with scaled_round [OF pq, of 10] show ?thesis by (simp add: dec_fix_def pq Let_def)
qed

end
