(* ===== verification/Campaign_Budget.thy ===== *)
theory Campaign_Budget
  imports Campaign_Domain Py_Decimal
begin

text \<open>
  The admission and settlement values of \<^verbatim>\<open>sana/modules/shadow_campaign/budget.py\<close> and the
  scheduling lease \<^verbatim>\<open>RunLease\<close> of \<^verbatim>\<open>scheduler.py\<close>. Money fields hold quantized amounts; a
  constructor argument may be any \<^verbatim>\<open>Decimal\<close>. The lease is the one mutable value that outlives
  a failed transaction, so its operations are the source's assignments one by one.
\<close>

section \<open>Requests, snapshots and admission\<close>

definition nonnegative_decimal :: "py_decimal \<Rightarrow> string \<Rightarrow> rat result" where
  "nonnegative_decimal value field_name =
     (case value of
        DecSpecial \<Rightarrow> Err (ValueError (field_name @ '' must be a finite non-negative Decimal''))
      | DecFinite x \<Rightarrow>
          if x < 0 then Err (ValueError (field_name @ '' must be a finite non-negative Decimal''))
          else case quantize_money x of
              None \<Rightarrow> Err (ValueError (field_name @ '' exceeds the campaign money precision''))
            | Some y \<Rightarrow> Ok y)"

record ReservationRequest =
  rq_provider_calls :: int
  rq_estimated_cost :: rat

definition ReservationRequest_new :: "int \<Rightarrow> py_decimal \<Rightarrow> ReservationRequest result" where
  "ReservationRequest_new calls cost =
     (if calls < 1 then Err (ValueError ''A run reservation must include provider calls'')
      else rbind (nonnegative_decimal cost ''estimated_cost'') (\<lambda>c.
             Ok \<lparr>rq_provider_calls = calls, rq_estimated_cost = c\<rparr>))"

record CampaignBudgetSnapshot =
  cb_admission_ceiling :: int
  cb_structural_ceiling :: int
  cb_cost_stop_threshold :: rat
  cb_observed_calls :: int
  cb_possibly_billed_calls :: int
  cb_reserved_calls :: int
  cb_observed_cost :: rat
  cb_possibly_billed_cost :: rat
  cb_reserved_cost :: rat

definition CampaignBudgetSnapshot_new ::
  "int \<Rightarrow> int \<Rightarrow> py_decimal \<Rightarrow> int \<Rightarrow> int \<Rightarrow> int \<Rightarrow> py_decimal \<Rightarrow> py_decimal \<Rightarrow> py_decimal
     \<Rightarrow> CampaignBudgetSnapshot result" where
  "CampaignBudgetSnapshot_new admission structural threshold observed possibly reserved
       observed_cost possibly_cost reserved_cost =
     (if \<exists>v \<in> set [admission, structural, observed, possibly, reserved]. v < 0
      then Err (ValueError ''Campaign budget call counters cannot be negative'')
      else if \<not> (0 < admission \<and> admission \<le> structural)
      then Err (ValueError ''Campaign call ceilings are invalid'')
      else
        rbind (nonnegative_decimal threshold ''estimated_cost_stop_threshold'') (\<lambda>th.
        rbind (nonnegative_decimal observed_cost ''observed_estimated_cost'') (\<lambda>oc.
        rbind (nonnegative_decimal possibly_cost ''possibly_billed_cost_charge'') (\<lambda>pc.
        rbind (nonnegative_decimal reserved_cost ''reserved_estimated_cost'') (\<lambda>rc.
          if th = 0 then Err (ValueError ''Campaign cost stop threshold must be positive'')
          else Ok \<lparr>cb_admission_ceiling = admission, cb_structural_ceiling = structural,
                   cb_cost_stop_threshold = th, cb_observed_calls = observed,
                   cb_possibly_billed_calls = possibly, cb_reserved_calls = reserved,
                   cb_observed_cost = oc, cb_possibly_billed_cost = pc,
                   cb_reserved_cost = rc\<rparr>)))))"

record BudgetAdmission =
  ba_allowed :: bool
  ba_stop_intent :: StopIntent
  ba_reason :: "string option"
  ba_projected_calls :: int
  ba_projected_cost :: rat

definition BudgetAdmission_denied :: "StopIntent \<Rightarrow> string \<Rightarrow> int \<Rightarrow> rat \<Rightarrow> BudgetAdmission" where
  "BudgetAdmission_denied intent reason calls cost =
     \<lparr>ba_allowed = False, ba_stop_intent = intent, ba_reason = Some reason,
      ba_projected_calls = calls, ba_projected_cost = cost\<rparr>"

definition CampaignBudget_admit ::
  "CampaignBudgetSnapshot \<Rightarrow> ReservationRequest \<Rightarrow> BudgetAdmission" where
  "CampaignBudget_admit b rq =
     (let calls = cb_observed_calls b + cb_possibly_billed_calls b + cb_reserved_calls b
            + rq_provider_calls rq;
          cost = dec_add (dec_add (dec_add (cb_observed_cost b) (cb_possibly_billed_cost b))
                   (cb_reserved_cost b)) (rq_estimated_cost rq) in
      if calls > cb_structural_ceiling b
      then BudgetAdmission_denied Intent_CALL_CEILING ''provider_call_structural_ceiling'' calls cost
      else if calls > cb_admission_ceiling b
      then BudgetAdmission_denied Intent_CALL_CEILING ''provider_call_admission_ceiling'' calls cost
      else if cost > cb_cost_stop_threshold b
      then BudgetAdmission_denied Intent_BUDGET ''estimated_cost_stop_threshold'' calls cost
      else \<lparr>ba_allowed = True, ba_stop_intent = Intent_NONE, ba_reason = None,
            ba_projected_calls = calls, ba_projected_cost = cost\<rparr>)"

text \<open>\<^verbatim>\<open>replace\<close> runs the constructor again on the new fields.\<close>

definition CampaignBudget_admit_after_settle ::
  "CampaignBudgetSnapshot \<Rightarrow> ReservationRequest \<Rightarrow> BudgetAdmission result" where
  "CampaignBudget_admit_after_settle b rq =
     rbind (CampaignBudgetSnapshot_new (cb_admission_ceiling b) (cb_structural_ceiling b)
              (DecFinite (cb_cost_stop_threshold b)) (cb_observed_calls b)
              (cb_possibly_billed_calls b) 0 (DecFinite (cb_observed_cost b))
              (DecFinite (cb_possibly_billed_cost b)) (DecFinite 0)) (\<lambda>b'.
       Ok (CampaignBudget_admit b' rq))"

section \<open>Settlement\<close>

record SettlementUsage =
  su_observed_calls :: int
  su_prompt_tokens :: int
  su_completion_tokens :: int
  su_observed_cost :: rat
  su_possibly_billed_calls :: int
  su_possibly_billed_cost :: rat

definition SettlementUsage_new ::
  "int \<Rightarrow> int \<Rightarrow> int \<Rightarrow> py_decimal \<Rightarrow> int \<Rightarrow> py_decimal \<Rightarrow> SettlementUsage result" where
  "SettlementUsage_new observed prompt completion observed_cost possibly possibly_cost =
     (if \<exists>v \<in> set [observed, prompt, completion, possibly]. v < 0
      then Err (ValueError ''Settlement counters cannot be negative'')
      else
        rbind (nonnegative_decimal observed_cost ''observed_estimated_cost'') (\<lambda>oc.
        rbind (nonnegative_decimal possibly_cost ''possibly_billed_cost_charge'') (\<lambda>pc.
          Ok \<lparr>su_observed_calls = observed, su_prompt_tokens = prompt,
              su_completion_tokens = completion, su_observed_cost = oc,
              su_possibly_billed_calls = possibly, su_possibly_billed_cost = pc\<rparr>)))"

definition SettlementUsage_exceeds :: "SettlementUsage \<Rightarrow> ReservationRequest \<Rightarrow> bool" where
  "SettlementUsage_exceeds u rq \<longleftrightarrow>
     su_observed_calls u + su_possibly_billed_calls u > rq_provider_calls rq
     \<or> dec_add (su_observed_cost u) (su_possibly_billed_cost u) > rq_estimated_cost rq"

record BudgetReservationReceipt =
  br_allowed :: bool
  br_stop_intent :: StopIntent
  br_reason :: "string option"
  br_reserved_calls :: int
  br_reserved_cost :: rat
  br_deferred :: bool

definition BudgetReservationReceipt_new ::
  "bool \<Rightarrow> StopIntent \<Rightarrow> string option \<Rightarrow> int \<Rightarrow> rat \<Rightarrow> bool \<Rightarrow> BudgetReservationReceipt result" where
  "BudgetReservationReceipt_new allowed intent reason calls cost deferred =
     (if allowed \<and> deferred
      then Err (ValueError ''An allowed budget reservation cannot be deferred'')
      else if deferred \<and> intent \<noteq> Intent_NONE
      then Err (ValueError ''Deferred capacity cannot carry a terminal stop intent'')
      else Ok \<lparr>br_allowed = allowed, br_stop_intent = intent, br_reason = reason,
               br_reserved_calls = calls, br_reserved_cost = cost, br_deferred = deferred\<rparr>)"

record BudgetSettlementReceipt =
  bt_result_id :: uuid
  bt_duplicate :: bool
  bt_budget_violation :: bool

record BudgetReleaseReceipt =
  bl_result_id :: uuid
  bl_duplicate :: bool

section \<open>RunLease\<close>

record RunLease =
  rl_id :: uuid
  rl_tenant_id :: uuid
  rl_campaign_id :: uuid
  rl_case_id :: string
  rl_repetition :: int
  rl_schedule_ordinal :: int
  rl_state :: SchedulingState
  rl_lease_owner :: string
  rl_lease_expires_at :: instant
  rl_conversation_id :: "uuid option"
  rl_search_run_id :: "uuid option"
  rl_conversation_key :: string
  rl_message_key :: string
  rl_submission_request_hash :: string
  rl_reservation_state :: ReservationState
  rl_version :: int
  rl_persisted_version :: int
  rl_conversation_attempts :: int
  rl_submission_attempts :: int

text \<open>The checks of \<^verbatim>\<open>__post_init__\<close> on the record that the constructor was given.\<close>

definition RunLease_new :: "RunLease \<Rightarrow> RunLease result" where
  "RunLease_new l =
     (if rl_state l \<notin> {Sched_CLAIMED, Sched_CONVERSATION_BOUND}
      then Err (ValueError ''A scheduling lease must be CLAIMED or CONVERSATION_BOUND'')
      else if blank (rl_lease_owner l) \<or> rl_version l < 1
      then Err (ValueError ''A scheduling lease requires an owner and fencing version'')
      else if rl_conversation_attempts l < 0 \<or> rl_submission_attempts l < 0
      then Err (ValueError ''Scheduling attempt counters cannot be negative'')
      else if blank (rl_conversation_key l)
      then Err (ValueError ''A scheduling lease requires a Conversation key'')
      else if blank (rl_message_key l)
      then Err (ValueError ''A scheduling lease requires a Message key'')
      else if \<not> is_hex_of 64 (rl_submission_request_hash l)
      then Err (ValueError ''A scheduling lease requires a lowercase request SHA-256'')
      else Ok l)"

definition RunLease_accept_budget_fence ::
  "int \<Rightarrow> ReservationState \<Rightarrow> (RunLease, unit) prog" where
  "RunLease_accept_budget_fence version state l =
     (if version \<le> rl_version l
      then (Err (InvariantViolation ''Budget fencing token must advance''), l)
      else (Ok (), l\<lparr>rl_version := version, rl_persisted_version := version,
                     rl_reservation_state := state\<rparr>))"

definition RunLease_accept_attempt_fence :: "int \<Rightarrow> (RunLease, unit) prog" where
  "RunLease_accept_attempt_fence version l =
     (if version \<le> rl_version l
      then (Err (InvariantViolation ''Execution fencing token must advance''), l)
      else (Ok (), l\<lparr>rl_version := version, rl_persisted_version := version\<rparr>))"

definition RunLease_accept_conversation_fence :: "int \<Rightarrow> uuid \<Rightarrow> (RunLease, unit) prog" where
  "RunLease_accept_conversation_fence version conversation_id =
     sbind (RunLease_accept_attempt_fence version) (\<lambda>_ l.
       (Ok (), l\<lparr>rl_state := Sched_CONVERSATION_BOUND,
                 rl_conversation_id := Some conversation_id\<rparr>))"

definition RunLease_renew :: "instant \<Rightarrow> instant \<Rightarrow> (RunLease, unit) prog" where
  "RunLease_renew now expires l =
     (if rl_lease_expires_at l \<le> now
      then (Err (invariant_violation_code ''Expired scheduling leases cannot be renewed''
                   ''scheduling_lease_expired'' []), l)
      else if expires \<le> rl_lease_expires_at l
      then (Err (InvariantViolation ''Scheduling lease renewal must extend the lease''), l)
      else (Ok (), l\<lparr>rl_lease_expires_at := expires, rl_version := rl_version l + 1\<rparr>))"

definition RunLease_mark_persisted :: "RunLease \<Rightarrow> RunLease" where
  "RunLease_mark_persisted l = l\<lparr>rl_persisted_version := rl_version l\<rparr>"

section \<open>Lemmas\<close>

lemma nonnegative_decimal_Ok:
  assumes "nonnegative_decimal v f = Ok y"
  shows "on_grid y" "0 \<le> y"
  using assms quantize_money_Some
  by (auto simp: nonnegative_decimal_def split: py_decimal.splits if_splits option.splits)

lemma nonnegative_decimal_grid:
  assumes "on_grid x" and "0 \<le> x" and "x < 10 ^ 18"
  shows "nonnegative_decimal (DecFinite x) f = Ok x"
  using assms by (simp add: nonnegative_decimal_def quantize_money_grid)

lemma ReservationRequest_new_Ok:
  assumes "ReservationRequest_new n c = Ok rq"
  shows "rq_provider_calls rq = n" "1 \<le> n" "on_grid (rq_estimated_cost rq)" "0 \<le> rq_estimated_cost rq"
  using assms nonnegative_decimal_Ok
  by (auto simp: ReservationRequest_new_def split: if_splits)

lemma SettlementUsage_new_Ok:
  assumes "SettlementUsage_new a b c d e f = Ok u"
  shows "0 \<le> su_observed_calls u \<and> 0 \<le> su_prompt_tokens u \<and> 0 \<le> su_completion_tokens u
     \<and> 0 \<le> su_possibly_billed_calls u \<and> on_grid (su_observed_cost u) \<and> 0 \<le> su_observed_cost u
     \<and> on_grid (su_possibly_billed_cost u) \<and> 0 \<le> su_possibly_billed_cost u"
  using assms nonnegative_decimal_Ok
  by (auto simp: SettlementUsage_new_def split: if_splits)

lemma admit_allowed:
  "ba_allowed (CampaignBudget_admit b rq) \<longleftrightarrow>
     ba_projected_calls (CampaignBudget_admit b rq) \<le> cb_structural_ceiling b
     \<and> ba_projected_calls (CampaignBudget_admit b rq) \<le> cb_admission_ceiling b
     \<and> ba_projected_cost (CampaignBudget_admit b rq) \<le> cb_cost_stop_threshold b"
  by (auto simp: CampaignBudget_admit_def BudgetAdmission_denied_def Let_def)

lemma admit_denied_reason:
  assumes "\<not> ba_allowed (CampaignBudget_admit b rq)"
  shows "ba_stop_intent (CampaignBudget_admit b rq) \<in> {Intent_CALL_CEILING, Intent_BUDGET}"
    and "\<exists>s. ba_reason (CampaignBudget_admit b rq) = Some s"
  using assms by (auto simp: CampaignBudget_admit_def BudgetAdmission_denied_def Let_def split: if_splits)

end
