(* ===== verification/Campaign_Store.thy ===== *)
theory Campaign_Store
  imports Campaign_Budget Conversation
begin

text \<open>
  The campaign tables and the repositories that change them:
  \<^verbatim>\<open>platform/db/models/shadow_campaign.py\<close> (rows and CHECK constraints),
  \<^verbatim>\<open>platform/db/shadow_campaign_repository.py\<close> (lifecycle rows, claims, leases, the budget
  ledger), \<^verbatim>\<open>platform/db/shadow_execution_repository.py\<close> (binding of conversations and search
  runs) and the failure and skip operations of \<^verbatim>\<open>platform/db/shadow_runner.py\<close>.

  \<^item> A row holds the columns that these operations read or write. Enumeration columns hold
    the enumeration itself; their CHECK constraints admit no other text.
  \<^item> \<open>flush_rows\<close> writes the locked campaign and result back and applies the constraints of
    both tables to them; a violation is the database error that aborts the transaction.
  \<^item> The database clock is an argument, \<open>None\<close> when the query returns no row.
  \<^item> An operation that takes a lease may change it and still raise, so it is a \<open>prog\<close> over the
    lease; the database it computes is kept only if it returns (\<open>in_uow\<close>).
  \<^item> The SHA-256 of encoded text is a parameter.
\<close>

section \<open>Rows and constraints\<close>

record ShadowCampaignRecord =
  cc_id :: uuid
  cc_tenant_id :: uuid
  cc_created_by_user_id :: uuid
  cc_status :: CampaignStatus
  cc_gate_status :: GateStatus
  cc_stop_intent :: StopIntent
  cc_stop_reason :: "string option"
  cc_cost_rate_snapshot :: "(string, json) dict"
  cc_max_runs :: int
  cc_max_concurrency :: int
  cc_cost_stop_threshold :: rat
  cc_admission_ceiling :: int
  cc_structural_ceiling :: int
  cc_planned_count :: int
  cc_submitted_count :: int
  cc_collected_count :: int
  cc_failed_count :: int
  cc_skipped_count :: int
  cc_observed_calls :: int
  cc_possibly_billed_calls :: int
  cc_reserved_calls :: int
  cc_prompt_tokens :: int
  cc_completion_tokens :: int
  cc_observed_cost :: rat
  cc_possibly_billed_cost :: rat
  cc_reserved_cost :: rat
  cc_possibly_billed_count :: int
  cc_started_at :: "instant option"
  cc_review_deadline_at :: "instant option"
  cc_completed_at :: "instant option"
  cc_version :: int
  cc_updated_at :: instant

record ShadowRunResultRecord =
  rs_id :: uuid
  rs_tenant_id :: uuid
  rs_campaign_id :: uuid
  rs_conversation_id :: "uuid option"
  rs_search_run_id :: "uuid option"
  rs_case_id :: string
  rs_repetition :: int
  rs_schedule_ordinal :: int
  rs_state :: SchedulingState
  rs_lease_owner :: "string option"
  rs_lease_expires_at :: "instant option"
  rs_conversation_attempts :: int
  rs_submission_attempts :: int
  rs_collector_lease_owner :: "string option"
  rs_collector_lease_expires_at :: "instant option"
  rs_conversation_key :: string
  rs_message_key :: string
  rs_submission_request_hash :: string
  rs_prompt_tokens :: int
  rs_completion_tokens :: int
  rs_estimated_cost :: rat
  rs_error_class :: "ErrorClass option"
  rs_error_code :: "string option"
  rs_failed_phase :: "string option"
  rs_error_signal_flags :: "string list"
  rs_stable_skip_reason :: "string option"
  rs_reserved_calls :: int
  rs_reserved_cost :: rat
  rs_reservation_state :: ReservationState
  rs_settled_calls :: int
  rs_settled_cost :: rat
  rs_possibly_billed_calls :: int
  rs_possibly_billed_cost :: rat
  rs_reserved_at :: "instant option"
  rs_settled_at :: "instant option"
  rs_released_at :: "instant option"
  rs_source_terminal_at :: "instant option"
  rs_source_snapshot_digest :: "string option"
  rs_budget_violation :: bool
  rs_version :: int
  rs_updated_at :: instant

text \<open>The columns of a search run that a receipt is checked against.\<close>

record RunBindingRow =
  rb_id :: uuid
  rb_tenant_id :: uuid
  rb_message_id :: uuid
  rb_response_run_id :: uuid
  rb_conversation_id :: uuid

record cdb =
  tbl_campaigns :: "ShadowCampaignRecord list"
  tbl_results :: "ShadowRunResultRecord list"
  tbl_conversations :: "ConversationRow list"
  tbl_messages :: "MessageRow list"
  tbl_run_bindings :: "RunBindingRow list"

definition int4 :: "int \<Rightarrow> bool" where
  "int4 x \<longleftrightarrow> - (2 ^ 31) \<le> x \<and> x < 2 ^ 31"

definition int8 :: "int \<Rightarrow> bool" where
  "int8 x \<longleftrightarrow> - (2 ^ 63) \<le> x \<and> x < 2 ^ 63"

text \<open>\<^verbatim>\<open>Numeric(20, 10)\<close>: ten digits before the point.\<close>

definition money_column :: "rat \<Rightarrow> bool" where
  "money_column x \<longleftrightarrow> - (10 ^ 10) < x \<and> x < 10 ^ 10"

definition campaign_columns :: "ShadowCampaignRecord \<Rightarrow> bool" where
  "campaign_columns c \<longleftrightarrow>
     list_all int4 [cc_max_runs c, cc_max_concurrency c, cc_admission_ceiling c,
       cc_structural_ceiling c, cc_planned_count c, cc_submitted_count c, cc_collected_count c,
       cc_failed_count c, cc_skipped_count c, cc_observed_calls c, cc_possibly_billed_calls c,
       cc_reserved_calls c, cc_possibly_billed_count c, cc_version c]
     \<and> int8 (cc_prompt_tokens c) \<and> int8 (cc_completion_tokens c)
     \<and> list_all money_column [cc_cost_stop_threshold c, cc_observed_cost c,
         cc_possibly_billed_cost c, cc_reserved_cost c]
     \<and> (case cc_stop_reason c of None \<Rightarrow> True | Some s \<Rightarrow> length s \<le> 200)"

definition campaign_checks :: "ShadowCampaignRecord \<Rightarrow> bool" where
  "campaign_checks c \<longleftrightarrow>
     0 < cc_max_runs c \<and> 1 \<le> cc_max_concurrency c \<and> cc_max_concurrency c \<le> 2
     \<and> 0 < cc_admission_ceiling c \<and> cc_admission_ceiling c \<le> cc_structural_ceiling c
     \<and> 0 < cc_cost_stop_threshold c
     \<and> list_all (\<lambda>n. 0 \<le> n \<and> n \<le> cc_max_runs c)
         [cc_planned_count c, cc_submitted_count c, cc_collected_count c, cc_failed_count c,
          cc_skipped_count c, cc_possibly_billed_count c]
     \<and> list_all (\<lambda>n. 0 \<le> n)
         [cc_observed_calls c, cc_possibly_billed_calls c, cc_reserved_calls c,
          cc_prompt_tokens c, cc_completion_tokens c, cc_version c]
     \<and> list_all (\<lambda>x. 0 \<le> x) [cc_observed_cost c, cc_possibly_billed_cost c, cc_reserved_cost c]
     \<and> cc_reserved_calls c \<le> cc_structural_ceiling c"

definition result_columns :: "ShadowRunResultRecord \<Rightarrow> bool" where
  "result_columns r \<longleftrightarrow>
     list_all int4 [rs_repetition r, rs_schedule_ordinal r, rs_conversation_attempts r,
       rs_submission_attempts r, rs_reserved_calls r, rs_settled_calls r,
       rs_possibly_billed_calls r, rs_version r]
     \<and> int8 (rs_prompt_tokens r) \<and> int8 (rs_completion_tokens r)
     \<and> list_all money_column [rs_estimated_cost r, rs_reserved_cost r, rs_settled_cost r,
         rs_possibly_billed_cost r]
     \<and> (case rs_lease_owner r of None \<Rightarrow> True | Some s \<Rightarrow> length s \<le> 200)
     \<and> (case rs_error_code r of None \<Rightarrow> True | Some s \<Rightarrow> length s \<le> 200)
     \<and> (case rs_failed_phase r of None \<Rightarrow> True | Some s \<Rightarrow> length s \<le> 100)
     \<and> (case rs_source_snapshot_digest r of None \<Rightarrow> True | Some s \<Rightarrow> length s \<le> 64)
     \<and> list_all (\<lambda>s. length s \<le> 100) (rs_error_signal_flags r)"

definition state_bindings :: "ShadowRunResultRecord \<Rightarrow> bool" where
  "state_bindings r =
     (case rs_state r of
        Sched_PENDING \<Rightarrow> rs_conversation_id r = None \<and> rs_search_run_id r = None
      | Sched_CLAIMED \<Rightarrow> rs_search_run_id r = None
      | Sched_CONVERSATION_BOUND \<Rightarrow> rs_conversation_id r \<noteq> None \<and> rs_search_run_id r = None
      | Sched_SUBMITTED \<Rightarrow> rs_conversation_id r \<noteq> None \<and> rs_search_run_id r \<noteq> None
      | Sched_COLLECTED \<Rightarrow> rs_conversation_id r \<noteq> None \<and> rs_search_run_id r \<noteq> None
      | Sched_FAILED \<Rightarrow> True
      | Sched_SKIPPED \<Rightarrow> rs_search_run_id r = None)"

definition leasable :: "SchedulingState \<Rightarrow> bool" where
  "leasable s \<longleftrightarrow> s \<in> {Sched_CLAIMED, Sched_CONVERSATION_BOUND}"

definition lease_binding :: "ShadowRunResultRecord \<Rightarrow> bool" where
  "lease_binding r \<longleftrightarrow>
     leasable (rs_state r) \<and> rs_lease_owner r \<noteq> None \<and> rs_lease_expires_at r \<noteq> None
     \<or> \<not> leasable (rs_state r) \<and> rs_lease_owner r = None \<and> rs_lease_expires_at r = None"

definition collector_lease_binding :: "ShadowRunResultRecord \<Rightarrow> bool" where
  "collector_lease_binding r \<longleftrightarrow>
     rs_collector_lease_owner r = None \<and> rs_collector_lease_expires_at r = None
     \<or> rs_state r = Sched_SUBMITTED \<and> rs_collector_lease_owner r \<noteq> None
       \<and> rs_collector_lease_expires_at r \<noteq> None"

definition reservation_lifecycle :: "ShadowRunResultRecord \<Rightarrow> bool" where
  "reservation_lifecycle r =
     (case rs_reservation_state r of
        Resv_NONE \<Rightarrow> rs_reserved_calls r = 0 \<and> rs_reserved_cost r = 0 \<and> rs_reserved_at r = None
          \<and> rs_settled_at r = None \<and> rs_released_at r = None
      | Resv_ACTIVE \<Rightarrow> 0 < rs_reserved_calls r \<and> rs_reserved_at r \<noteq> None
          \<and> rs_settled_at r = None \<and> rs_released_at r = None
      | Resv_SETTLED \<Rightarrow> rs_reserved_at r \<noteq> None \<and> rs_settled_at r \<noteq> None
          \<and> rs_released_at r = None \<and> rs_source_terminal_at r \<noteq> None
          \<and> rs_source_snapshot_digest r \<noteq> None
      | Resv_RELEASED \<Rightarrow> rs_reserved_at r \<noteq> None \<and> rs_settled_at r = None
          \<and> rs_released_at r \<noteq> None)"

definition nonnegative_metrics :: "ShadowRunResultRecord \<Rightarrow> bool" where
  "nonnegative_metrics r \<longleftrightarrow>
     0 < rs_repetition r \<and> 0 < rs_schedule_ordinal r
     \<and> list_all (\<lambda>n. 0 \<le> n)
         [rs_conversation_attempts r, rs_submission_attempts r, rs_prompt_tokens r,
          rs_completion_tokens r, rs_reserved_calls r, rs_settled_calls r,
          rs_possibly_billed_calls r, rs_version r]
     \<and> list_all (\<lambda>x. 0 \<le> x)
         [rs_estimated_cost r, rs_reserved_cost r, rs_settled_cost r, rs_possibly_billed_cost r]"

definition result_checks :: "ShadowRunResultRecord \<Rightarrow> bool" where
  "result_checks r \<longleftrightarrow> state_bindings r \<and> lease_binding r \<and> collector_lease_binding r
     \<and> reservation_lifecycle r \<and> nonnegative_metrics r"

text \<open>The unique constraints on conversation and search run.\<close>

definition result_unique :: "ShadowRunResultRecord \<Rightarrow> ShadowRunResultRecord list \<Rightarrow> bool" where
  "result_unique r rows \<longleftrightarrow>
     list_all (\<lambda>x. rs_id x = rs_id r \<or> rs_tenant_id x \<noteq> rs_tenant_id r
       \<or> (rs_conversation_id r = None \<or> rs_conversation_id x \<noteq> rs_conversation_id r)
         \<and> (rs_search_run_id r = None \<or> rs_search_run_id x \<noteq> rs_search_run_id r)) rows"

section \<open>Reading and writing\<close>

definition put_campaign :: "ShadowCampaignRecord \<Rightarrow> cdb \<Rightarrow> cdb" where
  "put_campaign c d = d\<lparr>tbl_campaigns := map (\<lambda>x. if cc_id x = cc_id c then c else x) (tbl_campaigns d)\<rparr>"

definition put_result :: "ShadowRunResultRecord \<Rightarrow> cdb \<Rightarrow> cdb" where
  "put_result r d = d\<lparr>tbl_results := map (\<lambda>x. if rs_id x = rs_id r then r else x) (tbl_results d)\<rparr>"

definition flush_rows ::
  "ShadowCampaignRecord \<Rightarrow> ShadowRunResultRecord \<Rightarrow> cdb \<Rightarrow> cdb result" where
  "flush_rows c r d =
     (if \<not> campaign_columns c \<or> \<not> result_columns r then Err data_error
      else if \<not> campaign_checks c \<or> \<not> result_checks r \<or> \<not> result_unique r (tbl_results d)
      then Err integrity_error
      else Ok (put_result r (put_campaign c d)))"

definition campaign_row :: "uuid \<Rightarrow> uuid \<Rightarrow> cdb \<Rightarrow> ShadowCampaignRecord option" where
  "campaign_row tenant cid d =
     find (\<lambda>c. cc_tenant_id c = tenant \<and> cc_id c = cid) (tbl_campaigns d)"

definition result_row :: "uuid \<Rightarrow> uuid \<Rightarrow> uuid \<Rightarrow> cdb \<Rightarrow> ShadowRunResultRecord option" where
  "result_row tenant cid rid d =
     find (\<lambda>r. rs_tenant_id r = tenant \<and> rs_campaign_id r = cid \<and> rs_id r = rid) (tbl_results d)"

definition clock_unavailable :: exn where
  "clock_unavailable = InvariantViolation ''Database clock was unavailable''"

definition locked_budget_records ::
  "instant option \<Rightarrow> uuid \<Rightarrow> uuid \<Rightarrow> uuid \<Rightarrow> cdb
     \<Rightarrow> (instant \<times> ShadowCampaignRecord \<times> ShadowRunResultRecord) result" where
  "locked_budget_records clock tenant cid rid d =
     (case clock of
        None \<Rightarrow> Err clock_unavailable
      | Some now \<Rightarrow>
          (case campaign_row tenant cid d of
             None \<Rightarrow> Err (invariant_violation_code ''Shadow campaign does not exist''
                       ''campaign_not_found'' [])
           | Some c \<Rightarrow>
               (case result_row tenant cid rid d of
                  None \<Rightarrow> Err (invariant_violation_code ''Shadow campaign result does not exist''
                            ''campaign_result_not_found'' [])
                | Some r \<Rightarrow> Ok (now, c, r))))"

definition lease_fence_lost :: exn where
  "lease_fence_lost =
     invariant_violation_code ''Scheduling lease fencing token is stale''
       ''scheduling_lease_fence_lost'' []"

definition assert_active_lease ::
  "ShadowRunResultRecord \<Rightarrow> RunLease \<Rightarrow> instant \<Rightarrow> unit result" where
  "assert_active_lease r l now =
     (if \<not> leasable (rs_state r) \<or> rs_state r \<noteq> rl_state l
         \<or> rs_lease_owner r \<noteq> Some (rl_lease_owner l)
         \<or> (case rs_lease_expires_at r of None \<Rightarrow> True | Some e \<Rightarrow> e \<le> now)
         \<or> rs_version r \<noteq> rl_persisted_version l
      then Err lease_fence_lost else Ok ())"

text \<open>
  \<^verbatim>\<open>async with uow: ... await uow.commit()\<close> around a repository call: the database is kept
  when the call returns and rolled back when it raises; the lease keeps its assignments.
\<close>

definition in_uow ::
  "(cdb \<Rightarrow> (RunLease, 'a \<times> cdb) prog) \<Rightarrow> (RunLease \<times> cdb, 'a) prog" where
  "in_uow m ld =
     (case m (snd ld) (fst ld) of
        (Ok (x, d'), l') \<Rightarrow> (Ok x, (l', d'))
      | (Err e, l') \<Rightarrow> (Err e, (l', snd ld)))"

section \<open>The budget ledger\<close>

text \<open>\<^verbatim>\<open>snapshot.get("run_reservation_usd", snapshot.get("possibly_billed_run_reserve_usd"))\<close>.\<close>

definition reservation_request ::
  "py_conv \<Rightarrow> ShadowCampaignRecord \<Rightarrow> ReservationRequest result" where
  "reservation_request conv c =
     (let calls = cc_structural_ceiling c div cc_max_runs c in
      if cc_structural_ceiling c mod cc_max_runs c \<noteq> 0 \<or> calls < 1
      then Err (invariant_violation_code ''Campaign structural call envelope is corrupt''
                  ''campaign_budget_snapshot_invalid'' [])
      else
        let raw = dict_get (cc_cost_rate_snapshot c) ''run_reservation_usd''
              (dict_get (cc_cost_rate_snapshot c) ''possibly_billed_run_reserve_usd'' JNull) in
        if raw = JNull
        then Err (invariant_violation_code ''Campaign cost-rate snapshot has no run reserve''
                    ''campaign_budget_snapshot_invalid'' [])
        else
          let invalid = invariant_violation_code
                ''Campaign cost-rate snapshot has an invalid run reserve''
                ''campaign_budget_snapshot_invalid'' [] in
          (case parse_decimal (py_str conv raw) of
             None \<Rightarrow> Err invalid
           | Some v \<Rightarrow> (case ReservationRequest_new calls v of Ok rq \<Rightarrow> Ok rq | Err _ \<Rightarrow> Err invalid)))"

definition campaign_budget :: "ShadowCampaignRecord \<Rightarrow> CampaignBudgetSnapshot result" where
  "campaign_budget c =
     CampaignBudgetSnapshot_new (cc_admission_ceiling c) (cc_structural_ceiling c)
       (DecFinite (cc_cost_stop_threshold c)) (cc_observed_calls c) (cc_possibly_billed_calls c)
       (cc_reserved_calls c) (DecFinite (cc_observed_cost c))
       (DecFinite (cc_possibly_billed_cost c)) (DecFinite (cc_reserved_cost c))"

definition stop_for_budget ::
  "StopIntent \<Rightarrow> string \<Rightarrow> instant \<Rightarrow> ShadowCampaignRecord \<Rightarrow> ShadowCampaignRecord" where
  "stop_for_budget intent reason now c =
     c\<lparr>cc_status := Camp_STOPPING, cc_stop_intent := intent, cc_stop_reason := Some reason,
       cc_version := cc_version c + 1, cc_updated_at := now\<rparr>"

definition reserve_on_rows ::
  "ReservationRequest \<Rightarrow> instant \<Rightarrow> ShadowCampaignRecord \<Rightarrow> ShadowRunResultRecord
     \<Rightarrow> ShadowCampaignRecord \<times> ShadowRunResultRecord" where
  "reserve_on_rows rq now c r =
     (c\<lparr>cc_reserved_calls := cc_reserved_calls c + rq_provider_calls rq,
        cc_reserved_cost := dec_add (cc_reserved_cost c) (rq_estimated_cost rq),
        cc_version := cc_version c + 1, cc_updated_at := now\<rparr>,
      r\<lparr>rs_reserved_calls := rq_provider_calls rq, rs_reserved_cost := rq_estimated_cost rq,
        rs_reservation_state := Resv_ACTIVE, rs_reserved_at := Some now,
        rs_version := rs_version r + 1, rs_updated_at := now\<rparr>)"

definition reserve_run_budget ::
  "uuid \<Rightarrow> py_conv \<Rightarrow> instant option \<Rightarrow> cdb \<Rightarrow> (RunLease, BudgetReservationReceipt \<times> cdb) prog" where
  "reserve_run_budget scope conv clock d l =
     sbind (slift
       (rbind (assert_tenant scope (rl_tenant_id l)) (\<lambda>_.
        rbind (locked_budget_records clock (rl_tenant_id l) (rl_campaign_id l) (rl_id l) d)
          (\<lambda>(now, c, r). rbind (assert_active_lease r l now) (\<lambda>_. Ok (now, c, r))))))
       (\<lambda>(now, c, r).
         if cc_status c \<noteq> Camp_RUNNING
         then slift (rbind (BudgetReservationReceipt_new False
                (if cc_stop_intent c \<noteq> Intent_NONE then cc_stop_intent c else Intent_FATAL)
                (Some (case cc_stop_reason c of
                         None \<Rightarrow> ''campaign_not_running''
                       | Some s \<Rightarrow> if s = [] then ''campaign_not_running'' else s)) 0 0 False)
                (\<lambda>receipt. Ok (receipt, d)))
         else if rs_reservation_state r = Resv_ACTIVE
         then slift (Err (invariant_violation_code
                ''An active reservation must be reconciled before retrying the run''
                ''active_reservation_recovery_required'' []))
         else if rs_reservation_state r \<noteq> Resv_NONE
         then slift (Err (invariant_violation_code
                ''A terminal reservation cannot be reserved again''
                ''reservation_already_terminal'' []))
         else
           sbind (slift (reservation_request conv c)) (\<lambda>rq.
           sbind (slift (campaign_budget c)) (\<lambda>budget.
             let admission = CampaignBudget_admit budget rq in
             if \<not> ba_allowed admission
             then
               sbind (slift (CampaignBudget_admit_after_settle budget rq)) (\<lambda>irreversible.
                 if ba_allowed irreversible \<and> (cc_reserved_calls c \<noteq> 0 \<or> cc_reserved_cost c \<noteq> 0)
                 then slift (rbind (BudgetReservationReceipt_new False Intent_NONE
                        (Some ''active_reservation_capacity'') 0 0 True) (\<lambda>receipt. Ok (receipt, d)))
                 else
                   sbind (slift (flush_rows
                     (stop_for_budget (ba_stop_intent admission)
                        (''Budget admission denied: ''
                           @ (case ba_reason admission of None \<Rightarrow> ''None'' | Some s \<Rightarrow> s)) now c)
                     (r\<lparr>rs_budget_violation := True, rs_version := rs_version r + 1,
                        rs_updated_at := now\<rparr>) d)) (\<lambda>d'.
                   sbind (RunLease_accept_budget_fence (rs_version r + 1) Resv_NONE) (\<lambda>_.
                     slift (rbind (BudgetReservationReceipt_new False (ba_stop_intent admission)
                              (ba_reason admission) 0 0 False) (\<lambda>receipt. Ok (receipt, d'))))))
             else
               case reserve_on_rows rq now c r of (c', r') \<Rightarrow>
                 sbind (slift (flush_rows c' r' d)) (\<lambda>d'.
                 sbind (RunLease_accept_budget_fence (rs_version r + 1) Resv_ACTIVE) (\<lambda>_.
                   slift (rbind (BudgetReservationReceipt_new True Intent_NONE None
                            (rq_provider_calls rq) (rq_estimated_cost rq) False)
                            (\<lambda>receipt. Ok (receipt, d')))))))) l"

definition settlement_matches ::
  "ShadowRunResultRecord \<Rightarrow> string \<Rightarrow> SettlementUsage \<Rightarrow> bool" where
  "settlement_matches r digest u \<longleftrightarrow>
     rs_source_snapshot_digest r = Some digest
     \<and> rs_settled_calls r = su_observed_calls u
     \<and> rs_prompt_tokens r = su_prompt_tokens u
     \<and> rs_completion_tokens r = su_completion_tokens u
     \<and> rs_settled_cost r = su_observed_cost u
     \<and> rs_possibly_billed_calls r = su_possibly_billed_calls u
     \<and> rs_possibly_billed_cost r = su_possibly_billed_cost u"

definition budget_breach ::
  "ShadowCampaignRecord \<Rightarrow> ReservationRequest \<Rightarrow> SettlementUsage \<Rightarrow> (StopIntent \<times> string) option" where
  "budget_breach c rq u =
     (let total_calls = cc_observed_calls c + cc_possibly_billed_calls c + cc_reserved_calls c;
          total_cost = dec_add (dec_add (cc_observed_cost c) (cc_possibly_billed_cost c))
                         (cc_reserved_cost c) in
      if total_calls > cc_structural_ceiling c
      then Some (Intent_CALL_CEILING, ''provider_call_structural_ceiling'')
      else if total_calls > cc_admission_ceiling c
      then Some (Intent_CALL_CEILING, ''provider_call_admission_ceiling'')
      else if su_observed_calls u + su_possibly_billed_calls u > rq_provider_calls rq
      then Some (Intent_CALL_CEILING, ''run_provider_call_reservation'')
      else if total_cost > cc_cost_stop_threshold c
      then Some (Intent_BUDGET, ''estimated_cost_stop_threshold'')
      else if dec_add (su_observed_cost u) (su_possibly_billed_cost u) > rq_estimated_cost rq
      then Some (Intent_BUDGET, ''run_estimated_cost_reservation'')
      else None)"

text \<open>The ledger entries of a settlement, on the campaign and on the result.\<close>

definition settle_campaign ::
  "ReservationRequest \<Rightarrow> SettlementUsage \<Rightarrow> ShadowCampaignRecord \<Rightarrow> ShadowCampaignRecord" where
  "settle_campaign rq u c =
     c\<lparr>cc_reserved_calls := cc_reserved_calls c - rq_provider_calls rq,
       cc_reserved_cost := dec_sub (cc_reserved_cost c) (rq_estimated_cost rq),
       cc_observed_calls := cc_observed_calls c + su_observed_calls u,
       cc_prompt_tokens := cc_prompt_tokens c + su_prompt_tokens u,
       cc_completion_tokens := cc_completion_tokens c + su_completion_tokens u,
       cc_observed_cost := dec_add (cc_observed_cost c) (su_observed_cost u),
       cc_possibly_billed_calls := cc_possibly_billed_calls c + su_possibly_billed_calls u,
       cc_possibly_billed_cost := dec_add (cc_possibly_billed_cost c) (su_possibly_billed_cost u),
       cc_possibly_billed_count := cc_possibly_billed_count c
         + (if su_possibly_billed_calls u \<noteq> 0 \<or> su_possibly_billed_cost u \<noteq> 0 then 1 else 0)\<rparr>"

definition settle_result ::
  "ReservationRequest \<Rightarrow> SettlementUsage \<Rightarrow> string \<Rightarrow> instant \<Rightarrow> ShadowRunResultRecord
     \<Rightarrow> ShadowRunResultRecord" where
  "settle_result rq u digest now r =
     r\<lparr>rs_reservation_state := Resv_SETTLED, rs_settled_calls := su_observed_calls u,
       rs_prompt_tokens := su_prompt_tokens u, rs_completion_tokens := su_completion_tokens u,
       rs_settled_cost := su_observed_cost u, rs_estimated_cost := su_observed_cost u,
       rs_possibly_billed_calls := su_possibly_billed_calls u,
       rs_possibly_billed_cost := su_possibly_billed_cost u, rs_settled_at := Some now,
       rs_source_snapshot_digest := Some digest,
       rs_budget_violation := SettlementUsage_exceeds u rq, rs_version := rs_version r + 1,
       rs_updated_at := now\<rparr>"

definition stop_on_breach ::
  "ReservationRequest \<Rightarrow> SettlementUsage \<Rightarrow> ShadowCampaignRecord \<Rightarrow> ShadowCampaignRecord" where
  "stop_on_breach rq u c =
     (case budget_breach c rq u of
        Some (intent, reason) \<Rightarrow>
          if cc_status c = Camp_RUNNING
          then c\<lparr>cc_status := Camp_STOPPING, cc_stop_intent := intent, cc_stop_reason := Some reason\<rparr>
          else c
      | None \<Rightarrow> c)"

definition ledger_underflow :: exn where
  "ledger_underflow =
     invariant_violation_code ''Campaign reservation ledgers are inconsistent''
       ''reservation_ledger_underflow'' []"

definition reservation_not_active :: "string \<Rightarrow> exn" where
  "reservation_not_active message = invariant_violation_code message ''reservation_not_active'' []"

definition settle_run_budget ::
  "uuid \<Rightarrow> instant option \<Rightarrow> uuid \<Rightarrow> uuid \<Rightarrow> uuid \<Rightarrow> string \<Rightarrow> SettlementUsage \<Rightarrow> cdb
     \<Rightarrow> (BudgetSettlementReceipt \<times> cdb) result" where
  "settle_run_budget scope clock tenant cid rid source_digest u d =
     rbind (assert_tenant scope tenant) (\<lambda>_.
       let digest = py_strip source_digest in
       if \<not> is_hex_of 64 digest \<or> digest \<noteq> py_lower digest
       then Err (ValueError ''source_snapshot_digest must be a lowercase SHA-256'')
       else
         rbind (locked_budget_records clock tenant cid rid d) (\<lambda>(now, c, r).
           if rs_reservation_state r = Resv_SETTLED
           then if settlement_matches r digest u
                then Ok (\<lparr>bt_result_id = rs_id r, bt_duplicate = True,
                          bt_budget_violation = rs_budget_violation r\<rparr>, d)
                else Err (invariant_violation_code
                       ''A result budget was already settled from different source data''
                       ''settlement_conflict'' [])
           else if rs_reservation_state r \<noteq> Resv_ACTIVE
           then Err (reservation_not_active ''Only active reservations can be settled'')
           else if rs_state r \<notin> {Sched_SUBMITTED, Sched_COLLECTED, Sched_FAILED}
                \<or> rs_source_terminal_at r = None
           then Err (invariant_violation_code
                  ''Budget settlement requires a terminal source snapshot'' ''source_not_terminal'' [])
           else if rs_source_snapshot_digest r \<notin> {None, Some digest}
           then Err (invariant_violation_code
                  ''The terminal source snapshot changed before settlement''
                  ''settlement_conflict'' [])
           else
             rbind (ReservationRequest_new (rs_reserved_calls r) (DecFinite (rs_reserved_cost r)))
               (\<lambda>rq.
                 if cc_reserved_calls c < rq_provider_calls rq
                    \<or> cc_reserved_cost c < rq_estimated_cost rq
                 then Err ledger_underflow
                 else
                   let c1 = stop_on_breach rq u (settle_campaign rq u c);
                       r1 = settle_result rq u digest now r in
                   rbind (flush_rows (c1\<lparr>cc_version := cc_version c1 + 1, cc_updated_at := now\<rparr>)
                            r1 d) (\<lambda>d'.
                     Ok (\<lparr>bt_result_id = rs_id r, bt_duplicate = False,
                          bt_budget_violation = rs_budget_violation r1\<rparr>, d')))))"

definition release_on_rows ::
  "instant \<Rightarrow> ShadowCampaignRecord \<Rightarrow> ShadowRunResultRecord
     \<Rightarrow> ShadowCampaignRecord \<times> ShadowRunResultRecord" where
  "release_on_rows now c r =
     (c\<lparr>cc_reserved_calls := cc_reserved_calls c - rs_reserved_calls r,
        cc_reserved_cost := dec_sub (cc_reserved_cost c) (rs_reserved_cost r),
        cc_version := cc_version c + 1, cc_updated_at := now\<rparr>,
      r\<lparr>rs_reservation_state := Resv_RELEASED, rs_released_at := Some now,
        rs_version := rs_version r + 1, rs_updated_at := now\<rparr>)"

definition release_run_budget ::
  "uuid \<Rightarrow> instant option \<Rightarrow> cdb \<Rightarrow> (RunLease, BudgetReleaseReceipt \<times> cdb) prog" where
  "release_run_budget scope clock d l =
     sbind (slift
       (rbind (assert_tenant scope (rl_tenant_id l)) (\<lambda>_.
        rbind (locked_budget_records clock (rl_tenant_id l) (rl_campaign_id l) (rl_id l) d)
          (\<lambda>(now, c, r). rbind (assert_active_lease r l now) (\<lambda>_. Ok (now, c, r))))))
       (\<lambda>(now, c, r).
         if rs_reservation_state r = Resv_RELEASED
         then slift (Ok (\<lparr>bl_result_id = rs_id r, bl_duplicate = True\<rparr>, d))
         else if rs_reservation_state r \<noteq> Resv_ACTIVE
         then slift (Err (reservation_not_active ''Only active reservations can be released''))
         else if rs_submission_attempts r \<noteq> 0 \<or> rs_source_terminal_at r \<noteq> None
              \<or> rs_source_snapshot_digest r \<noteq> None
         then slift (Err (invariant_violation_code
                ''A reservation cannot be released after submission begins''
                ''reservation_release_too_late'' []))
         else if cc_reserved_calls c < rs_reserved_calls r \<or> cc_reserved_cost c < rs_reserved_cost r
         then slift (Err ledger_underflow)
         else
           case release_on_rows now c r of (c', r') \<Rightarrow>
             sbind (slift (flush_rows c' r' d)) (\<lambda>d'.
             sbind (RunLease_accept_budget_fence (rs_version r + 1) Resv_RELEASED) (\<lambda>_.
               slift (Ok (\<lparr>bl_result_id = rs_id r, bl_duplicate = False\<rparr>, d'))))) l"

end
