(* ===== verification/Campaign_Execution.thy ===== *)
theory Campaign_Execution
  imports Campaign_Store
begin

text \<open>
  The rest of the campaign repositories: lifecycle rows, claiming and renewing a result's
  scheduling lease, the fenced attempts and bindings of \<^verbatim>\<open>shadow_execution_repository.py\<close>, the
  failure and skip operations of \<^verbatim>\<open>shadow_runner.py\<close>, and the service
  \<^verbatim>\<open>CampaignExecutionService.execute\<close> that strings the bindings together around the candidate
  API. The candidate API is the argument \<open>gateway\<close>: what its two calls returned or raised.
\<close>

section \<open>Lifecycle rows\<close>

definition lifecycle_of_row :: "ShadowCampaignRecord \<Rightarrow> CampaignLifecycle result" where
  "lifecycle_of_row c =
     Campaign_rehydrate (cc_id c) (cc_tenant_id c) (cc_created_by_user_id c) (cc_max_runs c)
       (cc_planned_count c) (cc_status c) (cc_gate_status c) (cc_stop_intent c)
       (cc_stop_reason c) (cc_started_at c) (cc_review_deadline_at c) (cc_completed_at c)
       (cc_version c)"

definition get_for_update :: "uuid \<Rightarrow> uuid \<Rightarrow> uuid \<Rightarrow> cdb \<Rightarrow> CampaignLifecycle option result" where
  "get_for_update scope tenant cid d =
     rbind (assert_tenant scope tenant) (\<lambda>_.
       case campaign_row tenant cid d of
         None \<Rightarrow> Ok None
       | Some c \<Rightarrow> rbind (lifecycle_of_row c) (\<lambda>x. Ok (Some x)))"

definition lifecycle_columns ::
  "CampaignLifecycle \<Rightarrow> instant \<Rightarrow> ShadowCampaignRecord \<Rightarrow> ShadowCampaignRecord" where
  "lifecycle_columns x now c =
     c\<lparr>cc_status := cl_status x, cc_gate_status := cl_gate_status x,
       cc_stop_intent := cl_stop_intent x, cc_stop_reason := cl_stop_reason x,
       cc_started_at := cl_started_at x, cc_review_deadline_at := cl_review_deadline_at x,
       cc_completed_at := cl_completed_at x, cc_version := cl_version x, cc_updated_at := now\<rparr>"

definition save_lifecycle ::
  "uuid \<Rightarrow> instant \<Rightarrow> CampaignLifecycle \<Rightarrow> cdb \<Rightarrow> (CampaignLifecycle \<times> cdb) result" where
  "save_lifecycle scope now x d =
     rbind (assert_tenant scope (cl_tenant_id x)) (\<lambda>_.
       let match = (\<lambda>c. cc_tenant_id c = cl_tenant_id x \<and> cc_id c = cl_id x
                        \<and> cc_version c = cl_persisted_version x);
           found = filter match (tbl_campaigns d) in
       if \<not> list_all (\<lambda>c. campaign_columns (lifecycle_columns x now c)) found then Err data_error
       else if \<not> list_all (\<lambda>c. campaign_checks (lifecycle_columns x now c)) found
       then Err integrity_error
       else if length found \<noteq> 1
       then Err (invariant_violation_code ''Shadow campaign was modified concurrently''
                   ''optimistic_lock_failed'' [])
       else Ok (Campaign_mark_persisted x,
                d\<lparr>tbl_campaigns := map (\<lambda>c. if match c then lifecycle_columns x now c else c)
                                      (tbl_campaigns d)\<rparr>))"

text \<open>\<^verbatim>\<open>CampaignLifecycleService._owned_mutation\<close> and \<^verbatim>\<open>_system_mutation\<close> (no owner).\<close>

definition lifecycle_mutation ::
  "uuid \<Rightarrow> uuid option \<Rightarrow> uuid \<Rightarrow> (CampaignLifecycle \<Rightarrow> CampaignLifecycle result) \<Rightarrow> instant \<Rightarrow> cdb
     \<Rightarrow> (CampaignLifecycle option \<times> cdb) result" where
  "lifecycle_mutation tenant user cid mutate now d =
     rbind (get_for_update tenant tenant cid d) (\<lambda>found.
       case found of
         None \<Rightarrow> Ok (None, d)
       | Some x \<Rightarrow>
           if (case user of None \<Rightarrow> False | Some u \<Rightarrow> cl_created_by_user_id x \<noteq> u) then Ok (None, d)
           else
             rbind (mutate x) (\<lambda>x'.
             rbind (save_lifecycle tenant now x' d) (\<lambda>(x'', d'). Ok (Some x'', d'))))"

section \<open>Scheduling leases\<close>

definition active_unit :: "instant \<Rightarrow> ShadowRunResultRecord \<Rightarrow> bool" where
  "active_unit now r \<longleftrightarrow>
     rs_state r = Sched_SUBMITTED \<and> rs_reservation_state r = Resv_ACTIVE
     \<or> leasable (rs_state r) \<and> (case rs_lease_expires_at r of None \<Rightarrow> False | Some e \<Rightarrow> now < e)"

definition lease_lapsed :: "instant \<Rightarrow> ShadowRunResultRecord \<Rightarrow> bool" where
  "lease_lapsed now r \<longleftrightarrow>
     leasable (rs_state r) \<and> (case rs_lease_expires_at r of None \<Rightarrow> False | Some e \<Rightarrow> e \<le> now)"

definition claimable :: "CampaignStatus \<Rightarrow> instant \<Rightarrow> ShadowRunResultRecord \<Rightarrow> bool" where
  "claimable status now r =
     (if status = Camp_STOPPING
      then lease_lapsed now r \<and> (0 < rs_conversation_attempts r \<or> 0 < rs_submission_attempts r)
      else rs_state r = Sched_PENDING \<or> lease_lapsed now r)"

definition of_campaign :: "uuid \<Rightarrow> uuid \<Rightarrow> ShadowRunResultRecord \<Rightarrow> bool" where
  "of_campaign tenant cid r \<longleftrightarrow> rs_tenant_id r = tenant \<and> rs_campaign_id r = cid"

text \<open>
  \<^verbatim>\<open>order_by(schedule_ordinal).limit(1)\<close>: the first of the rows with the least ordinal. The
  campaign row is locked first, which serialises the claims; the case that the row is locked by
  a renewal in flight (\<^verbatim>\<open>skip_locked\<close>) is left out.
\<close>

fun first_by :: "('a \<Rightarrow> int) \<Rightarrow> 'a list \<Rightarrow> 'a option" where
  "first_by key [] = None"
| "first_by key (x # xs) =
     (case first_by key xs of
        None \<Rightarrow> Some x
      | Some y \<Rightarrow> if key y < key x then Some y else Some x)"

definition claimed_row ::
  "string \<Rightarrow> instant \<Rightarrow> instant \<Rightarrow> ShadowRunResultRecord \<Rightarrow> ShadowRunResultRecord" where
  "claimed_row worker expires now r =
     r\<lparr>rs_state := (if rs_conversation_id r \<noteq> None then Sched_CONVERSATION_BOUND else Sched_CLAIMED),
       rs_lease_owner := Some worker, rs_lease_expires_at := Some expires,
       rs_version := rs_version r + 1, rs_updated_at := now\<rparr>"

definition lease_of_row :: "ShadowRunResultRecord \<Rightarrow> string \<Rightarrow> instant \<Rightarrow> RunLease" where
  "lease_of_row r worker expires =
     \<lparr>rl_id = rs_id r, rl_tenant_id = rs_tenant_id r, rl_campaign_id = rs_campaign_id r,
      rl_case_id = rs_case_id r, rl_repetition = rs_repetition r,
      rl_schedule_ordinal = rs_schedule_ordinal r, rl_state = rs_state r,
      rl_lease_owner = worker, rl_lease_expires_at = expires,
      rl_conversation_id = rs_conversation_id r, rl_search_run_id = rs_search_run_id r,
      rl_conversation_key = rs_conversation_key r, rl_message_key = rs_message_key r,
      rl_submission_request_hash = rs_submission_request_hash r,
      rl_reservation_state = rs_reservation_state r, rl_version = rs_version r,
      rl_persisted_version = rs_version r,
      rl_conversation_attempts = rs_conversation_attempts r,
      rl_submission_attempts = rs_submission_attempts r\<rparr>"

definition write_result :: "ShadowRunResultRecord \<Rightarrow> cdb \<Rightarrow> cdb result" where
  "write_result r d =
     (if \<not> result_columns r then Err data_error
      else if \<not> result_checks r \<or> \<not> result_unique r (tbl_results d) then Err integrity_error
      else Ok (put_result r d))"

definition claim_next_result ::
  "uuid \<Rightarrow> instant option \<Rightarrow> uuid \<Rightarrow> uuid \<Rightarrow> string \<Rightarrow> int \<Rightarrow> cdb \<Rightarrow> (RunLease option \<times> cdb) result" where
  "claim_next_result scope clock tenant cid worker lease_duration d =
     rbind (assert_tenant scope tenant) (\<lambda>_.
       case clock of
         None \<Rightarrow> Err clock_unavailable
       | Some now \<Rightarrow>
           (case campaign_row tenant cid d of
              None \<Rightarrow> Ok (None, d)
            | Some c \<Rightarrow>
                if cc_status c \<notin> {Camp_RUNNING, Camp_STOPPING} then Ok (None, d)
                else
                  let rows = filter (of_campaign tenant cid) (tbl_results d) in
                  if cc_max_concurrency c \<le> int (length (filter (active_unit now) rows))
                  then Ok (None, d)
                  else
                    (case first_by rs_schedule_ordinal
                            (filter (claimable (cc_status c) now) rows) of
                       None \<Rightarrow> Ok (None, d)
                     | Some r \<Rightarrow>
                         let r' = claimed_row worker (now + lease_duration) now r in
                         rbind (write_result r' d) (\<lambda>d'.
                         rbind (RunLease_new (lease_of_row r' worker (now + lease_duration)))
                           (\<lambda>l. Ok (Some l, d'))))))"

text \<open>\<^verbatim>\<open>CampaignSchedulingService.claim_next\<close>.\<close>

definition claim_next ::
  "instant option \<Rightarrow> uuid \<Rightarrow> uuid \<Rightarrow> string \<Rightarrow> int \<Rightarrow> cdb \<Rightarrow> (RunLease option \<times> cdb) result" where
  "claim_next clock tenant cid worker lease_duration d =
     (let normalized_worker = py_strip worker in
      if normalized_worker = [] \<or> 200 < length normalized_worker
      then Err (ValueError ''worker_id must contain between 1 and 200 characters'')
      else claim_next_result tenant clock tenant cid normalized_worker lease_duration d)"

definition renewed_row :: "RunLease \<Rightarrow> instant \<Rightarrow> ShadowRunResultRecord \<Rightarrow> ShadowRunResultRecord" where
  "renewed_row l now r =
     r\<lparr>rs_lease_expires_at := Some (rl_lease_expires_at l), rs_version := rl_version l,
       rs_updated_at := now\<rparr>"

definition renew_result_lease ::
  "uuid \<Rightarrow> instant option \<Rightarrow> int \<Rightarrow> cdb \<Rightarrow> (RunLease, unit \<times> cdb) prog" where
  "renew_result_lease scope clock lease_duration d l0 =
     sbind (slift
       (rbind (assert_tenant scope (rl_tenant_id l0)) (\<lambda>_.
          case clock of None \<Rightarrow> Err clock_unavailable | Some now \<Rightarrow> Ok now)))
       (\<lambda>now.
          sbind (RunLease_renew now (max now (rl_lease_expires_at l0) + lease_duration)) (\<lambda>_ l.
            let match = (\<lambda>r. of_campaign (rl_tenant_id l) (rl_campaign_id l) r \<and> rs_id r = rl_id l
                  \<and> leasable (rs_state r) \<and> rs_lease_owner r = Some (rl_lease_owner l)
                  \<and> rs_version r = rl_persisted_version l
                  \<and> (case rs_lease_expires_at r of None \<Rightarrow> False | Some e \<Rightarrow> now < e)) in
            if \<not> list_all (\<lambda>r. result_columns (renewed_row l now r)) (filter match (tbl_results d))
            then (Err data_error, l)
            else if \<not> list_all (\<lambda>r. result_checks (renewed_row l now r)) (filter match (tbl_results d))
            then (Err integrity_error, l)
            else if length (filter match (tbl_results d)) \<noteq> 1 then (Err lease_fence_lost, l)
            else (Ok ((), d\<lparr>tbl_results := map (\<lambda>r. if match r then renewed_row l now r else r)
                       (tbl_results d)\<rparr>), RunLease_mark_persisted l))) l0"

section \<open>Outbound attempts and bindings\<close>

definition text_of :: "string \<Rightarrow> utext" where
  "text_of s = map of_char s"

definition campaign_conversation_title :: "string \<Rightarrow> int \<Rightarrow> string" where
  "campaign_conversation_title case_id repetition =
     ''Shadow evaluation '' @ case_id @ '' repetition '' @ int_str repetition"

record CandidateSubmissionReceipt =
  sb_message_id :: uuid
  sb_response_run_id :: uuid
  sb_search_run_id :: uuid

record CampaignSubmissionReceipt =
  cs_result_id :: uuid
  cs_search_run_id :: uuid
  cs_duplicate :: bool

definition locked_records ::
  "uuid \<Rightarrow> instant option \<Rightarrow> RunLease \<Rightarrow> cdb
     \<Rightarrow> (instant \<times> ShadowCampaignRecord \<times> ShadowRunResultRecord) result" where
  "locked_records scope clock l d =
     rbind (assert_tenant scope (rl_tenant_id l)) (\<lambda>_.
       locked_budget_records clock (rl_tenant_id l) (rl_campaign_id l) (rl_id l) d)"

definition assert_active_reservation :: "ShadowRunResultRecord \<Rightarrow> unit result" where
  "assert_active_reservation r =
     (if rs_reservation_state r \<noteq> Resv_ACTIVE
      then Err (reservation_not_active ''Candidate API calls require an active budget reservation'')
      else Ok ())"

definition assert_outbound_allowed ::
  "ShadowCampaignRecord \<Rightarrow> ShadowRunResultRecord \<Rightarrow> int \<Rightarrow> unit result" where
  "assert_outbound_allowed c r prior =
     (if cc_status c \<noteq> Camp_RUNNING \<and> \<not> (cc_status c = Camp_STOPPING \<and> 0 < prior)
      then Err (invariant_violation_code ''Campaign is not accepting a new candidate API attempt''
                  ''campaign_not_running'' [])
      else assert_active_reservation r)"

definition prepare_conversation_attempt ::
  "uuid \<Rightarrow> instant option \<Rightarrow> cdb \<Rightarrow> (RunLease, unit \<times> cdb) prog" where
  "prepare_conversation_attempt scope clock d l =
     sbind (slift
       (rbind (locked_records scope clock l d) (\<lambda>(now, c, r).
        rbind (assert_active_lease r l now) (\<lambda>_.
        rbind (assert_active_reservation r) (\<lambda>_.
        rbind (assert_outbound_allowed c r (rs_conversation_attempts r)) (\<lambda>_.
          if rs_state r \<noteq> Sched_CLAIMED \<or> rs_conversation_id r \<noteq> None \<or> rs_search_run_id r \<noteq> None
          then Err (invariant_violation_code
                 ''Conversation creation is not valid in the current Result state''
                 ''conversation_attempt_state_invalid'' [])
          else
            rbind (flush_rows c (r\<lparr>rs_conversation_attempts := rs_conversation_attempts r + 1,
                     rs_version := rs_version r + 1, rs_updated_at := now\<rparr>) d) (\<lambda>d'.
              Ok (rs_version r + 1, d'))))))))
       (\<lambda>(version, d'). sbind (RunLease_accept_attempt_fence version) (\<lambda>_. slift (Ok ((), d')))) l"

definition bind_conversation ::
  "uuid \<Rightarrow> (utext \<Rightarrow> string) \<Rightarrow> instant option \<Rightarrow> uuid \<Rightarrow> cdb \<Rightarrow> (RunLease, unit \<times> cdb) prog" where
  "bind_conversation scope sha clock conversation_id d l =
     sbind (slift
       (rbind (locked_records scope clock l d) (\<lambda>(now, c, r).
        rbind (assert_active_lease r l now) (\<lambda>_.
        rbind (assert_active_reservation r) (\<lambda>_.
          case rs_conversation_id r of
            Some bound \<Rightarrow>
              if bound = conversation_id \<and> rs_state r = Sched_CONVERSATION_BOUND
              then Ok (None, d)
              else Err (invariant_violation_code ''A Result cannot replace its bound Conversation''
                          ''conversation_binding_conflict'' [])
          | None \<Rightarrow>
              if rs_state r \<noteq> Sched_CLAIMED
              then Err (invariant_violation_code
                     ''Conversation binding is not valid in the current Result state''
                     ''conversation_binding_state_invalid'' [])
              else
                let title = campaign_conversation_title (rs_case_id r) (rs_repetition r) in
                rbind (normalized_content_sha256 sha (text_of title)) (\<lambda>title_hash.
                  case find (\<lambda>v. cv_tenant_id v = rl_tenant_id l \<and> cv_id v = conversation_id
                               \<and> cv_user_id v = cc_created_by_user_id c) (tbl_conversations d) of
                    None \<Rightarrow> Err (invariant_violation_code
                              ''Candidate Conversation receipt is not authoritative''
                              ''candidate_conversation_mismatch'' [])
                  | Some v \<Rightarrow>
                      if cv_creation_key v \<noteq> Some (rs_conversation_key r) \<or> cv_title v \<noteq> text_of title
                         \<or> cv_creation_hash v \<noteq> Some title_hash
                      then Err (invariant_violation_code
                             ''Candidate Conversation receipt is not authoritative''
                             ''candidate_conversation_mismatch'' [])
                      else if list_ex (\<lambda>x. rs_tenant_id x = rl_tenant_id l
                                \<and> rs_conversation_id x = Some conversation_id \<and> rs_id x \<noteq> rl_id l)
                                (tbl_results d)
                      then Err (invariant_violation_code
                             ''Candidate Conversation is already bound to another Result''
                             ''conversation_already_bound'' [])
                      else
                        rbind (flush_rows c (r\<lparr>rs_conversation_id := Some conversation_id,
                                 rs_state := Sched_CONVERSATION_BOUND,
                                 rs_version := rs_version r + 1, rs_updated_at := now\<rparr>) d) (\<lambda>d'.
                          Ok (Some (rs_version r + 1), d'))))))))
       (\<lambda>(fence, d').
          case fence of
            None \<Rightarrow> slift (Ok ((), d'))
          | Some version \<Rightarrow>
              sbind (RunLease_accept_conversation_fence version conversation_id) (\<lambda>_.
                slift (Ok ((), d')))) l"

definition prepare_submission_attempt ::
  "uuid \<Rightarrow> instant option \<Rightarrow> cdb \<Rightarrow> (RunLease, unit \<times> cdb) prog" where
  "prepare_submission_attempt scope clock d l =
     sbind (slift
       (rbind (locked_records scope clock l d) (\<lambda>(now, c, r).
        rbind (assert_active_lease r l now) (\<lambda>_.
        rbind (assert_outbound_allowed c r (rs_submission_attempts r)) (\<lambda>_.
          if rs_state r \<noteq> Sched_CONVERSATION_BOUND \<or> rs_conversation_id r = None
             \<or> rs_search_run_id r \<noteq> None
          then Err (invariant_violation_code
                 ''Message submission is not valid in the current Result state''
                 ''submission_attempt_state_invalid'' [])
          else
            rbind (flush_rows c (r\<lparr>rs_submission_attempts := rs_submission_attempts r + 1,
                     rs_version := rs_version r + 1, rs_updated_at := now\<rparr>) d) (\<lambda>d'.
              Ok (rs_version r + 1, d')))))))
       (\<lambda>(version, d'). sbind (RunLease_accept_attempt_fence version) (\<lambda>_. slift (Ok ((), d')))) l"

definition assert_authoritative_receipt ::
  "(utext \<Rightarrow> string) \<Rightarrow> ShadowCampaignRecord \<Rightarrow> ShadowRunResultRecord
     \<Rightarrow> CandidateSubmissionReceipt \<Rightarrow> cdb \<Rightarrow> unit result" where
  "assert_authoritative_receipt sha c r receipt d =
     (case find (\<lambda>(run, m). rb_tenant_id run = rs_tenant_id r
                   \<and> rb_id run = sb_search_run_id receipt
                   \<and> mg_tenant_id m = rb_tenant_id run \<and> mg_id m = rb_message_id run)
             (List.product (tbl_run_bindings d) (tbl_messages d)) of
        None \<Rightarrow> Err (invariant_violation_code ''Candidate SearchRun receipt is not authoritative''
                  ''candidate_search_run_not_found'' [])
      | Some (run, m) \<Rightarrow>
          if rb_message_id run \<noteq> sb_message_id receipt
             \<or> rb_response_run_id run \<noteq> sb_response_run_id receipt
             \<or> Some (rb_conversation_id run) \<noteq> rs_conversation_id r
             \<or> Some (mg_conversation_id m) \<noteq> rs_conversation_id r
             \<or> mg_author_user_id m \<noteq> Some (cc_created_by_user_id c)
             \<or> mg_idempotency_key m \<noteq> Some (rs_message_key r)
          then Err (invariant_violation_code
                 ''Candidate SearchRun receipt does not match the Result binding''
                 ''candidate_receipt_mismatch'' [])
          else
            rbind (normalized_content_sha256 sha (mg_content m)) (\<lambda>h.
              if h \<noteq> rs_submission_request_hash r
              then Err (invariant_violation_code
                     ''Candidate Message content does not match the materialized request''
                     ''submission_payload_mismatch'' [])
              else Ok ()))"

definition bind_submission ::
  "uuid \<Rightarrow> (utext \<Rightarrow> string) \<Rightarrow> instant option \<Rightarrow> CandidateSubmissionReceipt \<Rightarrow> RunLease \<Rightarrow> cdb
     \<Rightarrow> (CampaignSubmissionReceipt \<times> cdb) result" where
  "bind_submission scope sha clock receipt l d =
     rbind (locked_records scope clock l d) (\<lambda>(now, c, r).
       case rs_search_run_id r of
         Some bound \<Rightarrow>
           if bound \<noteq> sb_search_run_id receipt \<or> rs_state r \<noteq> Sched_SUBMITTED
           then Err (invariant_violation_code ''A Result cannot replace its bound SearchRun''
                       ''search_run_binding_conflict'' [])
           else
             rbind (assert_authoritative_receipt sha c r receipt d) (\<lambda>_.
               Ok (\<lparr>cs_result_id = rs_id r, cs_search_run_id = sb_search_run_id receipt,
                    cs_duplicate = True\<rparr>, d))
       | None \<Rightarrow>
           rbind (assert_active_lease r l now) (\<lambda>_.
           rbind (assert_active_reservation r) (\<lambda>_.
             if rs_state r \<noteq> Sched_CONVERSATION_BOUND \<or> rs_conversation_id r = None
             then Err (invariant_violation_code
                    ''SearchRun binding is not valid in the current Result state''
                    ''search_run_binding_state_invalid'' [])
             else
               rbind (assert_authoritative_receipt sha c r receipt d) (\<lambda>_.
                 if list_ex (\<lambda>x. rs_tenant_id x = rl_tenant_id l
                      \<and> rs_search_run_id x = Some (sb_search_run_id receipt) \<and> rs_id x \<noteq> rl_id l)
                      (tbl_results d)
                 then Err (invariant_violation_code
                        ''Candidate SearchRun is already bound to another Result''
                        ''search_run_already_bound'' [])
                 else if cc_max_runs c \<le> cc_submitted_count c
                 then Err (invariant_violation_code
                        ''Campaign submitted counter cannot exceed max_runs''
                        ''campaign_ledger_mismatch'' [])
                 else
                   rbind (flush_rows
                     (c\<lparr>cc_submitted_count := cc_submitted_count c + 1,
                        cc_version := cc_version c + 1, cc_updated_at := now\<rparr>)
                     (r\<lparr>rs_search_run_id := Some (sb_search_run_id receipt),
                        rs_state := Sched_SUBMITTED, rs_lease_owner := None,
                        rs_lease_expires_at := None, rs_version := rs_version r + 1,
                        rs_updated_at := now\<rparr>) d) (\<lambda>d'.
                     Ok (\<lparr>cs_result_id = rs_id r, cs_search_run_id = sb_search_run_id receipt,
                          cs_duplicate = False\<rparr>, d'))))))"

section \<open>Failures and skips\<close>

definition stable_characters :: string where
  "stable_characters = ''abcdefghijklmnopqrstuvwxyz0123456789_''"

definition stable_code :: "string \<Rightarrow> string \<Rightarrow> nat \<Rightarrow> string result" where
  "stable_code value field_name maximum =
     (let normalized = py_strip value in
      if normalized = [] \<or> maximum < length normalized
         \<or> list_ex (\<lambda>c. c \<notin> set stable_characters) normalized
      then Err (ValueError (field_name @ '' must be a stable lowercase identifier''))
      else Ok normalized)"

record RunnerFailure =
  rf_error_class :: ErrorClass
  rf_error_code :: string
  rf_failed_phase :: string
  rf_possibly_billed :: bool

definition RunnerFailure_new :: "ErrorClass \<Rightarrow> string \<Rightarrow> string \<Rightarrow> bool \<Rightarrow> RunnerFailure result" where
  "RunnerFailure_new class code phase billed =
     rbind (stable_code code ''error_code'' 200) (\<lambda>c.
     rbind (stable_code phase ''failed_phase'' 100) (\<lambda>p.
       Ok \<lparr>rf_error_class = class, rf_error_code = c, rf_failed_phase = p,
           rf_possibly_billed = billed\<rparr>))"

record RunnerFailureReceipt =
  fr_result_id :: uuid
  fr_possibly_billed :: bool
  fr_duplicate :: bool

text \<open>
  The reservation of a failed unit: charged in full when the provider may have billed it,
  released otherwise. The digest of the failure record is a parameter.
\<close>

definition fail_reservation ::
  "(RunnerFailure \<Rightarrow> ShadowRunResultRecord \<Rightarrow> string) \<Rightarrow> RunnerFailure \<Rightarrow> instant
     \<Rightarrow> ShadowCampaignRecord \<Rightarrow> ShadowRunResultRecord
     \<Rightarrow> (ShadowCampaignRecord \<times> ShadowRunResultRecord) result" where
  "fail_reservation digest failure now c r =
     (if rs_reservation_state r = Resv_ACTIVE
      then
        let c1 = c\<lparr>cc_reserved_calls := cc_reserved_calls c - rs_reserved_calls r,
                   cc_reserved_cost := dec_sub (cc_reserved_cost c) (rs_reserved_cost r)\<rparr> in
        if rf_possibly_billed failure
        then Ok (c1\<lparr>cc_possibly_billed_calls := cc_possibly_billed_calls c + rs_reserved_calls r,
                    cc_possibly_billed_cost := dec_add (cc_possibly_billed_cost c) (rs_reserved_cost r),
                    cc_possibly_billed_count := cc_possibly_billed_count c + 1\<rparr>,
                 r\<lparr>rs_possibly_billed_calls := rs_reserved_calls r,
                   rs_possibly_billed_cost := rs_reserved_cost r,
                   rs_reservation_state := Resv_SETTLED, rs_settled_at := Some now,
                   rs_source_terminal_at := Some now,
                   rs_source_snapshot_digest := Some (digest failure r)\<rparr>)
        else Ok (c1, r\<lparr>rs_reservation_state := Resv_RELEASED, rs_released_at := Some now\<rparr>)
      else if rs_reservation_state r \<noteq> Resv_NONE
      then Err (invariant_violation_code ''A terminal reservation cannot be failed again''
                  ''reservation_already_terminal'' [])
      else Ok (c, r))"

definition mark_failure ::
  "uuid \<Rightarrow> (RunnerFailure \<Rightarrow> ShadowRunResultRecord \<Rightarrow> string) \<Rightarrow> instant option \<Rightarrow> RunLease
     \<Rightarrow> RunnerFailure \<Rightarrow> cdb \<Rightarrow> (RunnerFailureReceipt \<times> cdb) result" where
  "mark_failure scope digest clock l failure d =
     rbind (locked_records scope clock l d) (\<lambda>(now, c, r).
       if rs_state r = Sched_FAILED
       then Ok (\<lparr>fr_result_id = rs_id r, fr_possibly_billed = rs_possibly_billed_calls r \<noteq> 0,
                 fr_duplicate = True\<rparr>, d)
       else if \<not> leasable (rs_state r) \<or> rs_lease_owner r \<noteq> Some (rl_lease_owner l)
            \<or> (case rs_lease_expires_at r of None \<Rightarrow> True | Some e \<Rightarrow> e \<le> now)
            \<or> rs_version r \<noteq> rl_persisted_version l
       then Err lease_fence_lost
       else if rf_possibly_billed failure \<and> rs_reservation_state r \<noteq> Resv_ACTIVE
       then Err (invariant_violation_code ''A possibly billed failure requires an active reservation''
                   ''possibly_billed_without_reservation'' [])
       else
         rbind (fail_reservation digest failure now c r) (\<lambda>(c1, r1).
         rbind (flush_rows
                  (c1\<lparr>cc_failed_count := cc_failed_count c1 + 1, cc_version := cc_version c1 + 1,
                      cc_updated_at := now\<rparr>)
                  (r1\<lparr>rs_state := Sched_FAILED, rs_lease_owner := None, rs_lease_expires_at := None,
                      rs_error_class := Some (rf_error_class failure),
                      rs_error_code := Some (rf_error_code failure),
                      rs_failed_phase := Some (rf_failed_phase failure),
                      rs_error_signal_flags := [rf_error_code failure],
                      rs_version := rs_version r1 + 1, rs_updated_at := now\<rparr>) d) (\<lambda>d'.
           Ok (\<lparr>fr_result_id = rs_id r, fr_possibly_billed = rf_possibly_billed failure,
                fr_duplicate = False\<rparr>, d'))))"

definition skip_row :: "string \<Rightarrow> instant \<Rightarrow> ShadowRunResultRecord \<Rightarrow> ShadowRunResultRecord" where
  "skip_row reason now r =
     r\<lparr>rs_state := Sched_SKIPPED, rs_stable_skip_reason := Some reason,
       rs_version := rs_version r + 1, rs_updated_at := now\<rparr>"

definition skip_pending ::
  "uuid \<Rightarrow> instant option \<Rightarrow> uuid \<Rightarrow> uuid \<Rightarrow> string \<Rightarrow> cdb \<Rightarrow> (int \<times> cdb) result" where
  "skip_pending scope clock tenant cid reason d =
     rbind (assert_tenant scope tenant) (\<lambda>_.
       let normalized = py_strip reason in
       if normalized = [] \<or> 100 < length normalized
          \<or> list_ex (\<lambda>c. c \<notin> set stable_characters) normalized
       then Err (ValueError ''Skip reason must be a stable lowercase identifier'')
       else
         (case (clock, campaign_row tenant cid d) of
            (Some now, Some c) \<Rightarrow>
              if cc_status c \<noteq> Camp_STOPPING
              then Err (invariant_violation_code ''Only a STOPPING campaign can seal pending units''
                          ''campaign_not_stopping'' [])
              else
                let pending = (\<lambda>r. of_campaign tenant cid r \<and> rs_state r = Sched_PENDING);
                    found = filter pending (tbl_results d);
                    skipped = int (length found);
                    c' = (if skipped \<noteq> 0
                          then c\<lparr>cc_skipped_count := cc_skipped_count c + skipped,
                                 cc_version := cc_version c + 1, cc_updated_at := now\<rparr> else c) in
                if \<not> list_all (\<lambda>r. result_columns (skip_row normalized now r)) found
                   \<or> \<not> campaign_columns c'
                then Err data_error
                else if \<not> list_all (\<lambda>r. result_checks (skip_row normalized now r)) found
                   \<or> \<not> campaign_checks c'
                then Err integrity_error
                else Ok (skipped, put_campaign c' (d\<lparr>tbl_results :=
                       map (\<lambda>r. if pending r then skip_row normalized now r else r)
                         (tbl_results d)\<rparr>))
          | _ \<Rightarrow> Err (invariant_violation_code
                   ''Campaign was unavailable while skipping pending units''
                   ''campaign_not_found'' [])))"

section \<open>CampaignExecutionService\<close>

text \<open>
  What the candidate API answered: the conversation it created, and the receipt of the
  submitted message; each call may raise. Each repository call reads the clock afresh, and
  other sessions may commit between the calls (\<open>others\<close>).
\<close>

record candidate_gateway =
  gw_create_conversation :: "string \<Rightarrow> string \<Rightarrow> uuid result"
  gw_submit_message :: "uuid \<Rightarrow> utext \<Rightarrow> string \<Rightarrow> CandidateSubmissionReceipt result"

record execution_env =
  ee_clock :: "nat \<Rightarrow> instant option"
  ee_others :: "nat \<Rightarrow> cdb \<Rightarrow> cdb"

definition at_call :: "execution_env \<Rightarrow> nat \<Rightarrow> (RunLease \<times> cdb, 'a) prog \<Rightarrow> (RunLease \<times> cdb, 'a) prog" where
  "at_call env i m ld = m (fst ld, ee_others env i (snd ld))"

definition count_conversation_attempt :: "(RunLease \<times> cdb, unit) prog" where
  "count_conversation_attempt ld =
     (Ok (), ((fst ld)\<lparr>rl_conversation_attempts := rl_conversation_attempts (fst ld) + 1\<rparr>, snd ld))"

definition count_submission_attempt :: "(RunLease \<times> cdb, unit) prog" where
  "count_submission_attempt ld =
     (Ok (), ((fst ld)\<lparr>rl_submission_attempts := rl_submission_attempts (fst ld) + 1\<rparr>, snd ld))"

definition execute_campaign_unit ::
  "(utext \<Rightarrow> string) \<Rightarrow> candidate_gateway \<Rightarrow> execution_env \<Rightarrow> utext
     \<Rightarrow> (RunLease \<times> cdb, CampaignSubmissionReceipt) prog" where
  "execute_campaign_unit sha gw env prompt ld =
     (let l = fst ld; scope = rl_tenant_id l in
      if rl_reservation_state l \<noteq> Resv_ACTIVE
      then (Err (reservation_not_active ''Candidate submission requires an active budget reservation''), ld)
      else
        sbind (slift (normalized_content_sha256 sha prompt)) (\<lambda>h.
          if h \<noteq> rl_submission_request_hash l
          then slift (Err (invariant_violation_code
                 ''Manifest prompt does not match the materialized request hash''
                 ''submission_payload_mismatch'' []))
          else
            sbind
              (case rl_conversation_id l of
                 Some conversation_id \<Rightarrow> slift (Ok conversation_id)
               | None \<Rightarrow>
                   sbind (at_call env 0 (in_uow (prepare_conversation_attempt scope (ee_clock env 0)))) (\<lambda>_.
                   sbind count_conversation_attempt (\<lambda>_.
                   sbind (slift (gw_create_conversation gw
                            (campaign_conversation_title (rl_case_id l) (rl_repetition l))
                            (rl_conversation_key l))) (\<lambda>conversation_id.
                   sbind (at_call env 1 (in_uow (bind_conversation scope sha (ee_clock env 1)
                            conversation_id))) (\<lambda>_.
                     slift (Ok conversation_id))))))
              (\<lambda>conversation_id.
                 sbind (at_call env 2 (in_uow (prepare_submission_attempt scope (ee_clock env 2)))) (\<lambda>_.
                 sbind count_submission_attempt (\<lambda>_.
                 sbind (slift (gw_submit_message gw conversation_id (text_strip prompt)
                          (rl_message_key l))) (\<lambda>receipt.
                   at_call env 3 (in_uow (\<lambda>d l'.
                     (bind_submission scope sha (ee_clock env 3) receipt l' d, l')))))))) ld)"

end
