(* ===== verification/Campaign_Ledger.thy ===== *)
theory Campaign_Ledger
  imports Campaign_Execution
begin

text \<open>
  The campaign budget ledger as an invariant of the two campaign tables: the reserved totals of
  a campaign are the sums over its active reservations, every row satisfies its constraints,
  and money columns hold multiples of the quantum. Every repository operation keeps it; the
  operations that touch the ledger change one campaign and one result by equal amounts
  (\<open>flush_ledger\<close>), which is the only place where the sums are computed.
\<close>

section \<open>The invariant\<close>

definition held :: "(ShadowRunResultRecord \<Rightarrow> 'a) \<Rightarrow> uuid \<Rightarrow> uuid \<Rightarrow> ShadowRunResultRecord \<Rightarrow> 'a :: zero" where
  "held amount tenant cid r =
     (if of_campaign tenant cid r \<and> rs_reservation_state r = Resv_ACTIVE then amount r else 0)"

definition reserved_total ::
  "(ShadowRunResultRecord \<Rightarrow> 'a) \<Rightarrow> uuid \<Rightarrow> uuid \<Rightarrow> cdb \<Rightarrow> 'a :: comm_monoid_add" where
  "reserved_total amount tenant cid d = sum_list (map (held amount tenant cid) (tbl_results d))"

definition campaign_money :: "ShadowCampaignRecord \<Rightarrow> bool" where
  "campaign_money c \<longleftrightarrow> on_grid (cc_cost_stop_threshold c) \<and> on_grid (cc_observed_cost c)
     \<and> on_grid (cc_possibly_billed_cost c) \<and> on_grid (cc_reserved_cost c)"

definition campaign_ok :: "ShadowCampaignRecord \<Rightarrow> bool" where
  "campaign_ok c \<longleftrightarrow> campaign_columns c \<and> campaign_checks c \<and> campaign_money c"

definition result_ok :: "ShadowRunResultRecord \<Rightarrow> bool" where
  "result_ok r \<longleftrightarrow> result_columns r \<and> result_checks r \<and> on_grid (rs_reserved_cost r)"

definition balanced :: "cdb \<Rightarrow> ShadowCampaignRecord \<Rightarrow> bool" where
  "balanced d c \<longleftrightarrow>
     cc_reserved_calls c = reserved_total rs_reserved_calls (cc_tenant_id c) (cc_id c) d
     \<and> cc_reserved_cost c = reserved_total rs_reserved_cost (cc_tenant_id c) (cc_id c) d"

definition ledger_inv :: "cdb \<Rightarrow> bool" where
  "ledger_inv d \<longleftrightarrow>
     distinct (map cc_id (tbl_campaigns d)) \<and> distinct (map rs_id (tbl_results d))
     \<and> (\<forall>c \<in> set (tbl_campaigns d). campaign_ok c \<and> balanced d c)
     \<and> (\<forall>r \<in> set (tbl_results d). result_ok r)"

section \<open>Rows\<close>

lemma sum_replace:
  fixes f :: "'a \<Rightarrow> 'b :: ab_group_add"
  assumes "distinct (map key xs)" and "r \<in> set xs" and "key r' = key r"
  shows "sum_list (map f (map (\<lambda>x. if key x = key r then r' else x) xs))
    = sum_list (map f xs) - f r + f r'"
  using assms
proof (induction xs)
  case (Cons x xs)
  show ?case
  proof (cases "x = r")
    case True
    with Cons.prems have "map (\<lambda>x. if key x = key r then r' else x) xs = xs"
      by (intro map_idI) (force simp: image_iff)
    with True show ?thesis by (simp add: algebra_simps del: map_map)
  next
    case False
    with Cons.prems have "key x \<noteq> key r" "r \<in> set xs" by auto
    with Cons False show ?thesis by (simp add: algebra_simps)
  qed
qed simp

lemma campaign_rowD:
  "campaign_row t cid d = Some c \<Longrightarrow>
     c \<in> set (tbl_campaigns d) \<and> cc_tenant_id c = t \<and> cc_id c = cid"
  by (auto simp: campaign_row_def find_Some_iff in_set_conv_nth)

lemma result_rowD:
  "result_row t cid rid d = Some r \<Longrightarrow>
     r \<in> set (tbl_results d) \<and> rs_tenant_id r = t \<and> rs_campaign_id r = cid \<and> rs_id r = rid"
  by (auto simp: result_row_def find_Some_iff in_set_conv_nth)

lemma locked_budget_records_Ok:
  "locked_budget_records clock t cid rid d = Ok (now, c, r) \<longleftrightarrow>
     clock = Some now \<and> campaign_row t cid d = Some c \<and> result_row t cid rid d = Some r"
  by (auto simp: locked_budget_records_def split: option.splits)

lemma assert_tenant_Ok [simp]: "assert_tenant scope t = Ok u \<longleftrightarrow> t = scope"
  by (auto simp: assert_tenant_def)

lemma assert_tenant_same [simp]: "assert_tenant scope scope = Ok ()"
  by simp

lemma locked_records_Ok:
  "locked_records scope clock l d = Ok (now, c, r) \<longleftrightarrow>
     rl_tenant_id l = scope \<and> clock = Some now
     \<and> campaign_row scope (rl_campaign_id l) d = Some c
     \<and> result_row scope (rl_campaign_id l) (rl_id l) d = Some r"
  by (auto simp: locked_records_def locked_budget_records_Ok)

lemma reserved_total_put:
  fixes amount :: "ShadowRunResultRecord \<Rightarrow> 'a :: ab_group_add"
  assumes "distinct (map rs_id (tbl_results d))" and "r \<in> set (tbl_results d)" and "rs_id r' = rs_id r"
  shows "reserved_total amount t cid (put_result r' d)
    = reserved_total amount t cid d - held amount t cid r + held amount t cid r'"
  using sum_replace [OF assms, of "held amount t cid"] assms(3)
  by (simp add: reserved_total_def put_result_def del: map_map)

lemma put_campaign_results [simp]:
  "tbl_results (put_campaign c d) = tbl_results d"
  "reserved_total amount t cid (put_campaign c d) = reserved_total amount t cid d"
  "tbl_campaigns (put_result r d) = tbl_campaigns d"
  by (simp_all add: put_campaign_def put_result_def reserved_total_def)

section \<open>Writing one campaign and one result\<close>

definition same_unit :: "ShadowRunResultRecord \<Rightarrow> ShadowRunResultRecord \<Rightarrow> bool" where
  "same_unit r r' \<longleftrightarrow> rs_id r' = rs_id r \<and> rs_tenant_id r' = rs_tenant_id r
     \<and> rs_campaign_id r' = rs_campaign_id r"

definition same_campaign :: "ShadowCampaignRecord \<Rightarrow> ShadowCampaignRecord \<Rightarrow> bool" where
  "same_campaign c c' \<longleftrightarrow> cc_id c' = cc_id c \<and> cc_tenant_id c' = cc_tenant_id c"

text \<open>The hold of a result on its own campaign.\<close>

definition held_here :: "(ShadowRunResultRecord \<Rightarrow> 'a) \<Rightarrow> ShadowRunResultRecord \<Rightarrow> 'a :: zero" where
  "held_here amount r = (if rs_reservation_state r = Resv_ACTIVE then amount r else 0)"

lemma held_eq: "held amount (rs_tenant_id r) (rs_campaign_id r) r = held_here amount r"
  by (simp add: held_def held_here_def of_campaign_def)

lemma held_elsewhere: "\<not> of_campaign t cid r \<Longrightarrow> held amount t cid r = 0"
  by (simp add: held_def)

lemma flush_ledger:
  assumes inv: "ledger_inv d"
    and c: "campaign_row t cid d = Some c" and r: "result_row t cid rid d = Some r"
    and flush: "flush_rows c' r' d = Ok d'"
    and keys: "same_campaign c c'" "same_unit r r'"
    and money: "campaign_money c'" "on_grid (rs_reserved_cost r')"
    and calls: "cc_reserved_calls c' - cc_reserved_calls c
      = held_here rs_reserved_calls r' - held_here rs_reserved_calls r"
    and cost: "cc_reserved_cost c' - cc_reserved_cost c
      = held_here rs_reserved_cost r' - held_here rs_reserved_cost r"
  shows "ledger_inv d'"
proof -
  note c_in = campaign_rowD [OF c] and r_in = result_rowD [OF r]
  from flush have d': "d' = put_result r' (put_campaign c' d)"
    and ok: "campaign_columns c'" "result_columns r'" "campaign_checks c'" "result_checks r'"
    by (auto simp: flush_rows_def split: if_splits)
  have dist: "distinct (map cc_id (tbl_campaigns d))" "distinct (map rs_id (tbl_results d))"
    using inv by (auto simp: ledger_inv_def)
  have id: "rs_id r' = rs_id r" "cc_id c' = cc_id c" "cc_tenant_id c' = t"
    and r'_of: "rs_tenant_id r' = t" "rs_campaign_id r' = cid" "cc_id c' = cid"
    using keys c_in r_in by (auto simp: same_unit_def same_campaign_def)
  have campaigns: "tbl_campaigns d' = map (\<lambda>x. if cc_id x = cc_id c then c' else x) (tbl_campaigns d)"
    by (simp add: d' put_campaign_def id)
  have results: "tbl_results d' = map (\<lambda>x. if rs_id x = rs_id r then r' else x) (tbl_results d)"
    by (simp add: d' put_result_def id put_campaign_def)
  have total: "reserved_total amount u v d'
      = reserved_total amount u v d - held amount u v r + held amount u v r'"
    for amount :: "ShadowRunResultRecord \<Rightarrow> 'a :: ab_group_add" and u v
    using reserved_total_put [of "put_campaign c' d" r r' amount u v] dist r_in id by (simp add: d')
  have "campaign_ok x \<and> balanced d' x" if x: "x \<in> set (tbl_campaigns d')" for x
  proof (cases "x = c'")
    case True
    have "balanced d c" "campaign_ok c" using inv c_in by (auto simp: ledger_inv_def)
    with True calls cost r_in r'_of id ok money c_in show ?thesis
      by (auto simp: balanced_def total campaign_ok_def held_eq [symmetric])
  next
    case False
    with x campaigns have x': "x \<in> set (tbl_campaigns d)" "cc_id x \<noteq> cc_id c" by (auto split: if_splits)
    then have "\<not> of_campaign (cc_tenant_id x) (cc_id x) r" "\<not> of_campaign (cc_tenant_id x) (cc_id x) r'"
      using r_in r'_of id by (auto simp: of_campaign_def)
    with x' inv show ?thesis by (simp add: balanced_def total held_elsewhere ledger_inv_def)
  qed
  moreover have "result_ok x" if "x \<in> set (tbl_results d')" for x
    using that inv ok money(2) by (auto simp: results result_ok_def ledger_inv_def split: if_splits)
  moreover have "map cc_id (tbl_campaigns d') = map cc_id (tbl_campaigns d)"
    "map rs_id (tbl_results d') = map rs_id (tbl_results d)"
    by (auto simp: campaigns results id o_def)
  ultimately show ?thesis using dist by (simp add: ledger_inv_def)
qed

section \<open>Operations on the ledger\<close>

lemma ledger_rows:
  assumes "ledger_inv d" and "campaign_row t cid d = Some c" and "result_row t cid rid d = Some r"
  shows "campaign_ok c" "result_ok r"
  using assms campaign_rowD result_rowD by (fastforce simp: ledger_inv_def)+

lemma flush_rows_columns:
  assumes "flush_rows c r d = Ok d'"
  shows "campaign_columns c" "result_columns r" "campaign_checks c" "result_checks r"
    and "d' = put_result r (put_campaign c d)"
  using assms by (auto simp: flush_rows_def split: if_splits)

text \<open>Sums of stored amounts are exact.\<close>

lemma money_add:
  assumes "on_grid x" "on_grid y" "money_column x" "money_column y"
  shows "dec_add x y = x + y" "dec_sub x y = x - y"
  using assms by (auto intro!: dec_add_grid dec_sub_grid simp: money_column_def)

lemma campaign_okD:
  assumes "campaign_ok c"
  shows "on_grid (cc_observed_cost c)" "on_grid (cc_possibly_billed_cost c)" "on_grid (cc_reserved_cost c)"
    and "money_column (cc_observed_cost c)" "money_column (cc_possibly_billed_cost c)"
    "money_column (cc_reserved_cost c)"
    and "0 \<le> cc_observed_cost c" "0 \<le> cc_possibly_billed_cost c" "0 \<le> cc_reserved_cost c"
    and "on_grid (cc_cost_stop_threshold c)" "money_column (cc_cost_stop_threshold c)"
    "0 < cc_cost_stop_threshold c"
  using assms
  by (auto simp: campaign_ok_def campaign_money_def campaign_columns_def campaign_checks_def)

lemma result_okD:
  assumes "result_ok r"
  shows "on_grid (rs_reserved_cost r)" "money_column (rs_reserved_cost r)" "0 \<le> rs_reserved_cost r"
  using assms by (auto simp: result_ok_def result_columns_def result_checks_def nonnegative_metrics_def)

lemma reservation_request_Ok:
  assumes "reservation_request conv c = Ok rq"
  shows "on_grid (rq_estimated_cost rq)" "0 \<le> rq_estimated_cost rq" "1 \<le> rq_provider_calls rq"
    and "rq_provider_calls rq * cc_max_runs c = cc_structural_ceiling c"
  using assms
  by (auto simp: reservation_request_def Let_def dvd_div_mult_self [symmetric] mod_eq_0_iff_dvd
      dest: ReservationRequest_new_Ok split: if_splits option.splits result.splits)

lemma receipt_new_Ok:
  "BudgetReservationReceipt_new a i s n x b = Ok rc \<Longrightarrow> br_allowed rc = a \<and> br_reserved_calls rc = n
     \<and> br_reserved_cost rc = x \<and> br_deferred rc = b \<and> br_stop_intent rc = i \<and> br_reason rc = s"
  by (auto simp: BudgetReservationReceipt_new_def split: if_splits)

text \<open>The three ways a reservation call returns.\<close>

lemma reserve_cases:
  assumes "reserve_run_budget scope conv clock d l = (Ok (rc, d'), l')"
  obtains (unchanged) "\<not> br_allowed rc" "d' = d" "l' = l" "br_reserved_calls rc = 0" "br_reserved_cost rc = 0"
  | (stopped) now c r intent reason where
      "clock = Some now" "campaign_row scope (rl_campaign_id l) d = Some c"
      "result_row scope (rl_campaign_id l) (rl_id l) d = Some r"
      "assert_active_lease r l now = Ok ()" "\<not> br_allowed rc" "cc_status c = Camp_RUNNING"
      "intent \<noteq> Intent_NONE" "br_stop_intent rc = intent"
      "rs_reservation_state r = Resv_NONE"
      "flush_rows (stop_for_budget intent (''Budget admission denied: '' @ reason) now c)
         (r\<lparr>rs_budget_violation := True, rs_version := rs_version r + 1, rs_updated_at := now\<rparr>) d
         = Ok d'" "br_reserved_calls rc = 0" "br_reserved_cost rc = 0"
  | (granted) now c r rq b where
      "clock = Some now" "campaign_row scope (rl_campaign_id l) d = Some c"
      "result_row scope (rl_campaign_id l) (rl_id l) d = Some r"
      "assert_active_lease r l now = Ok ()" "br_allowed rc" "cc_status c = Camp_RUNNING"
      "rs_reservation_state r = Resv_NONE" "reservation_request conv c = Ok rq"
      "campaign_budget c = Ok b" "ba_allowed (CampaignBudget_admit b rq)"
      "br_reserved_calls rc = rq_provider_calls rq" "br_reserved_cost rc = rq_estimated_cost rq"
      "flush_rows (fst (reserve_on_rows rq now c r)) (snd (reserve_on_rows rq now c r)) d = Ok d'"
      "l' = l\<lparr>rl_version := rs_version r + 1, rl_persisted_version := rs_version r + 1,
              rl_reservation_state := Resv_ACTIVE\<rparr>"
proof -
  from assms obtain now c r where rows: "rl_tenant_id l = scope" "clock = Some now"
    "campaign_row scope (rl_campaign_id l) d = Some c"
    "result_row scope (rl_campaign_id l) (rl_id l) d = Some r" "assert_active_lease r l now = Ok ()"
    by (auto simp: reserve_run_budget_def sbind_Ok_iff slift_def locked_budget_records_Ok)
  note rest = assms [unfolded reserve_run_budget_def, simplified locked_budget_records_def rows,
      simplified, simplified rows, simplified]
  show ?thesis
  proof (cases "cc_status c = Camp_RUNNING \<and> rs_reservation_state r = Resv_NONE")
    case False
    with rest have "\<not> br_allowed rc \<and> d' = d \<and> l' = l \<and> br_reserved_calls rc = 0 \<and> br_reserved_cost rc = 0"
      by (auto simp: slift_def dest!: receipt_new_Ok split: if_splits)
    with unchanged show ?thesis by blast
  next
    case running: True
    with rest obtain rq b where rq: "reservation_request conv c = Ok rq" and b: "campaign_budget c = Ok b"
      by (auto simp: sbind_Ok_iff slift_def)
    show ?thesis
    proof (cases "ba_allowed (CampaignBudget_admit b rq)")
      case True
      with rest running rq b have
        "flush_rows (fst (reserve_on_rows rq now c r)) (snd (reserve_on_rows rq now c r)) d = Ok d'"
        "l' = l\<lparr>rl_version := rs_version r + 1, rl_persisted_version := rs_version r + 1,
              rl_reservation_state := Resv_ACTIVE\<rparr>"
        "br_allowed rc" "br_reserved_calls rc = rq_provider_calls rq"
        "br_reserved_cost rc = rq_estimated_cost rq"
        by (auto simp: sbind_Ok_iff slift_def Let_def RunLease_accept_budget_fence_def
            dest!: receipt_new_Ok split: if_splits prod.splits)
      with granted [OF rows(2-5)] running rq b True show ?thesis by blast
    next
      case False
      from admit_denied_reason [OF False] obtain s where
        intent: "ba_stop_intent (CampaignBudget_admit b rq) \<noteq> Intent_NONE"
        and s: "ba_reason (CampaignBudget_admit b rq) = Some s" by auto
      from False rest running rq b s have "\<not> br_allowed rc \<and> br_reserved_calls rc = 0
        \<and> br_reserved_cost rc = 0 \<and> (d' = d \<and> l' = l
        \<or> br_stop_intent rc = ba_stop_intent (CampaignBudget_admit b rq)
          \<and> flush_rows (stop_for_budget (ba_stop_intent (CampaignBudget_admit b rq))
              (''Budget admission denied: '' @ s) now c)
            (r\<lparr>rs_budget_violation := True, rs_version := rs_version r + 1, rs_updated_at := now\<rparr>) d
            = Ok d')"
        by (auto simp: sbind_Ok_iff slift_def Let_def RunLease_accept_budget_fence_def
            dest!: receipt_new_Ok split: if_splits)
      with stopped [OF rows(2-5)] unchanged running intent show ?thesis by blast
    qed
  qed
qed

lemma reserve_inv:
  assumes inv: "ledger_inv d" and op: "reserve_run_budget scope conv clock d l = (Ok (rc, d'), l')"
  shows "ledger_inv d'"
  using op
proof (cases rule: reserve_cases)
  case unchanged
  with inv show ?thesis by simp
next
  case (stopped now c r intent reason)
  note rows = ledger_rows [OF inv stopped(2,3)]
  show ?thesis
    by (rule flush_ledger [OF inv stopped(2,3,10)])
      (use rows result_okD(1) in \<open>auto simp: same_campaign_def same_unit_def stop_for_budget_def
        held_here_def campaign_ok_def campaign_money_def\<close>)
next
  case (granted now c r rq b)
  note rows = ledger_rows [OF inv granted(2,3)]
  note rq = reservation_request_Ok [OF granted(8)]
  from flush_rows_columns(2) [OF granted(13)] have "money_column (rq_estimated_cost rq)"
    by (simp add: reserve_on_rows_def result_columns_def)
  with rows rq(1) have "dec_add (cc_reserved_cost c) (rq_estimated_cost rq)
      = cc_reserved_cost c + rq_estimated_cost rq"
    by (auto intro: money_add dest: campaign_okD)
  with rows rq(1) granted(7) show ?thesis
    by (intro flush_ledger [OF inv granted(2,3,13)])
      (auto simp: same_campaign_def same_unit_def reserve_on_rows_def held_here_def campaign_ok_def
        campaign_money_def)
qed

lemma settle_cases:
  assumes "settle_run_budget scope clock t cid rid src u d = Ok (rc, d')"
  obtains (duplicate) c r where
      "campaign_row t cid d = Some c" "result_row t cid rid d = Some r" "d' = d" "bt_duplicate rc"
      "rs_reservation_state r = Resv_SETTLED" "settlement_matches r (py_strip src) u"
  | (settled) now c r rq where
      "t = scope" "clock = Some now" "campaign_row t cid d = Some c"
      "result_row t cid rid d = Some r" "\<not> bt_duplicate rc" "rs_reservation_state r = Resv_ACTIVE"
      "rs_state r \<in> {Sched_SUBMITTED, Sched_COLLECTED, Sched_FAILED}"
      "rs_source_terminal_at r \<noteq> None" "is_hex_of 64 (py_strip src)"
      "ReservationRequest_new (rs_reserved_calls r) (DecFinite (rs_reserved_cost r)) = Ok rq"
      "rq_provider_calls rq \<le> cc_reserved_calls c" "rq_estimated_cost rq \<le> cc_reserved_cost c"
      "flush_rows ((stop_on_breach rq u (settle_campaign rq u c))\<lparr>cc_version := cc_version c + 1,
           cc_updated_at := now\<rparr>) (settle_result rq u (py_strip src) now r) d = Ok d'"
proof -
  have version: "cc_version (stop_on_breach rq u (settle_campaign rq u c)) = cc_version c" for rq c
    by (auto simp: stop_on_breach_def settle_campaign_def split: option.splits)
  from assms obtain now c r where rows: "t = scope" "clock = Some now" "campaign_row t cid d = Some c"
    "result_row t cid rid d = Some r" "is_hex_of 64 (py_strip src)"
    by (auto simp: settle_run_budget_def Let_def locked_budget_records_Ok split: if_splits)
  then have "locked_budget_records clock scope cid rid d = Ok (now, c, r)"
    by (simp add: locked_budget_records_Ok)
  note rest = assms [unfolded settle_run_budget_def, simplified rows(1) rows(5) this Let_def, simplified]
  show ?thesis
  proof (cases "rs_reservation_state r = Resv_SETTLED")
    case True
    with rest have "d' = d \<and> bt_duplicate rc \<and> settlement_matches r (py_strip src) u"
      by (auto simp: Let_def split: if_splits)
    with duplicate [OF rows(3,4)] True show ?thesis by blast
  next
    case False
    with rest have active: "\<not> bt_duplicate rc \<and> rs_reservation_state r = Resv_ACTIVE"
      "rs_state r \<in> {Sched_SUBMITTED, Sched_COLLECTED, Sched_FAILED}" "rs_source_terminal_at r \<noteq> None"
      by (auto simp: Let_def split: if_splits)
    from False rest obtain rq where
      "ReservationRequest_new (rs_reserved_calls r) (DecFinite (rs_reserved_cost r)) = Ok rq"
      "rq_provider_calls rq \<le> cc_reserved_calls c" "rq_estimated_cost rq \<le> cc_reserved_cost c"
      "flush_rows ((stop_on_breach rq u (settle_campaign rq u c))\<lparr>cc_version := cc_version c + 1,
           cc_updated_at := now\<rparr>) (settle_result rq u (py_strip src) now r) d = Ok d'"
      by (auto simp: Let_def version not_less split: if_splits)
    with settled [OF rows(1-4)] active rows(5) show ?thesis by blast
  qed
qed

text \<open>The request that a settlement rebuilds from the row is the amount the row holds.\<close>

lemma request_of_row:
  assumes "result_ok r" and "ReservationRequest_new (rs_reserved_calls r) (DecFinite (rs_reserved_cost r)) = Ok rq"
  shows "rq_provider_calls rq = rs_reserved_calls r" "rq_estimated_cost rq = rs_reserved_cost r"
proof -
  have "nonnegative_decimal (DecFinite (rs_reserved_cost r)) f = Ok (rs_reserved_cost r)" for f
    using result_okD [OF assms(1)] by (intro nonnegative_decimal_grid) (auto simp: money_column_def)
  with assms(2) show "rq_provider_calls rq = rs_reserved_calls r" "rq_estimated_cost rq = rs_reserved_cost r"
    by (auto simp: ReservationRequest_new_def split: if_splits)
qed

definition usage_money :: "SettlementUsage \<Rightarrow> bool" where
  "usage_money u \<longleftrightarrow> on_grid (su_observed_cost u) \<and> on_grid (su_possibly_billed_cost u)"

lemma stop_on_breach_ledger [simp]:
  "cc_id (stop_on_breach rq u c) = cc_id c" "cc_tenant_id (stop_on_breach rq u c) = cc_tenant_id c"
  "cc_reserved_calls (stop_on_breach rq u c) = cc_reserved_calls c"
  "cc_reserved_cost (stop_on_breach rq u c) = cc_reserved_cost c"
  "cc_observed_calls (stop_on_breach rq u c) = cc_observed_calls c"
  "cc_observed_cost (stop_on_breach rq u c) = cc_observed_cost c"
  "cc_possibly_billed_calls (stop_on_breach rq u c) = cc_possibly_billed_calls c"
  "cc_possibly_billed_cost (stop_on_breach rq u c) = cc_possibly_billed_cost c"
  "cc_cost_stop_threshold (stop_on_breach rq u c) = cc_cost_stop_threshold c"
  "cc_admission_ceiling (stop_on_breach rq u c) = cc_admission_ceiling c"
  "cc_structural_ceiling (stop_on_breach rq u c) = cc_structural_ceiling c"
  by (auto simp: stop_on_breach_def split: option.splits)

text \<open>The campaign after a settlement, in exact arithmetic.\<close>

lemma settled_amounts:
  assumes c: "campaign_ok c" and r: "result_ok r" and u: "usage_money u"
    and rq: "rq_provider_calls rq = rs_reserved_calls r" "rq_estimated_cost rq = rs_reserved_cost r"
    and flush: "flush_rows ((stop_on_breach rq u (settle_campaign rq u c))\<lparr>cc_version := v,
        cc_updated_at := now\<rparr>) (settle_result rq u digest now r) d = Ok d'"
  shows "cc_reserved_cost (settle_campaign rq u c) = cc_reserved_cost c - rs_reserved_cost r"
    and "cc_observed_cost (settle_campaign rq u c) = cc_observed_cost c + su_observed_cost u"
    and "cc_possibly_billed_cost (settle_campaign rq u c)
      = cc_possibly_billed_cost c + su_possibly_billed_cost u"
proof -
  from flush_rows_columns(2) [OF flush] have "money_column (su_observed_cost u)"
    "money_column (su_possibly_billed_cost u)"
    by (simp_all add: settle_result_def result_columns_def)
  with c r u rq show "cc_reserved_cost (settle_campaign rq u c) = cc_reserved_cost c - rs_reserved_cost r"
    and "cc_observed_cost (settle_campaign rq u c) = cc_observed_cost c + su_observed_cost u"
    and "cc_possibly_billed_cost (settle_campaign rq u c)
      = cc_possibly_billed_cost c + su_possibly_billed_cost u"
    by (auto simp: settle_campaign_def usage_money_def intro: money_add dest: campaign_okD result_okD)
qed

lemma settle_inv:
  assumes inv: "ledger_inv d" and op: "settle_run_budget scope clock t cid rid src u d = Ok (rc, d')"
    and u: "usage_money u"
  shows "ledger_inv d'"
  using op
proof (cases rule: settle_cases)
  case duplicate
  with inv show ?thesis by simp
next
  case (settled now c r rq)
  note rows = ledger_rows [OF inv settled(3,4)]
  note rq = request_of_row [OF rows(2) settled(10)]
  note amounts = settled_amounts [OF rows u rq settled(13)]
  from rows u amounts rq settled(6) show ?thesis
    by (intro flush_ledger [OF inv settled(3,4,13)])
      (auto simp: same_campaign_def same_unit_def settle_result_def held_here_def campaign_ok_def
        campaign_money_def usage_money_def result_ok_def settle_campaign_def)
qed

lemma release_cases:
  assumes "release_run_budget scope clock d l = (Ok (rc, d'), l')"
  obtains (duplicate) "d' = d" "l' = l" "bl_duplicate rc"
  | (released) now c r where
      "clock = Some now" "campaign_row scope (rl_campaign_id l) d = Some c"
      "result_row scope (rl_campaign_id l) (rl_id l) d = Some r"
      "assert_active_lease r l now = Ok ()" "\<not> bl_duplicate rc"
      "rs_reservation_state r = Resv_ACTIVE" "rs_submission_attempts r = 0"
      "flush_rows (fst (release_on_rows now c r)) (snd (release_on_rows now c r)) d = Ok d'"
proof -
  from assms obtain now c r where rows: "rl_tenant_id l = scope" "clock = Some now"
    "campaign_row scope (rl_campaign_id l) d = Some c"
    "result_row scope (rl_campaign_id l) (rl_id l) d = Some r" "assert_active_lease r l now = Ok ()"
    by (auto simp: release_run_budget_def sbind_Ok_iff slift_def locked_budget_records_Ok)
  note rest = assms [unfolded release_run_budget_def, simplified locked_budget_records_def rows,
      simplified, simplified rows, simplified]
  show ?thesis
  proof (cases "rs_reservation_state r = Resv_RELEASED")
    case True
    with rest have "d' = d \<and> l' = l \<and> bl_duplicate rc" by (auto simp: slift_def)
    with duplicate show ?thesis by blast
  next
    case False
    with rest have "\<not> bl_duplicate rc \<and> rs_reservation_state r = Resv_ACTIVE \<and> rs_submission_attempts r = 0
      \<and> flush_rows (fst (release_on_rows now c r)) (snd (release_on_rows now c r)) d = Ok d'"
      by (auto simp: sbind_Ok_iff slift_def RunLease_accept_budget_fence_def split: if_splits prod.splits)
    with released [OF rows(2-5)] show ?thesis by blast
  qed
qed

lemma release_inv:
  assumes inv: "ledger_inv d" and op: "release_run_budget scope clock d l = (Ok (rc, d'), l')"
  shows "ledger_inv d'"
  using op
proof (cases rule: release_cases)
  case duplicate
  with inv show ?thesis by simp
next
  case (released now c r)
  note rows = ledger_rows [OF inv released(2,3)]
  from rows have "dec_sub (cc_reserved_cost c) (rs_reserved_cost r) = cc_reserved_cost c - rs_reserved_cost r"
    by (auto intro: money_add dest: campaign_okD result_okD)
  with rows released(6) show ?thesis
    by (intro flush_ledger [OF inv released(2,3,8)])
      (auto simp: same_campaign_def same_unit_def release_on_rows_def held_here_def campaign_ok_def
        campaign_money_def result_ok_def)
qed

lemma fail_reservation_Ok:
  assumes "fail_reservation digest failure now c r = Ok (c1, r1)"
  shows "rs_reservation_state r = Resv_ACTIVE \<or> rs_reservation_state r = Resv_NONE \<and> c1 = c \<and> r1 = r"
    and "rs_reservation_state r1 \<noteq> Resv_ACTIVE"
    and "same_campaign c c1" "same_unit r r1" "rs_reserved_cost r1 = rs_reserved_cost r"
    and "cc_cost_stop_threshold c1 = cc_cost_stop_threshold c" "cc_observed_cost c1 = cc_observed_cost c"
  using assms
  by (auto simp: fail_reservation_def Let_def same_campaign_def same_unit_def split: if_splits)

lemma fail_reservation_amounts:
  assumes "fail_reservation digest failure now c r = Ok (c1, r1)" and "campaign_ok c" and "result_ok r"
  shows "cc_reserved_calls c1 = cc_reserved_calls c - held_here rs_reserved_calls r"
    and "cc_reserved_cost c1 = cc_reserved_cost c - held_here rs_reserved_cost r"
    and "on_grid (cc_possibly_billed_cost c1)"
    and "cc_possibly_billed_calls c1 = cc_possibly_billed_calls c
      + (if rf_possibly_billed failure then held_here rs_reserved_calls r else 0)"
    and "cc_possibly_billed_cost c1 = cc_possibly_billed_cost c
      + (if rf_possibly_billed failure then held_here rs_reserved_cost r else 0)"
proof -
  note exact = money_add [OF campaign_okD(3) [OF assms(2)] result_okD(1) [OF assms(3)]
      campaign_okD(6) [OF assms(2)] result_okD(2) [OF assms(3)]]
    money_add [OF campaign_okD(2) [OF assms(2)] result_okD(1) [OF assms(3)]
      campaign_okD(5) [OF assms(2)] result_okD(2) [OF assms(3)]]
  show "cc_reserved_calls c1 = cc_reserved_calls c - held_here rs_reserved_calls r"
    "cc_reserved_cost c1 = cc_reserved_cost c - held_here rs_reserved_cost r"
    "cc_possibly_billed_calls c1 = cc_possibly_billed_calls c
      + (if rf_possibly_billed failure then held_here rs_reserved_calls r else 0)"
    "cc_possibly_billed_cost c1 = cc_possibly_billed_cost c
      + (if rf_possibly_billed failure then held_here rs_reserved_cost r else 0)"
    using assms(1) by (auto simp: fail_reservation_def held_here_def Let_def exact split: if_splits)
  then show "on_grid (cc_possibly_billed_cost c1)"
    using assms(2,3) by (auto simp: held_here_def dest: campaign_okD result_okD)
qed

lemma mark_failure_cases:
  assumes "mark_failure scope digest clock l failure d = Ok (rc, d')"
  obtains (duplicate) "d' = d" "fr_duplicate rc"
  | (failed) now c r c1 r1 where
      "clock = Some now" "campaign_row scope (rl_campaign_id l) d = Some c"
      "result_row scope (rl_campaign_id l) (rl_id l) d = Some r" "\<not> fr_duplicate rc"
      "rs_lease_owner r = Some (rl_lease_owner l)" "rs_version r = rl_persisted_version l"
      "fail_reservation digest failure now c r = Ok (c1, r1)"
      "flush_rows
         (c1\<lparr>cc_failed_count := cc_failed_count c1 + 1, cc_version := cc_version c1 + 1,
             cc_updated_at := now\<rparr>)
         (r1\<lparr>rs_state := Sched_FAILED, rs_lease_owner := None, rs_lease_expires_at := None,
             rs_error_class := Some (rf_error_class failure),
             rs_error_code := Some (rf_error_code failure),
             rs_failed_phase := Some (rf_failed_phase failure),
             rs_error_signal_flags := [rf_error_code failure],
             rs_version := rs_version r1 + 1, rs_updated_at := now\<rparr>) d = Ok d'"
      "case rs_lease_expires_at r of None \<Rightarrow> False | Some e \<Rightarrow> now < e"
proof -
  from assms obtain now c r where lock: "locked_records scope clock l d = Ok (now, c, r)"
    by (auto simp: mark_failure_def)
  then have rows: "clock = Some now" "campaign_row scope (rl_campaign_id l) d = Some c"
    "result_row scope (rl_campaign_id l) (rl_id l) d = Some r" by (auto simp: locked_records_Ok)
  note rest = assms [unfolded mark_failure_def, simplified lock, simplified]
  show ?thesis
  proof (cases "rs_state r = Sched_FAILED")
    case True
    with rest duplicate show ?thesis by auto
  next
    case False
    with rest obtain c1 r1 where "fail_reservation digest failure now c r = Ok (c1, r1)"
      by (auto split: if_splits)
    with False rest failed [OF rows, of c1 r1] show ?thesis
      by (cases "rs_lease_expires_at r") (auto split: if_splits)
  qed
qed

lemma mark_failure_inv:
  assumes inv: "ledger_inv d" and op: "mark_failure scope digest clock l failure d = Ok (rc, d')"
  shows "ledger_inv d'"
  using op
proof (cases rule: mark_failure_cases)
  case duplicate
  with inv show ?thesis by simp
next
  case (failed now c r c1 r1)
  note rows = ledger_rows [OF inv failed(2,3)]
  note fail = fail_reservation_Ok [OF failed(7)] and amounts = fail_reservation_amounts [OF failed(7) rows]
  have "on_grid (cc_reserved_cost c1)" using amounts(2) rows
    by (auto simp: held_here_def dest: campaign_okD result_okD)
  with rows fail amounts show ?thesis
    by (intro flush_ledger [OF inv failed(2,3,8)])
      (auto simp: same_campaign_def same_unit_def held_here_def campaign_money_def campaign_ok_def
        dest: result_okD)
qed

section \<open>Operations beside the ledger\<close>

text \<open>
  Claims, renewals, attempts, bindings, skips and lifecycle changes rewrite rows one by one and
  leave the reservation columns alone.
\<close>

definition reservation_kept :: "ShadowRunResultRecord \<Rightarrow> ShadowRunResultRecord \<Rightarrow> bool" where
  "reservation_kept r r' \<longleftrightarrow> same_unit r r' \<and> rs_reservation_state r' = rs_reservation_state r
     \<and> rs_reserved_calls r' = rs_reserved_calls r \<and> rs_reserved_cost r' = rs_reserved_cost r"

definition totals_kept :: "ShadowCampaignRecord \<Rightarrow> ShadowCampaignRecord \<Rightarrow> bool" where
  "totals_kept c c' \<longleftrightarrow> same_campaign c c'
     \<and> cc_reserved_calls c' = cc_reserved_calls c \<and> cc_reserved_cost c' = cc_reserved_cost c
     \<and> cc_observed_calls c' = cc_observed_calls c \<and> cc_observed_cost c' = cc_observed_cost c
     \<and> cc_possibly_billed_calls c' = cc_possibly_billed_calls c
     \<and> cc_possibly_billed_cost c' = cc_possibly_billed_cost c
     \<and> cc_cost_stop_threshold c' = cc_cost_stop_threshold c
     \<and> cc_admission_ceiling c' = cc_admission_ceiling c
     \<and> cc_structural_ceiling c' = cc_structural_ceiling c \<and> cc_max_runs c' = cc_max_runs c"

lemma kept_refl [simp]: "reservation_kept r r" "totals_kept c c"
  by (simp_all add: reservation_kept_def totals_kept_def same_unit_def same_campaign_def)

lemma held_kept: "reservation_kept r r' \<Longrightarrow> held rs_reserved_calls t cid r' = held rs_reserved_calls t cid r"
  "reservation_kept r r' \<Longrightarrow> held rs_reserved_cost t cid r' = held rs_reserved_cost t cid r"
  by (simp_all add: reservation_kept_def same_unit_def held_def of_campaign_def)

definition rows_kept :: "cdb \<Rightarrow> cdb \<Rightarrow> bool" where
  "rows_kept d d' \<longleftrightarrow>
     list_all2 (\<lambda>c c'. totals_kept c c' \<and> (c' = c \<or> campaign_columns c' \<and> campaign_checks c'))
       (tbl_campaigns d) (tbl_campaigns d')
     \<and> list_all2 (\<lambda>r r'. reservation_kept r r' \<and> (r' = r \<or> result_columns r' \<and> result_checks r'))
         (tbl_results d) (tbl_results d')"

lemma list_all2_map_eq:
  "list_all2 P xs ys \<Longrightarrow> (\<And>x y. P x y \<Longrightarrow> f y = f x) \<Longrightarrow> map f ys = map f xs"
  by (induction rule: list_all2_induct) auto

lemma list_all2_set2: "list_all2 P xs ys \<Longrightarrow> y \<in> set ys \<Longrightarrow> \<exists>x \<in> set xs. P x y"
  by (induction rule: list_all2_induct) auto

lemma rows_kept_totals:
  assumes "rows_kept d d'"
  shows "reserved_total rs_reserved_calls t cid d' = reserved_total rs_reserved_calls t cid d"
    "reserved_total rs_reserved_cost t cid d' = reserved_total rs_reserved_cost t cid d"
    "map rs_id (tbl_results d') = map rs_id (tbl_results d)"
    "map cc_id (tbl_campaigns d') = map cc_id (tbl_campaigns d)"
proof -
  have r: "list_all2 reservation_kept (tbl_results d) (tbl_results d')"
    and c: "list_all2 totals_kept (tbl_campaigns d) (tbl_campaigns d')"
    using assms by (auto simp: rows_kept_def elim: list_all2_mono)
  show "reserved_total rs_reserved_calls t cid d' = reserved_total rs_reserved_calls t cid d"
    unfolding reserved_total_def by (simp only: list_all2_map_eq [OF r held_kept(1)])
  show "reserved_total rs_reserved_cost t cid d' = reserved_total rs_reserved_cost t cid d"
    unfolding reserved_total_def by (simp only: list_all2_map_eq [OF r held_kept(2)])
  show "map rs_id (tbl_results d') = map rs_id (tbl_results d)"
    by (rule list_all2_map_eq [OF r]) (simp add: reservation_kept_def same_unit_def)
  show "map cc_id (tbl_campaigns d') = map cc_id (tbl_campaigns d)"
    by (rule list_all2_map_eq [OF c]) (simp add: totals_kept_def same_campaign_def)
qed

lemma rows_kept_inv:
  assumes inv: "ledger_inv d" and kept: "rows_kept d d'"
  shows "ledger_inv d'"
proof -
  note totals = rows_kept_totals [OF kept]
  have "campaign_ok c' \<and> balanced d' c'" if "c' \<in> set (tbl_campaigns d')" for c'
  proof -
    from that kept obtain c where "c \<in> set (tbl_campaigns d)" "totals_kept c c'"
      "c' = c \<or> campaign_columns c' \<and> campaign_checks c'"
      by (auto simp: rows_kept_def dest: list_all2_set2)
    with inv totals show ?thesis
      by (auto simp: ledger_inv_def totals_kept_def same_campaign_def campaign_ok_def balanced_def
          campaign_money_def)
  qed
  moreover have "result_ok r'" if "r' \<in> set (tbl_results d')" for r'
  proof -
    from that kept obtain r where "r \<in> set (tbl_results d)" "reservation_kept r r'"
      "r' = r \<or> result_columns r' \<and> result_checks r'"
      by (auto simp: rows_kept_def dest: list_all2_set2)
    with inv show ?thesis by (auto simp: ledger_inv_def reservation_kept_def result_ok_def)
  qed
  ultimately show ?thesis using inv totals by (simp add: ledger_inv_def)
qed

lemma same_key: "distinct (map key xs) \<Longrightarrow> x \<in> set xs \<Longrightarrow> y \<in> set xs \<Longrightarrow> key x = key y \<Longrightarrow> x = y"
  by (auto simp: distinct_map dest: inj_onD)

lemma list_all2_map_self: "list_all2 P xs (map f xs) \<longleftrightarrow> (\<forall>x \<in> set xs. P x (f x))"
  by (simp add: list_all2_map2 list_all2_same)

lemma put_result_kept:
  assumes inv: "ledger_inv d" and r: "r \<in> set (tbl_results d)" and kept: "reservation_kept r r'"
    and ok: "result_columns r'" "result_checks r'"
  shows "rows_kept d (put_result r' d)"
proof -
  have id: "rs_id r' = rs_id r" using kept by (simp add: reservation_kept_def same_unit_def)
  have "x = r" if "x \<in> set (tbl_results d)" "rs_id x = rs_id r" for x
    using inv r that by (auto simp: ledger_inv_def intro: same_key)
  with kept ok id show ?thesis
    by (auto simp: rows_kept_def put_result_def list_all2_map_self list_all2_same)
qed

lemma put_campaign_kept:
  assumes inv: "ledger_inv d" and c: "c \<in> set (tbl_campaigns d)" and kept: "totals_kept c c'"
    and ok: "campaign_columns c'" "campaign_checks c'"
  shows "rows_kept d (put_campaign c' d)"
proof -
  have id: "cc_id c' = cc_id c" using kept by (simp add: totals_kept_def same_campaign_def)
  have "x = c" if "x \<in> set (tbl_campaigns d)" "cc_id x = cc_id c" for x
    using inv c that by (auto simp: ledger_inv_def intro: same_key)
  with kept ok id show ?thesis
    by (auto simp: rows_kept_def put_campaign_def list_all2_map_self list_all2_same)
qed

lemma flush_kept:
  assumes inv: "ledger_inv d" and rows: "campaign_row t cid d = Some c" "result_row t cid rid d = Some r"
    and flush: "flush_rows c' r' d = Ok d'" and kept: "totals_kept c c'" "reservation_kept r r'"
  shows "rows_kept d d'"
proof -
  note cols = flush_rows_columns [OF flush]
  have "rows_kept d (put_campaign c' d)"
    using campaign_rowD [OF rows(1)] by (intro put_campaign_kept [OF inv _ kept(1)] cols) auto
  moreover from rows_kept_inv [OF inv this] have "rows_kept (put_campaign c' d) d'"
    unfolding cols(5) using result_rowD [OF rows(2)] by (intro put_result_kept [OF _ _ kept(2)] cols) auto
  ultimately show ?thesis
    by (auto simp: rows_kept_def cols(5) put_campaign_def put_result_def list_all2_map_self list_all2_same)
qed

lemma first_by_in: "first_by key xs = Some x \<Longrightarrow> x \<in> set xs"
  by (induction xs arbitrary: x) (auto split: option.splits if_splits)

lemma claim_next_result_cases:
  assumes "claim_next_result scope clock t cid w dur d = Ok (x, d')"
  obtains (none) "x = None" "d' = d"
  | (claimed) now c r where
      "t = scope" "clock = Some now" "campaign_row t cid d = Some c"
      "cc_status c \<in> {Camp_RUNNING, Camp_STOPPING}" "r \<in> set (tbl_results d)" "of_campaign t cid r"
      "claimable (cc_status c) now r"
      "int (length (filter (active_unit now) (filter (of_campaign t cid) (tbl_results d))))
         < cc_max_concurrency c"
      "write_result (claimed_row w (now + dur) now r) d = Ok d'"
      "x = Some (lease_of_row (claimed_row w (now + dur) now r) w (now + dur))"
      "is_ok (RunLease_new (lease_of_row (claimed_row w (now + dur) now r) w (now + dur)))"
proof -
  from assms obtain now where clock: "t = scope" "clock = Some now"
    by (auto simp: claim_next_result_def split: option.splits)
  note rest = assms [unfolded claim_next_result_def, simplified clock, simplified]
  show ?thesis
  proof (cases "x = None")
    case True
    with rest have "d' = d" by (auto simp: Let_def split: option.splits if_splits)
    with True none show ?thesis by blast
  next
    case False
    with rest obtain c r where "campaign_row t cid d = Some c"
      "cc_status c \<in> {Camp_RUNNING, Camp_STOPPING}"
      and r: "first_by rs_schedule_ordinal (filter (claimable (cc_status c) now)
        (filter (of_campaign t cid) (tbl_results d))) = Some r"
      and "int (length (filter (active_unit now) (filter (of_campaign t cid) (tbl_results d))))
         < cc_max_concurrency c"
      "write_result (claimed_row w (now + dur) now r) d = Ok d'"
      "x = Some (lease_of_row (claimed_row w (now + dur) now r) w (now + dur))"
      "is_ok (RunLease_new (lease_of_row (claimed_row w (now + dur) now r) w (now + dur)))"
      by (auto simp: Let_def RunLease_new_def clock split: option.splits if_splits)
    with claimed [OF clock, of c r] first_by_in [OF r] show ?thesis by auto
  qed
qed

lemma claim_next_kept:
  assumes inv: "ledger_inv d" and op: "claim_next_result scope clock t cid w dur d = Ok (x, d')"
  shows "rows_kept d d'"
  using op
proof (cases rule: claim_next_result_cases)
  case none
  then show ?thesis by (simp add: rows_kept_def list_all2_same)
next
  case (claimed now c r)
  from claimed(9) have w: "result_columns (claimed_row w (now + dur) now r)"
    "result_checks (claimed_row w (now + dur) now r)" "d' = put_result (claimed_row w (now + dur) now r) d"
    by (auto simp: write_result_def split: if_splits)
  show ?thesis
    unfolding w(3) using w(1,2) claimed(5)
    by (intro put_result_kept [OF inv]) (auto simp: reservation_kept_def same_unit_def claimed_row_def)
qed

lemma renew_kept:
  assumes "renew_result_lease scope clock dur d l = (Ok (x, d'), l')"
  shows "rows_kept d d'"
proof -
  from assms obtain now l1 where "list_all (\<lambda>r. result_columns (renewed_row l1 now r))
      (filter Q (tbl_results d))" "list_all (\<lambda>r. result_checks (renewed_row l1 now r))
      (filter Q (tbl_results d))"
    "d' = d\<lparr>tbl_results := map (\<lambda>r. if Q r then renewed_row l1 now r else r) (tbl_results d)\<rparr>"
    if "Q = (\<lambda>r. of_campaign (rl_tenant_id l1) (rl_campaign_id l1) r \<and> rs_id r = rl_id l1
                  \<and> leasable (rs_state r) \<and> rs_lease_owner r = Some (rl_lease_owner l1)
                  \<and> rs_version r = rl_persisted_version l1
                  \<and> (case rs_lease_expires_at r of None \<Rightarrow> False | Some e \<Rightarrow> now < e))" for Q
    by (auto simp: renew_result_lease_def sbind_Ok_iff slift_def Let_def split: if_splits)
  then show ?thesis
    by (auto simp: rows_kept_def list_all2_map_self list_all2_same reservation_kept_def same_unit_def
        renewed_row_def list_all_iff)
qed

end
