(* ===== verification/Campaign_Steps.thy ===== *)
theory Campaign_Steps
  imports Campaign_Ledger
begin

text \<open>
  The transactions that change the campaign tables as one step relation, the ledger invariant
  along it, and the abstract ledger that it implements: a campaign has spent amounts and, per
  result, at most one reservation; a transaction reserves within the ceilings, settles,
  releases, or leaves the ledger as it is.
\<close>

section \<open>Operations that keep the ledger\<close>

lemma prepare_conversation_kept:
  assumes inv: "ledger_inv d" and op: "prepare_conversation_attempt scope clock d l = (Ok (x, d'), l')"
  shows "rows_kept d d'"
proof -
  from op obtain now c r where "locked_records scope clock l d = Ok (now, c, r)"
    and flush: "flush_rows c (r\<lparr>rs_conversation_attempts := rs_conversation_attempts r + 1,
                     rs_version := rs_version r + 1, rs_updated_at := now\<rparr>) d = Ok d'"
    by (auto simp: prepare_conversation_attempt_def sbind_Ok_iff slift_def split: if_splits)
  then show ?thesis
    by (intro flush_kept [OF inv _ _ flush])
      (auto simp: locked_records_Ok reservation_kept_def same_unit_def)
qed

lemma prepare_submission_kept:
  assumes inv: "ledger_inv d" and op: "prepare_submission_attempt scope clock d l = (Ok (x, d'), l')"
  shows "rows_kept d d'"
proof -
  from op obtain now c r where "locked_records scope clock l d = Ok (now, c, r)"
    and flush: "flush_rows c (r\<lparr>rs_submission_attempts := rs_submission_attempts r + 1,
                     rs_version := rs_version r + 1, rs_updated_at := now\<rparr>) d = Ok d'"
    by (auto simp: prepare_submission_attempt_def sbind_Ok_iff slift_def split: if_splits)
  then show ?thesis
    by (intro flush_kept [OF inv _ _ flush])
      (auto simp: locked_records_Ok reservation_kept_def same_unit_def)
qed

lemma bind_conversation_kept:
  assumes inv: "ledger_inv d" and op: "bind_conversation scope sha clock v d l = (Ok (x, d'), l')"
  shows "rows_kept d d'"
proof (cases "d' = d")
  case False
  from op obtain now c r where lock: "locked_records scope clock l d = Ok (now, c, r)"
    by (auto simp: bind_conversation_def sbind_Ok_iff slift_def)
  have flush: "flush_rows c (r\<lparr>rs_conversation_id := Some v, rs_state := Sched_CONVERSATION_BOUND,
             rs_version := rs_version r + 1, rs_updated_at := now\<rparr>) d = Ok d'"
    using op False
    by (auto simp: bind_conversation_def lock sbind_Ok_iff slift_def Let_def
        split: if_splits option.splits)
  show ?thesis
    using lock by (intro flush_kept [OF inv _ _ flush])
      (auto simp: locked_records_Ok reservation_kept_def same_unit_def)
qed (simp add: rows_kept_def list_all2_same)

lemma bind_submission_cases:
  assumes "bind_submission scope sha clock receipt l d = Ok (x, d')"
  obtains (duplicate) "d' = d" "cs_duplicate x"
  | (bound) now c r where
      "locked_records scope clock l d = Ok (now, c, r)" "\<not> cs_duplicate x"
      "assert_active_lease r l now = Ok ()" "rs_reservation_state r = Resv_ACTIVE"
      "rs_state r = Sched_CONVERSATION_BOUND"
      "assert_authoritative_receipt sha c r receipt d = Ok ()"
      "cc_submitted_count c < cc_max_runs c"
      "flush_rows
         (c\<lparr>cc_submitted_count := cc_submitted_count c + 1, cc_version := cc_version c + 1,
            cc_updated_at := now\<rparr>)
         (r\<lparr>rs_search_run_id := Some (sb_search_run_id receipt), rs_state := Sched_SUBMITTED,
            rs_lease_owner := None, rs_lease_expires_at := None, rs_version := rs_version r + 1,
            rs_updated_at := now\<rparr>) d = Ok d'"
proof -
  from assms obtain now c r where lock: "locked_records scope clock l d = Ok (now, c, r)"
    by (auto simp: bind_submission_def)
  note rest = assms [unfolded bind_submission_def, simplified lock, simplified]
  show ?thesis
  proof (cases "rs_search_run_id r")
    case (Some b)
    with rest have "d' = d \<and> cs_duplicate x" by (auto split: if_splits)
    with duplicate show ?thesis by blast
  next
    case None
    with rest bound [OF lock] show ?thesis
      by (auto simp: assert_active_reservation_def split: if_splits)
  qed
qed

lemma bind_submission_kept:
  assumes inv: "ledger_inv d" and op: "bind_submission scope sha clock receipt l d = Ok (x, d')"
  shows "rows_kept d d'"
  using op
proof (cases rule: bind_submission_cases)
  case duplicate
  then show ?thesis by (simp add: rows_kept_def list_all2_same)
next
  case (bound now c r)
  then show ?thesis
    by (intro flush_kept [OF inv _ _ bound(8)])
      (auto simp: locked_records_Ok reservation_kept_def same_unit_def totals_kept_def same_campaign_def)
qed

lemma skip_pending_kept:
  assumes inv: "ledger_inv d" and op: "skip_pending scope clock t cid reason d = Ok (n, d')"
  shows "rows_kept d d'"
proof -
  from op obtain now c where c: "campaign_row t cid d = Some c"
    by (auto simp: skip_pending_def Let_def split: if_splits option.splits)
  let ?P = "\<lambda>r. of_campaign t cid r \<and> rs_state r = Sched_PENDING"
  obtain c' s now where d': "d' = put_campaign c' (d\<lparr>tbl_results := map (\<lambda>r. if ?P r then skip_row s now r else r)
      (tbl_results d)\<rparr>)" and kept: "totals_kept c c'" "campaign_columns c'" "campaign_checks c'"
    and ok: "\<forall>r \<in> set (tbl_results d). ?P r \<longrightarrow>
      result_columns (skip_row s now r) \<and> result_checks (skip_row s now r)"
    using op c
    by (auto simp: skip_pending_def Let_def list_all_iff totals_kept_def same_campaign_def
        split: if_splits option.splits)
  have "rows_kept d (d\<lparr>tbl_results := map (\<lambda>r. if ?P r then skip_row s now r else r) (tbl_results d)\<rparr>)"
    using ok by (auto simp: rows_kept_def list_all2_map_self list_all2_same reservation_kept_def
        same_unit_def skip_row_def)
  moreover have "rows_kept d (put_campaign c' d)"
    using campaign_rowD [OF c] by (intro put_campaign_kept [OF inv _ kept]) auto
  ultimately show ?thesis
    by (auto simp: rows_kept_def d' put_campaign_def list_all2_map_self list_all2_same)
qed

lemma save_lifecycle_kept:
  assumes "save_lifecycle scope now x d = Ok (x', d')"
  shows "rows_kept d d'"
  using assms
  by (auto simp: save_lifecycle_def Let_def rows_kept_def list_all2_map_self list_all2_same list_all_iff
      totals_kept_def same_campaign_def lifecycle_columns_def split: if_splits)

lemma rows_kept_refl [simp]: "rows_kept d d"
  by (simp add: rows_kept_def list_all2_same)

lemma lifecycle_mutation_cases:
  assumes "lifecycle_mutation t user cid mutate now d = Ok (x, d')"
  obtains (absent) "x = None" "d' = d"
  | (saved) a b z where "get_for_update t t cid d = Ok (Some a)" "mutate a = Ok b"
      "save_lifecycle t now b d = Ok (z, d')" "x = Some z"
      "\<forall>u. user = Some u \<longrightarrow> cl_created_by_user_id a = u"
proof -
  from assms obtain found where found: "get_for_update t t cid d = Ok found"
    by (auto simp: lifecycle_mutation_def)
  show ?thesis
  proof (cases found)
    case None
    with assms found absent show ?thesis by (simp add: lifecycle_mutation_def)
  next
    case (Some a)
    with assms found absent saved [of a] show ?thesis
      by (cases user) (auto simp: lifecycle_mutation_def split: if_splits)
  qed
qed

lemma lifecycle_mutation_kept:
  assumes "lifecycle_mutation t user cid mutate now d = Ok (x, d')"
  shows "rows_kept d d'"
  using assms by (cases rule: lifecycle_mutation_cases) (auto intro: save_lifecycle_kept)

section \<open>Transactions\<close>

text \<open>
  One committed transaction. A settlement is called with a usage that the constructor built;
  \<open>others\<close> changes the tables of other components.
\<close>

inductive ledger_txn :: "cdb \<Rightarrow> cdb \<Rightarrow> bool" where
  reserve: "in_uow (reserve_run_budget scope conv clock) (l, d) = (Ok rc, (l', d')) \<Longrightarrow> ledger_txn d d'"
| settle: "settle_run_budget scope clock t cid rid src u d = Ok (st, d') \<Longrightarrow>
     SettlementUsage_new n p q oc m pc = Ok u \<Longrightarrow> ledger_txn d d'"
| release: "in_uow (release_run_budget scope clock) (l, d) = (Ok rl, (l', d')) \<Longrightarrow> ledger_txn d d'"
| failure: "mark_failure scope digest clock l flr d = Ok (fr, d') \<Longrightarrow> ledger_txn d d'"

inductive scheduling_txn :: "cdb \<Rightarrow> cdb \<Rightarrow> bool" where
  claim: "claim_next clock t cid w dur d = Ok (x, d') \<Longrightarrow> scheduling_txn d d'"
| renew: "in_uow (renew_result_lease scope clock dur) (l, d) = (Ok u, (l', d')) \<Longrightarrow> scheduling_txn d d'"
| prepare_conversation:
    "in_uow (prepare_conversation_attempt scope clock) (l, d) = (Ok u, (l', d')) \<Longrightarrow> scheduling_txn d d'"
| bind_conversation:
    "in_uow (bind_conversation scope sha clock v) (l, d) = (Ok u, (l', d')) \<Longrightarrow> scheduling_txn d d'"
| prepare_submission:
    "in_uow (prepare_submission_attempt scope clock) (l, d) = (Ok u, (l', d')) \<Longrightarrow> scheduling_txn d d'"
| bind_submission: "bind_submission scope sha clock receipt l d = Ok (y, d') \<Longrightarrow> scheduling_txn d d'"
| skip: "skip_pending scope clock t cid reason d = Ok (n, d') \<Longrightarrow> scheduling_txn d d'"
| lifecycle: "lifecycle_mutation t user cid mutate now d = Ok (z, d') \<Longrightarrow>
     \<forall>a b. mutate a = Ok b \<longrightarrow> campaign_step a b \<Longrightarrow> scheduling_txn d d'"
| others: "scheduling_txn d (d\<lparr>tbl_conversations := vs, tbl_messages := ms, tbl_run_bindings := bs\<rparr>)"

definition campaign_txn :: "cdb \<Rightarrow> cdb \<Rightarrow> bool" where
  "campaign_txn d d' \<longleftrightarrow> ledger_txn d d' \<or> scheduling_txn d d'"

lemma in_uow_Ok:
  "in_uow m (l, d) = (Ok x, (l', d')) \<longleftrightarrow> m d l = (Ok (x, d'), l')"
  by (auto simp: in_uow_def split: prod.splits result.splits)

lemma scheduling_txn_kept:
  assumes "scheduling_txn d d'" and "ledger_inv d"
  shows "rows_kept d d'"
  using assms(1)
proof cases
  case (claim clock t cid w dur x)
  then have "claim_next_result t clock t cid (py_strip w) dur d = Ok (x, d')"
    by (auto simp: claim_next_def Let_def split: if_splits)
  with assms(2) show ?thesis by (rule claim_next_kept)
next
  case (others vs ms bs)
  then show ?thesis by (simp add: rows_kept_def list_all2_same)
qed (use assms(2) in \<open>auto simp: in_uow_Ok intro: renew_kept prepare_conversation_kept
    bind_conversation_kept prepare_submission_kept bind_submission_kept skip_pending_kept
    lifecycle_mutation_kept\<close>)

lemma campaign_txn_inv:
  assumes "campaign_txn d d'" and "ledger_inv d"
  shows "ledger_inv d'"
proof (cases "scheduling_txn d d'")
  case True
  with assms(2) show ?thesis by (blast intro: rows_kept_inv scheduling_txn_kept)
next
  case False
  with assms(1) have "ledger_txn d d'" by (simp add: campaign_txn_def)
  then show ?thesis
  proof cases
    case (settle scope clock t cid rid src u st n p q oc m pc)
    then have "usage_money u" by (auto simp: usage_money_def dest: SettlementUsage_new_Ok)
    with assms(2) settle(1) show ?thesis by (rule settle_inv)
  qed (use assms(2) in \<open>auto simp: in_uow_Ok intro: reserve_inv release_inv mark_failure_inv\<close>)
qed

lemma campaign_txns_inv: "campaign_txn\<^sup>*\<^sup>* d d' \<Longrightarrow> ledger_inv d \<Longrightarrow> ledger_inv d'"
  by (induction rule: rtranclp_induct) (auto intro: campaign_txn_inv)

end
