(* ===== verification/Campaign_Refinement.thy ===== *)
theory Campaign_Refinement
  imports Campaign_Steps "HOL-Library.Multiset"
begin

text \<open>
  The abstract budget of a campaign and the refinement of the repository's transactions to it.
  Abstractly a campaign has spent calls and money (observed and possibly billed) and a multiset
  of open reservations; a move opens a reservation that fits under the limits, closes one at
  some charge, or changes nothing. The concrete ledger keeps running totals instead of the
  multiset; \<open>ledger_inv\<close> is the relation between the two.
\<close>

section \<open>The abstract ledger\<close>

record abs_ledger =
  al_spent_calls :: int
  al_spent_cost :: rat
  al_open :: "(uuid \<times> int \<times> rat) multiset"

definition open_calls :: "(uuid \<times> int \<times> rat) multiset \<Rightarrow> int" where
  "open_calls m = sum_mset (image_mset (\<lambda>(_, n, _). n) m)"

definition open_cost :: "(uuid \<times> int \<times> rat) multiset \<Rightarrow> rat" where
  "open_cost m = sum_mset (image_mset (\<lambda>(_, _, x). x) m)"

definition al_calls :: "abs_ledger \<Rightarrow> int" where
  "al_calls a = al_spent_calls a + open_calls (al_open a)"

definition al_cost :: "abs_ledger \<Rightarrow> rat" where
  "al_cost a = al_spent_cost a + open_cost (al_open a)"

text \<open>\<open>close\<close> is labelled with the reservation it closes and the charge it leaves.\<close>

inductive ledger_move :: "int \<Rightarrow> rat \<Rightarrow> abs_ledger \<Rightarrow> abs_ledger \<Rightarrow> bool" for lc :: int and lx :: rat where
  reserve: "rid \<notin> fst ` set_mset (al_open a) \<Longrightarrow> 1 \<le> n \<Longrightarrow> 0 \<le> x \<Longrightarrow> al_calls a + n \<le> lc \<Longrightarrow>
     al_cost a + x \<le> lx \<Longrightarrow> ledger_move lc lx a (a\<lparr>al_open := add_mset (rid, n, x) (al_open a)\<rparr>)"
| close: "al_open a = add_mset (rid, n, x) m \<Longrightarrow> 0 \<le> dn \<Longrightarrow> 0 \<le> dx \<Longrightarrow>
     ledger_move lc lx a \<lparr>al_spent_calls = al_spent_calls a + dn, al_spent_cost = al_spent_cost a + dx,
                    al_open = m\<rparr>"
| stay: "ledger_move lc lx a a"

text \<open>A move that, if it closes a reservation, charges no more than was reserved.\<close>

definition honest :: "abs_ledger \<Rightarrow> abs_ledger \<Rightarrow> bool" where
  "honest a b \<longleftrightarrow>
     (size (al_open b) < size (al_open a) \<longrightarrow> al_calls b \<le> al_calls a \<and> al_cost b \<le> al_cost a)"

lemma open_add [simp]:
  "open_calls (add_mset (r, n, x) m) = n + open_calls m"
  "open_cost (add_mset (r, n, x) m) = x + open_cost m"
  by (simp_all add: open_calls_def open_cost_def)

lemma honest_moves_bounded:
  assumes "ledger_move lc lx a b" and "honest a b" and "al_calls a \<le> lc" and "al_cost a \<le> lx"
  shows "al_calls b \<le> lc \<and> al_cost b \<le> lx"
  using assms by cases (auto simp: honest_def al_calls_def al_cost_def)

lemma moves_open_distinct:
  assumes "ledger_move lc lx a b" and "\<forall>r. size (filter_mset (\<lambda>u. fst u = r) (al_open a)) \<le> 1"
  shows "\<forall>r. size (filter_mset (\<lambda>u. fst u = r) (al_open b)) \<le> 1"
  using assms
proof cases
  case (reserve rid n x)
  have "filter_mset (\<lambda>u. fst u = rid) (al_open a) = {#}"
    using reserve(2) by (auto simp: filter_mset_eq_conv image_iff intro!: multiset_eqI)
  with assms(2) reserve(1) show ?thesis by auto
next
  case (close rid n x m dn dx)
  show ?thesis
  proof
    fix r
    from assms(2) have "size (filter_mset (\<lambda>u. fst u = r) (al_open a)) \<le> 1" by blast
    moreover have "size (filter_mset (\<lambda>u. fst u = r) m) \<le> size (filter_mset (\<lambda>u. fst u = r) (al_open a))"
      by (simp add: close(2))
    ultimately show "size (filter_mset (\<lambda>u. fst u = r) (al_open b)) \<le> 1"
      using close(1) by simp
  qed
qed simp

section \<open>Abstraction\<close>

definition open_unit :: "uuid \<Rightarrow> uuid \<Rightarrow> ShadowRunResultRecord \<Rightarrow> (uuid \<times> int \<times> rat) multiset" where
  "open_unit t cid r =
     (if of_campaign t cid r \<and> rs_reservation_state r = Resv_ACTIVE
      then {#(rs_id r, rs_reserved_calls r, rs_reserved_cost r)#} else {#})"

definition open_of :: "uuid \<Rightarrow> uuid \<Rightarrow> cdb \<Rightarrow> (uuid \<times> int \<times> rat) multiset" where
  "open_of t cid d = sum_list (map (open_unit t cid) (tbl_results d))"

definition ledger_of :: "ShadowCampaignRecord \<Rightarrow> cdb \<Rightarrow> abs_ledger" where
  "ledger_of c d =
     \<lparr>al_spent_calls = cc_observed_calls c + cc_possibly_billed_calls c,
      al_spent_cost = cc_observed_cost c + cc_possibly_billed_cost c,
      al_open = open_of (cc_tenant_id c) (cc_id c) d\<rparr>"

lemma open_totals:
  "open_calls (open_of t cid d) = reserved_total rs_reserved_calls t cid d"
  "open_cost (open_of t cid d) = reserved_total rs_reserved_cost t cid d"
proof -
  have "open_calls (sum_list (map (open_unit t cid) xs)) = sum_list (map (held rs_reserved_calls t cid) xs)
    \<and> open_cost (sum_list (map (open_unit t cid) xs)) = sum_list (map (held rs_reserved_cost t cid) xs)" for xs
    by (induction xs) (auto simp: open_unit_def held_def open_calls_def open_cost_def)
  then show "open_calls (open_of t cid d) = reserved_total rs_reserved_calls t cid d"
    "open_cost (open_of t cid d) = reserved_total rs_reserved_cost t cid d"
    by (auto simp: open_of_def reserved_total_def)
qed

text \<open>Under the invariant the running totals are those of the abstract ledger.\<close>

lemma ledger_totals:
  assumes "ledger_inv d" and "campaign_row t cid d = Some c"
  shows "al_calls (ledger_of c d) = cc_observed_calls c + cc_possibly_billed_calls c + cc_reserved_calls c"
    and "al_cost (ledger_of c d) = cc_observed_cost c + cc_possibly_billed_cost c + cc_reserved_cost c"
  using assms campaign_rowD [OF assms(2)]
  by (auto simp: al_calls_def al_cost_def ledger_of_def open_totals ledger_inv_def balanced_def)

lemma open_of_ids: "fst ` set_mset (open_of t cid d) \<subseteq> rs_id ` set (tbl_results d)"
proof -
  have "fst ` set_mset (sum_list (map (open_unit t cid) xs)) \<subseteq> rs_id ` set xs" for xs
    by (induction xs) (auto simp: open_unit_def)
  then show ?thesis by (simp add: open_of_def)
qed

lemma sum_replace_monoid:
  fixes f :: "'a \<Rightarrow> 'b :: cancel_comm_monoid_add"
  assumes "distinct (map key xs)" and "r \<in> set xs" and "key r' = key r"
  shows "sum_list (map f (map (\<lambda>x. if key x = key r then r' else x) xs)) + f r
    = sum_list (map f xs) + f r'"
  using assms
proof (induction xs)
  case (Cons x xs)
  show ?case
  proof (cases "x = r")
    case True
    with Cons.prems have "map (\<lambda>x. if key x = key r then r' else x) xs = xs"
      by (intro map_idI) (force simp: image_iff)
    with True show ?thesis by (simp add: add.commute add.left_commute del: map_map)
  next
    case False
    with Cons.prems have "key x \<noteq> key r" "r \<in> set xs" by auto
    with Cons False show ?thesis by (simp add: add.assoc)
  qed
qed simp

lemma open_of_put:
  assumes "distinct (map rs_id (tbl_results d))" and "r \<in> set (tbl_results d)" and "rs_id r' = rs_id r"
  shows "open_of t cid (put_result r' d) + open_unit t cid r = open_of t cid d + open_unit t cid r'"
  using sum_replace_monoid [OF assms, of "open_unit t cid"] assms(3)
  by (simp add: open_of_def put_result_def del: map_map)

lemma find_campaign_replace:
  assumes "distinct (map cc_id xs)" and "c \<in> set xs" and "same_campaign c c'"
  shows "find (\<lambda>c. cc_tenant_id c = u \<and> cc_id c = v) (map (\<lambda>x. if cc_id x = cc_id c then c' else x) xs)
    = (if cc_tenant_id c = u \<and> cc_id c = v then Some c'
       else find (\<lambda>c. cc_tenant_id c = u \<and> cc_id c = v) xs)"
  using assms
proof (induction xs)
  case (Cons x xs)
  show ?case
  proof (cases "x = c")
    case True
    with Cons.prems have "map (\<lambda>x. if cc_id x = cc_id c then c' else x) xs = xs"
      by (intro map_idI) (force simp: image_iff)
    with True Cons.prems(3) show ?thesis by (simp add: same_campaign_def)
  next
    case False
    with Cons.prems have k: "cc_id x \<noteq> cc_id c" "c \<in> set xs" "distinct (map cc_id xs)" by auto
    note IH = Cons.IH [OF k(3,2) Cons.prems(3)]
    show ?thesis
      by (cases "cc_tenant_id c = u \<and> cc_id c = v") (use IH k(1) in auto)
  qed
qed simp

lemma campaign_row_put:
  assumes "ledger_inv d" and "campaign_row t cid d = Some c" and "same_campaign c c'"
  shows "campaign_row u v (put_campaign c' d) = (if u = t \<and> v = cid then Some c' else campaign_row u v d)"
proof -
  note c = campaign_rowD [OF assms(2)]
  have "distinct (map cc_id (tbl_campaigns d))" using assms(1) by (simp add: ledger_inv_def)
  from find_campaign_replace [OF this _ assms(3), of u v] c assms(3) show ?thesis
    by (auto simp: campaign_row_def put_campaign_def same_campaign_def)
qed

text \<open>What a flush does to the abstract ledger of the campaign it locks, and of any other.\<close>

lemma flush_abstract:
  assumes inv: "ledger_inv d"
    and c: "campaign_row t cid d = Some c" and r: "result_row t cid rid d = Some r"
    and flush: "flush_rows c' r' d = Ok d'" and keys: "same_campaign c c'" "same_unit r r'"
  shows "campaign_row u v d' = (if u = t \<and> v = cid then Some c' else campaign_row u v d)"
    and "open_of t cid d' + open_unit t cid r = open_of t cid d + open_unit t cid r'"
    and "(u, v) \<noteq> (t, cid) \<Longrightarrow> open_of u v d' = open_of u v d"
proof -
  note d' = flush_rows_columns(5) [OF flush] and r_in = result_rowD [OF r]
  have dist: "distinct (map rs_id (tbl_results d))" using inv by (simp add: ledger_inv_def)
  have id: "rs_id r' = rs_id r" using keys by (simp add: same_unit_def)
  have put: "open_of u v d' + open_unit u v r = open_of u v d + open_unit u v r'" for u v
    using open_of_put [of "put_campaign c' d" r r' u v] dist r_in id by (simp add: d' open_of_def)
  show "campaign_row u v d' = (if u = t \<and> v = cid then Some c' else campaign_row u v d)"
    using campaign_row_put [OF inv c keys(1)] by (simp add: d' campaign_row_def)
  show "open_of t cid d' + open_unit t cid r = open_of t cid d + open_unit t cid r'" by (rule put)
  show "open_of u v d' = open_of u v d" if "(u, v) \<noteq> (t, cid)"
    using put [of u v] that r_in keys by (auto simp: open_unit_def of_campaign_def same_unit_def)
qed

lemma result_row_unique:
  assumes "distinct (map rs_id (tbl_results d))" and "r \<in> set (tbl_results d)" and "of_campaign t cid r"
  shows "result_row t cid (rs_id r) d = Some r"
proof -
  have "find (\<lambda>x. rs_tenant_id x = t \<and> rs_campaign_id x = cid \<and> rs_id x = rs_id r) xs = Some r"
    if "distinct (map rs_id xs)" "r \<in> set xs" for xs
    using that assms(3) by (induction xs) (auto simp: of_campaign_def)
  with assms show ?thesis by (simp add: result_row_def)
qed

lemma result_row_put:
  assumes "distinct (map rs_id (tbl_results d))" and "result_row t cid rid d = Some r" and "same_unit r r'"
  shows "result_row t cid rid (put_result r' d) = Some r'"
proof -
  have "find (\<lambda>x. rs_tenant_id x = t \<and> rs_campaign_id x = cid \<and> rs_id x = rid)
      (map (\<lambda>x. if rs_id x = rs_id r' then r' else x) xs) = Some r'"
    if "distinct (map rs_id xs)" "r \<in> set xs" "rs_tenant_id r' = t" "rs_campaign_id r' = cid"
      "rs_id r' = rid" "rs_id r = rid" for xs
    using that by (induction xs) auto
  with assms result_rowD [OF assms(2)] show ?thesis
    by (auto simp: result_row_def put_result_def same_unit_def)
qed

lemma result_row_flush:
  assumes "ledger_inv d" and "campaign_row t cid d = Some c" and "result_row t cid rid d = Some r"
    and "flush_rows c' r' d = Ok d'" and "same_unit r r'"
  shows "result_row t cid rid d' = Some r'"
  using result_row_put [of "put_campaign c' d" t cid rid r r'] assms flush_rows_columns(5) [OF assms(4)]
  by (simp add: ledger_inv_def result_row_def)

lemma rows_kept_abstract:
  assumes "rows_kept d d'" and "campaign_row t cid d = Some c"
  obtains c' where "campaign_row t cid d' = Some c'" "totals_kept c c'" "open_of t cid d' = open_of t cid d"
proof -
  have campaigns: "list_all2 totals_kept (tbl_campaigns d) (tbl_campaigns d')"
    and results: "list_all2 reservation_kept (tbl_results d) (tbl_results d')"
    using assms(1) by (auto simp: rows_kept_def elim: list_all2_mono)
  have "\<exists>c'. find (\<lambda>c. cc_tenant_id c = t \<and> cc_id c = cid) (tbl_campaigns d') = Some c' \<and> totals_kept c c'"
    using campaigns assms(2) unfolding campaign_row_def
    by (induction rule: list_all2_induct) (auto simp: totals_kept_def same_campaign_def split: if_splits)
  moreover have "open_of t cid d' = open_of t cid d"
    unfolding open_of_def by (subst list_all2_map_eq [OF results])
      (auto simp: open_unit_def reservation_kept_def same_unit_def of_campaign_def)
  ultimately show ?thesis using that by (auto simp: campaign_row_def)
qed

section \<open>The transactions refine the moves\<close>

definition same_limits :: "ShadowCampaignRecord \<Rightarrow> ShadowCampaignRecord \<Rightarrow> bool" where
  "same_limits c c' \<longleftrightarrow> same_campaign c c' \<and> cc_admission_ceiling c' = cc_admission_ceiling c
     \<and> cc_cost_stop_threshold c' = cc_cost_stop_threshold c"

text \<open>The campaign \<open>(u, v)\<close> makes one abstract move from \<open>d\<close> to \<open>d'\<close>.\<close>

definition moves_to :: "uuid \<Rightarrow> uuid \<Rightarrow> cdb \<Rightarrow> cdb \<Rightarrow> bool" where
  "moves_to u v d d' \<longleftrightarrow>
     (case campaign_row u v d of
        None \<Rightarrow> campaign_row u v d' = None
      | Some c \<Rightarrow> \<exists>c'. campaign_row u v d' = Some c' \<and> same_limits c c'
          \<and> ledger_move (cc_admission_ceiling c) (cc_cost_stop_threshold c) (ledger_of c d) (ledger_of c' d'))"

lemma open_of_mem: "w \<in># open_of t cid d \<Longrightarrow> \<exists>r \<in> set (tbl_results d). w \<in># open_unit t cid r"
proof -
  have "w \<in># sum_list (map (open_unit t cid) xs) \<Longrightarrow> \<exists>r \<in> set xs. w \<in># open_unit t cid r" for xs
    by (induction xs) auto
  then show "w \<in># open_of t cid d \<Longrightarrow> ?thesis" by (simp add: open_of_def)
qed

lemma open_of_fresh:
  assumes "ledger_inv d" and "r \<in> set (tbl_results d)" and "rs_reservation_state r \<noteq> Resv_ACTIVE"
  shows "rs_id r \<notin> fst ` set_mset (open_of t cid d)"
proof
  assume "rs_id r \<in> fst ` set_mset (open_of t cid d)"
  then obtain w x where "w \<in># open_unit t cid x" "fst w = rs_id r" "x \<in> set (tbl_results d)"
    by (auto dest: open_of_mem)
  then have "x = r" "rs_reservation_state x = Resv_ACTIVE"
    using assms same_key [of rs_id "tbl_results d" x r]
    by (auto simp: open_unit_def ledger_inv_def split: if_splits)
  with assms(3) show False by simp
qed

lemma flush_moves:
  assumes inv: "ledger_inv d"
    and c: "campaign_row t cid d = Some c" and r: "result_row t cid rid d = Some r"
    and flush: "flush_rows c' r' d = Ok d'" and keys: "same_limits c c'" "same_unit r r'"
    and move: "open_of t cid d' + open_unit t cid r = open_of t cid d + open_unit t cid r' \<Longrightarrow>
      ledger_move (cc_admission_ceiling c) (cc_cost_stop_threshold c) (ledger_of c d)
        \<lparr>al_spent_calls = cc_observed_calls c' + cc_possibly_billed_calls c',
         al_spent_cost = cc_observed_cost c' + cc_possibly_billed_cost c', al_open = open_of t cid d'\<rparr>"
  shows "moves_to u v d d'"
proof -
  have same: "same_campaign c c'" using keys(1) by (simp add: same_limits_def)
  note abs = flush_abstract [OF inv c r flush same keys(2)]
  note c_in = campaign_rowD [OF c]
  show ?thesis
  proof (cases "(u, v) = (t, cid)")
    case True
    with c c_in keys(1) same move [OF abs(2)] abs(1) [of u v] show ?thesis
      by (auto simp: moves_to_def ledger_of_def same_campaign_def)
  next
    case False
    then have kept: "campaign_row u v d' = campaign_row u v d" "open_of u v d' = open_of u v d"
      using abs(1) [of u v] abs(3) [of u v] by auto
    show ?thesis
    proof (cases "campaign_row u v d")
      case (Some x)
      with kept campaign_rowD [OF Some] have "ledger_of x d' = ledger_of x d" by (simp add: ledger_of_def)
      with Some kept show ?thesis
        by (auto simp: moves_to_def same_limits_def same_campaign_def intro: ledger_move.stay)
    qed (simp add: moves_to_def kept)
  qed
qed

lemma campaign_budget_exact:
  assumes "campaign_budget c = Ok b" and ok: "campaign_ok c"
    and rq: "on_grid (rq_estimated_cost rq)" "money_column (rq_estimated_cost rq)"
  shows "cb_admission_ceiling b = cc_admission_ceiling c" "cb_cost_stop_threshold b = cc_cost_stop_threshold c"
    and "ba_projected_calls (CampaignBudget_admit b rq)
      = cc_observed_calls c + cc_possibly_billed_calls c + cc_reserved_calls c + rq_provider_calls rq"
    and "ba_projected_cost (CampaignBudget_admit b rq)
      = cc_observed_cost c + cc_possibly_billed_cost c + cc_reserved_cost c + rq_estimated_cost rq"
proof -
  note cs = campaign_okD [OF ok]
  have grid: "nonnegative_decimal (DecFinite x) f = Ok x" if "on_grid x" "money_column x" "0 \<le> x" for x f
    using that by (intro nonnegative_decimal_grid) (auto simp: money_column_def)
  have exact: "dec_add (dec_add (dec_add (cc_observed_cost c) (cc_possibly_billed_cost c))
      (cc_reserved_cost c)) (rq_estimated_cost rq)
    = cc_observed_cost c + cc_possibly_billed_cost c + cc_reserved_cost c + rq_estimated_cost rq"
    using cs rq by (simp add: dec_add_grid on_grid_add money_column_def abs_if)
  from assms(1) cs grid show "cb_admission_ceiling b = cc_admission_ceiling c"
    "cb_cost_stop_threshold b = cc_cost_stop_threshold c"
    "ba_projected_calls (CampaignBudget_admit b rq)
      = cc_observed_calls c + cc_possibly_billed_calls c + cc_reserved_calls c + rq_provider_calls rq"
    "ba_projected_cost (CampaignBudget_admit b rq)
      = cc_observed_cost c + cc_possibly_billed_cost c + cc_reserved_cost c + rq_estimated_cost rq"
    by (auto simp: campaign_budget_def CampaignBudgetSnapshot_new_def CampaignBudget_admit_def
        BudgetAdmission_denied_def Let_def exact split: if_splits)
qed

lemma reserve_moves:
  assumes inv: "ledger_inv d" and op: "reserve_run_budget scope conv clock d l = (Ok (rc, d'), l')"
  shows "moves_to u v d d'"
  using op
proof (cases rule: reserve_cases)
  case unchanged
  then show ?thesis
    by (auto simp: moves_to_def same_limits_def same_campaign_def split: option.splits intro: ledger_move.stay)
next
  case (stopped now c r intent reason)
  show ?thesis
  proof (rule flush_moves [OF inv stopped(2,3,10)])
    let ?c = "stop_for_budget intent (''Budget admission denied: '' @ reason) now c"
    assume "open_of scope (rl_campaign_id l) d' + open_unit scope (rl_campaign_id l) r
      = open_of scope (rl_campaign_id l) d + open_unit scope (rl_campaign_id l)
          (r\<lparr>rs_budget_violation := True, rs_version := rs_version r + 1, rs_updated_at := now\<rparr>)"
    then have "\<lparr>al_spent_calls = cc_observed_calls ?c + cc_possibly_billed_calls ?c,
         al_spent_cost = cc_observed_cost ?c + cc_possibly_billed_cost ?c,
         al_open = open_of scope (rl_campaign_id l) d'\<rparr> = ledger_of c d"
      using stopped(9) campaign_rowD [OF stopped(2)]
      by (simp add: open_unit_def stop_for_budget_def ledger_of_def)
    then show "ledger_move (cc_admission_ceiling c) (cc_cost_stop_threshold c) (ledger_of c d)
        \<lparr>al_spent_calls = cc_observed_calls ?c + cc_possibly_billed_calls ?c,
         al_spent_cost = cc_observed_cost ?c + cc_possibly_billed_cost ?c,
         al_open = open_of scope (rl_campaign_id l) d'\<rparr>"
      by (simp only: ledger_move.stay)
  qed (auto simp: same_limits_def same_campaign_def same_unit_def stop_for_budget_def)
next
  case (granted now c r rq b)
  note rows = ledger_rows [OF inv granted(2,3)] and rq = reservation_request_Ok [OF granted(8)]
  note r_in = result_rowD [OF granted(3)] and c_in = campaign_rowD [OF granted(2)]
  from flush_rows_columns(2) [OF granted(13)] have money: "money_column (rq_estimated_cost rq)"
    by (simp add: reserve_on_rows_def result_columns_def)
  note exact = campaign_budget_exact [OF granted(9) rows(1) rq(1) money]
  note fits = granted(10) [unfolded admit_allowed exact]
  have fresh: "rl_id l \<notin> fst ` set_mset (open_of scope (rl_campaign_id l) d)"
    using open_of_fresh [OF inv, of r] granted(7) r_in by auto
  show ?thesis
  proof (rule flush_moves [OF inv granted(2,3,13)])
    assume "open_of scope (rl_campaign_id l) d' + open_unit scope (rl_campaign_id l) r
      = open_of scope (rl_campaign_id l) d
        + open_unit scope (rl_campaign_id l) (snd (reserve_on_rows rq now c r))"
    then have "open_of scope (rl_campaign_id l) d'
      = add_mset (rl_id l, rq_provider_calls rq, rq_estimated_cost rq) (al_open (ledger_of c d))"
      using granted(7) r_in c_in by (simp add: open_unit_def reserve_on_rows_def of_campaign_def ledger_of_def)
    moreover have "ledger_move (cc_admission_ceiling c) (cc_cost_stop_threshold c) (ledger_of c d)
      (ledger_of c d\<lparr>al_open := add_mset (rl_id l, rq_provider_calls rq, rq_estimated_cost rq)
        (al_open (ledger_of c d))\<rparr>)"
      using fresh rq fits ledger_totals [OF inv granted(2)] c_in
      by (intro ledger_move.reserve) (auto simp: ledger_of_def)
    ultimately show "ledger_move (cc_admission_ceiling c) (cc_cost_stop_threshold c) (ledger_of c d)
      \<lparr>al_spent_calls = cc_observed_calls (fst (reserve_on_rows rq now c r))
          + cc_possibly_billed_calls (fst (reserve_on_rows rq now c r)),
       al_spent_cost = cc_observed_cost (fst (reserve_on_rows rq now c r))
          + cc_possibly_billed_cost (fst (reserve_on_rows rq now c r)),
       al_open = open_of scope (rl_campaign_id l) d'\<rparr>"
      by (simp add: reserve_on_rows_def ledger_of_def)
  qed (auto simp: same_limits_def same_campaign_def same_unit_def reserve_on_rows_def)
qed

text \<open>The transactions that end an active reservation.\<close>

lemma close_moves:
  assumes inv: "ledger_inv d"
    and c: "campaign_row t cid d = Some c" and r: "result_row t cid rid d = Some r"
    and flush: "flush_rows c' r' d = Ok d'" and keys: "same_limits c c'" "same_unit r r'"
    and states: "rs_reservation_state r = Resv_ACTIVE" "rs_reservation_state r' \<noteq> Resv_ACTIVE"
    and charge: "cc_observed_calls c + cc_possibly_billed_calls c
        \<le> cc_observed_calls c' + cc_possibly_billed_calls c'"
      "cc_observed_cost c + cc_possibly_billed_cost c \<le> cc_observed_cost c' + cc_possibly_billed_cost c'"
  shows "moves_to u v d d'"
proof (rule flush_moves [OF inv c r flush keys])
  note c_in = campaign_rowD [OF c] and r_in = result_rowD [OF r]
  let ?dn = "cc_observed_calls c' + cc_possibly_billed_calls c'
      - (cc_observed_calls c + cc_possibly_billed_calls c)"
  let ?dx = "cc_observed_cost c' + cc_possibly_billed_cost c'
      - (cc_observed_cost c + cc_possibly_billed_cost c)"
  assume "open_of t cid d' + open_unit t cid r = open_of t cid d + open_unit t cid r'"
  then have "al_open (ledger_of c d)
      = add_mset (rs_id r, rs_reserved_calls r, rs_reserved_cost r) (open_of t cid d')"
    using states r_in c_in by (simp add: open_unit_def of_campaign_def ledger_of_def)
  from ledger_move.close [OF this, of ?dn ?dx] charge
  show "ledger_move (cc_admission_ceiling c) (cc_cost_stop_threshold c) (ledger_of c d)
      \<lparr>al_spent_calls = cc_observed_calls c' + cc_possibly_billed_calls c',
       al_spent_cost = cc_observed_cost c' + cc_possibly_billed_cost c', al_open = open_of t cid d'\<rparr>"
    by (simp add: ledger_of_def)
qed

lemma moves_to_refl [simp]: "moves_to u v d d"
  by (auto simp: moves_to_def same_limits_def same_campaign_def split: option.splits intro: ledger_move.stay)

lemma settle_moves:
  assumes inv: "ledger_inv d" and op: "settle_run_budget scope clock t cid rid src u d = Ok (rc, d')"
    and usage: "SettlementUsage_new n p q oc m pc = Ok u"
  shows "moves_to w v d d'"
  using op
proof (cases rule: settle_cases)
  case (settled now c r rq)
  note rows = ledger_rows [OF inv settled(3,4)] and u = SettlementUsage_new_Ok [OF usage]
  have money: "usage_money u" using u by (simp add: usage_money_def)
  note amounts = settled_amounts [OF rows money request_of_row [OF rows(2) settled(10)] settled(13)]
  from u amounts settled(6) show ?thesis
    by (intro close_moves [OF inv settled(3,4,13)])
      (auto simp: same_limits_def same_campaign_def same_unit_def settle_result_def settle_campaign_def)
qed simp

lemma release_moves:
  assumes inv: "ledger_inv d" and op: "release_run_budget scope clock d l = (Ok (rc, d'), l')"
  shows "moves_to u v d d'"
  using op
proof (cases rule: release_cases)
  case (released now c r)
  then show ?thesis
    by (intro close_moves [OF inv released(2,3,8)])
      (auto simp: same_limits_def same_campaign_def same_unit_def release_on_rows_def)
qed simp

lemma rows_kept_moves:
  assumes "rows_kept d d'"
  shows "moves_to u v d d'"
proof (cases "campaign_row u v d")
  case None
  have "list_all2 totals_kept (tbl_campaigns d) (tbl_campaigns d')"
    using assms by (auto simp: rows_kept_def elim: list_all2_mono)
  then have "find (\<lambda>c. cc_tenant_id c = u \<and> cc_id c = v) (tbl_campaigns d') = None"
    using None unfolding campaign_row_def
    by (induction rule: list_all2_induct) (auto simp: totals_kept_def same_campaign_def split: if_splits)
  with None show ?thesis by (simp add: moves_to_def campaign_row_def)
next
  case (Some c)
  from rows_kept_abstract [OF assms Some] obtain c' where c': "campaign_row u v d' = Some c'"
    "totals_kept c c'" "open_of u v d' = open_of u v d" by blast
  then have "ledger_of c' d' = ledger_of c d"
    using campaign_rowD [OF Some] by (simp add: ledger_of_def totals_kept_def same_campaign_def)
  with Some c' show ?thesis
    by (auto simp: moves_to_def totals_kept_def same_limits_def intro: ledger_move.stay)
qed

lemma mark_failure_moves:
  assumes inv: "ledger_inv d" and op: "mark_failure scope digest clock l failure d = Ok (rc, d')"
  shows "moves_to u v d d'"
  using op
proof (cases rule: mark_failure_cases)
  case (failed now c r c1 r1)
  note rows = ledger_rows [OF inv failed(2,3)]
  note fail = fail_reservation_Ok [OF failed(7)] and amounts = fail_reservation_amounts [OF failed(7) rows]
  have held: "0 \<le> held_here rs_reserved_calls r" "0 \<le> held_here rs_reserved_cost r"
    using rows(2) by (auto simp: held_here_def result_ok_def result_checks_def nonnegative_metrics_def)
  show ?thesis
  proof (cases "rs_reservation_state r = Resv_ACTIVE")
    case True
    from failed(7) True have "cc_admission_ceiling c1 = cc_admission_ceiling c"
      "cc_observed_calls c1 = cc_observed_calls c" "cc_observed_cost c1 = cc_observed_cost c"
      by (auto simp: fail_reservation_def Let_def split: if_splits)
    with True fail amounts held show ?thesis
      by (intro close_moves [OF inv failed(2,3,8)]) (auto simp: same_limits_def same_campaign_def same_unit_def)
  next
    case False
    with fail have "c1 = c" "r1 = r" by auto
    with failed show ?thesis
      by (intro rows_kept_moves flush_kept [OF inv failed(2,3,8)])
        (auto simp: totals_kept_def same_campaign_def reservation_kept_def same_unit_def)
  qed
qed simp

lemma campaign_txn_moves:
  assumes "campaign_txn d d'" and "ledger_inv d"
  shows "moves_to u v d d'"
proof (cases "scheduling_txn d d'")
  case True
  with assms(2) show ?thesis by (blast intro: rows_kept_moves scheduling_txn_kept)
next
  case False
  with assms(1) have "ledger_txn d d'" by (simp add: campaign_txn_def)
  then show ?thesis
    using assms(2)
    by cases (auto simp: in_uow_Ok intro: reserve_moves release_moves mark_failure_moves settle_moves)
qed

end
