(* ===== verification/Campaign_Samples.thy ===== *)
theory Campaign_Samples
  imports Campaign_Refinement Sana_Samples
begin

text \<open>
  A concrete campaign of two results on which the campaign properties are applied: as
  materialized and started, with its first unit claimed, reserved, and submitted.
\<close>

section \<open>A concrete campaign\<close>

definition sample_campaign :: ShadowCampaignRecord where
  "sample_campaign =
     \<lparr>cc_id = 7, cc_tenant_id = tid, cc_created_by_user_id = 5, cc_status = Camp_RUNNING,
      cc_gate_status = Gate_PENDING, cc_stop_intent = Intent_NONE, cc_stop_reason = None,
      cc_cost_rate_snapshot = [(''run_reservation_usd'', JStr ''0.002'')],
      cc_max_runs = 2, cc_max_concurrency = 1, cc_cost_stop_threshold = 1 / 100,
      cc_admission_ceiling = 16, cc_structural_ceiling = 16, cc_planned_count = 2,
      cc_submitted_count = 0, cc_collected_count = 0, cc_failed_count = 0, cc_skipped_count = 0,
      cc_observed_calls = 0, cc_possibly_billed_calls = 0, cc_reserved_calls = 0,
      cc_prompt_tokens = 0, cc_completion_tokens = 0, cc_observed_cost = 0,
      cc_possibly_billed_cost = 0, cc_reserved_cost = 0, cc_possibly_billed_count = 0,
      cc_started_at = Some 0, cc_review_deadline_at = None, cc_completed_at = None,
      cc_version = 2, cc_updated_at = 0\<rparr>"

definition sample_result :: "uuid \<Rightarrow> string \<Rightarrow> int \<Rightarrow> ShadowRunResultRecord" where
  "sample_result i case_id n =
     \<lparr>rs_id = i, rs_tenant_id = tid, rs_campaign_id = 7, rs_conversation_id = None,
      rs_search_run_id = None, rs_case_id = case_id, rs_repetition = 1, rs_schedule_ordinal = n,
      rs_state = Sched_PENDING, rs_lease_owner = None, rs_lease_expires_at = None,
      rs_conversation_attempts = 0, rs_submission_attempts = 0, rs_collector_lease_owner = None,
      rs_collector_lease_expires_at = None, rs_conversation_key = ''shadow-conversation'',
      rs_message_key = ''shadow'', rs_submission_request_hash = replicate 64 (CHR ''a''),
      rs_prompt_tokens = 0, rs_completion_tokens = 0, rs_estimated_cost = 0,
      rs_error_class = None, rs_error_code = None, rs_failed_phase = None,
      rs_error_signal_flags = [], rs_stable_skip_reason = None, rs_reserved_calls = 0,
      rs_reserved_cost = 0, rs_reservation_state = Resv_NONE, rs_settled_calls = 0,
      rs_settled_cost = 0, rs_possibly_billed_calls = 0, rs_possibly_billed_cost = 0,
      rs_reserved_at = None, rs_settled_at = None, rs_released_at = None,
      rs_source_terminal_at = None, rs_source_snapshot_digest = None,
      rs_budget_violation = False, rs_version = 0, rs_updated_at = 0\<rparr>"

definition sample_cdb :: cdb where
  "sample_cdb =
     \<lparr>tbl_campaigns = [sample_campaign],
      tbl_results = [sample_result 11 ''case-a'' 1, sample_result 12 ''case-b'' 2],
      tbl_conversations = [], tbl_messages = [], tbl_run_bindings = []\<rparr>"

lemma sample_ledger_inv: "ledger_inv sample_cdb"
proof -
  have c: "campaign_columns sample_campaign" "campaign_checks sample_campaign" by code_simp+
  have r: "result_columns (sample_result 11 ''case-a'' 1)" "result_checks (sample_result 11 ''case-a'' 1)"
    "result_columns (sample_result 12 ''case-b'' 2)" "result_checks (sample_result 12 ''case-b'' 2)"
    by code_simp+
  have "on_grid (1 / 100)" unfolding on_grid_def by (rule exI [of _ "10 ^ 8"]) simp
  with c r show ?thesis
    by (simp add: ledger_inv_def sample_cdb_def campaign_ok_def campaign_money_def result_ok_def
        balanced_def reserved_total_def held_def sample_campaign_def sample_result_def)
qed

text \<open>The first result claimed by a worker, and its budget reserved.\<close>

definition sample_lease :: RunLease where
  "sample_lease = lease_of_row (claimed_row ''w1'' 130 100 (sample_result 11 ''case-a'' 1)) ''w1'' 130"

definition claimed_cdb :: cdb where
  "claimed_cdb = put_result (claimed_row ''w1'' 130 100 (sample_result 11 ''case-a'' 1)) sample_cdb"

lemma sample_unit_claimed: "claim_next (Some 100) tid 7 ''w1'' 30 sample_cdb = Ok (Some sample_lease, claimed_cdb)"
  by code_simp

lemma claimed_ledger_inv: "ledger_inv claimed_cdb"
  by (rule campaign_txn_inv [OF _ sample_ledger_inv])
    (auto simp: campaign_txn_def intro: scheduling_txn.claim [OF sample_unit_claimed])

definition reserved_campaign :: ShadowCampaignRecord where
  "reserved_campaign = sample_campaign\<lparr>cc_reserved_calls := 8, cc_reserved_cost := 1 / 500,
     cc_version := 3, cc_updated_at := 110\<rparr>"

definition reserved_row :: ShadowRunResultRecord where
  "reserved_row = (claimed_row ''w1'' 130 100 (sample_result 11 ''case-a'' 1))
     \<lparr>rs_reserved_calls := 8, rs_reserved_cost := 1 / 500, rs_reservation_state := Resv_ACTIVE,
      rs_reserved_at := Some 110, rs_version := 2, rs_updated_at := 110\<rparr>"

definition reserved_cdb :: cdb where
  "reserved_cdb = put_result reserved_row (put_campaign reserved_campaign claimed_cdb)"

definition reserved_lease :: RunLease where
  "reserved_lease = sample_lease\<lparr>rl_version := 2, rl_persisted_version := 2, rl_reservation_state := Resv_ACTIVE\<rparr>"

definition granted_receipt :: BudgetReservationReceipt where
  "granted_receipt = \<lparr>br_allowed = True, br_stop_intent = Intent_NONE, br_reason = None,
     br_reserved_calls = 8, br_reserved_cost = 1 / 500, br_deferred = False\<rparr>"

lemma sample_reserved:
  "in_uow (reserve_run_budget tid sample_conv (Some 110)) (sample_lease, claimed_cdb)
     = (Ok granted_receipt, (reserved_lease, reserved_cdb))"
  by code_simp

lemma reserved_result_row: "result_row tid 7 11 reserved_cdb = Some reserved_row"
  by (simp add: result_row_def reserved_cdb_def put_result_def put_campaign_def claimed_cdb_def
      sample_cdb_def reserved_row_def claimed_row_def sample_result_def)

lemma sample_txns: "campaign_txn\<^sup>*\<^sup>* sample_cdb reserved_cdb"
proof -
  have "campaign_txn sample_cdb claimed_cdb"
    by (auto simp: campaign_txn_def intro: scheduling_txn.claim [OF sample_unit_claimed])
  moreover have "campaign_txn claimed_cdb reserved_cdb"
    by (auto simp: campaign_txn_def intro: ledger_txn.reserve [OF sample_reserved])
  ultimately show ?thesis by (meson converse_rtranclp_into_rtranclp rtranclp.rtrancl_refl)
qed

text \<open>The reserved unit as its submission and the end of its search run leave it.\<close>

definition submitted_cdb :: cdb where
  "submitted_cdb =
     put_result (reserved_row\<lparr>rs_state := Sched_SUBMITTED,
       rs_lease_owner := None, rs_lease_expires_at := None, rs_conversation_id := Some 21,
       rs_search_run_id := Some 22, rs_source_terminal_at := Some 200\<rparr>) reserved_cdb"

definition sample_usage :: SettlementUsage where
  "sample_usage = \<lparr>su_observed_calls = 5, su_prompt_tokens = 900, su_completion_tokens = 300,
     su_observed_cost = 1 / 1000, su_possibly_billed_calls = 0, su_possibly_billed_cost = 0\<rparr>"

lemma reserved_row_kept:
  fixes f :: "ShadowRunResultRecord \<Rightarrow> ShadowRunResultRecord"
  assumes "result_columns (f reserved_row)"
    and "result_checks (f reserved_row)"
    and "\<And>r. reservation_kept r (f r)"
  shows "ledger_inv (put_result (f reserved_row) reserved_cdb)"
proof -
  have inv: "ledger_inv reserved_cdb" by (rule campaign_txns_inv [OF sample_txns sample_ledger_inv])
  have r: "reserved_row \<in> set (tbl_results reserved_cdb)"
    using result_rowD [OF reserved_result_row] by simp
  show ?thesis by (rule rows_kept_inv [OF inv put_result_kept [OF inv r assms(3,1,2)]])
qed

lemma submitted_ledger_inv: "ledger_inv submitted_cdb"
  unfolding submitted_cdb_def
proof (rule reserved_row_kept)
  show "result_columns (reserved_row\<lparr>rs_state := Sched_SUBMITTED,
       rs_lease_owner := None, rs_lease_expires_at := None, rs_conversation_id := Some 21,
       rs_search_run_id := Some 22, rs_source_terminal_at := Some 200\<rparr>)"
    "result_checks (reserved_row\<lparr>rs_state := Sched_SUBMITTED,
       rs_lease_owner := None, rs_lease_expires_at := None, rs_conversation_id := Some 21,
       rs_search_run_id := Some 22, rs_source_terminal_at := Some 200\<rparr>)"
    by (simp_all add: result_columns_def result_checks_def state_bindings_def lease_binding_def leasable_def
        collector_lease_binding_def reservation_lifecycle_def nonnegative_metrics_def int4_def int8_def
        money_column_def reserved_row_def claimed_row_def sample_result_def)
qed (simp add: reservation_kept_def same_unit_def)

text \<open>The reserved unit with its conversation bound.\<close>

definition bound_cdb :: cdb where
  "bound_cdb = put_result (reserved_row\<lparr>rs_state := Sched_CONVERSATION_BOUND,
     rs_conversation_id := Some 21, rs_conversation_attempts := 1\<rparr>) reserved_cdb"

definition bound_lease :: RunLease where
  "bound_lease = reserved_lease\<lparr>rl_state := Sched_CONVERSATION_BOUND\<rparr>"

lemma bound_ledger_inv: "ledger_inv bound_cdb"
  unfolding bound_cdb_def
proof (rule reserved_row_kept)
  show "result_columns (reserved_row\<lparr>rs_state := Sched_CONVERSATION_BOUND,
     rs_conversation_id := Some 21, rs_conversation_attempts := 1\<rparr>)"
    "result_checks (reserved_row\<lparr>rs_state := Sched_CONVERSATION_BOUND,
     rs_conversation_id := Some 21, rs_conversation_attempts := 1\<rparr>)"
    by (simp_all add: result_columns_def result_checks_def state_bindings_def lease_binding_def leasable_def
        collector_lease_binding_def reservation_lifecycle_def nonnegative_metrics_def int4_def int8_def
        money_column_def reserved_row_def claimed_row_def sample_result_def)
qed (simp add: reservation_kept_def same_unit_def)

lemma sample_campaign_row: "campaign_row tid 7 sample_cdb = Some sample_campaign"
  by (simp add: campaign_row_def sample_cdb_def sample_campaign_def)

end
