(* ===== verification/Campaign_Properties.thy ===== *)
theory Campaign_Properties
  imports Campaign_Samples
begin

text \<open>
  The properties of the campaign budget: the ledger refines its abstract specification, grants
  stay within the limits, an honest campaign never overspends, and settlement happens once.
\<close>

section \<open>The ledger\<close>




text \<open>
  C21. A reservation is granted only to a RUNNING campaign and only if everything spent, possibly
  billed and reserved, together with the request, stays within the call admission ceiling and the
  cost threshold; the totals then grow by exactly the granted amounts, which are positive in
  calls. A call that is not granted leaves the totals as they are.
\<close>

theorem reservations_within_limits:
  assumes "ledger_inv d" and "in_uow (reserve_run_budget scope conv clock) (l, d) = (Ok rc, (l', d'))"
    and "campaign_row scope (rl_campaign_id l) d = Some c"
  shows "\<exists>c'. campaign_row scope (rl_campaign_id l) d' = Some c'
    \<and> al_calls (ledger_of c' d') = al_calls (ledger_of c d) + br_reserved_calls rc
    \<and> al_cost (ledger_of c' d') = al_cost (ledger_of c d) + br_reserved_cost rc
    \<and> (br_allowed rc \<longrightarrow> cc_status c = Camp_RUNNING \<and> 1 \<le> br_reserved_calls rc
        \<and> al_calls (ledger_of c' d') \<le> cc_admission_ceiling c
        \<and> al_cost (ledger_of c' d') \<le> cc_cost_stop_threshold c)
    \<and> (\<not> br_allowed rc \<longrightarrow> br_reserved_calls rc = 0 \<and> br_reserved_cost rc = 0)"
proof -
  from assms(2) have op: "reserve_run_budget scope conv clock d l = (Ok (rc, d'), l')"
    by (simp add: in_uow_Ok)
  note inv' = reserve_inv [OF assms(1) op]
  show ?thesis using op
  proof (cases rule: reserve_cases)
    case unchanged
    with assms(3) show ?thesis by simp
  next
    case (stopped now x r intent reason)
    then have x: "x = c" using assms(3) by simp
    from flush_abstract(1) [OF assms(1) stopped(2,3,10), of scope "rl_campaign_id l"]
    have "campaign_row scope (rl_campaign_id l) d'
        = Some (stop_for_budget intent (''Budget admission denied: '' @ reason) now c)"
      by (simp add: x stop_for_budget_def same_campaign_def same_unit_def)
    with ledger_totals [OF assms(1,3)] ledger_totals [OF inv' this] stopped(5,11,12) this
    show ?thesis by (simp add: stop_for_budget_def)
  next
    case (granted now x r rq b)
    then have x: "x = c" using assms(3) by simp
    note rows = ledger_rows [OF assms(1) granted(2,3)] and rq = reservation_request_Ok [OF granted(8)]
    from flush_rows_columns(2) [OF granted(13)] have money: "money_column (rq_estimated_cost rq)"
      by (simp add: reserve_on_rows_def result_columns_def)
    note fits = granted(10) [unfolded admit_allowed campaign_budget_exact [OF granted(9) rows(1) rq(1) money]]
    from flush_abstract(1) [OF assms(1) granted(2,3,13), of scope "rl_campaign_id l"]
    have row: "campaign_row scope (rl_campaign_id l) d' = Some (fst (reserve_on_rows rq now c r))"
      by (simp add: x reserve_on_rows_def same_campaign_def same_unit_def)
    have "dec_add (cc_reserved_cost c) (rq_estimated_cost rq) = cc_reserved_cost c + rq_estimated_cost rq"
      using rows(1) rq(1) money by (auto simp: x intro: money_add dest: campaign_okD)
    with ledger_totals [OF assms(1,3)] ledger_totals [OF inv' row] granted fits rq(3) row
    show ?thesis by (simp add: x reserve_on_rows_def)
  qed
qed

theorem reservations_within_limits_witness:
  "\<exists>c'. campaign_row tid 7 reserved_cdb = Some c' \<and> al_calls (ledger_of c' reserved_cdb) \<le> 16
     \<and> al_cost (ledger_of c' reserved_cdb) \<le> 1 / 100"
proof -
  have "campaign_row tid (rl_campaign_id sample_lease) claimed_cdb = Some sample_campaign"
    by code_simp
  from reservations_within_limits [OF claimed_ledger_inv sample_reserved this] show ?thesis
    by (auto simp: granted_receipt_def sample_lease_def lease_of_row_def claimed_row_def
        sample_result_def sample_campaign_def)
qed

definition honest_at :: "uuid \<Rightarrow> uuid \<Rightarrow> cdb \<Rightarrow> cdb \<Rightarrow> bool" where
  "honest_at u v d d' \<longleftrightarrow>
     (\<forall>c c'. campaign_row u v d = Some c \<longrightarrow> campaign_row u v d' = Some c'
        \<longrightarrow> honest (ledger_of c d) (ledger_of c' d'))"

text \<open>
  C8. The campaign budget fails closed: from a campaign within its limits, as long as no
  reservation is closed above its amount, no sequence of transactions brings the total of
  spent, possibly billed and reserved calls over the admission ceiling, or the total cost over
  the threshold.
\<close>

theorem campaign_never_overspends:
  assumes "(\<lambda>a b. campaign_txn a b \<and> honest_at u v a b)\<^sup>*\<^sup>* d d'" and "ledger_inv d"
    and "campaign_row u v d = Some c"
    and "al_calls (ledger_of c d) \<le> cc_admission_ceiling c"
    and "al_cost (ledger_of c d) \<le> cc_cost_stop_threshold c"
  shows "\<exists>c'. campaign_row u v d' = Some c'
    \<and> cc_observed_calls c' + cc_possibly_billed_calls c' + cc_reserved_calls c' \<le> cc_admission_ceiling c
    \<and> cc_observed_cost c' + cc_possibly_billed_cost c' + cc_reserved_cost c' \<le> cc_cost_stop_threshold c"
proof -
  have "ledger_inv d' \<and> (\<exists>c'. campaign_row u v d' = Some c' \<and> same_limits c c'
      \<and> al_calls (ledger_of c' d') \<le> cc_admission_ceiling c
      \<and> al_cost (ledger_of c' d') \<le> cc_cost_stop_threshold c)"
    using assms
  proof (induction rule: rtranclp_induct)
    case base
    then show ?case by (auto simp: same_limits_def same_campaign_def)
  next
    case (step y z)
    then obtain c' where c': "ledger_inv y" "campaign_row u v y = Some c'" "same_limits c c'"
      "al_calls (ledger_of c' y) \<le> cc_admission_ceiling c" "al_cost (ledger_of c' y) \<le> cc_cost_stop_threshold c"
      by blast
    from step.hyps(2) have txn: "campaign_txn y z" and "honest_at u v y z" by auto
    from campaign_txn_moves [OF txn c'(1), of u v] c'(2) obtain c'' where c'':
      "campaign_row u v z = Some c''" "same_limits c' c''"
      "ledger_move (cc_admission_ceiling c') (cc_cost_stop_threshold c') (ledger_of c' y) (ledger_of c'' z)"
      by (auto simp: moves_to_def)
    with \<open>honest_at u v y z\<close> c'(2) have "honest (ledger_of c' y) (ledger_of c'' z)"
      by (auto simp: honest_at_def)
    from honest_moves_bounded [OF c''(3) this] c' c'' campaign_txn_inv [OF txn c'(1)] show ?case
      by (auto simp: same_limits_def same_campaign_def)
  qed
  then show ?thesis using ledger_totals by fastforce
qed

theorem campaign_never_overspends_witness:
  "\<exists>c'. campaign_row tid 7 reserved_cdb = Some c'
     \<and> cc_observed_calls c' + cc_possibly_billed_calls c' + cc_reserved_calls c' \<le> 16"
proof -
  have row: "campaign_row tid 7 claimed_cdb = Some sample_campaign" by code_simp
  have "open_of tid 7 claimed_cdb = {#}"
    by (simp add: open_of_def claimed_cdb_def put_result_def sample_cdb_def open_unit_def
        sample_result_def claimed_row_def)
  then have ledger: "ledger_of sample_campaign claimed_cdb
      = \<lparr>al_spent_calls = 0, al_spent_cost = 0, al_open = {#}\<rparr>"
    by (simp add: ledger_of_def sample_campaign_def)
  have "campaign_txn claimed_cdb reserved_cdb"
    by (auto simp: campaign_txn_def intro: ledger_txn.reserve [OF sample_reserved])
  moreover have "honest_at tid 7 claimed_cdb reserved_cdb"
    by (simp add: honest_at_def honest_def row ledger)
  ultimately have "(\<lambda>a b. campaign_txn a b \<and> honest_at tid 7 a b)\<^sup>*\<^sup>* claimed_cdb reserved_cdb" by blast
  moreover have "cc_admission_ceiling sample_campaign = 16" "cc_cost_stop_threshold sample_campaign = 1 / 100"
    by (simp_all add: sample_campaign_def)
  ultimately show ?thesis
    using campaign_never_overspends [OF _ claimed_ledger_inv row, of reserved_cdb]
    by (auto simp: ledger al_calls_def al_cost_def open_calls_def open_cost_def)
qed

section \<open>Settlement\<close>



end
