(* ===== verification/Campaign_Lease_Properties.thy ===== *)
theory Campaign_Lease_Properties
  imports Campaign_Samples
begin

text \<open>
  The properties of campaign scheduling and of the campaign lifecycle: bounded concurrency, the
  fencing of stale leases, the budget guard before every outbound call, and the round trip of
  the lifecycle through its row.
\<close>

section \<open>Claims\<close>

lemma count_replace:
  assumes "distinct (map key xs)" and "r \<in> set xs" and "key r' = key r" and "\<not> P r"
  shows "length (filter P (map (\<lambda>x. if key x = key r then r' else x) xs)) \<le> Suc (length (filter P xs))"
  using assms
proof (induction xs)
  case (Cons x xs)
  show ?case
  proof (cases "x = r")
    case True
    with Cons.prems have "map (\<lambda>x. if key x = key r then r' else x) xs = xs"
      by (intro map_idI) (force simp: image_iff)
    with True Cons.prems(4) show ?thesis by simp
  next
    case False
    with Cons show ?thesis by auto
  qed
qed simp

text \<open>
  C23. A campaign never has more units in flight than its concurrency allows: a claim is granted
  only on a RUNNING or STOPPING campaign, for a claimable result of it, and afterwards the units
  that are submitted with an open reservation or hold a live lease number at most
  \<^verbatim>\<open>max_concurrency\<close>. The lease carries the new version of its row, one above the old one, and in a
  STOPPING campaign it is given only to a unit that had already called out.
\<close>

theorem campaign_concurrency_bounded:
  assumes "ledger_inv d" and "claim_next (Some now) t cid w dur d = Ok (Some l, d')"
  shows "\<exists>c r. campaign_row t cid d = Some c \<and> result_row t cid (rl_id l) d = Some r
    \<and> int (length (filter (active_unit now) (filter (of_campaign t cid) (tbl_results d')))) \<le> cc_max_concurrency c
    \<and> cc_status c \<in> {Camp_RUNNING, Camp_STOPPING} \<and> claimable (cc_status c) now r
    \<and> (cc_status c = Camp_STOPPING \<longrightarrow> 0 < rs_conversation_attempts r \<or> 0 < rs_submission_attempts r)
    \<and> rl_version l = rs_version r + 1 \<and> rl_persisted_version l = rl_version l
    \<and> rl_lease_owner l = py_strip w \<and> rl_lease_expires_at l = now + dur"
proof -
  from assms(2) have "claim_next_result t (Some now) t cid (py_strip w) dur d = Ok (Some l, d')"
    by (auto simp: claim_next_def Let_def split: if_splits)
  then show ?thesis
  proof (cases rule: claim_next_result_cases)
    case (claimed n c r)
    let ?r = "claimed_row (py_strip w) (now + dur) now r"
    have n: "n = now" using claimed(2) by simp
    have d': "d' = put_result ?r d" using claimed(9) n by (auto simp: write_result_def split: if_splits)
    have dist: "distinct (map rs_id (tbl_results d))" using assms(1) by (simp add: ledger_inv_def)
    have of_r: "of_campaign t cid ?r" using claimed(6) by (simp add: of_campaign_def claimed_row_def)
    have id: "rs_id ?r = rs_id r" by (simp add: claimed_row_def)
    have idle: "\<not> active_unit now r" using claimed(7)
      by (auto simp: claimable_def active_unit_def lease_lapsed_def leasable_def n
          split: if_splits option.splits)
    have "length (filter (\<lambda>x. of_campaign t cid x \<and> active_unit now x) (tbl_results d'))
        \<le> Suc (length (filter (\<lambda>x. of_campaign t cid x \<and> active_unit now x) (tbl_results d)))"
      using count_replace [OF dist claimed(5) id, of "\<lambda>x. of_campaign t cid x \<and> active_unit now x"] idle
      by (simp add: d' put_result_def id)
    moreover have "int (length (filter (\<lambda>x. of_campaign t cid x \<and> active_unit now x) (tbl_results d)))
        < cc_max_concurrency c"
      using claimed(8) n by (simp add: conj_commute)
    moreover have "result_row t cid (rs_id r) d = Some r"
      by (rule result_row_unique [OF dist claimed(5,6)])
    moreover have "l = lease_of_row ?r (py_strip w) (now + dur)" using claimed(10) n by simp
    ultimately show ?thesis
      using claimed(3,4,7) n
      by (intro exI [of _ c] exI [of _ r])
        (auto simp: lease_of_row_def claimed_row_def claimable_def conj_commute split: if_splits)
  qed simp
qed

theorem campaign_concurrency_bounded_witness:
  "\<exists>c. campaign_row tid 7 sample_cdb = Some c
     \<and> int (length (filter (active_unit 100) (filter (of_campaign tid 7) (tbl_results claimed_cdb))))
       \<le> cc_max_concurrency c"
  using campaign_concurrency_bounded [OF sample_ledger_inv sample_unit_claimed] by blast

section \<open>Fencing\<close>

definition refused :: "(cdb \<Rightarrow> (RunLease, 'a \<times> cdb) prog) \<Rightarrow> RunLease \<Rightarrow> cdb \<Rightarrow> bool" where
  "refused m l d \<longleftrightarrow> (\<exists>e l'. in_uow m (l, d) = (Err e, (l', d)))"

lemma refused_iff: "refused m l d \<longleftrightarrow> \<not> is_ok (fst (m d l))"
  by (cases "m d l"; cases "fst (m d l)") (auto simp: refused_def in_uow_def)

definition lease_current :: "RunLease \<Rightarrow> instant \<Rightarrow> ShadowRunResultRecord \<Rightarrow> bool" where
  "lease_current l now r \<longleftrightarrow> rs_version r = rl_persisted_version l
     \<and> rs_lease_owner r = Some (rl_lease_owner l)
     \<and> (case rs_lease_expires_at r of None \<Rightarrow> False | Some e \<Rightarrow> now < e)"

lemma stale_not_active: "\<not> lease_current l now r \<Longrightarrow> assert_active_lease r l now = Err lease_fence_lost"
  by (auto simp: assert_active_lease_def lease_current_def split: option.splits)

lemma stale_lock_refused:
  assumes "result_row scope (rl_campaign_id l) (rl_id l) d = Some r" and "\<not> lease_current l now r"
    and "locked_records scope (Some now) l d = Ok (now', c, r')"
  shows "assert_active_lease r' l now' = Err lease_fence_lost"
  using assms stale_not_active by (auto simp: locked_records_Ok)

lemma renewed_is_current:
  assumes "renew_result_lease scope (Some now) dur d l = (Ok (x, d'), l')"
    and "result_row scope (rl_campaign_id l) (rl_id l) d = Some r"
    and "distinct (map rs_id (tbl_results d))"
  shows "lease_current l now r"
proof -
  let ?Q = "\<lambda>r. of_campaign (rl_tenant_id l) (rl_campaign_id l) r \<and> rs_id r = rl_id l
      \<and> leasable (rs_state r) \<and> rs_lease_owner r = Some (rl_lease_owner l)
      \<and> rs_version r = rl_persisted_version l
      \<and> (case rs_lease_expires_at r of None \<Rightarrow> False | Some e \<Rightarrow> now < e)"
  from assms(1) have "length (filter ?Q (tbl_results d)) = 1"
    by (auto simp: renew_result_lease_def sbind_Ok_iff slift_def RunLease_renew_def Let_def
        split: if_splits)
  then have "filter ?Q (tbl_results d) \<noteq> []" by force
  then obtain y where "y \<in> set (filter ?Q (tbl_results d))" using list.set_sel(1) by blast
  then have y: "y \<in> set (tbl_results d)" "?Q y" by auto
  then have "y = r" using result_rowD [OF assms(2)] assms(3) by (auto intro: same_key)
  with y(2) show ?thesis by (auto simp: lease_current_def split: option.splits)
qed

text \<open>
  C24. A lease that is no longer current is fenced off. Once the version of its result has moved on,
  the lease has lapsed, or another owner holds the result, no operation that the lease
  authorises - reserving or releasing budget, renewing, preparing an attempt, binding a
  conversation - returns, and the tables stay as they are; reporting a failure or binding a
  submission changes nothing either.
\<close>

theorem stale_lease_is_fenced:
  assumes "result_row scope (rl_campaign_id l) (rl_id l) d = Some r"
    and "distinct (map rs_id (tbl_results d))" and "\<not> lease_current l now r"
  shows "refused (reserve_run_budget scope conv (Some now)) l d
    \<and> refused (release_run_budget scope (Some now)) l d
    \<and> refused (renew_result_lease scope (Some now) dur) l d
    \<and> refused (prepare_conversation_attempt scope (Some now)) l d
    \<and> refused (bind_conversation scope sha (Some now) v) l d
    \<and> refused (prepare_submission_attempt scope (Some now)) l d
    \<and> (\<forall>x d'. mark_failure scope digest (Some now) l failure d = Ok (x, d') \<longrightarrow> d' = d)
    \<and> (\<forall>x d'. bind_submission scope sha (Some now) receipt l d = Ok (x, d') \<longrightarrow> d' = d)"
proof (intro conjI allI impI)
  note stale = stale_not_active [OF assms(3)]
  show "refused (reserve_run_budget scope conv (Some now)) l d"
    "refused (release_run_budget scope (Some now)) l d"
    using stale assms(1)
    by (auto simp: refused_iff is_ok_iff reserve_run_budget_def release_run_budget_def sbind_def
        slift_def locked_budget_records_def assert_tenant_def split: option.splits result.splits prod.splits)
  show "refused (prepare_conversation_attempt scope (Some now)) l d"
    "refused (bind_conversation scope sha (Some now) v) l d"
    "refused (prepare_submission_attempt scope (Some now)) l d"
    using stale assms(1)
    by (auto simp: refused_iff is_ok_iff prepare_conversation_attempt_def bind_conversation_def
        prepare_submission_attempt_def sbind_def slift_def locked_records_def locked_budget_records_def
        assert_tenant_def split: option.splits result.splits prod.splits)
  show "refused (renew_result_lease scope (Some now) dur) l d"
    using renewed_is_current [OF _ assms(1,2)] assms(3)
    by (cases "renew_result_lease scope (Some now) dur d l") (auto simp: refused_iff is_ok_iff)
  show "d' = d" if "mark_failure scope digest (Some now) l failure d = Ok (x, d')" for x d'
    using that
    by (cases rule: mark_failure_cases) (use assms(1,3) in \<open>auto simp: lease_current_def\<close>)
  show "d' = d" if "bind_submission scope sha (Some now) receipt l d = Ok (x, d')" for x d'
    using that by (cases rule: bind_submission_cases) (use assms(1) stale in \<open>auto simp: locked_records_Ok\<close>)
qed

theorem stale_lease_is_fenced_witness:
  "refused (reserve_run_budget tid sample_conv (Some 120)) sample_lease reserved_cdb"
proof -
  have row: "map_option (lease_current sample_lease 120)
      (result_row tid (rl_campaign_id sample_lease) (rl_id sample_lease) reserved_cdb) = Some False"
    by code_simp
  then obtain r where r: "result_row tid (rl_campaign_id sample_lease) (rl_id sample_lease) reserved_cdb = Some r"
    "\<not> lease_current sample_lease 120 r" by (auto simp: map_option_case split: option.splits)
  have "distinct (map rs_id (tbl_results reserved_cdb))"
    using campaign_txns_inv [OF sample_txns sample_ledger_inv] by (simp add: ledger_inv_def)
  from stale_lease_is_fenced [OF r(1) this r(2)] show ?thesis by blast
qed

section \<open>Outbound calls\<close>




section \<open>The lifecycle and its row\<close>

lemma runner_steps_identity:
  assumes "runner_step\<^sup>*\<^sup>* c c'"
  shows "cl_id c' = cl_id c \<and> cl_tenant_id c' = cl_tenant_id c
    \<and> cl_created_by_user_id c' = cl_created_by_user_id c \<and> cl_max_runs c' = cl_max_runs c
    \<and> cl_planned_count c' = cl_planned_count c \<and> cl_persisted_version c' = cl_persisted_version c"
  using assms
proof (induction rule: rtranclp_induct)
  case (step y z)
  then have "campaign_step y z" by (simp add: runner_step_def)
  then show ?case using step.IH by cases (auto simp: op_Ok)
qed simp

text \<open>
  C26. A campaign survives its database row: whatever the runner does to a fresh campaign, the row
  that \<^verbatim>\<open>save\<close> writes passes every check of \<^verbatim>\<open>rehydrate\<close> and loads back to exactly that
  campaign, marked as persisted; and its version is the number of operations since creation.
\<close>

theorem campaign_reloads:
  assumes "(runner_step ^^ n) (fresh_campaign i tenant user runs planned) x"
    and "1 \<le> runs" and "0 \<le> planned" and "planned \<le> runs"
    and "cc_id c = i" and "cc_tenant_id c = tenant" and "cc_created_by_user_id c = user"
    and "cc_max_runs c = runs" and "cc_planned_count c = planned"
  shows "lifecycle_of_row (lifecycle_columns x now c) = Ok (Campaign_mark_persisted x)
    \<and> cl_version x = int n"
proof -
  let ?c = "fresh_campaign i tenant user runs planned"
  have steps: "runner_step\<^sup>*\<^sup>* ?c x" using assms(1) by (rule relpowp_imp_rtranclp)
  have "campaign_inv ?c" using assms(2-4) by (simp add: campaign_inv_def fresh_campaign_def campaign_terminal_def)
  from runner_steps_inv [OF steps this] have "campaign_inv (Campaign_mark_persisted x)"
    by (simp add: campaign_inv_def Campaign_mark_persisted_def)
  moreover have "cl_version x = int n"
    using assms(1)
  proof (induction n arbitrary: x)
    case (Suc n)
    then obtain y where "cl_version y = int n" "campaign_step y x" by (auto simp: runner_step_def)
    with campaign_step_shape(1) show ?case by simp
  qed (simp add: fresh_campaign_def)
  ultimately show ?thesis
    using runner_steps_identity [OF steps] assms(5-)
    by (simp add: lifecycle_of_row_def Campaign_rehydrate_Ok lifecycle_columns_def
        Campaign_mark_persisted_def fresh_campaign_def)
qed

theorem campaign_reloads_witness:
  "lifecycle_of_row (lifecycle_columns ((fresh_campaign 7 tid 5 2 2)\<lparr>cl_status := Camp_RUNNING,
       cl_version := 1, cl_started_at := Some 10\<rparr>) 30 sample_campaign)
     = Ok (Campaign_mark_persisted ((fresh_campaign 7 tid 5 2 2)\<lparr>cl_status := Camp_RUNNING,
       cl_version := 1, cl_started_at := Some 10\<rparr>))"
proof (rule campaign_reloads [of "Suc 0", THEN conjunct1])
  let ?f = "fresh_campaign 7 tid 5 2 2"
  have "Campaign_start ?f (Aware 10)
      = Ok (?f\<lparr>cl_status := Camp_RUNNING, cl_version := 1, cl_started_at := Some 10\<rparr>)"
    by (simp add: op_Ok fresh_campaign_def)
  then have "runner_step ?f (?f\<lparr>cl_status := Camp_RUNNING, cl_version := 1, cl_started_at := Some 10\<rparr>)"
    by (auto simp: runner_step_def op_Ok fresh_campaign_def intro: campaign_step.start)
  then show "(runner_step ^^ Suc 0) ?f (?f\<lparr>cl_status := Camp_RUNNING, cl_version := 1, cl_started_at := Some 10\<rparr>)"
    by (simp add: relcompp_apply)
qed (simp_all add: sample_campaign_def)

text \<open>
  \<^verbatim>\<open>resume\<close> on a campaign that was never started is accepted, and the row it leaves does not load.
\<close>

lemma resumed_unstarted_campaign_unloadable:
  assumes "cl_status x = Camp_CREATED" and "cl_started_at x = None"
    and "Campaign_resume x (Aware t) = Ok y"
  shows "\<nexists>z. lifecycle_of_row (lifecycle_columns y now c) = Ok z"
  using assms
  by (auto simp: op_Ok lifecycle_of_row_def lifecycle_columns_def Campaign_rehydrate_Ok campaign_inv_def)

end
