(* ===== verification/Search_Tables.thy ===== *)
theory Search_Tables
  imports Conversation
begin

text \<open>
  The tables of \<^verbatim>\<open>sana/platform/db/models/search.py\<close> beside the work tables and the
  conversation tables, and the statement \<^verbatim>\<open>INSERT ... ON CONFLICT DO NOTHING\<close> through which
  the completion of a step fills them. An insertion checks, in the order PostgreSQL does,
  that the values fit their columns, the CHECK constraint, the unique keys (a conflict
  keeps the old row) and the foreign keys of a row that is really inserted. A deferred
  foreign key is checked at the statement too: no later statement of the transaction
  inserts its parent.
\<close>

section \<open>Rows\<close>

record FactRow =
  fw_id :: uuid
  fw_tenant_id :: uuid
  fw_run_id :: uuid
  fw_fact_key :: string
  fw_description :: string
  fw_required :: bool
  fw_freshness :: string
  fw_consequence :: string
  fw_status :: string

record QueryRow =
  qw_id :: uuid
  qw_tenant_id :: uuid
  qw_run_id :: uuid
  qw_fact_requirement_id :: "uuid option"
  qw_plan_revision :: int
  qw_query_key :: string
  qw_query_text :: string
  qw_provider_class :: string
  qw_locale :: "string option"
  qw_freshness_days :: "int option"
  qw_query_metadata :: "(string, json) dict"

record ProviderAttemptRow =
  pw_id :: uuid
  pw_tenant_id :: uuid
  pw_run_id :: uuid
  pw_query_spec_id :: uuid
  pw_attempt_no :: int
  pw_provider :: string
  pw_status :: string
  pw_started_at :: instant
  pw_completed_at :: "instant option"
  pw_latency_ms :: "int option"
  pw_error_type :: "string option"
  pw_error_code :: "string option"

record SearchHitRow =
  hw_id :: uuid
  hw_tenant_id :: uuid
  hw_run_id :: uuid
  hw_provider_attempt_id :: uuid
  hw_rank :: int
  hw_url :: string
  hw_canonical_url :: string
  hw_url_hash :: string
  hw_title :: string
  hw_snippet :: string
  hw_score :: pyfloat
  hw_discovered_at :: instant

record FetchRow =
  tw_id :: uuid
  tw_tenant_id :: uuid
  tw_run_id :: uuid
  tw_search_hit_id :: "uuid option"
  tw_url :: string
  tw_url_hash :: string
  tw_attempt_no :: int
  tw_fetcher :: string
  tw_status :: string
  tw_http_status :: "int option"
  tw_media_type :: "string option"
  tw_content_hash :: "string option"
  tw_storage_uri :: "string option"
  tw_response_bytes :: "int option"
  tw_fetched_at :: instant
  tw_fetch_metadata :: "(string, json) dict"

record DocumentRow =
  dw_id :: uuid
  dw_tenant_id :: uuid
  dw_canonical_url :: string
  dw_canonical_url_hash :: string
  dw_title :: string
  dw_source_host :: string

record VersionRow =
  nw_id :: uuid
  nw_tenant_id :: uuid
  nw_document_id :: uuid
  nw_fetch_artifact_id :: "uuid option"
  nw_content_hash :: string
  nw_storage_uri :: string
  nw_media_type :: string
  nw_language :: "string option"
  nw_text_length :: int
  nw_fetched_at :: instant
  nw_document_metadata :: "(string, json) dict"

record VersionFetchRow =
  lw_id :: uuid
  lw_tenant_id :: uuid
  lw_run_id :: uuid
  lw_document_version_id :: uuid
  lw_fetch_artifact_id :: uuid
  lw_created_at :: instant

record ChunkRow =
  kw_id :: uuid
  kw_tenant_id :: uuid
  kw_document_version_id :: uuid
  kw_ordinal :: int
  kw_text_content :: string
  kw_text_hash :: string
  kw_token_count :: int
  kw_start_offset :: int
  kw_end_offset :: int

record CandidateRow =
  ew_id :: uuid
  ew_tenant_id :: uuid
  ew_run_id :: uuid
  ew_fact_requirement_id :: uuid
  ew_document_version_id :: uuid
  ew_document_chunk_id :: uuid
  ew_quote :: string
  ew_quote_hash :: string
  ew_start_offset :: int
  ew_end_offset :: int
  ew_support_type :: string
  ew_candidate_score :: pyfloat
  ew_source_identity :: string
  ew_source_authority :: string

record VerifiedRow =
  xw_id :: uuid
  xw_tenant_id :: uuid
  xw_run_id :: uuid
  xw_candidate_id :: uuid
  xw_verdict :: string
  xw_confidence :: pyfloat
  xw_reason_codes :: "json list"
  xw_verifier_version :: string
  xw_verified_at :: instant

record ClaimRow =
  cw_id :: uuid
  cw_tenant_id :: uuid
  cw_run_id :: uuid
  cw_claim_key :: string
  cw_claim_text :: string
  cw_support_status :: string
  cw_claim_kind :: "string option"
  cw_fact_requirement_id :: "uuid option"

record CitationRow =
  zw_id :: uuid
  zw_tenant_id :: uuid
  zw_run_id :: uuid
  zw_answer_claim_id :: uuid
  zw_verified_evidence_id :: uuid
  zw_ordinal :: int
  zw_label :: string
  zw_rendered_url :: string
  zw_document_version_id :: uuid
  zw_document_chunk_id :: uuid
  zw_quote :: string
  zw_start_offset :: int
  zw_end_offset :: int

text \<open>
  The whole application database. \<open>ap_created_at\<close> and \<open>ap_updated_at\<close> are the server-side
  timestamp columns of the step rows, by step identifier.
\<close>

record app_db = db +
  ap_conversations :: "ConversationRow list"
  ap_messages :: "MessageRow list"
  ap_response_runs :: "ResponseRunRow list"
  ap_facts :: "FactRow list"
  ap_queries :: "QueryRow list"
  ap_provider_attempts :: "ProviderAttemptRow list"
  ap_hits :: "SearchHitRow list"
  ap_fetches :: "FetchRow list"
  ap_documents :: "DocumentRow list"
  ap_versions :: "VersionRow list"
  ap_version_fetches :: "VersionFetchRow list"
  ap_chunks :: "ChunkRow list"
  ap_candidates :: "CandidateRow list"
  ap_verified :: "VerifiedRow list"
  ap_claims :: "ClaimRow list"
  ap_citations :: "CitationRow list"
  ap_created_at :: "uuid \<Rightarrow> instant"
  ap_updated_at :: "uuid \<Rightarrow> instant"

section \<open>INSERT ... ON CONFLICT DO NOTHING\<close>

definition varchar :: "nat \<Rightarrow> string \<Rightarrow> bool" where
  "varchar n s \<longleftrightarrow> length s \<le> n"

definition opt_varchar :: "nat \<Rightarrow> string option \<Rightarrow> bool" where
  "opt_varchar n s \<longleftrightarrow> (case s of None \<Rightarrow> True | Some x \<Rightarrow> varchar n x)"

definition int4 :: "int \<Rightarrow> bool" where
  "int4 i \<longleftrightarrow> - 2147483648 \<le> i \<and> i \<le> 2147483647"

definition opt_int4 :: "int option \<Rightarrow> bool" where
  "opt_int4 i \<longleftrightarrow> (case i of None \<Rightarrow> True | Some x \<Rightarrow> int4 x)"

definition insert_ignore ::
  "bool \<Rightarrow> bool \<Rightarrow> ('r \<Rightarrow> bool) \<Rightarrow> bool \<Rightarrow> 'r \<Rightarrow> 'r list \<Rightarrow> 'r list result" where
  "insert_ignore fits checked conflict parents row rows =
     (if \<not> fits then Err data_error
      else if \<not> checked then Err integrity_error
      else if list_ex conflict rows then Ok rows
      else if parents then Ok (rows @ [row])
      else Err integrity_error)"

definition has_run :: "uuid \<Rightarrow> 'x tables \<Rightarrow> bool" where
  "has_run i d = list_ex (\<lambda>r. rr_id r = i) (tbl_runs d)"

definition opt_parent :: "uuid option \<Rightarrow> (uuid \<Rightarrow> bool) \<Rightarrow> bool" where
  "opt_parent i known = (case i of None \<Rightarrow> True | Some x \<Rightarrow> known x)"

definition insert_fact :: "FactRow \<Rightarrow> app_db \<Rightarrow> app_db result" where
  "insert_fact r d =
     rbind (insert_ignore
       (varchar 200 (fw_fact_key r) \<and> varchar 32 (fw_freshness r) \<and> varchar 32 (fw_consequence r)
          \<and> varchar 32 (fw_status r)) True
       (\<lambda>x. fw_id x = fw_id r \<or> fw_run_id x = fw_run_id r \<and> fw_fact_key x = fw_fact_key r)
       (has_run (fw_run_id r) d) r (ap_facts d)) (\<lambda>rows. Ok (d\<lparr>ap_facts := rows\<rparr>))"

definition insert_query :: "QueryRow \<Rightarrow> app_db \<Rightarrow> app_db result" where
  "insert_query r d =
     rbind (insert_ignore
       (int4 (qw_plan_revision r) \<and> varchar 200 (qw_query_key r) \<and> varchar 100 (qw_provider_class r)
          \<and> opt_varchar 32 (qw_locale r) \<and> opt_int4 (qw_freshness_days r)) True
       (\<lambda>x. qw_id x = qw_id r \<or> qw_run_id x = qw_run_id r
            \<and> qw_plan_revision x = qw_plan_revision r \<and> qw_query_key x = qw_query_key r)
       (has_run (qw_run_id r) d
          \<and> opt_parent (qw_fact_requirement_id r) (\<lambda>i. list_ex (\<lambda>x. fw_id x = i) (ap_facts d)))
       r (ap_queries d)) (\<lambda>rows. Ok (d\<lparr>ap_queries := rows\<rparr>))"

definition insert_provider_attempt :: "ProviderAttemptRow \<Rightarrow> app_db \<Rightarrow> app_db result" where
  "insert_provider_attempt r d =
     rbind (insert_ignore
       (int4 (pw_attempt_no r) \<and> varchar 100 (pw_provider r) \<and> varchar 32 (pw_status r)
          \<and> opt_int4 (pw_latency_ms r) \<and> opt_varchar 64 (pw_error_type r)
          \<and> opt_varchar 200 (pw_error_code r)) True
       (\<lambda>x. pw_id x = pw_id r \<or> pw_query_spec_id x = pw_query_spec_id r
            \<and> pw_provider x = pw_provider r \<and> pw_attempt_no x = pw_attempt_no r)
       (has_run (pw_run_id r) d \<and> list_ex (\<lambda>x. qw_id x = pw_query_spec_id r) (ap_queries d))
       r (ap_provider_attempts d)) (\<lambda>rows. Ok (d\<lparr>ap_provider_attempts := rows\<rparr>))"

definition insert_hit :: "SearchHitRow \<Rightarrow> app_db \<Rightarrow> app_db result" where
  "insert_hit r d =
     rbind (insert_ignore (int4 (hw_rank r) \<and> varchar 64 (hw_url_hash r)) True
       (\<lambda>x. hw_id x = hw_id r \<or> hw_provider_attempt_id x = hw_provider_attempt_id r
            \<and> hw_url_hash x = hw_url_hash r)
       (has_run (hw_run_id r) d
          \<and> list_ex (\<lambda>x. pw_id x = hw_provider_attempt_id r) (ap_provider_attempts d))
       r (ap_hits d)) (\<lambda>rows. Ok (d\<lparr>ap_hits := rows\<rparr>))"

definition insert_fetch :: "FetchRow \<Rightarrow> app_db \<Rightarrow> app_db result" where
  "insert_fetch r d =
     rbind (insert_ignore
       (varchar 64 (tw_url_hash r) \<and> int4 (tw_attempt_no r) \<and> varchar 100 (tw_fetcher r)
          \<and> varchar 32 (tw_status r) \<and> opt_int4 (tw_http_status r) \<and> opt_varchar 200 (tw_media_type r)
          \<and> opt_varchar 64 (tw_content_hash r) \<and> opt_int4 (tw_response_bytes r)) True
       (\<lambda>x. tw_id x = tw_id r \<or> tw_run_id x = tw_run_id r \<and> tw_url_hash x = tw_url_hash r
            \<and> tw_attempt_no x = tw_attempt_no r)
       (has_run (tw_run_id r) d
          \<and> opt_parent (tw_search_hit_id r) (\<lambda>i. list_ex (\<lambda>x. hw_id x = i) (ap_hits d)))
       r (ap_fetches d)) (\<lambda>rows. Ok (d\<lparr>ap_fetches := rows\<rparr>))"

definition insert_document :: "DocumentRow \<Rightarrow> app_db \<Rightarrow> app_db result" where
  "insert_document r d =
     rbind (insert_ignore (varchar 64 (dw_canonical_url_hash r) \<and> varchar 500 (dw_source_host r)) True
       (\<lambda>x. dw_id x = dw_id r \<or> dw_tenant_id x = dw_tenant_id r
            \<and> dw_canonical_url_hash x = dw_canonical_url_hash r)
       True r (ap_documents d)) (\<lambda>rows. Ok (d\<lparr>ap_documents := rows\<rparr>))"

definition insert_version :: "VersionRow \<Rightarrow> app_db \<Rightarrow> app_db result" where
  "insert_version r d =
     rbind (insert_ignore
       (varchar 64 (nw_content_hash r) \<and> varchar 200 (nw_media_type r) \<and> opt_varchar 32 (nw_language r)
          \<and> int4 (nw_text_length r)) True
       (\<lambda>x. nw_id x = nw_id r \<or> nw_document_id x = nw_document_id r
            \<and> nw_content_hash x = nw_content_hash r)
       (list_ex (\<lambda>x. dw_id x = nw_document_id r) (ap_documents d)
          \<and> opt_parent (nw_fetch_artifact_id r) (\<lambda>i. list_ex (\<lambda>x. tw_id x = i) (ap_fetches d)))
       r (ap_versions d)) (\<lambda>rows. Ok (d\<lparr>ap_versions := rows\<rparr>))"

definition insert_version_fetch :: "VersionFetchRow \<Rightarrow> app_db \<Rightarrow> app_db result" where
  "insert_version_fetch r d =
     rbind (insert_ignore True True
       (\<lambda>x. lw_id x = lw_id r \<or> lw_tenant_id x = lw_tenant_id r \<and> lw_run_id x = lw_run_id r
            \<and> lw_document_version_id x = lw_document_version_id r
            \<and> lw_fetch_artifact_id x = lw_fetch_artifact_id r)
       (list_ex (\<lambda>x. rr_tenant_id x = lw_tenant_id r \<and> rr_id x = lw_run_id r) (tbl_runs d)
          \<and> list_ex (\<lambda>x. nw_tenant_id x = lw_tenant_id r \<and> nw_id x = lw_document_version_id r)
              (ap_versions d)
          \<and> list_ex (\<lambda>x. tw_tenant_id x = lw_tenant_id r \<and> tw_run_id x = lw_run_id r
                         \<and> tw_id x = lw_fetch_artifact_id r) (ap_fetches d))
       r (ap_version_fetches d)) (\<lambda>rows. Ok (d\<lparr>ap_version_fetches := rows\<rparr>))"

definition insert_chunk :: "ChunkRow \<Rightarrow> app_db \<Rightarrow> app_db result" where
  "insert_chunk r d =
     rbind (insert_ignore
       (int4 (kw_ordinal r) \<and> varchar 64 (kw_text_hash r) \<and> int4 (kw_token_count r)
          \<and> int4 (kw_start_offset r) \<and> int4 (kw_end_offset r)) True
       (\<lambda>x. kw_id x = kw_id r \<or> kw_document_version_id x = kw_document_version_id r
            \<and> kw_ordinal x = kw_ordinal r)
       (list_ex (\<lambda>x. nw_id x = kw_document_version_id r) (ap_versions d))
       r (ap_chunks d)) (\<lambda>rows. Ok (d\<lparr>ap_chunks := rows\<rparr>))"

definition insert_candidate :: "CandidateRow \<Rightarrow> app_db \<Rightarrow> app_db result" where
  "insert_candidate r d =
     rbind (insert_ignore
       (varchar 64 (ew_quote_hash r) \<and> int4 (ew_start_offset r) \<and> int4 (ew_end_offset r)
          \<and> varchar 32 (ew_support_type r) \<and> varchar 500 (ew_source_identity r)
          \<and> varchar 32 (ew_source_authority r))
       (0 \<le> ew_start_offset r \<and> ew_start_offset r \<le> ew_end_offset r)
       (\<lambda>x. ew_id x = ew_id r \<or> ew_fact_requirement_id x = ew_fact_requirement_id r
            \<and> ew_document_chunk_id x = ew_document_chunk_id r \<and> ew_quote_hash x = ew_quote_hash r)
       (has_run (ew_run_id r) d \<and> list_ex (\<lambda>x. fw_id x = ew_fact_requirement_id r) (ap_facts d)
          \<and> list_ex (\<lambda>x. nw_id x = ew_document_version_id r) (ap_versions d)
          \<and> list_ex (\<lambda>x. kw_id x = ew_document_chunk_id r) (ap_chunks d))
       r (ap_candidates d)) (\<lambda>rows. Ok (d\<lparr>ap_candidates := rows\<rparr>))"

definition insert_verified :: "VerifiedRow \<Rightarrow> app_db \<Rightarrow> app_db result" where
  "insert_verified r d =
     rbind (insert_ignore (varchar 32 (xw_verdict r) \<and> varchar 100 (xw_verifier_version r)) True
       (\<lambda>x. xw_id x = xw_id r \<or> xw_candidate_id x = xw_candidate_id r)
       (has_run (xw_run_id r) d \<and> list_ex (\<lambda>x. ew_id x = xw_candidate_id r) (ap_candidates d))
       r (ap_verified d)) (\<lambda>rows. Ok (d\<lparr>ap_verified := rows\<rparr>))"

definition insert_claim :: "ClaimRow \<Rightarrow> app_db \<Rightarrow> app_db result" where
  "insert_claim r d =
     rbind (insert_ignore
       (varchar 200 (cw_claim_key r) \<and> varchar 32 (cw_support_status r) \<and> opt_varchar 32 (cw_claim_kind r))
       ((case cw_claim_kind r of None \<Rightarrow> True
           | Some k \<Rightarrow> k \<in> set [''FACTUAL'', ''UNCERTAINTY'', ''COMMENTARY''])
          \<and> (cw_claim_kind r \<noteq> Some ''FACTUAL'' \<or> cw_fact_requirement_id r \<noteq> None))
       (\<lambda>x. cw_id x = cw_id r \<or> cw_run_id x = cw_run_id r \<and> cw_claim_key x = cw_claim_key r)
       (has_run (cw_run_id r) d
          \<and> opt_parent (cw_fact_requirement_id r) (\<lambda>i.
              list_ex (\<lambda>x. fw_tenant_id x = cw_tenant_id r \<and> fw_run_id x = cw_run_id r \<and> fw_id x = i)
                (ap_facts d)))
       r (ap_claims d)) (\<lambda>rows. Ok (d\<lparr>ap_claims := rows\<rparr>))"

definition insert_citation :: "CitationRow \<Rightarrow> app_db \<Rightarrow> app_db result" where
  "insert_citation r d =
     rbind (insert_ignore
       (int4 (zw_ordinal r) \<and> varchar 100 (zw_label r) \<and> int4 (zw_start_offset r)
          \<and> int4 (zw_end_offset r)) True
       (\<lambda>x. zw_id x = zw_id r \<or> zw_answer_claim_id x = zw_answer_claim_id r
            \<and> zw_ordinal x = zw_ordinal r)
       (has_run (zw_run_id r) d \<and> list_ex (\<lambda>x. cw_id x = zw_answer_claim_id r) (ap_claims d)
          \<and> list_ex (\<lambda>x. xw_id x = zw_verified_evidence_id r) (ap_verified d)
          \<and> list_ex (\<lambda>x. nw_id x = zw_document_version_id r) (ap_versions d)
          \<and> list_ex (\<lambda>x. kw_id x = zw_document_chunk_id r) (ap_chunks d))
       r (ap_citations d)) (\<lambda>rows. Ok (d\<lparr>ap_citations := rows\<rparr>))"

definition insert_message :: "MessageRow \<Rightarrow> app_db \<Rightarrow> app_db result" where
  "insert_message r d =
     rbind (insert_ignore (varchar 32 (mg_role r) \<and> opt_varchar 200 (mg_idempotency_key r)) True
       (\<lambda>x. mg_id x = mg_id r \<or> mg_tenant_id x = mg_tenant_id r
            \<and> mg_conversation_id x = mg_conversation_id r
            \<and> mg_idempotency_key x = mg_idempotency_key r \<and> mg_idempotency_key r \<noteq> None)
       (list_ex (\<lambda>v. cv_id v = mg_conversation_id r) (ap_conversations d))
       r (ap_messages d)) (\<lambda>rows. Ok (d\<lparr>ap_messages := rows\<rparr>))"

lemmas insert_defs = insert_fact_def insert_query_def insert_provider_attempt_def insert_hit_def
  insert_fetch_def insert_document_def insert_version_def insert_version_fetch_def insert_chunk_def
  insert_candidate_def insert_verified_def insert_claim_def insert_citation_def insert_message_def

end
