(* ===== verification/Workflow_Completion.thy ===== *)
theory Workflow_Completion
  imports Search_Tables "HOL-Library.List_Lexorder" "HOL-Library.Char_ord"
begin

text \<open>
  \<^verbatim>\<open>sana/app/workflow_completion.py\<close>: the completion hook of the production worker. It
  runs inside the transaction that settles a step, stores what the step produced and adds
  the successor steps. Payloads are JSON objects, read with Python's conversions; a missing
  key, a wrong shape or a value the database refuses is an \<open>Err\<close>, which rolls the
  transaction back; of several such defects in one payload the model reports one. The artifact store, \<^verbatim>\<open>uuid5\<close>, SHA-256, the clock and the identifier
  factory are fields of \<open>hook_env\<close>: \<open>hv_step_id k\<close>, \<open>hv_outbox_id k\<close>, \<open>hv_span k\<close> and
  \<open>hv_clock k\<close> are what the factory and the clock return for the \<open>k\<close>-th step that one
  completion adds.
\<close>

section \<open>Reading payloads\<close>

definition attribute_error :: exn where
  "attribute_error = RuntimeError ''AttributeError''"

text \<open>\<^verbatim>\<open>v[k]\<close> and \<^verbatim>\<open>v.get(k, fallback)\<close> on a decoded JSON value.\<close>

definition sub :: "json \<Rightarrow> string \<Rightarrow> json result" where
  "sub v k = (case v of JObj d \<Rightarrow> dict_item d k | _ \<Rightarrow> Err (TypeError ''indices must be integers''))"

definition get_or :: "json \<Rightarrow> string \<Rightarrow> json \<Rightarrow> json result" where
  "get_or v k fallback = (case v of JObj d \<Rightarrow> Ok (dict_get d k fallback) | _ \<Rightarrow> Err attribute_error)"

text \<open>\<^verbatim>\<open>str.replace\<close>, of every occurrence and of the first one.\<close>

definition starts_with :: "'a list \<Rightarrow> 'a list \<Rightarrow> bool" where
  "starts_with p s \<longleftrightarrow> take (length p) s = p"

function replace_all :: "string \<Rightarrow> string \<Rightarrow> string \<Rightarrow> string" where
  "replace_all old new s =
     (if old = [] \<or> s = [] then s
      else if starts_with old s then new @ replace_all old new (drop (length old) s)
      else hd s # replace_all old new (tl s))"
  by pat_completeness auto
termination by (relation "measure (\<lambda>(_, _, s). length s)") auto

declare replace_all.simps [simp del]

fun replace_first :: "string \<Rightarrow> string \<Rightarrow> string \<Rightarrow> string" where
  "replace_first old new s =
     (if starts_with old s then new @ drop (length old) s
      else case s of [] \<Rightarrow> [] | c # cs \<Rightarrow> c # replace_first old new cs)"

declare replace_first.simps [simp del]

text \<open>\<^verbatim>\<open>int(text, 16)\<close>: surrounding space, a sign, a prefix and underscores are allowed.\<close>

definition hex_value :: "char \<Rightarrow> int option" where
  "hex_value c = map_option int (map_of (zip hex_digits [0..<16]) (lower_char c))"

fun hex_fold :: "int \<Rightarrow> bool \<Rightarrow> string \<Rightarrow> int option" where
  "hex_fold acc digit [] = (if digit then Some acc else None)"
| "hex_fold acc digit (c # cs) =
     (if c = CHR ''_'' then (if digit then hex_fold acc False cs else None)
      else case hex_value c of None \<Rightarrow> None | Some v \<Rightarrow> hex_fold (16 * acc + v) True cs)"

definition int16 :: "string \<Rightarrow> int result" where
  "int16 s =
     (let t = py_strip s;
          neg = starts_with ''-'' t;
          u = (if neg \<or> starts_with ''+'' t then tl t else t);
          prefixed = starts_with ''0x'' u \<or> starts_with ''0X'' u;
          w = (if prefixed then drop 2 u else u);
          digits = (if prefixed \<and> starts_with ''_'' w then tl w else w) in
      case hex_fold 0 False digits of
        None \<Rightarrow> Err (ValueError ''invalid literal for int() with base 16'')
      | Some n \<Rightarrow> Ok (if neg then - n else n))"

definition strip_braces :: "string \<Rightarrow> string" where
  "strip_braces s =
     (let b = (\<lambda>c. c = CHR ''{'' \<or> c = CHR ''}'') in rev (dropWhile b (rev (dropWhile b s))))"

text \<open>\<^verbatim>\<open>UUID(text)\<close>.\<close>

definition uuid_parse :: "string \<Rightarrow> uuid result" where
  "uuid_parse s =
     (let h = replace_all ''-'' [] (strip_braces (replace_all ''uuid:'' [] (replace_all ''urn:'' [] s))) in
      if length h \<noteq> 32 then Err (ValueError ''badly formed hexadecimal UUID string'')
      else rbind (int16 h) (\<lambda>n.
        if 0 \<le> n \<and> n < 2 ^ 128 then Ok (word_of_int n)
        else Err (ValueError ''int is out of range (need a 128-bit value)'')))"

record hook_env =
  hv_conv :: py_conv
  hv_iso :: iso_codec
  hv_get_json :: "uuid \<Rightarrow> ArtifactRef \<Rightarrow> json result"
  hv_put_json :: "uuid \<Rightarrow> uuid \<Rightarrow> json \<Rightarrow> ArtifactRef result"
  hv_uuid5 :: "uuid \<Rightarrow> string \<Rightarrow> uuid"
  hv_sha :: "string \<Rightarrow> string"
  hv_step_id :: "nat \<Rightarrow> uuid"
  hv_outbox_id :: "nat \<Rightarrow> uuid"
  hv_span :: "nat \<Rightarrow> string"
  hv_clock :: "nat \<Rightarrow> instant"
  hv_now :: instant

definition str_of :: "hook_env \<Rightarrow> json \<Rightarrow> string \<Rightarrow> string result" where
  "str_of env v k = rbind (sub v k) (\<lambda>x. Ok (py_str (hv_conv env) x))"

definition uuid_of :: "hook_env \<Rightarrow> json \<Rightarrow> string \<Rightarrow> uuid result" where
  "uuid_of env v k = rbind (str_of env v k) uuid_parse"

definition int_of :: "hook_env \<Rightarrow> json \<Rightarrow> string \<Rightarrow> int result" where
  "int_of env v k = rbind (sub v k) (py_int (hv_conv env))"

definition float_of :: "hook_env \<Rightarrow> json \<Rightarrow> string \<Rightarrow> pyfloat result" where
  "float_of env v k = rbind (sub v k) (py_float (hv_conv env))"

text \<open>A timestamp column takes aware values only.\<close>

definition time_of :: "hook_env \<Rightarrow> json \<Rightarrow> string \<Rightarrow> instant result" where
  "time_of env v k =
     rbind (str_of env v k) (\<lambda>s. rbind (from_iso (hv_iso env) s) (\<lambda>t.
       case t of Aware i \<Rightarrow> Ok i | Naive _ \<Rightarrow> Err data_error))"

definition list_of :: "json \<Rightarrow> string \<Rightarrow> json list result" where
  "list_of v k = rbind (get_or v k (JArr [])) py_iter"

fun rfold :: "('a \<Rightarrow> 's \<Rightarrow> 's result) \<Rightarrow> 'a list \<Rightarrow> 's \<Rightarrow> 's result" where
  "rfold f [] s = Ok s"
| "rfold f (x # xs) s = rbind (f x s) (rfold f xs)"

fun rfold_index :: "(nat \<Rightarrow> 'a \<Rightarrow> 's \<Rightarrow> 's result) \<Rightarrow> nat \<Rightarrow> 'a list \<Rightarrow> 's \<Rightarrow> 's result" where
  "rfold_index f n [] s = Ok s"
| "rfold_index f n (x # xs) s = rbind (f n x s) (rfold_index f (Suc n) xs)"

section \<open>Adding steps\<close>

definition ref_dict :: "ArtifactRef \<Rightarrow> json" where
  "ref_dict a = JObj (artifact_to_dict a)"

definition fetch_artifact_id :: "hook_env \<Rightarrow> uuid \<Rightarrow> string \<Rightarrow> uuid result" where
  "fetch_artifact_id env run_id fetch_step_key =
     (if \<not> starts_with ''fetch:'' fetch_step_key
      then Err (ValueError ''Fetch artifact identity requires a FETCH step key'')
      else Ok (hv_uuid5 env run_id (''fetch:'' @ fetch_step_key)))"

definition payload_of :: "hook_env \<Rightarrow> uuid \<Rightarrow> ArtifactRef \<Rightarrow> json result" where
  "payload_of env tenant reference =
     rbind (hv_get_json env tenant reference) (\<lambda>p.
       case p of JObj _ \<Rightarrow> Ok p
       | _ \<Rightarrow> Err (TypeError ''Workflow artifact must contain a JSON object''))"

definition event_type :: "SearchRun \<Rightarrow> StepType \<Rightarrow> string" where
  "event_type run ty =
     (if ty = FETCH then ''STEP_READY_CRAWL''
      else if sr_mode run = RESEARCH then ''STEP_READY_RESEARCH'' else ''STEP_READY_FAST'')"

definition step_exists :: "SearchRun \<Rightarrow> string \<Rightarrow> 'x tables \<Rightarrow> bool" where
  "step_exists run key d =
     list_ex (\<lambda>row. sp_tenant_id row = sr_tenant_id run \<and> sp_run_id row = sr_id run
                \<and> sp_plan_revision row = 1 \<and> sp_step_key row = key) (tbl_steps d)"

definition add_step ::
  "hook_env \<Rightarrow> nat \<Rightarrow> SearchRun \<Rightarrow> string \<Rightarrow> StepType \<Rightarrow> ArtifactRef \<Rightarrow> trace_context \<Rightarrow> 'x tables
     \<Rightarrow> 'x tables result" where
  "add_step env k run key ty input_ref trace d =
     (if step_exists run key d then Ok d
      else
        rbind (SearchStep_new (hv_step_id env k) (sr_tenant_id run) (sr_id run) key ty 1 input_ref
                 None 0) (\<lambda>step.
        rbind (steps_add (sr_tenant_id run) step d) (\<lambda>d1.
        rbind (TraceContext_child trace (hv_span env k)) (\<lambda>child.
        rbind (OutboxMessage_new (hv_outbox_id env k) (sr_tenant_id run) ''search_step''
                 (hv_step_id env k) (event_type run ty)
                 [(''step_id'', JStr (uuid_str (hv_step_id env k)))] child
                 (''step-ready:'' @ uuid_str (hv_step_id env k))
                 (Aware (hv_clock env k)) (Aware (hv_clock env k))) (\<lambda>message.
          outbox_add (sr_tenant_id run) message d1)))))"

definition step_rows :: "SearchRun \<Rightarrow> app_db \<Rightarrow> SearchStepRecord list" where
  "step_rows run d =
     sort_key (\<lambda>row. ap_created_at d (sp_id row)) (sort_key sp_id
       (filter (\<lambda>row. sp_tenant_id row = sr_tenant_id run \<and> sp_run_id row = sr_id run) (tbl_steps d)))"

definition status_of :: "SearchStep \<Rightarrow> SearchStepRecord \<Rightarrow> string" where
  "status_of cur row =
     (if sp_id row = ss_id cur then step_status_value (ss_status cur) else sp_status row)"

definition terminal_status :: "string \<Rightarrow> bool" where
  "terminal_status s \<longleftrightarrow> s \<in> set [''SUCCEEDED'', ''FAILED'', ''SKIPPED'', ''CANCELLED'']"

definition has_type :: "StepType \<Rightarrow> SearchStepRecord \<Rightarrow> bool" where
  "has_type ty row \<longleftrightarrow> sp_step_type row = step_type_value ty"

definition succeeded_as :: "StepType \<Rightarrow> SearchStep \<Rightarrow> ArtifactRef option" where
  "succeeded_as ty cur =
     (if ss_step_type cur = ty \<and> ss_status cur = Step_SUCCEEDED then ss_output_ref cur else None)"

definition plan_reference ::
  "hook_env \<Rightarrow> SearchRun \<Rightarrow> SearchStep \<Rightarrow> 'x tables \<Rightarrow> ArtifactRef result" where
  "plan_reference env run cur d =
     (case succeeded_as PLAN cur of
        Some r \<Rightarrow> Ok r
      | None \<Rightarrow>
          (case find (\<lambda>row. sp_tenant_id row = sr_tenant_id run \<and> sp_run_id row = sr_id run
                        \<and> sp_step_key row = ''plan'' \<and> sp_status row = ''SUCCEEDED'') (tbl_steps d) of
             Some row \<Rightarrow>
               (case sp_output_ref row of
                  Some v \<Rightarrow> artifact_from_dict (hv_conv env) v
                | None \<Rightarrow> Err (RuntimeError ''Run cannot advance without a successful plan artifact''))
           | None \<Rightarrow> Err (RuntimeError ''Run cannot advance without a successful plan artifact'')))"

section \<open>Fan-in\<close>

definition discovery_refs :: "SearchStep \<Rightarrow> SearchStepRecord list \<Rightarrow> json list" where
  "discovery_refs cur rows =
     concat (map (\<lambda>row.
       if status_of cur row \<noteq> ''SUCCEEDED'' then []
       else if sp_id row = ss_id cur
       then (case ss_output_ref cur of None \<Rightarrow> [] | Some r \<Rightarrow> [ref_dict r])
       else (case sp_output_ref row of None \<Rightarrow> [] | Some v \<Rightarrow> [JObj v])) rows)"

definition maybe_select ::
  "hook_env \<Rightarrow> SearchRun \<Rightarrow> SearchStep \<Rightarrow> trace_context \<Rightarrow> app_db \<Rightarrow> app_db result" where
  "maybe_select env run cur trace d =
     (let rows = filter (has_type DISCOVERY) (step_rows run d) in
      if rows = [] \<or> list_ex (\<lambda>row. \<not> terminal_status (status_of cur row)) rows then Ok d
      else
        rbind (plan_reference env run cur d) (\<lambda>plan_ref.
        rbind (hv_put_json env (sr_tenant_id run) (sr_id run)
                 (JObj [(''schema'', JStr ''sana.selection-input.v1''), (''plan_ref'', ref_dict plan_ref),
                        (''discovery_refs'', JArr (discovery_refs cur rows))])) (\<lambda>input_ref.
          add_step env 0 run ''select'' SELECT input_ref trace d)))"

text \<open>The outputs of the succeeded steps of a type, the current one last when its row has none.\<close>

definition output_refs :: "StepType \<Rightarrow> SearchStep \<Rightarrow> SearchStepRecord list \<Rightarrow> json list" where
  "output_refs ty cur rows =
     (let refs = concat (map (\<lambda>row.
            if has_type ty row \<and> status_of cur row = ''SUCCEEDED''
            then (case sp_output_ref row of None \<Rightarrow> [] | Some v \<Rightarrow> [JObj v]) else []) rows) in
      case succeeded_as ty cur of
        None \<Rightarrow> refs
      | Some r \<Rightarrow> if ref_dict r \<in> set refs then refs else refs @ [ref_dict r])"

definition degradation_codes_of :: "SearchStep \<Rightarrow> SearchStepRecord list \<Rightarrow> string list \<Rightarrow> string list" where
  "degradation_codes_of cur rows codes =
     sort (remdups (codes @ concat (map (\<lambda>row.
       let st = status_of cur row in
       if st \<in> set [''FAILED'', ''CANCELLED'']
       then [py_lower (sp_step_type row) @ ''_'' @ py_lower st] else []) rows)))"

definition select_reference ::
  "hook_env \<Rightarrow> SearchStep \<Rightarrow> SearchStepRecord list \<Rightarrow> ArtifactRef option result" where
  "select_reference env cur rows =
     (if ss_step_type cur = SELECT \<and> ss_status cur = Step_SUCCEEDED then Ok (ss_output_ref cur)
      else case find (has_type SELECT) rows of
             None \<Rightarrow> Ok None
           | Some row \<Rightarrow>
               (case sp_output_ref row of
                  None \<Rightarrow> Ok None
                | Some v \<Rightarrow> rbind (artifact_from_dict (hv_conv env) v) (\<lambda>r. Ok (Some r))))"

definition provider_failures ::
  "hook_env \<Rightarrow> SearchRun \<Rightarrow> SearchStep \<Rightarrow> SearchStepRecord list \<Rightarrow> int result" where
  "provider_failures env run cur rows =
     rbind (select_reference env cur rows) (\<lambda>select_ref.
       case select_ref of
         None \<Rightarrow> Ok 0
       | Some r \<Rightarrow>
           rbind (payload_of env (sr_tenant_id run) r) (\<lambda>selection.
           rbind (get_or selection ''provider_failures'' (JInt 0)) (py_int (hv_conv env))))"

definition maybe_synthesize ::
  "hook_env \<Rightarrow> SearchRun \<Rightarrow> SearchStep \<Rightarrow> trace_context \<Rightarrow> string list \<Rightarrow> app_db \<Rightarrow> app_db result" where
  "maybe_synthesize env run cur trace codes d =
     (let rows = step_rows run d; non_synthesis = filter (\<lambda>row. \<not> has_type SYNTHESIZE row) rows in
      if list_ex (\<lambda>row. \<not> terminal_status (status_of cur row)) non_synthesis then Ok d
      else
        rbind (plan_reference env run cur d) (\<lambda>plan_ref.
          let verify_refs = output_refs VERIFY cur rows in
          if 1 < length verify_refs
          then Err (ValueError ''Workflow produced more than one VERIFY output'')
          else
            rbind (provider_failures env run cur rows) (\<lambda>failures.
            rbind (hv_put_json env (sr_tenant_id run) (sr_id run)
                     (JObj [(''schema'', JStr ''sana.synthesis-input.v2''),
                            (''plan_ref'', ref_dict plan_ref),
                            (''verify_ref'', case verify_refs of [] \<Rightarrow> JNull | r # _ \<Rightarrow> r),
                            (''provider_failures'', JInt failures),
                            (''pipeline_degradation_codes'',
                              JArr (map JStr (degradation_codes_of cur non_synthesis codes)))]))
              (\<lambda>input_ref. add_step env 0 run ''synthesize'' SYNTHESIZE input_ref trace d))))"

text \<open>
  FAST mode verifies early, before every fetch has ended, when the extracted documents all
  come from direct sources and cover the required facts.
\<close>

definition hit_of :: "json \<Rightarrow> json result" where
  "hit_of payload = rbind (get_or payload ''hit'' (JObj [])) (\<lambda>h. rbind (json_dict h) (\<lambda>d. Ok (JObj d)))"

definition is_direct :: "hook_env \<Rightarrow> json \<Rightarrow> bool result" where
  "is_direct env payload =
     rbind (hit_of payload) (\<lambda>hit. rbind (get_or hit ''provider'' (JStr [])) (\<lambda>p.
       Ok (py_str (hv_conv env) p = ''direct'')))"

definition required_fact_ids :: "hook_env \<Rightarrow> json \<Rightarrow> string list result" where
  "required_fact_ids env plan =
     rbind (list_of plan ''facts'') (\<lambda>facts.
     rbind (traverse (\<lambda>f. rbind (get_or f ''required'' (JBool True)) (\<lambda>b.
              if py_truth b then rbind (str_of env f ''id'') (\<lambda>i. Ok [i]) else Ok [])) facts)
       (\<lambda>ids. Ok (concat ids)))"

definition extracted_fact_ids :: "hook_env \<Rightarrow> json \<Rightarrow> string list result" where
  "extracted_fact_ids env payload =
     rbind (hit_of payload) (\<lambda>hit.
     rbind (get_or hit ''fact_ids'' JNull) (\<lambda>ids.
     rbind (if py_truth ids then py_iter ids
            else rbind (get_or hit ''fact_id'' JNull) (\<lambda>i. Ok [i])) (\<lambda>values.
       Ok (map (py_str (hv_conv env)) (filter (\<lambda>v. v \<noteq> JNull) values)))))"

definition may_verify_early ::
  "hook_env \<Rightarrow> SearchRun \<Rightarrow> ArtifactRef \<Rightarrow> json list \<Rightarrow> bool result" where
  "may_verify_early env run plan_ref extract_refs =
     (if sr_mode run \<noteq> FAST then Ok False
      else
        rbind (traverse (\<lambda>r. rbind (json_dict r) (\<lambda>v. rbind (artifact_from_dict (hv_conv env) v)
                 (payload_of env (sr_tenant_id run)))) extract_refs) (\<lambda>payloads.
        rbind (rall (is_direct env) payloads) (\<lambda>direct.
          if \<not> direct then Ok False
          else
            rbind (payload_of env (sr_tenant_id run) plan_ref) (\<lambda>plan.
            rbind (required_fact_ids env plan) (\<lambda>required.
            rbind (traverse (extracted_fact_ids env) payloads) (\<lambda>extracted.
              Ok (required \<noteq> [] \<and> set required \<subseteq> set (concat extracted))))))))"

definition maybe_verify ::
  "hook_env \<Rightarrow> SearchRun \<Rightarrow> SearchStep \<Rightarrow> trace_context \<Rightarrow> string list \<Rightarrow> app_db \<Rightarrow> app_db result" where
  "maybe_verify env run cur trace codes d =
     (let rows = step_rows run d;
          all_terminal = list_all (\<lambda>row. terminal_status (status_of cur row))
            (filter (\<lambda>row. has_type FETCH row \<or> has_type EXTRACT row) rows);
          extract_refs = output_refs EXTRACT cur rows in
      case find (has_type VERIFY) rows of
        Some existing \<Rightarrow>
          if all_terminal \<and> terminal_status (status_of cur existing)
          then maybe_synthesize env run cur trace codes d else Ok d
      | None \<Rightarrow>
          if extract_refs = []
          then (if all_terminal then maybe_synthesize env run cur trace codes d else Ok d)
          else
            rbind (plan_reference env run cur d) (\<lambda>plan_ref.
            rbind (if all_terminal then Ok True else may_verify_early env run plan_ref extract_refs)
              (\<lambda>go.
                if \<not> go then Ok d
                else
                  rbind (hv_put_json env (sr_tenant_id run) (sr_id run)
                           (JObj [(''schema'', JStr ''sana.verify-input.v2''),
                                  (''plan_ref'', ref_dict plan_ref),
                                  (''extract_refs'', JArr extract_refs)])) (\<lambda>input_ref.
                    add_step env 0 run ''verify'' VERIFY input_ref trace d))))"

section \<open>Storing what a step produced\<close>

definition opt_str :: "json \<Rightarrow> string option result" where
  "opt_str v = (case v of JNull \<Rightarrow> Ok None | JStr s \<Rightarrow> Ok (Some s) | _ \<Rightarrow> Err data_error)"

definition opt_int :: "json \<Rightarrow> int option result" where
  "opt_int v = (case v of JNull \<Rightarrow> Ok None | JInt i \<Rightarrow> Ok (Some i) | _ \<Rightarrow> Err data_error)"

definition persist_fact :: "hook_env \<Rightarrow> SearchRun \<Rightarrow> json \<Rightarrow> app_db \<Rightarrow> app_db result" where
  "persist_fact env run v d =
     rbind (uuid_of env v ''id'') (\<lambda>i.
     rbind (str_of env v ''key'') (\<lambda>key.
     rbind (str_of env v ''description'') (\<lambda>description.
     rbind (get_or v ''required'' (JBool True)) (\<lambda>required.
     rbind (str_of env v ''freshness'') (\<lambda>freshness.
     rbind (str_of env v ''consequence'') (\<lambda>consequence.
       insert_fact \<lparr>fw_id = i, fw_tenant_id = sr_tenant_id run, fw_run_id = sr_id run,
         fw_fact_key = key, fw_description = description, fw_required = py_truth required,
         fw_freshness = freshness, fw_consequence = consequence, fw_status = ''OPEN''\<rparr> d))))))"

fun join :: "string \<Rightarrow> string list \<Rightarrow> string" where
  "join sep [] = []"
| "join sep [s] = s"
| "join sep (s # t # rest) = s @ sep @ join sep (t # rest)"

definition providers_of :: "json \<Rightarrow> json \<Rightarrow> json list result" where
  "providers_of payload query =
     rbind (get_or payload ''providers'' (JArr [])) (\<lambda>shared.
     rbind (get_or query ''providers'' shared) py_iter)"

definition persist_query :: "hook_env \<Rightarrow> SearchRun \<Rightarrow> json \<Rightarrow> json \<Rightarrow> app_db \<Rightarrow> app_db result" where
  "persist_query env run payload v d =
     rbind (uuid_of env v ''id'') (\<lambda>i.
     rbind (uuid_of env v ''fact_id'') (\<lambda>fact_id.
     rbind (int_of env v ''plan_revision'') (\<lambda>revision.
     rbind (str_of env v ''key'') (\<lambda>key.
     rbind (str_of env v ''text'') (\<lambda>query_text.
     rbind (providers_of payload v) (\<lambda>providers.
     rbind (str_of env v ''locale'') (\<lambda>locale.
     rbind (rbind (get_or v ''freshness_days'' JNull) opt_int) (\<lambda>days.
     rbind (rbind (get_or v ''metadata'' (JObj [])) json_dict) (\<lambda>metadata.
       insert_query \<lparr>qw_id = i, qw_tenant_id = sr_tenant_id run, qw_run_id = sr_id run,
         qw_fact_requirement_id = Some fact_id, qw_plan_revision = revision, qw_query_key = key,
         qw_query_text = query_text,
         qw_provider_class = join '','' (map (py_str (hv_conv env)) providers),
         qw_locale = Some locale, qw_freshness_days = days, qw_query_metadata = metadata\<rparr> d)))))))))"

definition persist_plan :: "hook_env \<Rightarrow> SearchRun \<Rightarrow> json \<Rightarrow> app_db \<Rightarrow> app_db result" where
  "persist_plan env run payload d =
     rbind (list_of payload ''facts'') (\<lambda>facts.
     rbind (list_of payload ''queries'') (\<lambda>queries.
     rbind (rfold (persist_fact env run) facts d) (rfold (persist_query env run payload) queries)))"

definition persist_hit ::
  "hook_env \<Rightarrow> SearchRun \<Rightarrow> uuid \<Rightarrow> json \<Rightarrow> app_db \<Rightarrow> app_db result" where
  "persist_hit env run attempt_id v d =
     rbind (str_of env v ''canonical_url'') (\<lambda>canonical.
     rbind (uuid_of env v ''id'') (\<lambda>i.
     rbind (int_of env v ''rank'') (\<lambda>rank.
     rbind (str_of env v ''url'') (\<lambda>url.
     rbind (get_or v ''title'' (JStr [])) (\<lambda>title.
     rbind (get_or v ''snippet'' (JStr [])) (\<lambda>snippet.
     rbind (float_of env v ''score'') (\<lambda>score.
       insert_hit \<lparr>hw_id = i, hw_tenant_id = sr_tenant_id run, hw_run_id = sr_id run,
         hw_provider_attempt_id = attempt_id, hw_rank = rank, hw_url = url,
         hw_canonical_url = canonical, hw_url_hash = hv_sha env canonical,
         hw_title = py_str (hv_conv env) title, hw_snippet = py_str (hv_conv env) snippet,
         hw_score = score, hw_discovered_at = hv_now env\<rparr> d)))))))"

definition persist_response ::
  "hook_env \<Rightarrow> SearchRun \<Rightarrow> SearchStep \<Rightarrow> json \<Rightarrow> json \<Rightarrow> app_db \<Rightarrow> app_db result" where
  "persist_response env run step query v d =
     rbind (str_of env v ''provider'') (\<lambda>provider.
       let attempt_id = hv_uuid5 env (sr_id run)
             (''provider:'' @ ss_step_key step @ '':'' @ provider) in
       rbind (get_or v ''error'' JNull) (\<lambda>error.
       rbind (rbind (sub v ''metrics'') json_dict) (\<lambda>metrics.
       rbind (uuid_of env query ''id'') (\<lambda>query_id.
       rbind (int_of env (JObj metrics) ''elapsed_ms'') (\<lambda>elapsed.
       rbind (if py_truth error then rbind (str_of env error ''category'') (\<lambda>s. Ok (Some s)) else Ok None)
         (\<lambda>error_type.
       rbind (if py_truth error then rbind (str_of env error ''code'') (\<lambda>s. Ok (Some s)) else Ok None)
         (\<lambda>error_code.
       rbind (insert_provider_attempt \<lparr>pw_id = attempt_id, pw_tenant_id = sr_tenant_id run,
                pw_run_id = sr_id run, pw_query_spec_id = query_id, pw_attempt_no = 1,
                pw_provider = provider,
                pw_status = (if py_truth error then ''FAILED'' else ''SUCCEEDED''),
                pw_started_at = hv_now env, pw_completed_at = Some (hv_now env),
                pw_latency_ms = Some elapsed, pw_error_type = error_type,
                pw_error_code = error_code\<rparr> d) (\<lambda>d1.
       rbind (list_of v ''hits'') (\<lambda>hits. rfold (persist_hit env run attempt_id) hits d1)))))))))"

definition persist_discovery ::
  "hook_env \<Rightarrow> SearchRun \<Rightarrow> SearchStep \<Rightarrow> json \<Rightarrow> app_db \<Rightarrow> app_db result" where
  "persist_discovery env run step payload d =
     rbind (rbind (sub payload ''query'') json_dict) (\<lambda>query.
     rbind (list_of payload ''responses'') (\<lambda>responses.
       rfold (persist_response env run step (JObj query)) responses d))"

definition persist_fetch ::
  "hook_env \<Rightarrow> SearchRun \<Rightarrow> SearchStep \<Rightarrow> json \<Rightarrow> app_db \<Rightarrow> app_db result" where
  "persist_fetch env run step payload d =
     rbind (rbind (sub payload ''hit'') json_dict) (\<lambda>hit.
     rbind (str_of env (JObj hit) ''canonical_url'') (\<lambda>canonical.
     rbind (fetch_artifact_id env (sr_id run) (ss_step_key step)) (\<lambda>record_id.
     rbind (uuid_of env (JObj hit) ''id'') (\<lambda>hit_id.
     rbind (int_of env payload ''http_status'') (\<lambda>http_status.
     rbind (str_of env payload ''media_type'') (\<lambda>media_type.
     rbind (str_of env payload ''content_hash'') (\<lambda>content_hash.
     rbind (rbind (sub payload ''body_ref'') (\<lambda>r. str_of env r ''uri'')) (\<lambda>storage_uri.
     rbind (time_of env payload ''fetched_at'') (\<lambda>fetched_at.
     rbind (list_of payload ''redirects'') (\<lambda>redirects.
       insert_fetch \<lparr>tw_id = record_id, tw_tenant_id = sr_tenant_id run, tw_run_id = sr_id run,
         tw_search_hit_id = Some hit_id, tw_url = canonical, tw_url_hash = hv_sha env canonical,
         tw_attempt_no = 1, tw_fetcher = ''http'', tw_status = ''SUCCEEDED'',
         tw_http_status = Some http_status, tw_media_type = Some media_type,
         tw_content_hash = Some content_hash, tw_storage_uri = Some storage_uri,
         tw_response_bytes = None, tw_fetched_at = fetched_at,
         tw_fetch_metadata = [(''redirects'', JArr redirects)]\<rparr> d))))))))))"

definition persist_chunk ::
  "hook_env \<Rightarrow> SearchRun \<Rightarrow> uuid \<Rightarrow> json \<Rightarrow> app_db \<Rightarrow> app_db result" where
  "persist_chunk env run version_id v d =
     rbind (uuid_of env v ''id'') (\<lambda>i.
     rbind (int_of env v ''ordinal'') (\<lambda>ordinal.
     rbind (str_of env v ''text'') (\<lambda>content.
     rbind (str_of env v ''text_hash'') (\<lambda>text_hash.
     rbind (int_of env v ''token_count'') (\<lambda>tokens.
     rbind (int_of env v ''start_offset'') (\<lambda>start_offset.
     rbind (int_of env v ''end_offset'') (\<lambda>end_offset.
       insert_chunk \<lparr>kw_id = i, kw_tenant_id = sr_tenant_id run,
         kw_document_version_id = version_id, kw_ordinal = ordinal, kw_text_content = content,
         kw_text_hash = text_hash, kw_token_count = tokens, kw_start_offset = start_offset,
         kw_end_offset = end_offset\<rparr> d)))))))"

definition persist_document ::
  "hook_env \<Rightarrow> SearchRun \<Rightarrow> json \<Rightarrow> app_db \<Rightarrow> app_db result" where
  "persist_document env run document d =
     rbind (uuid_of env document ''id'') (\<lambda>i.
     rbind (str_of env document ''canonical_url'') (\<lambda>url.
     rbind (str_of env document ''canonical_url_hash'') (\<lambda>url_hash.
     rbind (str_of env document ''title'') (\<lambda>title.
     rbind (str_of env document ''source_host'') (\<lambda>host.
       insert_document \<lparr>dw_id = i, dw_tenant_id = sr_tenant_id run, dw_canonical_url = url,
         dw_canonical_url_hash = url_hash, dw_title = title, dw_source_host = host\<rparr> d)))))"

definition persist_version ::
  "hook_env \<Rightarrow> SearchRun \<Rightarrow> json \<Rightarrow> json \<Rightarrow> uuid \<Rightarrow> app_db \<Rightarrow> app_db result" where
  "persist_version env run document version fetch_id d =
     rbind (uuid_of env version ''id'') (\<lambda>i.
     rbind (uuid_of env document ''id'') (\<lambda>document_id.
     rbind (str_of env version ''content_hash'') (\<lambda>content_hash.
     rbind (rbind (sub version ''text_ref'') (\<lambda>r. str_of env r ''uri'')) (\<lambda>storage_uri.
     rbind (str_of env version ''media_type'') (\<lambda>media_type.
     rbind (rbind (get_or version ''language'' JNull) opt_str) (\<lambda>language.
     rbind (int_of env version ''text_length'') (\<lambda>text_length.
     rbind (time_of env version ''fetched_at'') (\<lambda>fetched_at.
       insert_version \<lparr>nw_id = i, nw_tenant_id = sr_tenant_id run, nw_document_id = document_id,
         nw_fetch_artifact_id = Some fetch_id, nw_content_hash = content_hash,
         nw_storage_uri = storage_uri, nw_media_type = media_type, nw_language = language,
         nw_text_length = text_length, nw_fetched_at = fetched_at, nw_document_metadata = []\<rparr> d))))))))"

definition persist_extract ::
  "hook_env \<Rightarrow> SearchRun \<Rightarrow> SearchStep \<Rightarrow> json \<Rightarrow> app_db \<Rightarrow> app_db result" where
  "persist_extract env run step payload d =
     rbind (rbind (sub payload ''document'') json_dict) (\<lambda>document.
     rbind (rbind (sub payload ''version'') json_dict) (\<lambda>version.
       let fetch_step_key = replace_first ''extract:'' ''fetch:'' (ss_step_key step) in
       if fetch_step_key = ss_step_key step
       then Err (ValueError ''Extract lineage requires an EXTRACT step key'')
       else
         rbind (fetch_artifact_id env (sr_id run) fetch_step_key) (\<lambda>fetch_id.
         rbind (persist_document env run (JObj document) d) (\<lambda>d1.
         rbind (persist_version env run (JObj document) (JObj version) fetch_id d1) (\<lambda>d2.
         rbind (uuid_of env (JObj version) ''id'') (\<lambda>version_id.
         rbind (insert_version_fetch \<lparr>lw_id = hv_uuid5 env (sr_id run)
                    (''document-version-fetch:'' @ uuid_str version_id @ '':'' @ uuid_str fetch_id),
                  lw_tenant_id = sr_tenant_id run, lw_run_id = sr_id run,
                  lw_document_version_id = version_id, lw_fetch_artifact_id = fetch_id,
                  lw_created_at = hv_now env\<rparr> d2) (\<lambda>d3.
         rbind (list_of payload ''chunks'') (\<lambda>chunks.
           rfold (persist_chunk env run version_id) chunks d3))))))))"

definition persist_candidate :: "hook_env \<Rightarrow> SearchRun \<Rightarrow> json \<Rightarrow> app_db \<Rightarrow> app_db result" where
  "persist_candidate env run v d =
     rbind (uuid_of env v ''candidate_id'') (\<lambda>i.
     rbind (uuid_of env v ''fact_id'') (\<lambda>fact_id.
     rbind (uuid_of env v ''document_version_id'') (\<lambda>version_id.
     rbind (uuid_of env v ''document_chunk_id'') (\<lambda>chunk_id.
     rbind (str_of env v ''quote'') (\<lambda>quote.
     rbind (str_of env v ''quote_hash'') (\<lambda>quote_hash.
     rbind (int_of env v ''start_offset'') (\<lambda>start_offset.
     rbind (int_of env v ''end_offset'') (\<lambda>end_offset.
     rbind (str_of env v ''support_type'') (\<lambda>support.
     rbind (float_of env v ''candidate_score'') (\<lambda>score.
     rbind (str_of env v ''source_identity'') (\<lambda>identity.
     rbind (str_of env v ''source_authority'') (\<lambda>authority.
       insert_candidate \<lparr>ew_id = i, ew_tenant_id = sr_tenant_id run, ew_run_id = sr_id run,
         ew_fact_requirement_id = fact_id, ew_document_version_id = version_id,
         ew_document_chunk_id = chunk_id, ew_quote = quote, ew_quote_hash = quote_hash,
         ew_start_offset = start_offset, ew_end_offset = end_offset, ew_support_type = support,
         ew_candidate_score = score, ew_source_identity = identity,
         ew_source_authority = authority\<rparr> d))))))))))))"

definition persist_verdict :: "hook_env \<Rightarrow> SearchRun \<Rightarrow> json \<Rightarrow> app_db \<Rightarrow> app_db result" where
  "persist_verdict env run v d =
     rbind (uuid_of env v ''verified_id'') (\<lambda>i.
     rbind (uuid_of env v ''candidate_id'') (\<lambda>candidate_id.
     rbind (str_of env v ''verdict'') (\<lambda>verdict.
     rbind (float_of env v ''confidence'') (\<lambda>confidence.
     rbind (rbind (sub v ''reason_codes'') py_iter) (\<lambda>codes.
     rbind (str_of env v ''verifier_version'') (\<lambda>version.
     rbind (time_of env v ''verified_at'') (\<lambda>verified_at.
       insert_verified \<lparr>xw_id = i, xw_tenant_id = sr_tenant_id run, xw_run_id = sr_id run,
         xw_candidate_id = candidate_id, xw_verdict = verdict, xw_confidence = confidence,
         xw_reason_codes = codes, xw_verifier_version = version, xw_verified_at = verified_at\<rparr> d)))))))"

definition persist_coverage :: "hook_env \<Rightarrow> SearchRun \<Rightarrow> json \<Rightarrow> app_db \<Rightarrow> app_db result" where
  "persist_coverage env run v d =
     rbind (uuid_of env v ''fact_id'') (\<lambda>fact_id.
     rbind (str_of env v ''status'') (\<lambda>status.
       if varchar 32 status \<or> \<not> list_ex (\<lambda>f. fw_tenant_id f = sr_tenant_id run \<and> fw_id f = fact_id) (ap_facts d)
       then Ok (d\<lparr>ap_facts := map (\<lambda>f.
              if fw_tenant_id f = sr_tenant_id run \<and> fw_id f = fact_id then f\<lparr>fw_status := status\<rparr>
              else f) (ap_facts d)\<rparr>)
       else Err data_error))"

definition persist_verification :: "hook_env \<Rightarrow> SearchRun \<Rightarrow> json \<Rightarrow> app_db \<Rightarrow> app_db result" where
  "persist_verification env run payload d =
     rbind (list_of payload ''evidence'') (\<lambda>evidence.
     rbind (rfold (\<lambda>v d. rbind (persist_candidate env run v d) (persist_verdict env run v)) evidence d) (\<lambda>d1.
     rbind (list_of payload ''coverage'') (\<lambda>coverage. rfold (persist_coverage env run) coverage d1)))"

definition persist_citation ::
  "hook_env \<Rightarrow> SearchRun \<Rightarrow> uuid \<Rightarrow> json \<Rightarrow> app_db \<Rightarrow> app_db result" where
  "persist_citation env run claim_id v d =
     rbind (uuid_of env v ''id'') (\<lambda>i.
     rbind (uuid_of env v ''evidence_id'') (\<lambda>evidence_id.
     rbind (int_of env v ''ordinal'') (\<lambda>ordinal.
     rbind (str_of env v ''label'') (\<lambda>label.
     rbind (str_of env v ''url'') (\<lambda>url.
     rbind (uuid_of env v ''document_version_id'') (\<lambda>version_id.
     rbind (uuid_of env v ''document_chunk_id'') (\<lambda>chunk_id.
     rbind (str_of env v ''quote'') (\<lambda>quote.
     rbind (int_of env v ''start_offset'') (\<lambda>start_offset.
     rbind (int_of env v ''end_offset'') (\<lambda>end_offset.
       insert_citation \<lparr>zw_id = i, zw_tenant_id = sr_tenant_id run, zw_run_id = sr_id run,
         zw_answer_claim_id = claim_id, zw_verified_evidence_id = evidence_id, zw_ordinal = ordinal,
         zw_label = label, zw_rendered_url = url, zw_document_version_id = version_id,
         zw_document_chunk_id = chunk_id, zw_quote = quote, zw_start_offset = start_offset,
         zw_end_offset = end_offset\<rparr> d))))))))))"

definition persist_claim :: "hook_env \<Rightarrow> SearchRun \<Rightarrow> json \<Rightarrow> app_db \<Rightarrow> app_db result" where
  "persist_claim env run v d =
     rbind (uuid_of env v ''id'') (\<lambda>claim_id.
     rbind (get_or v ''kind'' JNull) (\<lambda>kind.
     rbind (str_of env v ''claim_key'') (\<lambda>key.
     rbind (str_of env v ''text'') (\<lambda>claim_text.
     rbind (get_or v ''fact_id'' JNull) (\<lambda>raw_fact.
     rbind (if raw_fact \<noteq> JNull then rbind (uuid_of env v ''fact_id'') (\<lambda>f. Ok (Some f)) else Ok None)
       (\<lambda>fact_id.
     rbind (str_of env v ''support_status'') (\<lambda>support.
     rbind (insert_claim \<lparr>cw_id = claim_id, cw_tenant_id = sr_tenant_id run, cw_run_id = sr_id run,
              cw_claim_key = key, cw_claim_text = claim_text, cw_support_status = support,
              cw_claim_kind = (if kind \<noteq> JNull then Some (py_str (hv_conv env) kind) else None),
              cw_fact_requirement_id = fact_id\<rparr> d) (\<lambda>d1.
     rbind (list_of v ''citations'') (\<lambda>citations.
       rfold (persist_citation env run claim_id) citations d1)))))))))"

definition text_of :: "string \<Rightarrow> utext" where
  "text_of s = map of_char s"

definition set_response_run ::
  "SearchRun \<Rightarrow> (ResponseRunRow \<Rightarrow> ResponseRunRow) \<Rightarrow> app_db \<Rightarrow> app_db" where
  "set_response_run run u d =
     d\<lparr>ap_response_runs := map (\<lambda>p.
         if pr_tenant_id p = sr_tenant_id run \<and> pr_id p = sr_response_run_id run then u p else p)
         (ap_response_runs d)\<rparr>"

definition answer_message_id :: "hook_env \<Rightarrow> SearchRun \<Rightarrow> uuid" where
  "answer_message_id env run = hv_uuid5 env (sr_id run) ''assistant-message''"

definition persist_answer :: "hook_env \<Rightarrow> SearchRun \<Rightarrow> json \<Rightarrow> app_db \<Rightarrow> app_db result" where
  "persist_answer env run payload d =
     rbind (list_of payload ''claims'') (\<lambda>claims.
     rbind (rfold (persist_claim env run) claims d) (\<lambda>d1.
     rbind (str_of env payload ''answer'') (\<lambda>answer.
     rbind (insert_message \<lparr>mg_id = answer_message_id env run, mg_tenant_id = sr_tenant_id run,
              mg_conversation_id = sr_conversation_id run, mg_author_user_id = None,
              mg_role = ''ASSISTANT'', mg_content = text_of answer,
              mg_idempotency_key = Some (''assistant:'' @ uuid_str (sr_id run)),
              mg_created_at = hv_now env\<rparr> d1) (\<lambda>d2.
       let d3 = set_response_run run (\<lambda>p. p\<lparr>pr_status := ''SUCCEEDED'',
             pr_output_message_id := Some (answer_message_id env run), pr_updated_at := hv_now env\<rparr>) d2 in
       Ok (d3\<lparr>ap_conversations := map (\<lambda>v.
             if cv_tenant_id v = sr_tenant_id run \<and> cv_id v = sr_conversation_id run
             then v\<lparr>cv_updated_at := hv_now env\<rparr> else v) (ap_conversations d3)\<rparr>)))))"

section \<open>The hook\<close>

definition fail_run ::
  "hook_env \<Rightarrow> SearchRun \<Rightarrow> StopReason \<Rightarrow> app_db \<Rightarrow> (SearchRun \<times> app_db) result" where
  "fail_run env run reason d =
     rbind (if SearchRun_is_terminal run then Ok run
            else SearchRun_fail run reason (Aware (hv_now env))) (\<lambda>r1.
       Ok (r1, set_response_run run
             (\<lambda>p. p\<lparr>pr_status := ''FAILED'', pr_updated_at := hv_clock env 0\<rparr>) d))"

definition add_discovery ::
  "hook_env \<Rightarrow> SearchRun \<Rightarrow> trace_context \<Rightarrow> ArtifactRef \<Rightarrow> json \<Rightarrow> nat \<Rightarrow> json \<Rightarrow> app_db \<Rightarrow> app_db result" where
  "add_discovery env run trace plan_ref payload k query d =
     rbind (providers_of payload query) (\<lambda>providers.
     rbind (hv_put_json env (sr_tenant_id run) (sr_id run)
              (JObj [(''schema'', JStr ''sana.discovery-input.v1''), (''plan_ref'', ref_dict plan_ref),
                     (''query'', query), (''providers'', JArr providers)])) (\<lambda>input_ref.
     rbind (str_of env query ''key'') (\<lambda>key.
       add_step env k run (''discover:'' @ key) DISCOVERY input_ref trace d)))"

definition add_fetch ::
  "hook_env \<Rightarrow> SearchRun \<Rightarrow> trace_context \<Rightarrow> json \<Rightarrow> nat \<Rightarrow> json \<Rightarrow> app_db \<Rightarrow> app_db result" where
  "add_fetch env run trace payload k hit d =
     rbind (sub payload ''plan_ref'') (\<lambda>plan_ref.
     rbind (hv_put_json env (sr_tenant_id run) (sr_id run)
              (JObj [(''schema'', JStr ''sana.fetch-input.v1''), (''plan_ref'', plan_ref),
                     (''hit'', hit)])) (\<lambda>input_ref.
     rbind (str_of env hit ''id'') (\<lambda>hit_id.
       add_step env k run (''fetch:'' @ nat_str (k + 1) @ '':'' @ hit_id) FETCH input_ref trace d)))"

definition complete_success ::
  "hook_env \<Rightarrow> app_db \<Rightarrow> SearchRun \<Rightarrow> SearchStep \<Rightarrow> StepExecutionResult \<Rightarrow> trace_context
     \<Rightarrow> (SearchRun \<times> app_db) result" where
  "complete_success env d run step res trace =
     rbind (payload_of env (sr_tenant_id run) (ex_output_ref res)) (\<lambda>payload.
       let keep = (\<lambda>d. Ok (run, d)) in
       case ss_step_type step of
         ROUTE \<Rightarrow> rbind (add_step env 0 run ''plan'' PLAN (ex_output_ref res) trace d) keep
       | PLAN \<Rightarrow>
           rbind (persist_plan env run payload d) (\<lambda>d1.
           rbind (list_of payload ''queries'') (\<lambda>queries.
           rbind (rfold_index (add_discovery env run trace (ex_output_ref res) payload) 0 queries d1) (\<lambda>d2.
           rbind (if queries = [] then maybe_synthesize env run step trace [] d2 else Ok d2) keep)))
       | DISCOVERY \<Rightarrow>
           rbind (persist_discovery env run step payload d) (\<lambda>d1.
           rbind (maybe_select env run step trace d1) keep)
       | SELECT \<Rightarrow>
           rbind (list_of payload ''selected'') (\<lambda>selected.
           rbind (rfold_index (add_fetch env run trace payload) 0 selected d) (\<lambda>d1.
           rbind (if selected = [] then maybe_synthesize env run step trace [] d1 else Ok d1) keep))
       | FETCH \<Rightarrow>
           rbind (persist_fetch env run step payload d) (\<lambda>d1.
           rbind (add_step env 0 run (replace_first ''fetch:'' ''extract:'' (ss_step_key step)) EXTRACT
                    (ex_output_ref res) trace d1) keep)
       | EXTRACT \<Rightarrow>
           rbind (persist_extract env run step payload d) (\<lambda>d1.
           rbind (maybe_verify env run step trace [] d1) keep)
       | VERIFY \<Rightarrow>
           rbind (persist_verification env run payload d) (\<lambda>d1.
           rbind (maybe_synthesize env run step trace [] d1) keep)
       | SYNTHESIZE \<Rightarrow>
           rbind (persist_answer env run payload d) (\<lambda>d1.
           rbind (str_of env payload ''quality'') (\<lambda>q.
           rbind (enum_of answer_quality_value all_qualities q) (\<lambda>quality.
           rbind (str_of env payload ''stop_reason'') (\<lambda>s.
           rbind (enum_of stop_reason_value all_stop_reasons s) (\<lambda>reason.
           rbind (SearchRun_succeed run quality reason (Aware (hv_clock env 0))) (\<lambda>r1. Ok (r1, d1)))))))
       | _ \<Rightarrow> keep d)"

definition complete_failure ::
  "hook_env \<Rightarrow> app_db \<Rightarrow> SearchRun \<Rightarrow> SearchStep \<Rightarrow> typed_error \<Rightarrow> ExecutionDisposition
     \<Rightarrow> trace_context \<Rightarrow> (SearchRun \<times> app_db) result" where
  "complete_failure env d run step error disposition trace =
     (let keep = (\<lambda>d. Ok (run, d)) in
      if disposition = Disp_RETRY_SCHEDULED \<or> SearchRun_is_terminal run then keep d
      else if ss_step_type step \<in> {ROUTE, PLAN, SYNTHESIZE} then fail_run env run INFRASTRUCTURE_FAILURE d
      else if ss_step_type step = DISCOVERY then rbind (maybe_select env run step trace d) keep
      else if ss_step_type step \<in> {FETCH, EXTRACT}
      then rbind (maybe_verify env run step trace [te_code error] d) keep
      else rbind (maybe_synthesize env run step trace [te_code error] d) keep)"

definition WorkflowCompletionCoordinator :: "hook_env \<Rightarrow> (unit app_db_ext) completion_hook" where
  "WorkflowCompletionCoordinator env =
     \<lparr>on_success = (\<lambda>d run step res trace.
        rbind (complete_success env d run step res trace) (\<lambda>(r, d'). Ok (r, step, d'))),
      on_failure = (\<lambda>d run step error disposition trace.
        rbind (complete_failure env d run step error disposition trace) (\<lambda>(r, d'). Ok (r, step, d')))\<rparr>"

end
