(* ===== verification/Workflow_Completion_Proofs.thy ===== *)
theory Workflow_Completion_Proofs
  imports Workflow_Completion Step_Execution_Proofs
begin

text \<open>
  What the completion hook does to the step table: storing the product of a step leaves the
  work tables alone, and the successor steps it adds keep the pipeline in order (\<open>pipeline_ok\<close>)
  and alive: when a step has ended, its run has ended too or has a step that is not terminal.
\<close>

named_theorems keeps_work \<open>operations that leave the work tables alone\<close>

section \<open>Storing results leaves the work tables alone\<close>

definition same_work :: "app_db \<Rightarrow> app_db \<Rightarrow> bool" where
  "same_work d d' \<longleftrightarrow> tbl_runs d' = tbl_runs d \<and> tbl_steps d' = tbl_steps d
     \<and> tbl_attempts d' = tbl_attempts d \<and> tbl_events d' = tbl_events d
     \<and> tbl_outbox d' = tbl_outbox d \<and> ap_created_at d' = ap_created_at d"

lemma same_work_refl [simp]: "same_work d d"
  by (simp add: same_work_def)

lemma same_work_trans: "same_work d d1 \<Longrightarrow> same_work d1 d2 \<Longrightarrow> same_work d d2"
  by (simp add: same_work_def)

lemma insert_keeps_work [keeps_work]:
  "insert_fact fr d = Ok d' \<Longrightarrow> same_work d d'"
  "insert_query qr d = Ok d' \<Longrightarrow> same_work d d'"
  "insert_provider_attempt par d = Ok d' \<Longrightarrow> same_work d d'"
  "insert_hit hr d = Ok d' \<Longrightarrow> same_work d d'"
  "insert_fetch tr d = Ok d' \<Longrightarrow> same_work d d'"
  "insert_document dr d = Ok d' \<Longrightarrow> same_work d d'"
  "insert_version nr d = Ok d' \<Longrightarrow> same_work d d'"
  "insert_version_fetch lr d = Ok d' \<Longrightarrow> same_work d d'"
  "insert_chunk kr d = Ok d' \<Longrightarrow> same_work d d'"
  "insert_candidate er d = Ok d' \<Longrightarrow> same_work d d'"
  "insert_verified vr d = Ok d' \<Longrightarrow> same_work d d'"
  "insert_claim cr d = Ok d' \<Longrightarrow> same_work d d'"
  "insert_citation zr d = Ok d' \<Longrightarrow> same_work d d'"
  "insert_message mr d = Ok d' \<Longrightarrow> same_work d d'"
  by (auto simp: insert_defs same_work_def)

lemma rfold_keeps_work:
  "rfold f xs d = Ok d' \<Longrightarrow> (\<And>x d d'. f x d = Ok d' \<Longrightarrow> same_work d d') \<Longrightarrow> same_work d d'"
proof (induction xs arbitrary: d)
  case (Cons x xs)
  then obtain d1 where "f x d = Ok d1" "rfold f xs d1 = Ok d'" by auto
  with Cons show ?case by (blast intro: same_work_trans)
qed simp

lemma persist_item_keeps_work [keeps_work]:
  "persist_fact env run v d = Ok d' \<Longrightarrow> same_work d d'"
  "persist_query env run p v d = Ok d' \<Longrightarrow> same_work d d'"
  "persist_hit env run i v d = Ok d' \<Longrightarrow> same_work d d'"
  "persist_fetch env run step v d = Ok d' \<Longrightarrow> same_work d d'"
  "persist_chunk env run i v d = Ok d' \<Longrightarrow> same_work d d'"
  "persist_document env run v d = Ok d' \<Longrightarrow> same_work d d'"
  "persist_version env run p v i d = Ok d' \<Longrightarrow> same_work d d'"
  "persist_candidate env run v d = Ok d' \<Longrightarrow> same_work d d'"
  "persist_verdict env run v d = Ok d' \<Longrightarrow> same_work d d'"
  "persist_citation env run i v d = Ok d' \<Longrightarrow> same_work d d'"
  by (auto simp: persist_fact_def persist_query_def persist_hit_def persist_fetch_def
      persist_chunk_def persist_document_def persist_version_def persist_candidate_def
      persist_verdict_def persist_citation_def dest: insert_keeps_work)

lemma persist_coverage_keeps_work [keeps_work]:
  "persist_coverage env run v d = Ok d' \<Longrightarrow> same_work d d'"
  by (auto simp: persist_coverage_def same_work_def split: if_splits)

text \<open>The folds, by the operation that they repeat.\<close>

lemma fold_keeps_work:
  "rfold (persist_fact env run) xs d = Ok d' \<Longrightarrow> same_work d d'"
  "rfold (persist_query env run p) xs d = Ok d' \<Longrightarrow> same_work d d'"
  "rfold (persist_hit env run i) xs d = Ok d' \<Longrightarrow> same_work d d'"
  "rfold (persist_chunk env run i) xs d = Ok d' \<Longrightarrow> same_work d d'"
  "rfold (persist_citation env run i) xs d = Ok d' \<Longrightarrow> same_work d d'"
  "rfold (persist_coverage env run) xs d = Ok d' \<Longrightarrow> same_work d d'"
  by (erule rfold_keeps_work, erule keeps_work)+

lemma persist_response_keeps_work [keeps_work]:
  assumes "persist_response env run step q v d = Ok d'"
  shows "same_work d d'"
proof -
  from assms obtain r i hits d1 where "insert_provider_attempt r d = Ok d1"
    "rfold (persist_hit env run i) hits d1 = Ok d'"
    by (auto simp: persist_response_def Let_def)
  then show ?thesis by (blast dest: insert_keeps_work(3) fold_keeps_work(3) same_work_trans)
qed

lemma persist_claim_keeps_work [keeps_work]:
  assumes "persist_claim env run v d = Ok d'"
  shows "same_work d d'"
proof -
  from assms obtain r i citations d1 where "insert_claim r d = Ok d1"
    "rfold (persist_citation env run i) citations d1 = Ok d'"
    by (auto simp: persist_claim_def)
  then show ?thesis by (blast dest: insert_keeps_work(12) fold_keeps_work(5) same_work_trans)
qed

lemma set_response_run_keeps_work [simp]: "same_work d (set_response_run run u d)"
  by (simp add: set_response_run_def same_work_def)

lemma persist_evidence_keeps_work:
  "rbind (persist_candidate env run v d) (persist_verdict env run v) = Ok d' \<Longrightarrow> same_work d d'"
  by (auto dest!: persist_item_keeps_work(8,9) intro: same_work_trans)

lemma persist_keeps_work [keeps_work]:
  "persist_plan env run p d = Ok d' \<Longrightarrow> same_work d d'"
  "persist_discovery env run step p d = Ok d' \<Longrightarrow> same_work d d'"
  "persist_extract env run step p d = Ok d' \<Longrightarrow> same_work d d'"
  "persist_verification env run p d = Ok d' \<Longrightarrow> same_work d d'"
  "persist_answer env run p d = Ok d' \<Longrightarrow> same_work d d'"
proof -
  show "same_work d d'" if "persist_plan env run p d = Ok d'"
    using that by (auto simp: persist_plan_def dest!: fold_keeps_work(1,2) intro: same_work_trans)
  show "same_work d d'" if "persist_discovery env run step p d = Ok d'"
    using that by (auto simp: persist_discovery_def elim!: rfold_keeps_work persist_response_keeps_work)
  show "same_work d d'" if stored: "persist_extract env run step p d = Ok d'"
  proof -
    from stored obtain document version i r d1 d2 d3 j chunks where
      "persist_document env run document d = Ok d1" "persist_version env run document version i d1 = Ok d2"
      "insert_version_fetch r d2 = Ok d3" "rfold (persist_chunk env run j) chunks d3 = Ok d'"
      by (auto simp: persist_extract_def Let_def split: if_splits)
    then show ?thesis
      using persist_item_keeps_work(6,7) insert_keeps_work(8) fold_keeps_work(4) same_work_trans
      by meson
  qed
  show "same_work d d'" if verified: "persist_verification env run p d = Ok d'"
  proof -
    from verified obtain evidence coverage d1 where
      evidence: "rfold (\<lambda>v d. rbind (persist_candidate env run v d) (persist_verdict env run v)) evidence d = Ok d1"
      and coverage: "rfold (persist_coverage env run) coverage d1 = Ok d'"
      by (auto simp: persist_verification_def)
    have "same_work d d1" by (rule rfold_keeps_work [OF evidence]) (rule persist_evidence_keeps_work)
    with fold_keeps_work(6) [OF coverage] show ?thesis by (blast intro: same_work_trans)
  qed
  show "same_work d d'" if answer: "persist_answer env run p d = Ok d'"
  proof -
    from answer obtain claims d1 r d2 where "rfold (persist_claim env run) claims d = Ok d1"
      "insert_message r d1 = Ok d2" and d': "same_work d2 d'"
      by (auto simp: persist_answer_def Let_def same_work_def set_response_run_def)
    then have "same_work d d1" "same_work d1 d2"
      by (auto elim!: rfold_keeps_work persist_claim_keeps_work insert_keeps_work(14))
    with d' show ?thesis by (blast intro: same_work_trans)
  qed
qed

section \<open>The order of the pipeline\<close>

text \<open>
  The stages of a run. FETCH, EXTRACT and VERIFY share one: FAST mode verifies while some
  fetches are still running. The type of a step is that of its key, no row of an earlier
  stage is open, a fetch with an extraction of its own has ended, and no key occurs twice.
\<close>

fun step_stage :: "StepType \<Rightarrow> nat" where
  "step_stage ROUTE = 0"
| "step_stage PLAN = 1"
| "step_stage DISCOVERY = 2"
| "step_stage SELECT = 3"
| "step_stage FETCH = 4"
| "step_stage EXTRACT = 4"
| "step_stage VERIFY = 4"
| "step_stage SYNTHESIZE = 5"
| "step_stage COMPLETE = 6"

fun key_ok :: "StepType \<Rightarrow> string \<Rightarrow> bool" where
  "key_ok ROUTE key = (key = ''route'')"
| "key_ok PLAN key = (key = ''plan'')"
| "key_ok DISCOVERY key = starts_with ''discover:'' key"
| "key_ok SELECT key = (key = ''select'')"
| "key_ok FETCH key = starts_with ''fetch:'' key"
| "key_ok EXTRACT key = starts_with ''extract:'' key"
| "key_ok VERIFY key = (key = ''verify'')"
| "key_ok SYNTHESIZE key = (key = ''synthesize'')"
| "key_ok COMPLETE key = False"

definition open_row :: "SearchStepRecord \<Rightarrow> bool" where
  "open_row row \<longleftrightarrow> \<not> terminal_status (sp_status row)"

definition pipeline_ok :: "SearchStepRecord set \<Rightarrow> bool" where
  "pipeline_ok rows \<longleftrightarrow>
     (\<forall>row \<in> rows. sp_plan_revision row = 1 \<and> (\<exists>ty. has_type ty row \<and> key_ok ty (sp_step_key row)))
     \<and> (\<forall>a \<in> rows. \<forall>b \<in> rows. \<forall>s t. has_type s a \<longrightarrow> has_type t b \<longrightarrow> step_stage s < step_stage t
          \<longrightarrow> \<not> open_row a)
     \<and> (\<forall>a \<in> rows. \<forall>b \<in> rows. has_type FETCH a \<longrightarrow> has_type EXTRACT b
          \<longrightarrow> sp_step_key b = replace_first ''fetch:'' ''extract:'' (sp_step_key a) \<longrightarrow> \<not> open_row a)
     \<and> inj_on sp_step_key rows"

definition rows_of :: "SearchRun \<Rightarrow> 'x tables \<Rightarrow> SearchStepRecord set" where
  "rows_of run d =
     {row \<in> set (tbl_steps d). sp_tenant_id row = sr_tenant_id run \<and> sp_run_id row = sr_id run}"

lemma set_step_rows [simp]: "set (step_rows run d) = rows_of run d"
  by (simp add: step_rows_def rows_of_def)

lemma step_type_value_inj: "step_type_value s = step_type_value t \<Longrightarrow> s = t"
  by (cases s; cases t) simp_all

lemma has_type_unique: "has_type s row \<Longrightarrow> has_type t row \<Longrightarrow> s = t"
  by (auto simp: has_type_def dest: step_type_value_inj)

lemma key_ok_unique: "key_ok s key \<Longrightarrow> key_ok t key \<Longrightarrow> s = t"
  by (cases key; cases s; cases t) (auto simp: starts_with_def)

lemma terminal_status_value [simp]: "terminal_status (step_status_value st) = step_terminal st"
  by (cases st) (simp_all add: terminal_status_def step_terminal_def)

lemma has_type_row [simp]: "has_type ty (step_row s) \<longleftrightarrow> ss_step_type s = ty"
  by (auto simp: has_type_def step_row_def dest: step_type_value_inj)

lemma open_step_row [simp]: "open_row (step_row s) \<longleftrightarrow> \<not> step_terminal (ss_status s)"
  by (simp add: open_row_def step_row_def)

lemma step_row_key [simp]: "sp_step_key (step_row s) = ss_step_key s"
  by (simp add: step_row_def)

lemma pipeline_okI:
  assumes "\<And>row. row \<in> rows \<Longrightarrow> sp_plan_revision row = 1 \<and> (\<exists>ty. has_type ty row \<and> key_ok ty (sp_step_key row))"
    and "\<And>a b s t. \<lbrakk>a \<in> rows; b \<in> rows; has_type s a; has_type t b; step_stage s < step_stage t\<rbrakk> \<Longrightarrow> \<not> open_row a"
    and "\<And>a b. \<lbrakk>a \<in> rows; b \<in> rows; has_type FETCH a; has_type EXTRACT b;
      sp_step_key b = replace_first ''fetch:'' ''extract:'' (sp_step_key a)\<rbrakk> \<Longrightarrow> \<not> open_row a"
    and "inj_on sp_step_key rows"
  shows "pipeline_ok rows"
  unfolding pipeline_ok_def
  by (intro conjI ballI allI impI; (rule assms(4) | erule (4) assms(2) | erule (4) assms(3)
      | drule assms(1); blast))

lemma pipeline_typed:
  assumes "pipeline_ok rows" "row \<in> rows"
  obtains ty where "has_type ty row" "key_ok ty (sp_step_key row)" "sp_plan_revision row = 1"
  using assms by (auto simp: pipeline_ok_def)

text \<open>While a step is open nothing of a later stage exists.\<close>

lemma open_step_is_frontier:
  assumes "pipeline_ok rows" "a \<in> rows" "open_row a" "has_type s a" "b \<in> rows" "has_type t b"
  shows "step_stage t \<le> step_stage s"
  using assms by (auto simp: pipeline_ok_def not_less [symmetric])

section \<open>Adding steps\<close>

definition new_row :: "SearchRun \<Rightarrow> StepType \<Rightarrow> SearchStepRecord \<Rightarrow> bool" where
  "new_row run ty row \<longleftrightarrow>
     (\<exists>s. row = step_row s \<and> step_inv s \<and> step_refs_wf s \<and> ss_status s = Step_READY
        \<and> ss_tenant_id s = sr_tenant_id run \<and> ss_run_id s = sr_id run \<and> ss_plan_revision s = 1
        \<and> ss_step_type s = ty \<and> key_ok ty (ss_step_key s))"

definition grown :: "SearchRun \<Rightarrow> app_db \<Rightarrow> app_db \<Rightarrow> SearchStepRecord list \<Rightarrow> bool" where
  "grown run d d' news \<longleftrightarrow>
     tbl_steps d' = tbl_steps d @ news \<and> tbl_runs d' = tbl_runs d \<and> tbl_attempts d' = tbl_attempts d
     \<and> tbl_events d' = tbl_events d \<and> ap_created_at d' = ap_created_at d
     \<and> (\<forall>row \<in> set news. \<exists>ty. new_row run ty row)
     \<and> (distinct (map sp_id (tbl_steps d)) \<longrightarrow> distinct (map sp_id (tbl_steps d')))"

lemma grown_refl: "same_work d d' \<Longrightarrow> grown run d d' []"
  by (simp add: grown_def same_work_def)

lemma grown_trans: "grown run d d1 xs \<Longrightarrow> grown run d1 d2 ys \<Longrightarrow> grown run d d2 (xs @ ys)"
  unfolding grown_def by (auto simp del: map_append distinct_append)

lemma rows_of_grown: "grown run d d' news \<Longrightarrow> rows_of run d' = rows_of run d \<union> set news"
  by (auto simp: grown_def rows_of_def new_row_def step_row_def)

lemma rows_of_same: "same_work d d' \<Longrightarrow> rows_of run d' = rows_of run d"
  by (simp add: same_work_def rows_of_def)

lemma new_row_columns:
  "new_row run ty row \<Longrightarrow> sp_tenant_id row = sr_tenant_id run \<and> sp_run_id row = sr_id run
     \<and> sp_plan_revision row = 1"
  by (auto simp: new_row_def step_row_def)

lemma step_exists_grown:
  assumes "grown run d d' news"
  shows "step_exists run key d' \<longleftrightarrow> step_exists run key d \<or> (\<exists>row \<in> set news. sp_step_key row = key)"
proof -
  have "sp_tenant_id row = sr_tenant_id run \<and> sp_run_id row = sr_id run \<and> sp_plan_revision row = 1"
    if "row \<in> set news" for row using assms that new_row_columns by (meson grown_def)
  moreover have "tbl_steps d' = tbl_steps d @ news" using assms by (simp add: grown_def)
  ultimately show ?thesis by (auto simp: step_exists_def list_ex_iff)
qed

lemma open_new_row: "new_row run ty row \<Longrightarrow> open_row row"
  by (auto simp: new_row_def step_terminal_def)

lemma add_step_effect:
  fixes d :: app_db
  assumes "add_step env k run key ty input_ref trace d = Ok d'" and "ArtifactRef_wf input_ref"
    and "key_ok ty key"
  obtains "step_exists run key d" "d' = d"
  | row where "\<not> step_exists run key d" "grown run d d' [row]" "new_row run ty row"
      "sp_step_key row = key"
proof (cases "step_exists run key d")
  case False
  with assms(1) obtain step d1 m where
    step: "SearchStep_new (hv_step_id env k) (sr_tenant_id run) (sr_id run) key ty 1 input_ref None 0 = Ok step"
    and add: "steps_add (sr_tenant_id run) step d = Ok d1" and out: "outbox_add (sr_tenant_id run) m d1 = Ok d'"
    by (auto simp: add_step_def)
  from step have s: "step = \<lparr>ss_id = hv_step_id env k, ss_tenant_id = sr_tenant_id run,
      ss_run_id = sr_id run, ss_step_key = key, ss_step_type = ty, ss_plan_revision = 1,
      ss_input_ref = input_ref, ss_status = Step_READY, ss_output_ref = None, ss_retry_at = None,
      ss_version = 0, ss_persisted_version = 0\<rparr>"
    by (auto simp: SearchStep_new_def split: if_splits)
  have new: "new_row run ty (step_row step)"
    using SearchStep_new_inv [OF step] assms(2,3) s by (auto simp: new_row_def step_refs_wf_def)
  have d': "tbl_steps d' = tbl_steps d @ [step_row step]" "tbl_runs d' = tbl_runs d"
    "tbl_attempts d' = tbl_attempts d" "tbl_events d' = tbl_events d" "ap_created_at d' = ap_created_at d"
    and "\<forall>row \<in> set (tbl_steps d). sp_id row \<noteq> ss_id step"
    using add out by (auto simp: steps_add_def outbox_add_def list_ex_iff split: if_splits)
  then have "grown run d d' [step_row step]"
    using new by (auto simp: grown_def step_row_def)
  moreover have "sp_step_key (step_row step) = key" using s by (simp add: step_row_def)
  ultimately show ?thesis using that(2) False new by blast
next
  case True
  with assms(1) have "d' = d" by (simp add: add_step_def)
  with True show ?thesis by (rule that(1))
qed

text \<open>When a row of a type and key may join the rows of a run, and that it then keeps them in order.\<close>

definition can_add :: "StepType \<Rightarrow> string \<Rightarrow> SearchStepRecord set \<Rightarrow> bool" where
  "can_add ty key rows \<longleftrightarrow>
     (\<forall>b \<in> rows. \<forall>t. has_type t b \<longrightarrow> step_stage t \<le> step_stage ty
        \<and> (step_stage t < step_stage ty \<longrightarrow> \<not> open_row b))
     \<and> (\<forall>b \<in> rows. ty = EXTRACT \<longrightarrow> has_type FETCH b
          \<longrightarrow> key = replace_first ''fetch:'' ''extract:'' (sp_step_key b) \<longrightarrow> \<not> open_row b)
     \<and> (\<forall>b \<in> rows. ty = FETCH \<longrightarrow> \<not> has_type EXTRACT b)
     \<and> (\<forall>b \<in> rows. sp_step_key b \<noteq> key)"

lemma new_row_type: "new_row run ty row \<Longrightarrow> has_type t row \<longleftrightarrow> t = ty"
  by (auto simp: new_row_def)

lemma pipeline_insert:
  assumes ok: "pipeline_ok rows" and new: "new_row run ty row" and add: "can_add ty (sp_step_key row) rows"
  shows "pipeline_ok (insert row rows)"
proof -
  have row: "sp_plan_revision row = 1 \<and> (\<exists>ty. has_type ty row \<and> key_ok ty (sp_step_key row))"
    using new by (auto simp: new_row_def step_row_def has_type_def)
  have stages: "\<not> open_row a" if "a \<in> insert row rows" "b \<in> insert row rows" "has_type s a" "has_type t b"
    "step_stage s < step_stage t" for a b s t
    using that ok add new_row_type [OF new] unfolding pipeline_ok_def can_add_def
    by (metis insertE leD order_less_irrefl)
  have fetches: "\<not> open_row a" if "a \<in> insert row rows" "b \<in> insert row rows" "has_type FETCH a"
    "has_type EXTRACT b" "sp_step_key b = replace_first ''fetch:'' ''extract:'' (sp_step_key a)" for a b
  proof (cases "b = row")
    case True
    with that new_row_type [OF new] have "ty = EXTRACT" "a \<in> rows" by auto
    with True that add show ?thesis by (simp add: can_add_def)
  next
    case False
    with that have b: "b \<in> rows" by simp
    moreover have "a \<noteq> row" using that add b new_row_type [OF new] by (auto simp: can_add_def)
    ultimately show ?thesis using that ok by (simp add: pipeline_ok_def)
  qed
  have "inj_on sp_step_key (insert row rows)"
    using ok add by (auto simp: pipeline_ok_def can_add_def)
  moreover have "sp_plan_revision r = 1 \<and> (\<exists>ty. has_type ty r \<and> key_ok ty (sp_step_key r))"
    if "r \<in> insert row rows" for r using ok row that by (auto simp: pipeline_ok_def)
  ultimately show ?thesis using stages fetches by (intro pipeline_okI)
qed

section \<open>A step that ends\<close>

definition view :: "SearchStep \<Rightarrow> SearchStep \<Rightarrow> SearchStepRecord set \<Rightarrow> SearchStepRecord set" where
  "view s0 cur rows = insert (step_row cur) (rows - {step_row s0})"

definition settling :: "SearchRun \<Rightarrow> SearchStep \<Rightarrow> SearchStep \<Rightarrow> app_db \<Rightarrow> bool" where
  "settling run s0 cur d \<longleftrightarrow>
     distinct (map sp_id (tbl_steps d)) \<and> pipeline_ok (rows_of run d) \<and> step_row s0 \<in> rows_of run d
     \<and> \<not> step_terminal (ss_status s0) \<and> step_lineage s0 cur \<and> step_terminal (ss_status cur)"

lemma settling_same: "same_work d d' \<Longrightarrow> settling run s0 cur d' = settling run s0 cur d"
  by (simp add: settling_def rows_of_same) (simp add: same_work_def)

lemma lineage_row:
  "step_lineage s0 cur \<Longrightarrow> sp_step_type (step_row cur) = sp_step_type (step_row s0)
     \<and> sp_step_key (step_row cur) = sp_step_key (step_row s0)
     \<and> sp_plan_revision (step_row cur) = sp_plan_revision (step_row s0)
     \<and> sp_id (step_row cur) = sp_id (step_row s0)"
  by (simp add: step_lineage_def step_row_def)

text \<open>The rows as the hook reads them are the rows as they will be saved.\<close>

lemma view_row:
  assumes "settling run s0 cur d" "row \<in> rows_of run d"
  defines "row' \<equiv> if row = step_row s0 then step_row cur else row"
  shows "row' \<in> view s0 cur (rows_of run d)" "sp_step_type row' = sp_step_type row"
    "sp_step_key row' = sp_step_key row" "terminal_status (status_of cur row) \<longleftrightarrow> \<not> open_row row'"
proof -
  have lin: "step_lineage s0 cur" using assms(1) by (simp add: settling_def)
  have inj: "inj_on sp_id (set (tbl_steps d))" using assms(1) by (simp add: settling_def distinct_map)
  have id: "sp_id row = ss_id cur \<longleftrightarrow> row = step_row s0"
  proof
    assume "sp_id row = ss_id cur"
    then have "sp_id row = sp_id (step_row s0)" using lin by (simp add: step_lineage_def step_row_def)
    with inj assms(1,2) show "row = step_row s0" by (auto simp: inj_on_def settling_def rows_of_def)
  qed (use lin in \<open>simp add: step_lineage_def step_row_def\<close>)
  show "row' \<in> view s0 cur (rows_of run d)" "sp_step_type row' = sp_step_type row"
    "sp_step_key row' = sp_step_key row"
    using assms(2) lineage_row [OF lin] by (auto simp: row'_def view_def)
  show "terminal_status (status_of cur row) \<longleftrightarrow> \<not> open_row row'"
    using id by (auto simp: status_of_def row'_def) (simp_all add: open_row_def)
qed

lemma view_row_back:
  assumes "settling run s0 cur d" "row' \<in> view s0 cur (rows_of run d)"
  obtains row where "row \<in> rows_of run d" "sp_step_type row = sp_step_type row'"
    "sp_step_key row = sp_step_key row'" "sp_plan_revision row = sp_plan_revision row'"
    "row' = (if row = step_row s0 then step_row cur else row)"
    "open_row row' \<Longrightarrow> open_row row" "terminal_status (status_of cur row) \<longleftrightarrow> \<not> open_row row'"
proof (cases "row' = step_row cur")
  case True
  with assms view_row [OF assms(1), of "step_row s0"] lineage_row [of s0 cur] show ?thesis
    by (intro that [of "step_row s0"]) (auto simp: settling_def)
next
  case False
  with assms have row: "row' \<in> rows_of run d" "row' \<noteq> step_row s0" by (auto simp: view_def)
  with view_row [OF assms(1) row(1)] show ?thesis by (intro that [of row']) auto
qed

text \<open>Replacing a row by a later state of its step keeps the order, unless it opens the row again.\<close>

lemma pipeline_view:
  assumes R: "pipeline_ok R" and s0: "step_row s0 \<in> R" and lin: "step_lineage s0 s"
    and closes: "\<not> step_terminal (ss_status s) \<Longrightarrow> \<not> step_terminal (ss_status s0)"
  shows "pipeline_ok (view s0 s R)"
proof -
  have "\<forall>row \<in> view s0 s R. \<exists>r \<in> R. sp_step_type r = sp_step_type row \<and> sp_step_key r = sp_step_key row
      \<and> sp_plan_revision r = sp_plan_revision row \<and> (open_row row \<longrightarrow> open_row r)"
    using s0 lineage_row [OF lin] closes by (auto simp: view_def)
  then obtain r where orig: "\<And>row. row \<in> view s0 s R \<Longrightarrow> r row \<in> R \<and> sp_step_type (r row) = sp_step_type row
      \<and> sp_step_key (r row) = sp_step_key row \<and> sp_plan_revision (r row) = sp_plan_revision row
      \<and> (open_row row \<longrightarrow> open_row (r row))" by metis
  have typed: "has_type t (r row) = has_type t row" if "row \<in> view s0 s R" for t row
    using orig [OF that] by (simp add: has_type_def)
  show ?thesis
  proof (rule pipeline_okI)
    fix row
    assume row: "row \<in> view s0 s R"
    obtain ty where "has_type ty (r row)" "key_ok ty (sp_step_key (r row))" "sp_plan_revision (r row) = 1"
      using pipeline_typed [OF R] orig [OF row] by blast
    with orig [OF row] typed [OF row]
    show "sp_plan_revision row = 1 \<and> (\<exists>ty. has_type ty row \<and> key_ok ty (sp_step_key row))" by auto
  next
    fix a b t u
    assume ab: "a \<in> view s0 s R" "b \<in> view s0 s R" "has_type t a" "has_type u b" "step_stage t < step_stage u"
    then have "has_type t (r a)" "has_type u (r b)" by (simp_all add: typed)
    with R ab(5) orig [OF ab(1)] orig [OF ab(2)] show "\<not> open_row a" unfolding pipeline_ok_def by blast
  next
    fix a b
    assume ab: "a \<in> view s0 s R" "b \<in> view s0 s R" "has_type FETCH a" "has_type EXTRACT b"
      "sp_step_key b = replace_first ''fetch:'' ''extract:'' (sp_step_key a)"
    then have "has_type FETCH (r a)" "has_type EXTRACT (r b)"
      "sp_step_key (r b) = replace_first ''fetch:'' ''extract:'' (sp_step_key (r a))"
      using orig by (simp_all add: typed)
    with R orig [OF ab(1)] orig [OF ab(2)] show "\<not> open_row a" unfolding pipeline_ok_def by blast
  next
    have "inj_on sp_step_key R" using R by (simp add: pipeline_ok_def)
    with s0 lineage_row [OF lin] show "inj_on sp_step_key (view s0 s R)"
      by (auto simp: view_def inj_on_def)
  qed
qed

lemma view_ok:
  assumes "settling run s0 cur d"
  shows "pipeline_ok (view s0 cur (rows_of run d))"
  using assms by (intro pipeline_view) (auto simp: settling_def)

lemma current_in_view: "settling run s0 cur d \<Longrightarrow> step_row cur \<in> view s0 cur (rows_of run d)
  \<and> \<not> open_row (step_row cur)"
  by (simp add: view_def settling_def)

text \<open>A step that is ending was the frontier: its stage is the last one, earlier stages are closed.\<close>

lemma settling_frontier:
  assumes "settling run s0 cur d" "row \<in> view s0 cur (rows_of run d)" "has_type t row"
  shows "step_stage t \<le> step_stage (ss_step_type cur)"
    and "step_stage t < step_stage (ss_step_type cur) \<Longrightarrow> \<not> open_row row"
proof -
  have cur: "step_row s0 \<in> rows_of run d" "open_row (step_row s0)" "ss_step_type s0 = ss_step_type cur"
    using assms(1) by (auto simp: settling_def step_lineage_def)
  obtain r where r: "r \<in> rows_of run d" "sp_step_type r = sp_step_type row"
    by (rule view_row_back [OF assms(1,2)])
  then have "has_type t r" using assms(3) by (simp add: has_type_def)
  with r cur assms(1) show "step_stage t \<le> step_stage (ss_step_type cur)"
    by (intro open_step_is_frontier [of "rows_of run d" "step_row s0"]) (auto simp: settling_def)
  show "\<not> open_row row" if "step_stage t < step_stage (ss_step_type cur)"
    using view_ok [OF assms(1)] assms(2,3) that current_in_view [OF assms(1)]
    unfolding pipeline_ok_def by (metis has_type_row)
qed

lemma step_exists_view:
  assumes "settling run s0 cur d"
  shows "step_exists run key d \<longleftrightarrow> (\<exists>row \<in> view s0 cur (rows_of run d). sp_step_key row = key)"
proof -
  have "step_exists run key d \<longleftrightarrow> (\<exists>row \<in> rows_of run d. sp_step_key row = key)"
    using assms by (auto simp: step_exists_def list_ex_iff rows_of_def settling_def pipeline_ok_def)
  also have "\<dots> \<longleftrightarrow> (\<exists>row \<in> view s0 cur (rows_of run d). sp_step_key row = key)"
    using view_row(1,3) [OF assms] by (blast elim: view_row_back [OF assms])
  finally show ?thesis .
qed

section \<open>What a completion leaves\<close>

text \<open>The artifact store hands out well-formed references: it builds them by \<^verbatim>\<open>ArtifactRef(...)\<close>.\<close>

definition refs_ok :: "hook_env \<Rightarrow> bool" where
  "refs_ok env \<longleftrightarrow> (\<forall>tn r v a. hv_put_json env tn r v = Ok a \<longrightarrow> ArtifactRef_wf a)"

definition carried_on :: "SearchRun \<Rightarrow> SearchStep \<Rightarrow> SearchStep \<Rightarrow> app_db \<Rightarrow> app_db \<Rightarrow> bool" where
  "carried_on run s0 cur d d' \<longleftrightarrow>
     (\<exists>news. grown run d d' news \<and> pipeline_ok (view s0 cur (rows_of run d) \<union> set news)
        \<and> (\<exists>row \<in> view s0 cur (rows_of run d) \<union> set news. open_row row))"

lemma carried_on_unchanged:
  assumes "settling run s0 cur d" "row \<in> view s0 cur (rows_of run d)" "open_row row"
  shows "carried_on run s0 cur d d"
  unfolding carried_on_def using assms view_ok
  by (intro exI [of _ "[]"]) (auto intro: grown_refl)

lemma carried_on_same:
  assumes "same_work d d1" "carried_on run s0 cur d1 d2"
  shows "carried_on run s0 cur d d2"
proof -
  from assms(2) obtain news where news: "grown run d1 d2 news"
    "pipeline_ok (view s0 cur (rows_of run d) \<union> set news)"
    "\<exists>row \<in> view s0 cur (rows_of run d) \<union> set news. open_row row"
    unfolding carried_on_def rows_of_same [OF assms(1)] by blast
  moreover have "grown run d d2 news"
    using grown_trans [OF grown_refl [OF assms(1)] news(1)] by simp
  ultimately show ?thesis unfolding carried_on_def by blast
qed

text \<open>The one successor of a step that ends.\<close>

lemma add_successor:
  assumes settle: "settling run s0 cur d" and add: "add_step env k run key ty input_ref trace d = Ok d'"
    and wf: "ArtifactRef_wf input_ref" and key: "key_ok ty key"
    and can: "can_add ty key (view s0 cur (rows_of run d))"
  shows "carried_on run s0 cur d d'"
proof -
  have absent: "\<not> step_exists run key d"
    using can by (auto simp: step_exists_view [OF settle] can_add_def)
  obtain row where row: "grown run d d' [row]" "new_row run ty row" "sp_step_key row = key"
    using add_step_effect [OF add wf key] absent by blast
  have "pipeline_ok (insert row (view s0 cur (rows_of run d)))"
    by (rule pipeline_insert [OF view_ok [OF settle] row(2)]) (simp add: can row(3))
  then show ?thesis
    unfolding carried_on_def using row open_new_row by (intro exI [of _ "[row]"]) auto
qed

text \<open>
  A successor of a later stage may be added once the other steps of the current stage have
  ended; its key is new because no row of its type can exist yet.
\<close>

lemma can_add_next:
  assumes settle: "settling run s0 cur d" and key: "key_ok ty key"
    and later: "step_stage (ss_step_type cur) < step_stage ty"
    and closed: "\<And>row. row \<in> view s0 cur (rows_of run d) \<Longrightarrow>
      \<exists>t. has_type t row \<and> step_stage t = step_stage (ss_step_type cur) \<Longrightarrow> \<not> open_row row"
    and plain: "ty \<noteq> EXTRACT"
  shows "can_add ty key (view s0 cur (rows_of run d))"
proof -
  have front: "step_stage t < step_stage ty \<and> \<not> open_row row"
    if "row \<in> view s0 cur (rows_of run d)" "has_type t row" for row t
    using settling_frontier [OF settle that] closed [OF that(1)] later that(2)
    by (meson le_neq_implies_less order_le_less_trans)
  have "sp_step_key row \<noteq> key" if row: "row \<in> view s0 cur (rows_of run d)" for row
  proof
    assume "sp_step_key row = key"
    moreover obtain t where "has_type t row" "key_ok t (sp_step_key row)"
      by (rule pipeline_typed [OF view_ok [OF settle] row])
    ultimately have "has_type ty row" using key key_ok_unique by metis
    with front [OF row] show False by blast
  qed
  moreover have "\<not> has_type EXTRACT row" if "row \<in> view s0 cur (rows_of run d)" "ty = FETCH" for row
    using front [OF that(1)] that(2) by fastforce
  ultimately show ?thesis using front plain unfolding can_add_def by (simp add: less_imp_le)
qed

text \<open>The rows of a type with a single key: at most one of them.\<close>

lemma only_row_of_key:
  assumes "settling run s0 cur d" "row \<in> view s0 cur (rows_of run d)"
    "sp_step_key row = ss_step_key cur"
  shows "row = step_row cur"
  using assms view_ok [OF assms(1)] current_in_view [OF assms(1)]
  by (auto simp: pipeline_ok_def inj_on_def step_row_def)

lemma view_key_absent:
  assumes "settling run s0 cur d" "key_ok ty key" "row \<in> view s0 cur (rows_of run d)" "\<not> has_type ty row"
  shows "sp_step_key row \<noteq> key"
  using assms(2,4) pipeline_typed [OF view_ok [OF assms(1)] assms(3)] key_ok_unique by metis

lemma settling_type:
  assumes "settling run s0 cur d"
  shows "key_ok (ss_step_type cur) (ss_step_key cur)"
proof -
  obtain t where "has_type t (step_row cur)" "key_ok t (sp_step_key (step_row cur))"
    using pipeline_typed [OF view_ok [OF assms], of "step_row cur"] current_in_view [OF assms] by blast
  then show ?thesis by simp
qed

lemma maybe_synthesize_carries:
  assumes settle: "settling run s0 cur d" and env: "refs_ok env" and type: "ss_step_type cur \<noteq> SYNTHESIZE"
    and hook: "maybe_synthesize env run cur trace codes d = Ok d'"
  shows "carried_on run s0 cur d d'"
proof (cases "\<exists>row \<in> rows_of run d. \<not> has_type SYNTHESIZE row \<and> \<not> terminal_status (status_of cur row)")
  case True
  then obtain row where row: "row \<in> rows_of run d" "\<not> terminal_status (status_of cur row)"
    "\<not> has_type SYNTHESIZE row" by blast
  then have "list_ex (\<lambda>row. \<not> terminal_status (status_of cur row))
      (filter (\<lambda>row. \<not> has_type SYNTHESIZE row) (step_rows run d))"
    by (auto simp: list_ex_iff)
  with hook have "d' = d" by (simp add: maybe_synthesize_def Let_def)
  moreover have "carried_on run s0 cur d d"
    using view_row [OF settle row(1)] row(2) by (blast intro: carried_on_unchanged [OF settle])
  ultimately show ?thesis by simp
next
  case False
  then have closed: "\<not> open_row row" if "row \<in> view s0 cur (rows_of run d)" "\<not> has_type SYNTHESIZE row" for row
    using view_row_back [OF settle that(1)] that(2) unfolding has_type_def by metis
  have rows: "\<not> list_ex (\<lambda>row. \<not> terminal_status (status_of cur row))
      (filter (\<lambda>row. \<not> has_type SYNTHESIZE row) (step_rows run d))"
    using False by (auto simp: list_ex_iff)
  obtain input_ref v where put: "hv_put_json env (sr_tenant_id run) (sr_id run) v = Ok input_ref"
    and add: "add_step env 0 run ''synthesize'' SYNTHESIZE input_ref trace d = Ok d'"
    using hook unfolding maybe_synthesize_def Let_def if_not_P [OF rows] by (auto split: if_splits)
  have ref: "ArtifactRef_wf input_ref" using env put by (auto simp: refs_ok_def)
  have stage: "step_stage (ss_step_type cur) < 5"
    using type settling_type [OF settle] by (cases "ss_step_type cur") auto
  have "can_add SYNTHESIZE ''synthesize'' (view s0 cur (rows_of run d))"
  proof (rule can_add_next [OF settle])
    fix row
    assume row: "row \<in> view s0 cur (rows_of run d)"
      "\<exists>t. has_type t row \<and> step_stage t = step_stage (ss_step_type cur)"
    then have "\<not> has_type SYNTHESIZE row" using stage has_type_unique by fastforce
    with row show "\<not> open_row row" by (intro closed)
  qed (use stage in simp_all)
  then show ?thesis by (intro add_successor [OF settle add ref]) simp_all
qed

lemma maybe_select_carries:
  assumes settle: "settling run s0 cur d" and env: "refs_ok env" and type: "ss_step_type cur = DISCOVERY"
    and hook: "maybe_select env run cur trace d = Ok d'"
  shows "carried_on run s0 cur d d'"
proof (cases "\<exists>row \<in> rows_of run d. has_type DISCOVERY row \<and> \<not> terminal_status (status_of cur row)")
  case True
  then obtain row where row: "row \<in> rows_of run d" "\<not> terminal_status (status_of cur row)"
    "has_type DISCOVERY row" by blast
  then have "list_ex (\<lambda>row. \<not> terminal_status (status_of cur row))
      (filter (has_type DISCOVERY) (step_rows run d))"
    by (auto simp: list_ex_iff)
  with hook have "d' = d" by (simp add: maybe_select_def Let_def)
  moreover have "carried_on run s0 cur d d"
    using view_row [OF settle row(1)] row(2) by (blast intro: carried_on_unchanged [OF settle])
  ultimately show ?thesis by simp
next
  case False
  then have closed: "\<not> open_row row" if "row \<in> view s0 cur (rows_of run d)" "has_type DISCOVERY row" for row
    using view_row_back [OF settle that(1)] that(2) unfolding has_type_def by metis
  have "step_row s0 \<in> set (filter (has_type DISCOVERY) (step_rows run d))"
    using settle type by (auto simp: settling_def step_lineage_def)
  then have "filter (has_type DISCOVERY) (step_rows run d) \<noteq> []" by (metis empty_iff list.set(1))
  then have rows: "\<not> (filter (has_type DISCOVERY) (step_rows run d) = []
      \<or> list_ex (\<lambda>row. \<not> terminal_status (status_of cur row)) (filter (has_type DISCOVERY) (step_rows run d)))"
    using False by (simp add: list_ex_iff)
  obtain input_ref v where put: "hv_put_json env (sr_tenant_id run) (sr_id run) v = Ok input_ref"
    and add: "add_step env 0 run ''select'' SELECT input_ref trace d = Ok d'"
    using hook unfolding maybe_select_def Let_def if_not_P [OF rows] by auto
  have ref: "ArtifactRef_wf input_ref" using env put by (auto simp: refs_ok_def)
  have "can_add SELECT ''select'' (view s0 cur (rows_of run d))"
  proof (rule can_add_next [OF settle])
    fix row
    assume row: "row \<in> view s0 cur (rows_of run d)"
      "\<exists>t. has_type t row \<and> step_stage t = step_stage (ss_step_type cur)"
    then obtain t where "has_type t row" "step_stage t = 2" using type by auto
    then have "has_type DISCOVERY row" by (cases t) auto
    with row show "\<not> open_row row" by (intro closed)
  qed (simp_all add: type)
  then show ?thesis by (intro add_successor [OF settle add ref]) simp_all
qed

lemma maybe_verify_carries:
  assumes settle: "settling run s0 cur d" and env: "refs_ok env" and type: "ss_step_type cur \<in> {FETCH, EXTRACT}"
    and hook: "maybe_verify env run cur trace codes d = Ok d'"
  shows "carried_on run s0 cur d d'"
proof -
  let ?all = "list_all (\<lambda>row. terminal_status (status_of cur row))
    (filter (\<lambda>row. has_type FETCH row \<or> has_type EXTRACT row) (step_rows run d))"
  have synth: "carried_on run s0 cur d d1" if "maybe_synthesize env run cur trace codes d = Ok d1" for d1
    using type by (intro maybe_synthesize_carries [OF settle env _ that]) auto
  have still_open: "carried_on run s0 cur d d" if "row \<in> rows_of run d" "\<not> terminal_status (status_of cur row)" for row
    using view_row [OF settle that(1)] that(2) by (blast intro: carried_on_unchanged [OF settle])
  have fetching: "carried_on run s0 cur d d" if "\<not> ?all"
    using that still_open by (auto simp: list_all_iff)
  show ?thesis
  proof (cases "find (has_type VERIFY) (step_rows run d)")
    case (Some v)
    then have v: "v \<in> rows_of run d" by (metis find_SomeD set_step_rows)
    show ?thesis
      using hook synth fetching still_open [OF v]
      by (auto simp: maybe_verify_def Let_def Some split: if_splits)
  next
    case None
    then have none: "\<not> has_type VERIFY row" if "row \<in> rows_of run d" for row
      using that by (metis find_None_iff set_step_rows)
    have "carried_on run s0 cur d d'"
      if add: "add_step env 0 run ''verify'' VERIFY input_ref trace d = Ok d'" and ref: "ArtifactRef_wf input_ref"
      for input_ref
    proof (rule add_successor [OF settle add ref])
      have "\<not> has_type VERIFY row" if "row \<in> view s0 cur (rows_of run d)" for row
        using view_row_back [OF settle that] none unfolding has_type_def by metis
      moreover have "step_stage (ss_step_type cur) = 4" using type by auto
      ultimately show "can_add VERIFY ''verify'' (view s0 cur (rows_of run d))"
        using settling_frontier [OF settle] view_key_absent [OF settle, of VERIFY "''verify''"]
        unfolding can_add_def by auto
    qed simp
    with hook env synth fetching show ?thesis
      by (auto simp: maybe_verify_def Let_def None refs_ok_def split: if_splits)
  qed
qed

section \<open>Fan-out\<close>

text \<open>
  The loops over the queries of a plan and over the selected hits: every added row has the
  type of the next stage and is open, and after at least one round such a row exists.
\<close>

definition fanned :: "SearchRun \<Rightarrow> StepType \<Rightarrow> SearchStepRecord set \<Rightarrow> app_db \<Rightarrow> app_db \<Rightarrow> bool" where
  "fanned run ty V d d' \<longleftrightarrow>
     (\<exists>news. grown run d d' news \<and> pipeline_ok (V \<union> set news) \<and> (\<forall>row \<in> set news. new_row run ty row))"

lemma fan_out_step:
  assumes settle: "settling run s0 cur d" and "V = view s0 cur (rows_of run d)"
    and before: "fanned run ty V d d1" and later: "step_stage (ss_step_type cur) < step_stage ty"
    and closed: "\<And>row. row \<in> V \<Longrightarrow> \<not> open_row row" and plain: "ty \<noteq> EXTRACT"
    and add: "add_step env k run key ty input_ref trace d1 = Ok d2"
    and wf: "ArtifactRef_wf input_ref" and key: "key_ok ty key"
  shows "fanned run ty V d d2 \<and> (\<exists>news row. grown run d d2 news \<and> row \<in> set news)"
proof -
  obtain news where news: "grown run d d1 news" "pipeline_ok (V \<union> set news)"
    "\<forall>row \<in> set news. new_row run ty row" using before by (auto simp: fanned_def)
  have V: "can_add ty key V"
    using can_add_next [OF settle key later _ plain] closed assms(2) by blast
  have exists_iff: "step_exists run key d1 \<longleftrightarrow> (\<exists>row \<in> V \<union> set news. sp_step_key row = key)"
    using step_exists_grown [OF news(1)] step_exists_view [OF settle] assms(2) by auto
  show ?thesis
  proof (rule add_step_effect [OF add wf key])
    assume "step_exists run key d1" "d2 = d1"
    moreover from this V exists_iff obtain row where "row \<in> set news" by (auto simp: can_add_def)
    ultimately show ?thesis using before news(1) by blast
  next
    fix row
    assume row: "\<not> step_exists run key d1" "grown run d1 d2 [row]" "new_row run ty row" "sp_step_key row = key"
    have "can_add ty key (V \<union> set news)"
      using V news(3) row(1) exists_iff plain new_row_type unfolding can_add_def by auto
    then have "pipeline_ok (insert row (V \<union> set news))"
      using row(4) by (intro pipeline_insert [OF news(2) row(3)]) simp
    then have "pipeline_ok (V \<union> set (news @ [row]))" by simp
    with grown_trans [OF news(1) row(2)] news(3) row(3) show ?thesis
      unfolding fanned_def by (intro conjI exI [of _ "news @ [row]"] exI [of _ row]) auto
  qed
qed

lemma fan_out:
  assumes "settling run s0 cur d" and "V = view s0 cur (rows_of run d)"
    and "step_stage (ss_step_type cur) < step_stage ty"
    and "\<And>row. row \<in> V \<Longrightarrow> \<not> open_row row" and "ty \<noteq> EXTRACT"
    and step: "\<And>k x d d'. f k x d = Ok d' \<Longrightarrow> \<exists>key input_ref. add_step env k run key ty input_ref trace d = Ok d'
      \<and> ArtifactRef_wf input_ref \<and> key_ok ty key"
    and "rfold_index f n xs d1 = Ok d2" and "fanned run ty V d d1"
    and "xs \<noteq> [] \<or> (\<exists>news row. grown run d d1 news \<and> row \<in> set news)"
  shows "fanned run ty V d d2 \<and> (\<exists>news row. grown run d d2 news \<and> row \<in> set news)"
  using assms(7-9)
proof (induction xs arbitrary: n d1)
  case (Cons x xs)
  then obtain d3 where f: "f n x d1 = Ok d3" and rest: "rfold_index f (Suc n) xs d3 = Ok d2" by auto
  from step [OF f] obtain key input_ref where "add_step env n run key ty input_ref trace d1 = Ok d3"
    "ArtifactRef_wf input_ref" "key_ok ty key" by blast
  from fan_out_step [OF assms(1,2) Cons.prems(2) assms(3,4,5) this]
  show ?case using Cons.IH [OF rest] by blast
qed auto

lemma fanned_carries:
  assumes "fanned run ty (view s0 cur (rows_of run d)) d d'" "\<exists>news row. grown run d d' news \<and> row \<in> set news"
  shows "carried_on run s0 cur d d'"
proof -
  from assms(1) obtain news where news: "grown run d d' news"
    "pipeline_ok (view s0 cur (rows_of run d) \<union> set news)" "\<forall>row \<in> set news. new_row run ty row"
    by (auto simp: fanned_def)
  from assms(2) news(1) have "news \<noteq> []" by (auto simp: grown_def)
  then obtain row where "row \<in> set news" by (cases news) auto
  with news open_new_row show ?thesis unfolding carried_on_def by blast
qed

lemma fanned_refl:
  assumes "settling run s0 cur d"
  shows "fanned run ty (view s0 cur (rows_of run d)) d d"
  unfolding fanned_def using view_ok [OF assms] by (intro exI [of _ "[]"]) (simp add: grown_refl)

lemma single_stage_closed:
  assumes settle: "settling run s0 cur d" and type: "ss_step_type cur \<in> {ROUTE, PLAN, SELECT}"
    and row: "row \<in> view s0 cur (rows_of run d)"
  shows "\<not> open_row row"
proof -
  obtain t where t: "has_type t row" "key_ok t (sp_step_key row)"
    by (rule pipeline_typed [OF view_ok [OF settle] row])
  show ?thesis
  proof (cases "step_stage t < step_stage (ss_step_type cur)")
    case False
    with settling_frontier(1) [OF settle row t(1)] have "step_stage t = step_stage (ss_step_type cur)" by simp
    with type have "t = ss_step_type cur" by (cases t) auto
    with t(2) type settling_type [OF settle] have "sp_step_key row = ss_step_key cur" by auto
    then have "row = step_row cur" by (rule only_row_of_key [OF settle row])
    with current_in_view [OF settle] show ?thesis by simp
  qed (rule settling_frontier(2) [OF settle row t(1)])
qed

lemma replace_first_prefix: "starts_with old s \<Longrightarrow> replace_first old new s = new @ drop (length old) s"
  by (subst replace_first.simps) simp

lemma can_add_extract:
  assumes settle: "settling run s0 cur d" and type: "ss_step_type cur = FETCH"
    and key: "key = replace_first ''fetch:'' ''extract:'' (ss_step_key cur)"
  shows "key_ok EXTRACT key" "can_add EXTRACT key (view s0 cur (rows_of run d))"
proof -
  let ?V = "view s0 cur (rows_of run d)"
  have cur: "starts_with ''fetch:'' (ss_step_key cur)" using settling_type [OF settle] type by simp
  show ok: "key_ok EXTRACT key" by (simp add: key replace_first_prefix [OF cur] starts_with_def)
  have "\<not> open_row b" if b: "b \<in> ?V" "has_type FETCH b" "key = replace_first ''fetch:'' ''extract:'' (sp_step_key b)" for b
  proof -
    obtain t where "has_type t b" "key_ok t (sp_step_key b)" by (rule pipeline_typed [OF view_ok [OF settle] b(1)])
    with b(2) has_type_unique have pre: "starts_with ''fetch:'' (sp_step_key b)" by fastforce
    with b(3) key cur have "drop (length ''fetch:'') (sp_step_key b) = drop (length ''fetch:'') (ss_step_key cur)"
      by (simp add: replace_first_prefix)
    moreover have "take (length ''fetch:'') (sp_step_key b) = take (length ''fetch:'') (ss_step_key cur)"
      using pre cur by (simp add: starts_with_def)
    ultimately have "sp_step_key b = ss_step_key cur" by (metis append_take_drop_id)
    with only_row_of_key [OF settle b(1)] current_in_view [OF settle] show ?thesis by simp
  qed
  moreover have "sp_step_key b \<noteq> key" if b: "b \<in> ?V" for b
  proof
    assume eq: "sp_step_key b = key"
    obtain t where "has_type t b" "key_ok t (sp_step_key b)" by (rule pipeline_typed [OF view_ok [OF settle] b])
    with eq ok key_ok_unique have "has_type EXTRACT b" by blast
    moreover obtain r where r: "r \<in> rows_of run d" "sp_step_type r = sp_step_type b" "sp_step_key r = sp_step_key b"
      by (rule view_row_back [OF settle b])
    ultimately have "has_type EXTRACT r" by (simp add: has_type_def)
    moreover have "has_type FETCH (step_row s0)" "open_row (step_row s0)" "step_row s0 \<in> rows_of run d"
      "ss_step_key s0 = ss_step_key cur" "pipeline_ok (rows_of run d)"
      using settle type by (auto simp: settling_def step_lineage_def)
    ultimately show False using r eq key unfolding pipeline_ok_def by fastforce
  qed
  ultimately show "can_add EXTRACT key ?V"
    using settling_frontier [OF settle] type unfolding can_add_def by simp
qed

lemma add_discovery_step:
  assumes env: "refs_ok env" and "add_discovery env run trace plan_ref payload k q d = Ok d'"
  shows "\<exists>key input_ref. add_step env k run key DISCOVERY input_ref trace d = Ok d' \<and> ArtifactRef_wf input_ref
    \<and> key_ok DISCOVERY key"
proof -
  from assms(2) obtain v input_ref key where put: "hv_put_json env (sr_tenant_id run) (sr_id run) v = Ok input_ref"
    and add: "add_step env k run (''discover:'' @ key) DISCOVERY input_ref trace d = Ok d'"
    unfolding add_discovery_def rbind_eq_Ok by blast
  moreover have "key_ok DISCOVERY (''discover:'' @ key)" by (simp add: starts_with_def)
  ultimately show ?thesis using env unfolding refs_ok_def by blast
qed

lemma add_fetch_step:
  assumes env: "refs_ok env" and "add_fetch env run trace payload k h d = Ok d'"
  shows "\<exists>key input_ref. add_step env k run key FETCH input_ref trace d = Ok d' \<and> ArtifactRef_wf input_ref
    \<and> key_ok FETCH key"
proof -
  from assms(2) obtain v input_ref i where put: "hv_put_json env (sr_tenant_id run) (sr_id run) v = Ok input_ref"
    and add: "add_step env k run (''fetch:'' @ nat_str (k + 1) @ '':'' @ i) FETCH input_ref trace d = Ok d'"
    unfolding add_fetch_def rbind_eq_Ok by blast
  moreover have "key_ok FETCH (''fetch:'' @ nat_str (k + 1) @ '':'' @ i)" by (simp add: starts_with_def)
  ultimately show ?thesis using env unfolding refs_ok_def by blast
qed

section \<open>Success and failure\<close>

lemma complete_success_carries:
  assumes settle: "settling run s0 cur d" and env: "refs_ok env" and out: "ArtifactRef_wf (ex_output_ref res)"
    and hook: "complete_success env d run cur res trace = Ok (r', d')"
  shows "r' = run \<and> carried_on run s0 cur d d'
     \<or> same_work d d' \<and> (\<exists>q reason t. SearchRun_succeed run q reason t = Ok r')"
proof -
  obtain payload where "payload_of env (sr_tenant_id run) (ex_output_ref res) = Ok payload"
    using hook by (auto simp: complete_success_def)
  note hook = hook [unfolded complete_success_def this rbind.simps Let_def]
  note settle_same = settling_same [THEN iffD2, OF _ settle]
  show ?thesis
  proof (cases "ss_step_type cur")
    case ROUTE
    with hook have add: "add_step env 0 run ''plan'' PLAN (ex_output_ref res) trace d = Ok d'" and "r' = run"
      by auto
    moreover have "can_add PLAN ''plan'' (view s0 cur (rows_of run d))"
      using ROUTE single_stage_closed [OF settle] by (intro can_add_next [OF settle]) auto
    ultimately show ?thesis using add_successor [OF settle add out] by simp
  next
    case PLAN
    with hook obtain d1 queries d2 where stored: "persist_plan env run payload d = Ok d1"
      and fan: "rfold_index (add_discovery env run trace (ex_output_ref res) payload) 0 queries d1 = Ok d2"
      and last: "(if queries = [] then maybe_synthesize env run cur trace [] d2 else Ok d2) = Ok d'"
      and r': "r' = run" by auto
    have same: "same_work d d1" using stored by (rule keeps_work)
    note settle1 = settle_same [OF same]
    have "carried_on run s0 cur d1 d'"
    proof (cases "queries = []")
      case True
      with fan last have "maybe_synthesize env run cur trace [] d1 = Ok d'" by simp
      then show ?thesis using PLAN by (intro maybe_synthesize_carries [OF settle1 env]) auto
    next
      case False
      have "fanned run DISCOVERY (view s0 cur (rows_of run d1)) d1 d2
          \<and> (\<exists>news row. grown run d1 d2 news \<and> row \<in> set news)"
        by (rule fan_out [where env = env and trace = trace, OF settle1 refl _ _ _
              add_discovery_step [OF env] fan fanned_refl [OF settle1]])
          (use PLAN False single_stage_closed [OF settle1] in simp_all)
      with False last show ?thesis by (auto intro: fanned_carries)
    qed
    with r' same show ?thesis by (blast intro: carried_on_same)
  next
    case SELECT
    with hook obtain selected d1 where
      fan: "rfold_index (add_fetch env run trace payload) 0 selected d = Ok d1"
      and last: "(if selected = [] then maybe_synthesize env run cur trace [] d1 else Ok d1) = Ok d'"
      and r': "r' = run" by auto
    have "carried_on run s0 cur d d'"
    proof (cases "selected = []")
      case True
      with fan last have "maybe_synthesize env run cur trace [] d = Ok d'" by simp
      then show ?thesis using SELECT by (intro maybe_synthesize_carries [OF settle env]) auto
    next
      case False
      have "fanned run FETCH (view s0 cur (rows_of run d)) d d1
          \<and> (\<exists>news row. grown run d d1 news \<and> row \<in> set news)"
        by (rule fan_out [where env = env and trace = trace, OF settle refl _ _ _
              add_fetch_step [OF env] fan fanned_refl [OF settle]])
          (use SELECT False single_stage_closed [OF settle] in simp_all)
      with False last show ?thesis by (auto intro: fanned_carries)
    qed
    with r' show ?thesis by blast
  next
    case FETCH
    let ?key = "replace_first ''fetch:'' ''extract:'' (ss_step_key cur)"
    from FETCH hook obtain d1 where stored: "persist_fetch env run cur payload d = Ok d1"
      and add: "add_step env 0 run ?key EXTRACT (ex_output_ref res) trace d1 = Ok d'" and r': "r' = run" by auto
    have same: "same_work d d1" using stored by (rule keeps_work)
    note settle1 = settle_same [OF same]
    have "carried_on run s0 cur d1 d'"
      by (rule add_successor [OF settle1 add out can_add_extract [OF settle1 FETCH refl]])
    with r' same show ?thesis by (blast intro: carried_on_same)
  next
    case DISCOVERY
    with hook obtain d1 where stored: "persist_discovery env run cur payload d = Ok d1"
      and go: "maybe_select env run cur trace d1 = Ok d'" and r': "r' = run" by auto
    have same: "same_work d d1" using stored by (rule keeps_work)
    with maybe_select_carries [OF settle_same [OF same] env DISCOVERY go] r' show ?thesis
      by (blast intro: carried_on_same)
  next
    case EXTRACT
    with hook obtain d1 where stored: "persist_extract env run cur payload d = Ok d1"
      and go: "maybe_verify env run cur trace [] d1 = Ok d'" and r': "r' = run" by auto
    have same: "same_work d d1" using stored by (rule keeps_work)
    with maybe_verify_carries [OF settle_same [OF same] env _ go] EXTRACT r' show ?thesis
      by (auto intro: carried_on_same)
  next
    case VERIFY
    with hook obtain d1 where stored: "persist_verification env run payload d = Ok d1"
      and go: "maybe_synthesize env run cur trace [] d1 = Ok d'" and r': "r' = run" by auto
    have same: "same_work d d1" using stored by (rule keeps_work)
    with maybe_synthesize_carries [OF settle_same [OF same] env _ go] VERIFY r' show ?thesis
      by (auto intro: carried_on_same)
  next
    case SYNTHESIZE
    with hook show ?thesis by (auto dest!: persist_keeps_work(5))
  next
    case COMPLETE
    with settling_type [OF settle] show ?thesis by simp
  qed
qed

lemma complete_failure_carries:
  assumes settle: "settling run s0 cur d" and env: "refs_ok env" and live: "\<not> SearchRun_is_terminal run"
    and final: "disp \<noteq> Disp_RETRY_SCHEDULED"
    and hook: "complete_failure env d run cur error disp trace = Ok (r', d')"
  shows "r' = run \<and> carried_on run s0 cur d d'
     \<or> same_work d d' \<and> (\<exists>reason t. SearchRun_fail run reason t = Ok r')"
proof (cases "ss_step_type cur \<in> {ROUTE, PLAN, SYNTHESIZE}")
  case True
  with hook live final show ?thesis
    by (auto simp: complete_failure_def fail_run_def)
next
  case False
  note h = hook [unfolded complete_failure_def Let_def]
  show ?thesis
  proof (cases "ss_step_type cur")
    case DISCOVERY
    with h live final have "maybe_select env run cur trace d = Ok d'" "r' = run" by auto
    with maybe_select_carries [OF settle env DISCOVERY] show ?thesis by blast
  next
    case VERIFY
    with h live final have go: "maybe_synthesize env run cur trace [te_code error] d = Ok d'" "r' = run" by auto
    with maybe_synthesize_carries [OF settle env _ go(1)] VERIFY show ?thesis by simp
  next
    case SELECT
    with h live final have go: "maybe_synthesize env run cur trace [te_code error] d = Ok d'" "r' = run" by auto
    with maybe_synthesize_carries [OF settle env _ go(1)] SELECT show ?thesis by simp
  next
    case COMPLETE
    with settling_type [OF settle] show ?thesis by simp
  next
    case FETCH
    with h live final have go: "maybe_verify env run cur trace [te_code error] d = Ok d'" "r' = run" by auto
    with maybe_verify_carries [OF settle env _ go(1)] FETCH show ?thesis by simp
  next
    case EXTRACT
    with h live final have go: "maybe_verify env run cur trace [te_code error] d = Ok d'" "r' = run" by auto
    with maybe_verify_carries [OF settle env _ go(1)] EXTRACT show ?thesis by simp
  qed (use False in simp_all)
qed

end
