(* ===== verification/Pipeline_Invariant.thy ===== *)
theory Pipeline_Invariant
  imports Workflow_Completion_Proofs Conversation_Properties
begin

text \<open>
  The whole service as a transition system over the application database: messages are
  submitted, runs cancelled, and workers claim steps, renew their leases and settle them with
  the production hook, in any order and with any identifiers and clock readings. The
  invariant is that the pipelines of all runs are in order and that no run that is still
  alive is without an open step.
\<close>

section \<open>The work tables without the attempts\<close>

definition work_inv :: "iso_codec \<Rightarrow> 'x tables \<Rightarrow> bool" where
  "work_inv c d \<longleftrightarrow> db_inv c (d\<lparr>tbl_attempts := []\<rparr>)"

lemma work_inv_cong:
  "tbl_runs d' = tbl_runs d \<Longrightarrow> tbl_steps d' = tbl_steps d \<Longrightarrow> work_inv c d' = work_inv c d"
  by (simp add: work_inv_def db_inv_def)

lemma work_inv_iff:
  "work_inv c d \<longleftrightarrow> distinct (map rr_id (tbl_runs d)) \<and> distinct (map sp_id (tbl_steps d))
     \<and> (\<forall>row \<in> set (tbl_runs d). \<exists>r. row = run_row c r \<and> run_inv r)
     \<and> (\<forall>row \<in> set (tbl_steps d). \<exists>s. row = step_row s \<and> step_inv s \<and> step_refs_wf s)"
  by (simp add: work_inv_def db_inv_def)

lemma steps_get_work:
  assumes "work_inv c d" and "steps_get conv scope tn si d = Ok (Some s)"
  shows "step_row s \<in> set (tbl_steps d)" "step_inv s" "step_refs_wf s"
    "ss_persisted_version s = ss_version s" "ss_id s = si" "ss_tenant_id s = tn" "scope = tn"
  using steps_get_inv [OF assms(1) [unfolded work_inv_def], of conv scope tn si s] assms(2)
  by (simp_all add: steps_get_def)

lemma runs_get_work:
  assumes "work_inv c d" "iso_roundtrip c" and "runs_get conv c scope tn ri d = Ok (Some r)"
  shows "run_row c r \<in> set (tbl_runs d)" "run_inv r" "sr_persisted_version r = sr_version r"
    "sr_id r = ri" "sr_tenant_id r = tn" "scope = tn"
  using runs_get_inv [OF assms(1) [unfolded work_inv_def] assms(2), of conv scope tn ri r] assms(3)
  by (simp_all add: runs_get_def)

lemma steps_save_work:
  assumes inv: "work_inv c d" and save: "steps_save scope s d = Ok (s', d')"
    and row: "step_row s0 \<in> set (tbl_steps d)" and pv: "ss_persisted_version s0 = ss_version s0"
    and lin: "step_lineage s0 s" and s: "step_inv s" "step_refs_wf s"
  shows "work_inv c d'" "s' = SearchStep_mark_persisted s"
    "set (tbl_steps d') = insert (step_row s) (set (tbl_steps d) - {step_row s0})"
    "d' = d\<lparr>tbl_steps := tbl_steps d'\<rparr>"
proof -
  have "steps_save scope s (d\<lparr>tbl_attempts := []\<rparr>) = Ok (s', d'\<lparr>tbl_attempts := []\<rparr>)"
    using save by (auto simp: steps_save_def Let_def split: if_splits)
  moreover have "\<exists>d1. steps_save scope s (d\<lparr>tbl_attempts := []\<rparr>) = Ok (SearchStep_mark_persisted s, d1)
      \<and> db_inv c d1 \<and> set (tbl_steps d1) = insert (step_row s) (set (tbl_steps (d\<lparr>tbl_attempts := []\<rparr>)) - {step_row s0})
      \<and> tbl_runs d1 = tbl_runs (d\<lparr>tbl_attempts := []\<rparr>) \<and> tbl_attempts d1 = tbl_attempts (d\<lparr>tbl_attempts := []\<rparr>)
      \<and> tbl_events d1 = tbl_events (d\<lparr>tbl_attempts := []\<rparr>) \<and> tbl_outbox d1 = tbl_outbox (d\<lparr>tbl_attempts := []\<rparr>)"
    using inv row pv lin s steps_save_Ok(1) [OF save] by (intro steps_save_inv) (simp_all add: work_inv_def)
  ultimately show "work_inv c d'" "s' = SearchStep_mark_persisted s"
    "set (tbl_steps d') = insert (step_row s) (set (tbl_steps d) - {step_row s0})"
    by (auto simp: work_inv_def)
  show "d' = d\<lparr>tbl_steps := tbl_steps d'\<rparr>" by (simp add: steps_save_Ok(4) [OF save])
qed

lemma runs_save_work:
  assumes inv: "work_inv c d" and save: "runs_save c scope r d = Ok (r', d')"
    and row: "run_row c r0 \<in> set (tbl_runs d)" and pv: "sr_persisted_version r0 = sr_version r0"
    and lin: "run_lineage r0 r" and r: "run_inv r"
  shows "work_inv c d'" "r' = SearchRun_mark_persisted r"
    "set (tbl_runs d') = insert (run_row c r) (set (tbl_runs d) - {run_row c r0})"
    "d' = d\<lparr>tbl_runs := tbl_runs d'\<rparr>"
proof -
  have "runs_save c scope r (d\<lparr>tbl_attempts := []\<rparr>) = Ok (r', d'\<lparr>tbl_attempts := []\<rparr>)"
    using save by (auto simp: runs_save_def Let_def split: if_splits)
  moreover have "\<exists>d1. runs_save c scope r (d\<lparr>tbl_attempts := []\<rparr>) = Ok (SearchRun_mark_persisted r, d1)
      \<and> db_inv c d1 \<and> set (tbl_runs d1) = insert (run_row c r) (set (tbl_runs (d\<lparr>tbl_attempts := []\<rparr>)) - {run_row c r0})
      \<and> tbl_steps d1 = tbl_steps (d\<lparr>tbl_attempts := []\<rparr>) \<and> tbl_attempts d1 = tbl_attempts (d\<lparr>tbl_attempts := []\<rparr>)
      \<and> tbl_events d1 = tbl_events (d\<lparr>tbl_attempts := []\<rparr>) \<and> tbl_outbox d1 = tbl_outbox (d\<lparr>tbl_attempts := []\<rparr>)"
    using inv row pv lin r runs_save_Ok(1) [OF save] by (intro runs_save_inv) (simp_all add: work_inv_def)
  ultimately show "work_inv c d'" "r' = SearchRun_mark_persisted r"
    "set (tbl_runs d') = insert (run_row c r) (set (tbl_runs d) - {run_row c r0})"
    by (auto simp: work_inv_def)
  show "d' = d\<lparr>tbl_runs := tbl_runs d'\<rparr>" by (simp add: runs_save_Ok(4) [OF save])
qed

section \<open>The invariant\<close>

definition alive :: "SearchRun \<Rightarrow> 'x tables \<Rightarrow> bool" where
  "alive run d \<longleftrightarrow> SearchRun_is_terminal run \<or> (\<exists>row \<in> rows_of run d. open_row row)"

definition pipelines_inv :: "iso_codec \<Rightarrow> 'x tables \<Rightarrow> bool" where
  "pipelines_inv c d \<longleftrightarrow> work_inv c d
     \<and> (\<forall>row \<in> set (tbl_steps d). \<exists>r \<in> set (tbl_runs d). rr_id r = sp_run_id row \<and> rr_tenant_id r = sp_tenant_id row)
     \<and> (\<forall>r. run_row c r \<in> set (tbl_runs d) \<longrightarrow> pipeline_ok (rows_of r d) \<and> alive r d)"

lemma rows_of_cong:
  "tbl_steps d' = tbl_steps d \<Longrightarrow> rows_of r d' = rows_of r d"
  "sr_id r = sr_id r' \<Longrightarrow> sr_tenant_id r = sr_tenant_id r' \<Longrightarrow> rows_of r d = rows_of r' d"
  by (simp_all add: rows_of_def)

lemma pipelines_inv_cong:
  "tbl_runs d' = tbl_runs d \<Longrightarrow> tbl_steps d' = tbl_steps d \<Longrightarrow> pipelines_inv c d' = pipelines_inv c d"
  unfolding pipelines_inv_def alive_def
  by (simp add: work_inv_cong [of d' d] rows_of_cong(1) [of d' d])

lemma same_work_pipelines: "same_work d d' \<Longrightarrow> pipelines_inv c d' = pipelines_inv c d"
  by (rule pipelines_inv_cong) (simp_all add: same_work_def)

lemma run_row_columns:
  "run_row c r = run_row c r' \<Longrightarrow> sr_id r = sr_id r' \<and> sr_tenant_id r = sr_tenant_id r'
     \<and> SearchRun_is_terminal r = SearchRun_is_terminal r'"
  by (auto simp: run_row_def SearchRun_is_terminal_def run_terminal_def)
    (cases "sr_status r"; cases "sr_status r'"; simp)+

lemma run_row_ids: "rr_id (run_row c r) = sr_id r" "rr_tenant_id (run_row c r) = sr_tenant_id r"
  by (simp_all add: run_row_def)

text \<open>
  One run moves: its row, the row of one of its steps, and new steps of its own. Every other
  run keeps its rows.
\<close>

lemma pipelines_inv_move:
  assumes inv: "pipelines_inv c d" and work: "work_inv c d'"
    and run: "run_row c r0 \<in> set (tbl_runs d)" "run_lineage r0 r1"
    and runs: "set (tbl_runs d') = insert (run_row c r1) (set (tbl_runs d) - {run_row c r0})"
    and steps: "set (tbl_steps d') = insert (step_row s) (set (tbl_steps d) \<union> news - {step_row s0})"
    and s0: "step_row s0 \<in> rows_of r0 d" "step_lineage s0 s" "step_row s0 \<notin> news"
    and news: "\<forall>row \<in> news. sp_run_id row = sr_id r0 \<and> sp_tenant_id row = sr_tenant_id r0"
    and ok: "pipeline_ok (view s0 s (rows_of r0 d) \<union> news)"
    and live: "SearchRun_is_terminal r1 \<or> (\<exists>row \<in> view s0 s (rows_of r0 d) \<union> news. open_row row)"
  shows "pipelines_inv c d'"
proof -
  have ids: "sr_id r1 = sr_id r0" "sr_tenant_id r1 = sr_tenant_id r0"
    using run(2) by (simp_all add: run_lineage_def)
  have s: "sp_run_id (step_row s) = sr_id r0" "sp_tenant_id (step_row s) = sr_tenant_id r0"
    using s0(1,2) by (simp_all add: rows_of_def step_lineage_def step_row_def)
  have own: "rows_of r d' = view s0 s (rows_of r0 d) \<union> news"
    if "sr_id r = sr_id r0" "sr_tenant_id r = sr_tenant_id r0" for r
    using that s news s0(1,3) by (auto simp: rows_of_def steps view_def)
  have other: "rows_of r d' = rows_of r d" if "sr_id r \<noteq> sr_id r0" for r
    using that s news s0(1) by (auto simp: rows_of_def steps)
  have "\<exists>r \<in> set (tbl_runs d'). rr_id r = sp_run_id row \<and> rr_tenant_id r = sp_tenant_id row"
    if row: "row \<in> set (tbl_steps d')" for row
  proof (cases "sp_run_id row = sr_id r0 \<and> sp_tenant_id row = sr_tenant_id r0")
    case True
    then show ?thesis
      unfolding runs by (intro bexI [of _ "run_row c r1"]) (simp_all add: ids run_row_ids)
  next
    case False
    with row s news have "row \<in> set (tbl_steps d)" by (auto simp: steps)
    with inv obtain r where "r \<in> set (tbl_runs d)" "rr_id r = sp_run_id row" "rr_tenant_id r = sp_tenant_id row"
      by (auto simp: pipelines_inv_def)
    moreover from this False have "r \<noteq> run_row c r0" by (auto simp: run_row_ids)
    ultimately show ?thesis unfolding runs by blast
  qed
  moreover have "pipeline_ok (rows_of r d') \<and> alive r d'" if r: "run_row c r \<in> set (tbl_runs d')" for r
  proof (cases "sr_id r = sr_id r0")
    case True
    have "run_row c r = run_row c r1"
    proof -
      have "inj_on rr_id (set (tbl_runs d'))" using work by (simp add: work_inv_iff distinct_map)
      moreover have "rr_id (run_row c r) = rr_id (run_row c r1)" using True ids by (simp add: run_row_ids)
      moreover have "run_row c r1 \<in> set (tbl_runs d')" by (simp add: runs)
      ultimately show ?thesis using r by (blast dest: inj_onD)
    qed
    from run_row_columns [OF this] ids ok live own [of r] show ?thesis by (auto simp: alive_def)
  next
    case False
    have "rr_id (run_row c r) \<noteq> rr_id (run_row c r1)" using False ids by (simp add: run_row_ids)
    then have "run_row c r \<in> set (tbl_runs d)" using r unfolding runs by auto
    with inv other [OF False] show ?thesis by (auto simp: pipelines_inv_def alive_def)
  qed
  ultimately show ?thesis using work by (simp add: pipelines_inv_def)
qed

section \<open>Committing a settled step\<close>

text \<open>What a commit does to the step table: one step moves on, and new steps are ready.\<close>

definition moved :: "SearchStep \<Rightarrow> SearchStep \<Rightarrow> 'x tables \<Rightarrow> 'x tables \<Rightarrow> bool" where
  "moved s0 s d d' \<longleftrightarrow>
     (\<exists>news. set (tbl_steps d') = insert (step_row s) (set (tbl_steps d) \<union> news - {step_row s0})
        \<and> (\<forall>row \<in> news. sp_status row = ''READY''))"

lemma grown_work:
  assumes "grown run d d' news" "work_inv c d"
  shows "work_inv c d'"
  using assms unfolding work_inv_iff grown_def new_row_def by (auto simp del: map_append distinct_append)

lemma grown_fresh:
  assumes "grown run d d' news" "work_inv c d" "row \<in> set (tbl_steps d)"
  shows "row \<notin> set news"
proof -
  have "distinct (map sp_id (tbl_steps d @ news))"
    using assms(1,2) by (auto simp: grown_def work_inv_iff simp del: map_append distinct_append)
  with assms(3) show ?thesis by auto
qed

lemma commit_move:
  assumes inv: "pipelines_inv c d"
    and s0: "step_row s0 \<in> set (tbl_steps d)" "ss_persisted_version s0 = ss_version s0"
    and s: "step_lineage s0 s" "step_inv s" "step_refs_wf s"
    and r0: "run_row c r0 \<in> set (tbl_runs d)" "sr_persisted_version r0 = sr_version r0"
    and r1: "run_lineage r0 r1" "run_inv r1"
    and belongs: "ss_run_id s0 = sr_id r0" "ss_tenant_id s0 = sr_tenant_id r0"
    and d2: "tbl_runs d2 = tbl_runs d" "tbl_steps d2 = tbl_steps d @ news" "work_inv c d2"
    and news: "\<forall>row \<in> set news. sp_run_id row = sr_id r0 \<and> sp_tenant_id row = sr_tenant_id r0"
      "step_row s0 \<notin> set news" "\<forall>row \<in> set news. sp_status row = ''READY''"
    and saves: "steps_save tn s d2 = Ok (s', d3)" "runs_save c tn r1 d3 = Ok (r', d4)"
    and d5: "tbl_runs d5 = tbl_runs d4" "tbl_steps d5 = tbl_steps d4"
    and ok: "pipeline_ok (view s0 s (rows_of r0 d) \<union> set news)"
    and live: "SearchRun_is_terminal r1 \<or> (\<exists>row \<in> view s0 s (rows_of r0 d) \<union> set news. open_row row)"
  shows "pipelines_inv c d5 \<and> moved s0 s d d5"
proof -
  have "step_row s0 \<in> set (tbl_steps d2)" using s0 d2 by simp
  note step = steps_save_work [OF d2(3) saves(1) this s0(2) s]
  have runs3: "tbl_runs d3 = tbl_runs d" using d2(1) by (subst step(4)) simp
  then have "run_row c r0 \<in> set (tbl_runs d3)" using r0 by simp
  note run = runs_save_work [OF step(1) saves(2) this r0(2) r1]
  have steps4: "tbl_steps d4 = tbl_steps d3" by (subst run(4)) simp
  have own: "step_row s0 \<in> rows_of r0 d" using s0 belongs by (simp add: rows_of_def step_row_def)
  have steps: "set (tbl_steps d4) = insert (step_row s) (set (tbl_steps d) \<union> set news - {step_row s0})"
    using step(3) steps4 d2(2) by simp
  then have "moved s0 s d d5" unfolding moved_def d5 using news(3) by blast
  moreover have "pipelines_inv c d4"
  proof (rule pipelines_inv_move [OF inv run(1) r0(1) r1(1) _ steps own s(1) news(2,1) ok live])
    show "set (tbl_runs d4) = insert (run_row c r1) (set (tbl_runs d) - {run_row c r0})"
      using run(3) runs3 by simp
  qed
  ultimately show ?thesis using d5 by (simp add: pipelines_inv_cong [of d5 d4])
qed

text \<open>The belonging of a step to the run that is loaded with it.\<close>

definition genuine :: "ClaimedStep \<Rightarrow> 'x tables \<Rightarrow> bool" where
  "genuine claimed d \<longleftrightarrow>
     (\<exists>row \<in> set (tbl_steps d). sp_id row = cx_step_id (cs_context claimed)
        \<and> sp_tenant_id row = cx_tenant_id (cs_context claimed) \<and> sp_run_id row = cx_run_id (cs_context claimed))"

lemma load_current_belongs:
  assumes inv: "pipelines_inv (de_iso env) d" and iso: "iso_roundtrip (de_iso env)" and gen: "genuine claimed d"
    and load: "load_current env claimed d = Ok (Some (step, run))"
  shows "step_row step \<in> set (tbl_steps d)" "step_inv step" "step_refs_wf step"
    "ss_persisted_version step = ss_version step" "ss_status step = Step_RUNNING"
    "run_row (de_iso env) run \<in> set (tbl_runs d)" "run_inv run" "sr_persisted_version run = sr_version run"
    "ss_run_id step = sr_id run" "ss_tenant_id step = sr_tenant_id run"
    "sr_tenant_id run = cx_tenant_id (cs_context claimed)" "ss_id step = cx_step_id (cs_context claimed)"
proof -
  let ?tn = "cx_tenant_id (cs_context claimed)" and ?sid = "cx_step_id (cs_context claimed)"
  from load have step: "steps_get (de_conv env) ?tn ?tn ?sid d = Ok (Some step)"
    and run: "runs_get (de_conv env) (de_iso env) ?tn ?tn (cx_run_id (cs_context claimed)) d = Ok (Some run)"
    and status: "ss_status step = Step_RUNNING"
    by (auto simp: load_current_def Let_def split: option.split_asm if_split_asm)
  have work: "work_inv (de_iso env) d" using inv by (simp add: pipelines_inv_def)
  note st = steps_get_work [OF work step] and rn = runs_get_work [OF work iso run]
  have "inj_on sp_id (set (tbl_steps d))" using work by (simp add: work_inv_iff distinct_map)
  with gen st(1,5) have "sp_run_id (step_row step) = cx_run_id (cs_context claimed)"
    unfolding genuine_def inj_on_def by (metis SearchStepRecord.select_convs(1) step_row_def)
  with st rn status show "step_row step \<in> set (tbl_steps d)" "step_inv step" "step_refs_wf step"
    "ss_persisted_version step = ss_version step" "ss_status step = Step_RUNNING"
    "run_row (de_iso env) run \<in> set (tbl_runs d)" "run_inv run" "sr_persisted_version run = sr_version run"
    "ss_run_id step = sr_id run" "ss_tenant_id step = sr_tenant_id run" "sr_tenant_id run = ?tn" "ss_id step = ?sid"
    by (simp_all add: step_row_def)
qed

section \<open>The store keeps the invariant\<close>

lemma carried_on_commits:
  assumes "carried_on r1 s0 cur d d1" "work_inv c d" "step_row s0 \<in> set (tbl_steps d)" "run_lineage r0 r1"
  obtains news where "tbl_runs d1 = tbl_runs d" "tbl_steps d1 = tbl_steps d @ news" "work_inv c d1"
    "\<forall>row \<in> set news. sp_run_id row = sr_id r0 \<and> sp_tenant_id row = sr_tenant_id r0" "step_row s0 \<notin> set news"
    "\<forall>row \<in> set news. sp_status row = ''READY''"
    "pipeline_ok (view s0 cur (rows_of r0 d) \<union> set news)"
    "\<exists>row \<in> view s0 cur (rows_of r0 d) \<union> set news. open_row row"
proof -
  have ids: "sr_id r1 = sr_id r0" "sr_tenant_id r1 = sr_tenant_id r0"
    using assms(4) by (simp_all add: run_lineage_def)
  note rows = rows_of_cong(2) [OF ids]
  from assms(1) obtain news where news: "grown r1 d d1 news"
    "pipeline_ok (view s0 cur (rows_of r0 d) \<union> set news)"
    "\<exists>row \<in> view s0 cur (rows_of r0 d) \<union> set news. open_row row"
    unfolding carried_on_def rows by blast
  show ?thesis
  proof (rule that [of news])
    show "\<forall>row \<in> set news. sp_run_id row = sr_id r0 \<and> sp_tenant_id row = sr_tenant_id r0"
      using news(1) new_row_columns ids unfolding grown_def by metis
    show "\<forall>row \<in> set news. sp_status row = ''READY''"
      using news(1) by (auto simp: grown_def new_row_def step_row_def)
  qed (use news grown_work [OF news(1) assms(2)] grown_fresh [OF news(1) assms(2,3)] in
      \<open>auto simp: grown_def simp del: map_append distinct_append\<close>)
qed

text \<open>A commit in which the hook had no part: the run ends or the step stays open.\<close>

lemma commit_quiet:
  assumes inv: "pipelines_inv c d"
    and s0: "step_row s0 \<in> set (tbl_steps d)" "ss_persisted_version s0 = ss_version s0"
    and s: "step_lineage s0 s" "step_inv s" "step_refs_wf s"
    and r0: "run_row c r0 \<in> set (tbl_runs d)" "sr_persisted_version r0 = sr_version r0"
    and r1: "run_lineage r0 r1" "run_inv r1"
    and belongs: "ss_run_id s0 = sr_id r0" "ss_tenant_id s0 = sr_tenant_id r0"
    and d2: "tbl_runs d2 = tbl_runs d" "tbl_steps d2 = tbl_steps d"
    and saves: "steps_save tn s d2 = Ok (s', d3)" "runs_save c tn r1 d3 = Ok (r', d4)"
    and d5: "tbl_runs d5 = tbl_runs d4" "tbl_steps d5 = tbl_steps d4"
    and open_s: "\<not> step_terminal (ss_status s) \<Longrightarrow> \<not> step_terminal (ss_status s0)"
    and live: "SearchRun_is_terminal r1 \<or> \<not> step_terminal (ss_status s)"
  shows "pipelines_inv c d5 \<and> moved s0 s d d5"
proof -
  have "step_row s0 \<in> rows_of r0 d" using s0 belongs by (simp add: rows_of_def step_row_def)
  moreover have "pipeline_ok (rows_of r0 d)" using inv r0 by (simp add: pipelines_inv_def)
  ultimately have ok: "pipeline_ok (view s0 s (rows_of r0 d) \<union> set [])"
    using s(1) open_s by (auto intro: pipeline_view)
  have live': "SearchRun_is_terminal r1 \<or> (\<exists>row \<in> view s0 s (rows_of r0 d) \<union> set []. open_row row)"
    using live by (auto simp: view_def)
  have "work_inv c d2" using inv by (simp add: pipelines_inv_def work_inv_cong [OF d2])
  with d2 show ?thesis
    by (intro commit_move [OF inv s0 s r0 r1 belongs _ _ _ _ _ _ saves d5 ok live']) auto
qed

text \<open>A step that moves without its run.\<close>

lemma step_saved:
  assumes inv: "pipelines_inv c d"
    and s0: "step_row s0 \<in> set (tbl_steps d)" "ss_persisted_version s0 = ss_version s0"
    and s: "step_lineage s0 s" "step_inv s" "step_refs_wf s"
    and r0: "run_row c r0 \<in> set (tbl_runs d)"
    and belongs: "ss_run_id s0 = sr_id r0" "ss_tenant_id s0 = sr_tenant_id r0"
    and d2: "tbl_runs d2 = tbl_runs d" "tbl_steps d2 = tbl_steps d"
    and save: "steps_save tn s d2 = Ok (s', d3)"
    and d5: "tbl_runs d5 = tbl_runs d3" "tbl_steps d5 = tbl_steps d3"
    and open_s: "\<not> step_terminal (ss_status s) \<Longrightarrow> \<not> step_terminal (ss_status s0)"
    and live: "SearchRun_is_terminal r0 \<or> \<not> step_terminal (ss_status s)"
  shows "pipelines_inv c d5 \<and> moved s0 s d d5"
proof -
  have work: "work_inv c d2" using inv by (simp add: pipelines_inv_def work_inv_cong [OF d2])
  have "step_row s0 \<in> set (tbl_steps d2)" using s0 d2 by simp
  note step = steps_save_work [OF work save this s0(2) s]
  have own: "step_row s0 \<in> rows_of r0 d" using s0 belongs by (simp add: rows_of_def step_row_def)
  moreover have "pipeline_ok (rows_of r0 d)" using inv r0 by (simp add: pipelines_inv_def)
  ultimately have ok: "pipeline_ok (view s0 s (rows_of r0 d) \<union> {})"
    using s(1) open_s by (auto intro: pipeline_view)
  have live': "SearchRun_is_terminal r0 \<or> (\<exists>row \<in> view s0 s (rows_of r0 d) \<union> {}. open_row row)"
    using live by (auto simp: view_def)
  have "tbl_runs d3 = tbl_runs d" using d2(1) by (subst step(4)) simp
  then have "set (tbl_runs d3) = insert (run_row c r0) (set (tbl_runs d) - {run_row c r0})"
    using r0 by auto
  moreover have steps: "set (tbl_steps d3) = insert (step_row s) (set (tbl_steps d) \<union> {} - {step_row s0})"
    using step(3) d2(2) by simp
  moreover have "run_lineage r0 r0" by (simp add: run_lineage_def)
  ultimately have "pipelines_inv c d3"
    using live' own s(1) ok by (intro pipelines_inv_move [where news = "{}", OF inv step(1) r0]) auto
  moreover have "moved s0 s d d5" unfolding moved_def d5 using steps by blast
  ultimately show ?thesis using d5 by (simp add: pipelines_inv_cong [of d5 d3])
qed

text \<open>
  Every end of a step goes through here: the hook either carried the run on or brought it to
  its end without adding a step.
\<close>

lemma commit_settled:
  assumes inv: "pipelines_inv c d"
    and s0: "step_row s0 \<in> set (tbl_steps d)" "ss_persisted_version s0 = ss_version s0"
    and s: "step_lineage s0 s" "step_inv s" "step_refs_wf s" "step_terminal (ss_status s)"
    and r0: "run_row c r0 \<in> set (tbl_runs d)" "sr_persisted_version r0 = sr_version r0" "run_inv r0"
    and r1: "run_step\<^sup>*\<^sup>* r0 r1" and r2: "run_step\<^sup>*\<^sup>* r1 r2"
    and belongs: "ss_run_id s0 = sr_id r0" "ss_tenant_id s0 = sr_tenant_id r0"
    and hook: "r2 = r1 \<and> carried_on r1 s0 s d d1 \<or> same_work d d1 \<and> SearchRun_is_terminal r2"
    and d2: "tbl_runs d2 = tbl_runs d1" "tbl_steps d2 = tbl_steps d1"
    and saves: "steps_save tn s d2 = Ok (s', d3)" "runs_save c tn r2 d3 = Ok (r', d4)"
    and d5: "tbl_runs d5 = tbl_runs d4" "tbl_steps d5 = tbl_steps d4"
  shows "pipelines_inv c d5 \<and> moved s0 s d d5"
proof -
  have work: "work_inv c d" using inv by (simp add: pipelines_inv_def)
  have r02: "run_step\<^sup>*\<^sup>* r0 r2" using r1 r2 by simp
  have lin: "run_lineage r0 r1" "run_lineage r0 r2" and run_inv: "run_inv r2"
    using run_steps_lineage [OF r1] run_steps_lineage [OF r02] run_steps_inv [OF r02 r0(3)] by simp_all
  from hook show ?thesis
  proof
    assume "r2 = r1 \<and> carried_on r1 s0 s d d1"
    then obtain news where n: "tbl_runs d1 = tbl_runs d" "tbl_steps d1 = tbl_steps d @ news" "work_inv c d1"
      "\<forall>row \<in> set news. sp_run_id row = sr_id r0 \<and> sp_tenant_id row = sr_tenant_id r0" "step_row s0 \<notin> set news"
      "\<forall>row \<in> set news. sp_status row = ''READY''"
      "pipeline_ok (view s0 s (rows_of r0 d) \<union> set news)"
      "\<exists>row \<in> view s0 s (rows_of r0 d) \<union> set news. open_row row"
      using carried_on_commits [OF _ work s0(1) lin(1)] by blast
    show ?thesis
      by (rule commit_move [OF inv s0 s(1-3) r0(1,2) lin(2) run_inv belongs _ _ _ n(4,5,6) saves d5 n(7)])
        (use n d2 work_inv_cong [OF d2] in auto)
  next
    assume same: "same_work d d1 \<and> SearchRun_is_terminal r2"
    then have "tbl_runs d2 = tbl_runs d" "tbl_steps d2 = tbl_steps d"
      using d2 by (simp_all add: same_work_def)
    then show ?thesis
      using same s(4)
      by (intro commit_quiet [OF inv s0 s(1-3) r0(1,2) lin(2) run_inv belongs _ _ saves d5]) auto
  qed
qed

lemma settlingI:
  assumes inv: "pipelines_inv c d" and s0: "step_row s0 \<in> set (tbl_steps d)" "\<not> step_terminal (ss_status s0)"
    and s: "step_lineage s0 s" "step_terminal (ss_status s)"
    and r0: "run_row c r0 \<in> set (tbl_runs d)" and lin: "run_lineage r0 r1"
    and belongs: "ss_run_id s0 = sr_id r0" "ss_tenant_id s0 = sr_tenant_id r0"
  shows "settling r1 s0 s d"
proof -
  have rows: "rows_of r1 d = rows_of r0 d"
    using lin by (intro rows_of_cong(2)) (simp_all add: run_lineage_def)
  show ?thesis
    unfolding settling_def rows using inv s0 s r0 belongs
    by (auto simp: pipelines_inv_def work_inv_iff rows_of_def step_row_def)
qed

lemma attempts_complete_Ok: "attempts_complete scope a d = Ok d' \<Longrightarrow> d' = d\<lparr>tbl_attempts := tbl_attempts d'\<rparr>"
  by (auto simp: attempts_complete_def Let_def split: if_splits)

lemma run_usage_step:
  assumes "StepBudgetCost_apply cost usage e = Ok u" "SearchRun_record_usage r u = Ok r'"
  shows "run_step r r'"
proof -
  have "BudgetUsage_wf u"
    using assms(1) by (auto simp: StepBudgetCost_apply_def BudgetUsage_add_def dest: BudgetUsage_new_wf split: if_splits)
  with assms(2) show ?thesis by (rule run_step.record_usage)
qed

lemma terminal_after:
  "SearchRun_succeed r q reason t = Ok r' \<Longrightarrow> SearchRun_is_terminal r'"
  "SearchRun_fail r reason t = Ok r' \<Longrightarrow> SearchRun_is_terminal r'"
  by (auto simp: op_Ok SearchRun_is_terminal_def run_terminal_def)

text \<open>What the operations of a worker do to the step it has claimed.\<close>

definition settled :: "uuid \<Rightarrow> 'x tables \<Rightarrow> 'x tables \<Rightarrow> bool" where
  "settled si d d' \<longleftrightarrow> tbl_steps d' = tbl_steps d \<and> tbl_attempts d' = tbl_attempts d
     \<or> (\<exists>s0 s. step_row s0 \<in> set (tbl_steps d) \<and> ss_id s0 = si \<and> step_lineage s0 s
          \<and> ss_status s \<noteq> Step_RUNNING \<and> moved s0 s d d')"

definition closed_attempt :: "uuid \<Rightarrow> 'x tables \<Rightarrow> 'x tables \<Rightarrow> bool" where
  "closed_attempt ai d d' \<longleftrightarrow>
     (\<exists>f. tbl_attempts d' = map f (tbl_attempts d)
        \<and> (\<forall>a. at_id (f a) = at_id a \<and> at_step_id (f a) = at_step_id a \<and> at_tenant_id (f a) = at_tenant_id a
             \<and> (at_id a \<noteq> ai \<longrightarrow> f a = a)))"

lemma settledI:
  "step_row s0 \<in> set (tbl_steps d) \<Longrightarrow> ss_id s0 = si \<Longrightarrow> step_lineage s0 s \<Longrightarrow> ss_status s \<noteq> Step_RUNNING
     \<Longrightarrow> moved s0 s d d' \<Longrightarrow> settled si d d'"
  unfolding settled_def by blast

definition granted :: "uuid \<Rightarrow> claim_out result \<Rightarrow> 'x tables \<Rightarrow> 'x tables \<Rightarrow> bool" where
  "granted si x d d' \<longleftrightarrow>
     (\<exists>s0 s a. step_row s0 \<in> set (tbl_steps d) \<and> ss_id s0 = si \<and> step_lineage s0 s \<and> moved s0 s d d'
        \<and> tbl_attempts d' = tbl_attempts d @ [a] \<and> at_id a \<notin> at_id ` set (tbl_attempts d)
        \<and> at_tenant_id a = ss_tenant_id s0 \<and> at_step_id a = si \<and> at_completed_at a = None
        \<and> (\<forall>cl ev claimed. x = Ok (cl, ev) \<longrightarrow> cr_claimed cl = Some claimed \<longrightarrow>
              sa_id (cs_attempt claimed) = at_id a \<and> cx_step_id (cs_context claimed) = si
              \<and> cx_tenant_id (cs_context claimed) = ss_tenant_id s0 \<and> cx_run_id (cs_context claimed) = ss_run_id s0))"

lemma closed_attempt_same: "tbl_attempts d' = tbl_attempts d \<Longrightarrow> closed_attempt ai d d'"
  by (auto simp: closed_attempt_def intro: exI [of _ id])

lemma closed_attempt_complete:
  assumes "attempts_complete scope a d1 = Ok d2" "tbl_attempts d1 = tbl_attempts d" "tbl_attempts d' = tbl_attempts d2"
  shows "closed_attempt (sa_id a) d d'"
proof -
  let ?match = "\<lambda>row. at_tenant_id row = sa_tenant_id a \<and> at_id row = sa_id a \<and> at_completed_at row = None"
  let ?f = "\<lambda>row. if ?match row
      then row\<lparr>at_leased_until := sa_leased_until a, at_completed_at := sa_completed_at a,
               at_error_type := at_error_type (attempt_row a), at_error_code := at_error_code (attempt_row a),
               at_error_details := at_error_details (attempt_row a), at_output_ref := at_output_ref (attempt_row a)\<rparr>
      else row"
  have "tbl_attempts d2 = map ?f (tbl_attempts d1)"
    using assms(1) by (auto simp: attempts_complete_def Let_def split: if_splits)
  then show ?thesis
    unfolding closed_attempt_def assms(3) assms(2) [symmetric] by (intro exI [of _ ?f]) auto
qed

lemma attempt_ends_id:
  "StepAttempt_fail a e t = Ok a' \<Longrightarrow> sa_id a' = sa_id a"
  "StepAttempt_succeed a r t = Ok a' \<Longrightarrow> sa_id a' = sa_id a"
  by (auto simp: StepAttempt_fail_def StepAttempt_succeed_def StepAttempt_finish_def split: if_splits)

lemma hook_keeps_attempts:
  "P \<and> carried_on r s0 s d d1 \<or> same_work d d1 \<and> Q \<Longrightarrow> tbl_attempts d1 = tbl_attempts d"
  by (auto simp: carried_on_def grown_def same_work_def)

lemma saves_keep_attempts:
  assumes "steps_save tn s d2 = Ok (s', d3)"
  shows "tbl_attempts d3 = tbl_attempts d2" "runs_save c tn r d3 = Ok (r', d4) \<Longrightarrow> tbl_attempts d4 = tbl_attempts d2"
proof -
  show steps: "tbl_attempts d3 = tbl_attempts d2" by (simp add: steps_save_Ok(4) [OF assms])
  assume "runs_save c tn r d3 = Ok (r', d4)"
  from runs_save_Ok(4) [OF this] have "tbl_attempts d4 = tbl_attempts d3" by simp
  with steps show "tbl_attempts d4 = tbl_attempts d2" by simp
qed

lemma step_refs_kept:
  "SearchStep_start s = Ok s' \<Longrightarrow> step_refs_wf s' = step_refs_wf s"
  "SearchStep_fail s = Ok s' \<Longrightarrow> step_refs_wf s' = step_refs_wf s"
  "SearchStep_cancel s = Ok s' \<Longrightarrow> step_refs_wf s' = step_refs_wf s"
  "SearchStep_retry_later s t = Ok s' \<Longrightarrow> step_refs_wf s' = step_refs_wf s"
  "SearchStep_succeed s r = Ok s' \<Longrightarrow> ArtifactRef_wf r \<Longrightarrow> step_refs_wf s \<Longrightarrow> step_refs_wf s'"
  by (auto simp: step_op_defs step_refs_wf_def split: if_splits)

lemma step_ends:
  "SearchStep_fail s = Ok s' \<Longrightarrow> step_terminal (ss_status s')"
  "SearchStep_cancel s = Ok s' \<Longrightarrow> step_terminal (ss_status s')"
  "SearchStep_succeed s r = Ok s' \<Longrightarrow> step_terminal (ss_status s')"
  by (auto simp: step_op_defs step_terminal_def split: if_splits)

lemma store_succeed_pipelines:
  assumes inv: "pipelines_inv (de_iso env) d" and iso: "iso_roundtrip (de_iso env)" and gen: "genuine claimed d"
    and henv: "refs_ok henv" and out: "ArtifactRef_wf (ex_output_ref res)"
    and go: "store_succeed env (WorkflowCompletionCoordinator henv) ids claimed res trace now enow d = (Ok x, d')"
  shows "pipelines_inv (de_iso env) d' \<and> settled (cx_step_id (cs_context claimed)) d d'
    \<and> closed_attempt (sa_id (cs_attempt claimed)) d d'"
proof -
  let ?tn = "cx_tenant_id (cs_context claimed)"
  note body = transact_Ok [OF go [unfolded store_succeed_def]]
  from body obtain found where load: "load_current env claimed d = Ok found"
    by (auto simp: Let_def)
  show ?thesis
  proof (cases found)
    case None
    with body load inv show ?thesis by (auto simp: Let_def settled_def closed_attempt_same)
  next
    case (Some pair)
    obtain step run where pair: "pair = (step, run)" by (cases pair)
    note cur = load_current_belongs [OF inv iso gen load [unfolded Some pair]]
    show ?thesis
    proof (cases "SearchRun_is_terminal run")
      case True
      with body load Some pair obtain err s1 a1 d1 s2 d2 ev where cancel: "SearchStep_cancel step = Ok s1"
        and a1: "StepAttempt_fail (cs_attempt claimed) err (Aware now) = Ok a1"
        and d1: "attempts_complete ?tn a1 d = Ok d1" and save: "steps_save ?tn s1 d1 = Ok (s2, d2)"
        and ev: "add_event (ids 0) enow ?tn run ''STEP_CANCELLED'' [(''step_id'', JStr (uuid_str (ss_id s2)))] d2
          = Ok (ev, d')"
        by (auto simp: Let_def)
      have "search_step_step step s1" using cancel by (rule search_step_step.intros)
      note s1 = search_step_step_lineage [OF this] search_step_step_inv [OF this cur(2)]
      have "tbl_runs d1 = tbl_runs d" "tbl_steps d1 = tbl_steps d"
        by (subst attempts_complete_Ok [OF d1], simp)+
      moreover have d': "tbl_runs d' = tbl_runs d2" "tbl_steps d' = tbl_steps d2" "tbl_attempts d' = tbl_attempts d2"
        using add_event_Ok [OF ev] by simp_all
      ultimately have "pipelines_inv (de_iso env) d' \<and> moved step s1 d d'"
        using step_refs_kept(3) [OF cancel] cur(3)
        by (intro step_saved [OF inv cur(1,4) s1 _ cur(6,9,10) _ _ save]) (auto simp: True step_ends(2) [OF cancel])
      moreover have "closed_attempt (sa_id (cs_attempt claimed)) d d'"
        using closed_attempt_complete [OF d1 refl, of d'] d'(3) saves_keep_attempts(1) [OF save] attempt_ends_id(1) [OF a1] by simp
      ultimately show ?thesis
        using settledI [OF cur(1,12) s1(1)] step_ends(2) [OF cancel] by (auto simp: step_terminal_def)
    next
      case False
      with body load Some pair obtain a1 s1 usage r1 r2 d1 d2 s3 d3 r3 d4 ev where
        a1: "StepAttempt_succeed (cs_attempt claimed) (ex_output_ref res) (Aware now) = Ok a1"
        and succ: "SearchStep_succeed step (ex_output_ref res) = Ok s1"
        and usage: "StepBudgetCost_apply (ex_actual_cost res) (sr_usage run)
            (Some (max 0 (total_seconds (now - sa_started_at a1)))) = Ok usage" "SearchRun_record_usage run usage = Ok r1"
        and hook: "complete_success henv d r1 s1 res trace = Ok (r2, d1)"
        and d2: "attempts_complete ?tn a1 d1 = Ok d2"
        and saves: "steps_save ?tn s1 d2 = Ok (s3, d3)" "runs_save (de_iso env) ?tn r2 d3 = Ok (r3, d4)"
        and ev: "add_event (ids 0) enow ?tn r3 ''STEP_SUCCEEDED'' [(''step_id'', JStr (uuid_str (ss_id s3))),
            (''step_key'', JStr (ss_step_key s3)), (''attempt_no'', JInt (sa_attempt_no (cs_attempt claimed)))] d4 = Ok (ev, d')"
        by (auto simp: Let_def WorkflowCompletionCoordinator_def)
      have "search_step_step step s1" using succ by (rule search_step_step.intros)
      note s1 = search_step_step_lineage [OF this] search_step_step_inv [OF this cur(2)]
      have r1: "run_step\<^sup>*\<^sup>* run r1" using run_usage_step [OF usage] by blast
      have "settling r1 step s1 d"
        using cur(5) by (intro settlingI [OF inv cur(1) _ s1(1) step_ends(3) [OF succ] cur(6) run_steps_lineage [OF r1] cur(9,10)])
          (simp add: step_terminal_def)
      from complete_success_carries [OF this henv out hook]
      have kept: "r2 = r1 \<and> carried_on r1 step s1 d d1 \<or> same_work d d1 \<and> SearchRun_is_terminal r2" and "run_step\<^sup>*\<^sup>* r1 r2"
        by (auto dest: terminal_after intro: run_step.succeed)
      moreover have "tbl_runs d2 = tbl_runs d1" "tbl_steps d2 = tbl_steps d1"
        by (subst attempts_complete_Ok [OF d2], simp)+
      moreover have d': "tbl_runs d' = tbl_runs d4" "tbl_steps d' = tbl_steps d4" "tbl_attempts d' = tbl_attempts d4"
        using add_event_Ok [OF ev] by simp_all
      ultimately have "pipelines_inv (de_iso env) d' \<and> moved step s1 d d'"
        using step_refs_kept(5) [OF succ out cur(3)] step_ends(3) [OF succ]
        by (intro commit_settled [OF inv cur(1,4) s1 _ _ cur(6,8,7) r1 _ cur(9,10) _ _ _ saves])
      moreover have "closed_attempt (sa_id (cs_attempt claimed)) d d'"
        using closed_attempt_complete [OF d2 hook_keeps_attempts [OF kept], of d'] d'(3) saves_keep_attempts(2) [OF saves]
          attempt_ends_id(2) [OF a1] by simp
      ultimately show ?thesis
        using settledI [OF cur(1,12) s1(1)] step_ends(3) [OF succ] by (auto simp: step_terminal_def)
    qed
  qed
qed

lemma store_fail_pipelines:
  assumes inv: "pipelines_inv (de_iso env) d" and iso: "iso_roundtrip (de_iso env)" and gen: "genuine claimed d"
    and henv: "refs_ok henv"
    and go: "store_fail env cfg (WorkflowCompletionCoordinator henv) ids claimed error trace now enow d = (Ok x, d')"
  shows "pipelines_inv (de_iso env) d' \<and> settled (cx_step_id (cs_context claimed)) d d'
    \<and> closed_attempt (sa_id (cs_attempt claimed)) d d'"
proof -
  let ?tn = "cx_tenant_id (cs_context claimed)"
  note body = transact_Ok [OF go [unfolded store_fail_def]]
  from body obtain found where load: "load_current env claimed d = Ok found"
    by (auto simp: Let_def)
  show ?thesis
  proof (cases found)
    case None
    with body load inv show ?thesis by (auto simp: Let_def settled_def closed_attempt_same)
  next
    case (Some pair)
    obtain step run where pair: "pair = (step, run)" by (cases pair)
    note cur = load_current_belongs [OF inv iso gen load [unfolded Some pair]]
    from body load Some pair obtain a1 s1 disp ty r2 d1 d2 s3 d3 r3 d4 ev es where
      a1: "StepAttempt_fail (cs_attempt claimed) error (Aware now) = Ok a1"
      and fail: "fail_step cfg run step error (sa_attempt_no (cs_attempt claimed)) now = Ok (s1, disp, ty)"
      and hook: "complete_failure henv d run s1 error disp trace = Ok (r2, d1)"
      and d2: "attempts_complete ?tn a1 d1 = Ok d2"
      and saves: "steps_save ?tn s1 d2 = Ok (s3, d3)" "runs_save (de_iso env) ?tn r2 d3 = Ok (r3, d4)"
      and ev: "add_event (ids 0) enow ?tn r3 ty es d4 = Ok (ev, d')"
      by (auto simp: Let_def WorkflowCompletionCoordinator_def)
    note f = fail_step_cases [OF fail]
    note s1 = search_step_step_lineage [OF f(4)] search_step_step_inv [OF f(4) cur(2)]
    have refs: "step_refs_wf s1"
      using fail step_refs_kept(2-4) cur(3) by (auto simp: fail_step_def Let_def split: if_splits)
    have d5: "tbl_runs d' = tbl_runs d4" "tbl_steps d' = tbl_steps d4" and d': "tbl_attempts d' = tbl_attempts d4"
      using add_event_Ok [OF ev] by simp_all
    have quits: "ss_status s1 \<noteq> Step_RUNNING" using f(2,3) by (cases "disp = Disp_RETRY_SCHEDULED") auto
    have d2': "tbl_runs d2 = tbl_runs d1" "tbl_steps d2 = tbl_steps d1"
      by (subst attempts_complete_Ok [OF d2], simp)+
    have "(pipelines_inv (de_iso env) d' \<and> moved step s1 d d') \<and> tbl_attempts d1 = tbl_attempts d"
    proof (cases "disp = Disp_RETRY_SCHEDULED \<or> SearchRun_is_terminal run")
      case True
      then have r2: "r2 = run" "d1 = d" using hook by (auto simp: complete_failure_def)
      moreover have "SearchRun_is_terminal run \<or> \<not> step_terminal (ss_status s1)"
        using True f(2) by (auto simp: step_terminal_def)
      moreover have "run_lineage run run" by (simp add: run_lineage_def)
      ultimately have "pipelines_inv (de_iso env) d' \<and> moved step s1 d d'"
        using d2' cur(5,7) saves
        by (intro commit_quiet [OF inv cur(1,4) s1 refs cur(6,8) _ _ cur(9,10) _ _ saves d5])
          (auto simp: step_terminal_def)
      with r2 show ?thesis by simp
    next
      case False
      have ends: "step_terminal (ss_status s1)" using f(3) False by (auto simp: step_terminal_def)
      have "settling run step s1 d"
        using cur(5) by (intro settlingI [OF inv cur(1) _ s1(1) ends cur(6) _ cur(9,10)])
          (simp_all add: step_terminal_def run_lineage_def)
      from complete_failure_carries [OF this henv _ _ hook] False
      have kept: "r2 = run \<and> carried_on run step s1 d d1 \<or> same_work d d1 \<and> SearchRun_is_terminal r2" and "run_step\<^sup>*\<^sup>* run r2"
        by (auto dest: terminal_after intro: run_step.fail)
      then have "pipelines_inv (de_iso env) d' \<and> moved step s1 d d'"
        by (intro commit_settled [OF inv cur(1,4) s1 refs ends cur(6,8,7) _ _ cur(9,10) _ d2' saves d5]) simp_all
      with hook_keeps_attempts [OF kept] show ?thesis by simp
    qed
    moreover from this have "closed_attempt (sa_id (cs_attempt claimed)) d d'"
      using closed_attempt_complete [OF d2, of d d'] d' saves_keep_attempts(2) [OF saves] attempt_ends_id(1) [OF a1] by simp
    ultimately show ?thesis using settledI [OF cur(1,12) s1(1) quits] by blast
  qed
qed

text \<open>A claim, on each of its paths.\<close>

lemma claim_hard_deadline_pipelines:
  assumes inv: "pipelines_inv (de_iso env) d"
    and step: "step_row step \<in> set (tbl_steps d)" "ss_persisted_version step = ss_version step"
      "step_inv step" "step_refs_wf step"
    and run: "run_row (de_iso env) run \<in> set (tbl_runs d)" "sr_persisted_version run = sr_version run" "run_inv run"
    and belongs: "ss_run_id step = sr_id run" "ss_tenant_id step = sr_tenant_id run"
    and go: "claim_past_hard_deadline env ids tn step run now enow d = Ok (x, d')"
  shows "pipelines_inv (de_iso env) d' \<and> settled (ss_id step) d d' \<and> tbl_attempts d' = tbl_attempts d"
proof -
  from go obtain s1 s2 r1 s3 d1 r2 d2 es ev where ops: "SearchStep_start step = Ok s1" "SearchStep_fail s1 = Ok s2"
    and fail: "SearchRun_fail run TIME_BUDGET (Aware now) = Ok r1"
    and saves: "steps_save tn s2 d = Ok (s3, d1)" "runs_save (de_iso env) tn r1 d1 = Ok (r2, d2)"
    and ev: "add_event (ids 0) enow tn r2 ''STEP_DEADLINE_EXCEEDED'' es d2 = Ok (ev, d')"
    by (auto simp: claim_past_hard_deadline_def skip_with_def)
  have s: "search_step_step\<^sup>*\<^sup>* step s2" using ops by (meson converse_rtranclp_into_rtranclp rtranclp.rtrancl_refl search_step_step.intros(1,6))
  have "run_step run r1" using fail by (rule run_step.intros)
  note r = run_step_lineage [OF this] run_step_inv [OF this run(3)]
  have d': "tbl_runs d' = tbl_runs d2" "tbl_steps d' = tbl_steps d2" "tbl_attempts d' = tbl_attempts d2"
    using add_event_Ok [OF ev] by simp_all
  then have "pipelines_inv (de_iso env) d' \<and> moved step s2 d d'"
    using step_refs_kept(1) [OF ops(1)] step_refs_kept(2) [OF ops(2)] step(4) terminal_after(2) [OF fail] step_ends(1) [OF ops(2)]
    by (intro commit_quiet [OF inv step(1,2) search_step_steps_lineage [OF s] search_step_steps_inv [OF s step(3)]
        _ run(1,2) r belongs refl refl saves]) auto
  then show ?thesis
    using settledI [OF step(1) refl search_step_steps_lineage [OF s]] step_ends(1) [OF ops(2)] d'(3) saves_keep_attempts(2) [OF saves]
    by (auto simp: step_terminal_def)
qed

lemma claim_phase_deadline_pipelines:
  assumes inv: "pipelines_inv (de_iso env) d" and henv: "refs_ok henv"
    and step: "step_row step \<in> set (tbl_steps d)" "ss_persisted_version step = ss_version step"
      "step_inv step" "step_refs_wf step" "\<not> step_terminal (ss_status step)"
    and run: "run_row (de_iso env) run \<in> set (tbl_runs d)" "sr_persisted_version run = sr_version run" "run_inv run"
      "\<not> SearchRun_is_terminal run"
    and belongs: "ss_run_id step = sr_id run" "ss_tenant_id step = sr_tenant_id run"
    and go: "claim_past_phase_deadline env (WorkflowCompletionCoordinator henv) ids tn trace step run now enow d = Ok (x, d')"
  shows "pipelines_inv (de_iso env) d' \<and> settled (ss_id step) d d' \<and> tbl_attempts d' = tbl_attempts d"
proof -
  from go obtain r1 s1 s2 err r2 d1 s4 d2 r3 d3 es ev where wake: "wake_run run now = Ok r1"
    and ops: "SearchStep_start step = Ok s1" "SearchStep_fail s1 = Ok s2"
    and hook: "complete_failure henv d r1 s2 err Disp_FAILED trace = Ok (r2, d1)"
    and saves: "steps_save tn s2 d1 = Ok (s4, d2)" "runs_save (de_iso env) tn r2 d2 = Ok (r3, d3)"
    and ev: "add_event (ids 0) enow tn r3 ''STEP_PHASE_DEADLINE_EXCEEDED'' es d3 = Ok (ev, d')"
    by (auto simp: claim_past_phase_deadline_def skip_with_def WorkflowCompletionCoordinator_def)
  have s: "search_step_step\<^sup>*\<^sup>* step s2" using ops by (meson converse_rtranclp_into_rtranclp rtranclp.rtrancl_refl search_step_step.intros(1,6))
  note r1 = wake_run_steps(1) [OF wake]
  have live: "\<not> SearchRun_is_terminal r1"
    using wake run(4) by (auto simp: wake_run_def SearchRun_start_Ok SearchRun_resume_def SearchRun_is_terminal_def
      run_terminal_def SearchRun_transition_def split: if_splits)
  have "settling r1 step s2 d"
    by (rule settlingI [OF inv step(1,5) search_step_steps_lineage [OF s] step_ends(1) [OF ops(2)] run(1) run_steps_lineage [OF r1] belongs])
  from complete_failure_carries [OF this henv live _ hook]
  have kept: "r2 = r1 \<and> carried_on r1 step s2 d d1 \<or> same_work d d1 \<and> SearchRun_is_terminal r2" and "run_step\<^sup>*\<^sup>* r1 r2"
    by (auto dest: terminal_after intro: run_step.fail)
  moreover have d': "tbl_runs d' = tbl_runs d3" "tbl_steps d' = tbl_steps d3" "tbl_attempts d' = tbl_attempts d3" using add_event_Ok [OF ev] by simp_all
  moreover have "step_refs_wf s2" using step_refs_kept(1) [OF ops(1)] step_refs_kept(2) [OF ops(2)] step(4) by simp
  ultimately have "pipelines_inv (de_iso env) d' \<and> moved step s2 d d'"
    by (intro commit_settled [OF inv step(1,2) search_step_steps_lineage [OF s] search_step_steps_inv [OF s step(3)]
        _ step_ends(1) [OF ops(2)] run(1,2,3) r1 _ belongs _ refl refl saves])
  then show ?thesis
    using settledI [OF step(1) refl search_step_steps_lineage [OF s]] step_ends(1) [OF ops(2)] d'(3) saves_keep_attempts(2) [OF saves]
      hook_keeps_attempts [OF kept]
    by (auto simp: step_terminal_def)
qed

lemma claim_lease_pipelines:
  assumes inv: "pipelines_inv (de_iso env) d"
    and step: "step_row step \<in> set (tbl_steps d)" "ss_persisted_version step = ss_version step"
      "step_inv step" "step_refs_wf step" "\<not> step_terminal (ss_status step)"
    and run: "run_row (de_iso env) run \<in> set (tbl_runs d)" "sr_persisted_version run = sr_version run" "run_inv run"
    and belongs: "ss_run_id step = sr_id run" "ss_tenant_id step = sr_tenant_id run"
    and go: "claim_lease env cfg ids tn w trace step run dl now enow d = Ok (x, d')"
  shows "pipelines_inv (de_iso env) d' \<and> granted (ss_id step) x d d'"
proof -
  from go obtain r1 n s1 a d1 s2 d2 r2 d3 es ev where wake: "wake_run run now = Ok r1"
    and lease: "LeaseService_claim (cf_lease_seconds cfg) (ids 0) step n w now dl = Ok (s1, a)"
    and add: "attempts_add tn a d = Ok d1"
    and saves: "steps_save tn s1 d1 = Ok (s2, d2)" "runs_save (de_iso env) tn r1 d2 = Ok (r2, d3)"
    and ev: "add_event (ids 1) enow tn r2 ''STEP_STARTED'' es d3 = Ok (ev, d')"
    and x: "x = rbind (StepExecutionContext_new tn (ss_run_id s2) (ss_id s2) (ss_step_key s2) (ss_step_type s2)
        (sa_id a) (sa_attempt_no a) trace (Aware dl) (ss_input_ref s2)) (\<lambda>ctx.
          rbind (ClaimResult_acquired \<lparr>cs_attempt = a, cs_context = ctx\<rparr>) (\<lambda>c. Ok (c, Some ev)))"
    by (auto simp: claim_lease_def)
  note s = claim_attempt(5) [OF lease]
  have refs: "step_refs_wf s1" using lease step(4) by (auto simp: claim_Ok_iff step_refs_wf_def)
  have "ss_status s1 = Step_RUNNING" using claim_attempt(4) [OF lease] .
  then have opened: "\<not> step_terminal (ss_status s1)" by (simp add: step_terminal_def)
  have "tbl_runs d1 = tbl_runs d" "tbl_steps d1 = tbl_steps d"
    using add by (auto simp: attempts_add_def split: if_splits)
  moreover have d': "tbl_runs d' = tbl_runs d3" "tbl_steps d' = tbl_steps d3" "tbl_attempts d' = tbl_attempts d3" using add_event_Ok [OF ev] by simp_all
  ultimately have "pipelines_inv (de_iso env) d' \<and> moved step s1 d d'"
    using opened step(5) run_steps_lineage [OF wake_run_steps(1) [OF wake]] run_steps_inv [OF wake_run_steps(1) [OF wake] run(3)]
    by (intro commit_quiet [OF inv step(1,2) search_step_step_lineage [OF s] search_step_step_inv [OF s step(3)]
        refs run(1,2) _ _ belongs _ _ saves]) simp_all
  moreover have "tbl_attempts d' = tbl_attempts d @ [attempt_row a]" "at_id (attempt_row a) \<notin> at_id ` set (tbl_attempts d)"
    using add d'(3) saves_keep_attempts(2) [OF saves]
    by (auto simp: attempts_add_def list_ex_iff attempt_row_def split: if_splits)
  moreover have "at_tenant_id (attempt_row a) = ss_tenant_id step" "at_step_id (attempt_row a) = ss_id step"
    "at_completed_at (attempt_row a) = None"
    using lease by (auto simp: claim_Ok_iff attempt_row_def)
  moreover have "sa_id (cs_attempt claimed) = at_id (attempt_row a) \<and> cx_step_id (cs_context claimed) = ss_id step
      \<and> cx_tenant_id (cs_context claimed) = ss_tenant_id step \<and> cx_run_id (cs_context claimed) = ss_run_id step"
    if "x = Ok (cl, ev')" "cr_claimed cl = Some claimed" for cl ev' claimed
  proof -
    have "ss_id s2 = ss_id step" "ss_run_id s2 = ss_run_id step" "tn = ss_tenant_id step"
      using steps_save_Ok(1,2) [OF saves(1)] lease by (auto simp: claim_Ok_iff SearchStep_mark_persisted_def)
    with that show ?thesis
      unfolding x by (auto simp: StepExecutionContext_new_def ClaimResult_acquired_def ClaimResult_new_def attempt_row_def
          split: if_splits datetime.splits)
  qed
  ultimately show ?thesis
    unfolding granted_def using step(1) search_step_step_lineage [OF s] by blast
qed

lemma skip_with_settles:
  assumes "skip_with disp ev d1 = Ok (x, d')" "tbl_steps d1 = tbl_steps d \<or> settled si d d1" "tbl_attempts d1 = tbl_attempts d"
  shows "settled si d d' \<and> tbl_attempts d' = tbl_attempts d \<and> (\<forall>cl e. x = Ok (cl, e) \<longrightarrow> cr_claimed cl = None)"
proof -
  have "d' = d1" using assms(1) by (simp add: skip_with_def)
  with assms show ?thesis by (auto simp: settled_def dest: skip_with_unclaimed)
qed

lemma store_claim_skips:
  assumes "store_claim env cfg hook ids tn si w trace now enow d = (x, d')"
    and "\<nexists>step run. steps_get (de_conv env) tn tn si d = Ok (Some step) \<and> ss_status step = Step_READY
      \<and> runs_get (de_conv env) (de_iso env) tn tn (ss_run_id step) d = Ok (Some run)"
  shows "d' = d \<and> (\<forall>cl ev. x = Ok (cl, ev) \<longrightarrow> cr_claimed cl = None)"
proof (cases "steps_get (de_conv env) tn tn si d")
  case (Ok found)
  note skips = store_claim_def transact_def skip_with_def ClaimResult_skipped_def ClaimResult_new_def
  show ?thesis
  proof (cases found)
    case None
    with Ok assms(1) show ?thesis by (auto simp: skips)
  next
    case (Some step)
    show ?thesis
    proof (cases "ss_status step = Step_READY")
      case True
      with assms(2) Ok Some have "\<nexists>run. runs_get (de_conv env) (de_iso env) tn tn (ss_run_id step) d = Ok (Some run)"
        by simp
      with Ok Some True assms(1) show ?thesis
        by (cases "runs_get (de_conv env) (de_iso env) tn tn (ss_run_id step) d") (auto simp: skips)
    qed (use Ok Some assms(1) in \<open>auto simp: skips\<close>)
  qed
qed (use assms(1) in \<open>auto simp: store_claim_def transact_def\<close>)

lemma store_claim_pipelines:
  assumes inv: "pipelines_inv (de_iso env) d" and iso: "iso_roundtrip (de_iso env)" and henv: "refs_ok henv"
    and go: "store_claim env cfg (WorkflowCompletionCoordinator henv) ids tn si w trace now enow d = (x, d')"
  shows "pipelines_inv (de_iso env) d' \<and> (settled si d d' \<and> tbl_attempts d' = tbl_attempts d
      \<and> (\<forall>cl ev. x = Ok (cl, ev) \<longrightarrow> cr_claimed cl = None) \<or> granted si x d d')"
proof (cases "\<exists>step run. steps_get (de_conv env) tn tn si d = Ok (Some step) \<and> ss_status step = Step_READY
    \<and> runs_get (de_conv env) (de_iso env) tn tn (ss_run_id step) d = Ok (Some run)")
  case False
  then have "d' = d \<and> (\<forall>cl ev. x = Ok (cl, ev) \<longrightarrow> cr_claimed cl = None)"
    using store_claim_skips [OF go] by blast
  with inv show ?thesis by (auto simp: settled_def)
next
  case True
  then obtain step run where step: "steps_get (de_conv env) tn tn si d = Ok (Some step)"
    and ready: "ss_status step = Step_READY"
    and run: "runs_get (de_conv env) (de_iso env) tn tn (ss_run_id step) d = Ok (Some run)" by blast
  have work: "work_inv (de_iso env) d" using inv by (simp add: pipelines_inv_def)
  note st = steps_get_work [OF work step] and rn = runs_get_work [OF work iso run]
  have belongs: "ss_run_id step = sr_id run" "ss_tenant_id step = sr_tenant_id run" using st rn by simp_all
  have opened: "\<not> step_terminal (ss_status step)" using ready by (simp add: step_terminal_def)
  let ?dl = "BudgetGuard_deadline_for (sr_budget run) (phase_for_step (ss_step_type step))"
  let ?body = "if SearchRun_is_terminal run
      then rbind (SearchStep_cancel step) (\<lambda>s1. rbind (steps_save tn s1 d) (\<lambda>(s2, d1). skip_with Disp_CANCELLED None d1))
      else if bs_hard_deadline_at (sr_budget run) \<le> now then claim_past_hard_deadline env ids tn step run now enow d
      else if ?dl \<le> now
      then claim_past_phase_deadline env (WorkflowCompletionCoordinator henv) ids tn trace step run now enow d
      else claim_lease env cfg ids tn w trace step run ?dl now enow d"
  from go step ready run have body: "transact (\<lambda>_. ?body) d = (x, d')"
    unfolding store_claim_def transact_def Let_def by simp
  show ?thesis
  proof (cases ?body)
    case (Err e)
    with body inv show ?thesis by (auto simp: transact_def settled_def)
  next
    case (Ok y)
    with body have paths: "?body = Ok (x, d')" by (cases y) (simp add: transact_def)
    show ?thesis
    proof (cases "SearchRun_is_terminal run")
      case True
      with paths obtain s1 s2 d1 where cancel: "SearchStep_cancel step = Ok s1"
        and save: "steps_save tn s1 d = Ok (s2, d1)" and skip: "skip_with Disp_CANCELLED None d1 = Ok (x, d')"
        by auto
      have "search_step_step step s1" using cancel by (rule search_step_step.intros)
      note s1 = search_step_step_lineage [OF this] search_step_step_inv [OF this st(2)]
      have "pipelines_inv (de_iso env) d1 \<and> moved step s1 d d1"
        using step_refs_kept(3) [OF cancel] st(3) step_ends(2) [OF cancel]
        by (intro step_saved [OF inv st(1,4) s1 _ rn(1) belongs refl refl save]) (simp_all add: True)
      moreover from this have "settled si d d1"
        using settledI [OF st(1,5) s1(1)] step_ends(2) [OF cancel] by (auto simp: step_terminal_def)
      moreover have "d' = d1" using skip by (simp add: skip_with_def)
      ultimately show ?thesis
        using skip_with_settles [OF skip, of d si] saves_keep_attempts(1) [OF save] by simp
    next
      case False
      note unclaimed = claim_deadline_unclaimed
      from False paths consider
          "claim_past_hard_deadline env ids tn step run now enow d = Ok (x, d')"
        | "claim_past_phase_deadline env (WorkflowCompletionCoordinator henv) ids tn trace step run now enow d = Ok (x, d')"
        | "claim_lease env cfg ids tn w trace step run ?dl now enow d = Ok (x, d')"
        by (auto split: if_split_asm)
      then show ?thesis
      proof cases
        case 1
        then show ?thesis
          using claim_hard_deadline_pipelines [OF inv st(1,4,2,3) rn(1,3,2) belongs 1] st(5) unclaimed(1) by blast
      next
        case 2
        then show ?thesis
          using claim_phase_deadline_pipelines [OF inv henv st(1,4,2,3) opened rn(1,3,2) False belongs 2] st(5) unclaimed(2) by blast
      next
        case 3
        then show ?thesis
          using claim_lease_pipelines [OF inv st(1,4,2,3) opened rn(1,3,2) belongs 3] st(5) by blast
      qed
    qed
  qed
qed

end
