(* ===== verification/Reconciliation.thy ===== *)
theory Reconciliation
  imports Workflow_Completion
begin

text \<open>
  The recovery of work from the database: \<^verbatim>\<open>sana/app/reconciliation.py\<close> with the table of
  \<^verbatim>\<open>platform/db/models/model_gateway.py\<close>, and the delivery of outbox messages,
  \<^verbatim>\<open>sana/platform/queue/dispatcher.py\<close>. The broker is an argument: whether its \<open>n\<close>-th call of
  a cycle accepts the task. What the broker is sent is returned beside the counters. The
  column \<^verbatim>\<open>updated_at\<close> of a step, which the database sets on every update of the row, is
  \<open>ap_updated_at\<close>; \<open>server\<close> is the database's clock in the transaction.
\<close>

section \<open>The table of model calls\<close>

datatype ModelInvocationStatus = Inv_STARTED | Inv_COMPLETED | Inv_FAILED | Inv_ABANDONED | Inv_REUSED

fun invocation_status_value :: "ModelInvocationStatus \<Rightarrow> string" where
  "invocation_status_value Inv_STARTED = ''STARTED''"
| "invocation_status_value Inv_COMPLETED = ''COMPLETED''"
| "invocation_status_value Inv_FAILED = ''FAILED''"
| "invocation_status_value Inv_ABANDONED = ''ABANDONED''"
| "invocation_status_value Inv_REUSED = ''REUSED''"

datatype BillingDisposition = Bill_NOT_BILLED | Bill_BILLED | Bill_POSSIBLY_BILLED

fun billing_disposition_value :: "BillingDisposition \<Rightarrow> string" where
  "billing_disposition_value Bill_NOT_BILLED = ''NOT_BILLED''"
| "billing_disposition_value Bill_BILLED = ''BILLED''"
| "billing_disposition_value Bill_POSSIBLY_BILLED = ''POSSIBLY_BILLED''"

record ModelInvocationRow =
  mi_id :: uuid
  mi_tenant_id :: uuid
  mi_run_id :: uuid
  mi_step_id :: uuid
  mi_attempt_id :: uuid
  mi_reused_from_id :: "uuid option"
  mi_role :: string
  mi_provider :: string
  mi_model :: string
  mi_call_no :: int
  mi_logical_call_key :: string
  mi_status :: string
  mi_billing_disposition :: string
  mi_provider_called :: bool
  mi_trace_id :: string
  mi_span_id :: string
  mi_prompt_template_version :: string
  mi_parser_schema_version :: string
  mi_output_format :: string
  mi_thinking_mode :: string
  mi_input_chars :: int
  mi_output_chars :: int
  mi_prompt_tokens :: int
  mi_completion_tokens :: int
  mi_output_artifact_uri :: "string option"
  mi_output_artifact_sha256 :: "string option"
  mi_provider_response_id :: "string option"
  mi_error_category :: "string option"
  mi_error_code :: "string option"
  mi_started_at :: instant
  mi_completed_at :: "instant option"

record scan_db =
  sb_tables :: app_db
  sb_invocations :: "ModelInvocationRow list"

text \<open>\<^verbatim>\<open>LIMIT\<close>: PostgreSQL refuses a negative one.\<close>

definition pg_limit :: "int \<Rightarrow> 'a list \<Rightarrow> 'a list result" where
  "pg_limit limit rows = (if limit < 0 then Err data_error else Ok (take (nat limit) rows))"

section \<open>The scanner\<close>

record scanner = sn_redelivery_grace :: int

definition TenantReconciliationScanner_new :: "pyfloat \<Rightarrow> scanner result" where
  "TenantReconciliationScanner_new redelivery_grace_seconds =
     (if redelivery_grace_seconds < 0 then Err (ValueError ''Redelivery grace cannot be negative'')
      else Ok \<lparr>sn_redelivery_grace = td_us redelivery_grace_seconds\<rparr>)"

definition abandon :: "string \<Rightarrow> instant \<Rightarrow> ModelInvocationRow \<Rightarrow> ModelInvocationRow" where
  "abandon code now row =
     row\<lparr>mi_status := invocation_status_value Inv_ABANDONED,
         mi_billing_disposition := billing_disposition_value Bill_POSSIBLY_BILLED,
         mi_error_category := Some ''TRANSIENT'', mi_error_code := Some code,
         mi_completed_at := Some now\<rparr>"

definition orphaned :: "uuid \<Rightarrow> instant \<Rightarrow> app_db \<Rightarrow> ModelInvocationRow \<Rightarrow> bool" where
  "orphaned tenant_id now d row \<longleftrightarrow>
     mi_tenant_id row = tenant_id \<and> mi_status row = invocation_status_value Inv_STARTED
     \<and> list_ex (\<lambda>a. at_tenant_id a = mi_tenant_id row \<and> at_id a = mi_attempt_id row
          \<and> (at_completed_at a \<noteq> None \<or> at_deadline_at a \<le> now \<or> at_leased_until a \<le> now))
         (tbl_attempts d)"

definition seal_orphaned_model_invocations ::
  "uuid \<Rightarrow> instant \<Rightarrow> int \<Rightarrow> scan_db \<Rightarrow> (int \<times> scan_db) result" where
  "seal_orphaned_model_invocations tenant_id now limit st =
     rbind (pg_limit limit (sort_key mi_started_at
              (filter (orphaned tenant_id now (sb_tables st)) (sb_invocations st)))) (\<lambda>rows.
       let hit = (\<lambda>row. mi_tenant_id row = tenant_id \<and> mi_id row \<in> set (map mi_id rows)) in
       Ok (int (length (filter hit (sb_invocations st))),
           st\<lparr>sb_invocations := map (\<lambda>row. if hit row then abandon ''model_invocation_orphaned'' now row
                                         else row) (sb_invocations st)\<rparr>))"

definition open_attempt :: "uuid \<Rightarrow> uuid \<Rightarrow> StepAttemptRecord \<Rightarrow> bool" where
  "open_attempt tenant_id step_id a \<longleftrightarrow>
     at_tenant_id a = tenant_id \<and> at_step_id a = step_id \<and> at_completed_at a = None"

definition lease_until :: "uuid \<Rightarrow> uuid \<Rightarrow> 'x tables \<Rightarrow> instant option" where
  "lease_until tenant_id step_id d =
     (case map at_leased_until (filter (open_attempt tenant_id step_id) (tbl_attempts d)) of
        [] \<Rightarrow> None
      | t # ts \<Rightarrow> Some (fold max ts t))"

definition has_unpublished_outbox :: "uuid \<Rightarrow> uuid \<Rightarrow> 'x tables \<Rightarrow> bool" where
  "has_unpublished_outbox tenant_id step_id d =
     list_ex (\<lambda>x. om_tenant_id (ob_message x) = tenant_id \<and> om_aggregate_id (ob_message x) = step_id
               \<and> ob_published_at x = None) (tbl_outbox d)"

definition due :: "instant option \<Rightarrow> instant \<Rightarrow> bool" where
  "due t now = (case t of None \<Rightarrow> False | Some x \<Rightarrow> x \<le> now)"

definition is_candidate :: "scanner \<Rightarrow> uuid \<Rightarrow> instant \<Rightarrow> app_db \<Rightarrow> SearchStepRecord \<times> SearchRunRecord \<Rightarrow> bool" where
  "is_candidate sc tenant_id now d pair =
     (case pair of (step, run) \<Rightarrow>
        rr_tenant_id run = sp_tenant_id step \<and> rr_id run = sp_run_id step
        \<and> sp_tenant_id step = tenant_id \<and> rr_status run \<in> {''QUEUED'', ''RUNNING'', ''WAITING''}
        \<and> \<not> has_unpublished_outbox tenant_id (sp_id step) d
        \<and> (sp_status step = step_status_value Step_READY
             \<and> ap_updated_at d (sp_id step) \<le> now - sn_redelivery_grace sc
           \<or> sp_status step = step_status_value Step_RETRY_WAIT \<and> due (sp_retry_at step) now
           \<or> sp_status step = step_status_value Step_RUNNING
             \<and> due (lease_until tenant_id (sp_id step) d) now))"

datatype SearchQueue = Queue_FAST | Queue_RESEARCH | Queue_CRAWL | Queue_MAINTENANCE

fun search_queue_value :: "SearchQueue \<Rightarrow> string" where
  "search_queue_value Queue_FAST = ''fast''"
| "search_queue_value Queue_RESEARCH = ''research''"
| "search_queue_value Queue_CRAWL = ''crawl''"
| "search_queue_value Queue_MAINTENANCE = ''maintenance''"

record DispatchableCandidate =
  dc_candidate :: ReconcileCandidate
  dc_queue :: SearchQueue

definition dispatchable ::
  "uuid \<Rightarrow> app_db \<Rightarrow> SearchStepRecord \<times> SearchRunRecord \<Rightarrow> DispatchableCandidate result" where
  "dispatchable tenant_id d pair =
     (case pair of (step, run) \<Rightarrow>
        rbind (enum_of step_status_value all_step_statuses (sp_status step)) (\<lambda>status.
        rbind (enum_of search_mode_value all_modes (rr_mode run)) (\<lambda>mode.
          Ok \<lparr>dc_candidate = \<lparr>rc_tenant_id = tenant_id, rc_step_id = sp_id step, rc_status = status,
                rc_retry_at = sp_retry_at step, rc_leased_until = lease_until tenant_id (sp_id step) d\<rparr>,
              dc_queue = (if mode = RESEARCH then Queue_RESEARCH else Queue_FAST)\<rparr>)))"

definition candidates ::
  "scanner \<Rightarrow> uuid \<Rightarrow> instant \<Rightarrow> int \<Rightarrow> app_db \<Rightarrow> DispatchableCandidate list result" where
  "candidates sc tenant_id now limit d =
     rbind (pg_limit limit (sort_key (\<lambda>(step, run). ap_updated_at d (sp_id step))
              (sort_key (\<lambda>(step, run). sp_id step)
                (filter (is_candidate sc tenant_id now d) (List.product (tbl_steps d) (tbl_runs d))))))
       (traverse (dispatchable tenant_id d))"

definition expired_attempt :: "uuid \<Rightarrow> uuid \<Rightarrow> instant \<Rightarrow> StepAttemptRecord \<Rightarrow> bool" where
  "expired_attempt tenant_id step_id now a \<longleftrightarrow>
     open_attempt tenant_id step_id a \<and> at_leased_until a \<le> now"

definition expire_attempt :: "instant \<Rightarrow> StepAttemptRecord \<Rightarrow> StepAttemptRecord" where
  "expire_attempt now a =
     a\<lparr>at_completed_at := Some now, at_error_type := Some ''TRANSIENT'',
       at_error_code := Some ''lease_expired'',
       at_error_details := Some
         [(''category'', JStr ''TRANSIENT''), (''code'', JStr ''lease_expired''),
          (''message'', JStr ''Worker lease expired before the attempt completed''),
          (''retryable'', JBool True), (''details'', JObj [])]\<rparr>"

definition release_attempts :: "uuid \<Rightarrow> uuid \<Rightarrow> instant \<Rightarrow> scan_db \<Rightarrow> scan_db" where
  "release_attempts tenant_id step_id now st =
     (let d = sb_tables st;
          expired_attempt_ids = map at_id (filter (expired_attempt tenant_id step_id now) (tbl_attempts d)) in
      st\<lparr>sb_invocations := map (\<lambda>row. if mi_tenant_id row = tenant_id
             \<and> mi_attempt_id row \<in> set expired_attempt_ids
             \<and> mi_status row = invocation_status_value Inv_STARTED
             then abandon ''worker_lease_expired'' now row else row) (sb_invocations st),
         sb_tables := d\<lparr>tbl_attempts := map (\<lambda>a. if expired_attempt tenant_id step_id now a
             then expire_attempt now a else a) (tbl_attempts d)\<rparr>\<rparr>)"

definition save_ready :: "instant \<Rightarrow> uuid \<Rightarrow> SearchStep \<Rightarrow> scan_db \<Rightarrow> (bool \<times> scan_db) result" where
  "save_ready server tenant_id step st =
     rbind (steps_save tenant_id step (sb_tables st)) (\<lambda>(s, d).
       Ok (True, st\<lparr>sb_tables := d\<lparr>ap_updated_at := (ap_updated_at d)(ss_id step := server)\<rparr>\<rparr>))"

definition make_ready ::
  "py_conv \<Rightarrow> instant \<Rightarrow> ReconcileCandidate \<Rightarrow> instant \<Rightarrow> scan_db \<Rightarrow> (bool \<times> scan_db) result" where
  "make_ready conv server c now st =
     (let tenant_id = rc_tenant_id c; step_id = rc_step_id c in
      rbind (steps_get conv tenant_id tenant_id step_id (sb_tables st)) (\<lambda>record.
        case record of
          None \<Rightarrow> Ok (False, st)
        | Some step \<Rightarrow>
            if rc_status c = Step_RETRY_WAIT \<and> ss_status step = Step_RETRY_WAIT
            then
              if \<not> due (ss_retry_at step) now then Ok (False, st)
              else rbind (SearchStep_make_ready step) (\<lambda>s1. save_ready server tenant_id s1 st)
            else if rc_status c = Step_RUNNING \<and> ss_status step = Step_RUNNING
            then
              if \<not> due (lease_until tenant_id step_id (sb_tables st)) now then Ok (False, st)
              else rbind (SearchStep_release_expired_lease step) (\<lambda>s1.
                     save_ready server tenant_id s1 (release_attempts tenant_id step_id now st))
            else Ok (ss_status step = Step_READY, st)))"

definition mark_dispatched :: "ReconcileCandidate \<Rightarrow> instant \<Rightarrow> scan_db \<Rightarrow> scan_db result" where
  "mark_dispatched c now st =
     (let d = sb_tables st in
      Ok (if list_ex (\<lambda>row. sp_tenant_id row = rc_tenant_id c \<and> sp_id row = rc_step_id c
               \<and> sp_status row = step_status_value Step_READY) (tbl_steps d)
          then st\<lparr>sb_tables := d\<lparr>ap_updated_at := (ap_updated_at d)(rc_step_id c := now)\<rparr>\<rparr>
          else st))"

section \<open>The pump\<close>

record ReconciliationCycle =
  cy_tenants :: int
  cy_recovered :: int
  cy_dispatched :: int
  cy_failed :: int
  cy_sealed_model_invocations :: int

text \<open>
  \<^verbatim>\<open>CeleryStepDispatcher.dispatch\<close>: the task \<^verbatim>\<open>sana.execute_step\<close> that is handed to the broker.
\<close>

record step_task =
  tk_task_id :: string
  tk_tenant :: string
  tk_step :: string
  tk_trace :: "(string, json) dict"
  tk_queue :: string

definition step_task_of :: "uuid \<Rightarrow> uuid \<Rightarrow> (string, json) dict \<Rightarrow> SearchQueue \<Rightarrow> step_task" where
  "step_task_of tenant_id step_id trace queue =
     \<lparr>tk_task_id = ''step:'' @ uuid_str step_id, tk_tenant = uuid_str tenant_id,
      tk_step = uuid_str step_id, tk_trace = trace, tk_queue = search_queue_value queue\<rparr>"

type_synonym broker = "nat \<Rightarrow> step_task \<Rightarrow> unit result"

record pump_env =
  pe_conv :: py_conv
  pe_server :: "nat \<Rightarrow> instant"
  pe_trace :: "nat \<Rightarrow> trace_context"
  pe_broker :: broker

record pump =
  pu_cycle :: ReconciliationCycle
  pu_sent :: "step_task list"
  pu_calls :: nat
  pu_db :: scan_db

definition count_up :: "(ReconciliationCycle \<Rightarrow> ReconciliationCycle) \<Rightarrow> pump \<Rightarrow> pump" where
  "count_up f p = p\<lparr>pu_cycle := f (pu_cycle p)\<rparr>"

definition pump_dispatch :: "pump_env \<Rightarrow> uuid \<Rightarrow> DispatchableCandidate \<Rightarrow> instant \<Rightarrow> pump \<Rightarrow> pump" where
  "pump_dispatch env tenant_id item now p =
     (let task = step_task_of tenant_id (rc_step_id (dc_candidate item))
                   (trace_context_to_dict (pe_trace env (pu_calls p))) (dc_queue item);
          p1 = p\<lparr>pu_calls := pu_calls p + 1\<rparr> in
      case pe_broker env (pu_calls p) task of
        Err e \<Rightarrow> count_up (cy_failed_update (\<lambda>n. n + 1)) p1
      | Ok _ \<Rightarrow>
        let p2 = count_up (cy_dispatched_update (\<lambda>n. n + 1)) (p1\<lparr>pu_sent := pu_sent p1 @ [task]\<rparr>) in
        case mark_dispatched (dc_candidate item) now (pu_db p2) of
          Err e \<Rightarrow> count_up (cy_failed_update (\<lambda>n. n + 1)) p2
        | Ok st \<Rightarrow> p2\<lparr>pu_db := st\<rparr>)"

definition pump_item ::
  "pump_env \<Rightarrow> uuid \<Rightarrow> instant \<Rightarrow> DispatchableCandidate \<Rightarrow> pump \<Rightarrow> unit result \<times> pump" where
  "pump_item env tenant_id now item p =
     (case WorkflowReconciler_decide (dc_candidate item) now of
        None \<Rightarrow> (Ok (), p)
      | Some (c, action) \<Rightarrow>
          if action = DISPATCH_READY then (Ok (), pump_dispatch env tenant_id item now p)
          else case make_ready (pe_conv env) (pe_server env (pu_calls p)) (dc_candidate item) now (pu_db p) of
                 Err e \<Rightarrow> (Err e, p)
               | Ok (False, st) \<Rightarrow> (Ok (), p)
               | Ok (True, st) \<Rightarrow>
                   (Ok (), pump_dispatch env tenant_id item now
                      (count_up (cy_recovered_update (\<lambda>n. n + 1)) (p\<lparr>pu_db := st\<rparr>))))"

text \<open>A loop over committed transactions: an exception leaves what was committed before it.\<close>

fun each :: "('a \<Rightarrow> 'p \<Rightarrow> unit result \<times> 'p) \<Rightarrow> 'a list \<Rightarrow> 'p \<Rightarrow> unit result \<times> 'p" where
  "each f [] p = (Ok (), p)"
| "each f (x # xs) p = (case f x p of (Ok _, p') \<Rightarrow> each f xs p' | (Err e, p') \<Rightarrow> (Err e, p'))"

definition pump_tenant ::
  "pump_env \<Rightarrow> scanner \<Rightarrow> instant \<Rightarrow> int \<Rightarrow> uuid \<Rightarrow> pump \<Rightarrow> unit result \<times> pump" where
  "pump_tenant env sc now limit tenant_id p =
     (case seal_orphaned_model_invocations tenant_id now limit (pu_db p) of
        Err e \<Rightarrow> (Err e, p)
      | Ok (sealed, st) \<Rightarrow>
          let p1 = count_up (cy_sealed_model_invocations_update (\<lambda>n. n + sealed)) (p\<lparr>pu_db := st\<rparr>) in
          case candidates sc tenant_id now limit (sb_tables (pu_db p1)) of
            Err e \<Rightarrow> (Err e, p1)
          | Ok items \<Rightarrow> each (pump_item env tenant_id now) items p1)"

definition run_once ::
  "pump_env \<Rightarrow> scanner \<Rightarrow> uuid list \<Rightarrow> instant \<Rightarrow> int \<Rightarrow> scan_db
     \<Rightarrow> ReconciliationCycle result \<times> step_task list \<times> scan_db" where
  "run_once env sc tenant_ids now limit st =
     (case each (pump_tenant env sc now limit) tenant_ids
             \<lparr>pu_cycle = \<lparr>cy_tenants = int (length tenant_ids), cy_recovered = 0, cy_dispatched = 0,
                cy_failed = 0, cy_sealed_model_invocations = 0\<rparr>,
              pu_sent = [], pu_calls = 0, pu_db = st\<rparr> of
        (Ok _, p) \<Rightarrow> (Ok (pu_cycle p), pu_sent p, pu_db p)
      | (Err e, p) \<Rightarrow> (Err e, pu_sent p, pu_db p))"

section \<open>The outbox\<close>

definition outbox_queue :: "string \<Rightarrow> SearchQueue result" where
  "outbox_queue kind =
     (if kind = ''STEP_READY_FAST'' then Ok Queue_FAST
      else if kind = ''STEP_READY_RESEARCH'' then Ok Queue_RESEARCH
      else if kind = ''STEP_READY_CRAWL'' then Ok Queue_CRAWL
      else if kind = ''STEP_READY_MAINTENANCE'' then Ok Queue_MAINTENANCE
      else Err (ValueError ''Unsupported outbox event''))"

text \<open>
  \<^verbatim>\<open>dispatch_batch\<close> on the tables of one unit of work. \<open>str_exc\<close> is \<^verbatim>\<open>str(exc)\<close>, and
  \<open>clock n\<close> the time when the broker has answered its \<open>n\<close>-th call.
\<close>

record outbox_env =
  oe_conv :: py_conv
  oe_clock :: "nat \<Rightarrow> instant"
  oe_broker :: broker
  oe_str_exc :: "exn \<Rightarrow> string"

record 'x batch =
  ba_published :: int
  ba_failed :: int
  ba_sent :: "step_task list"
  ba_calls :: nat
  ba_tables :: "'x tables"

definition outbox_task :: "py_conv \<Rightarrow> OutboxMessage \<Rightarrow> step_task result" where
  "outbox_task conv m =
     rbind (dict_item (om_payload m) ''step_id'') (\<lambda>v.
     rbind (uuid_parse (py_str conv v)) (\<lambda>step_id.
     rbind (outbox_queue (om_event_type m)) (\<lambda>queue.
       Ok (step_task_of (om_tenant_id m) step_id (trace_context_to_dict (om_trace_context m)) queue))))"

definition dispatch_pending :: "outbox_env \<Rightarrow> uuid \<Rightarrow> OutboxMessage \<Rightarrow> 'x batch \<Rightarrow> 'x batch" where
  "dispatch_pending env scope m b =
     (let b1 = b\<lparr>ba_calls := ba_calls b + 1\<rparr> in
      case rbind (outbox_task (oe_conv env) m) (\<lambda>task.
             rbind (oe_broker env (ba_calls b) task) (\<lambda>_. Ok task)) of
        Err e \<Rightarrow> b1\<lparr>ba_failed := ba_failed b1 + 1,
                    ba_tables := outbox_mark_failed scope (om_id m) (oe_str_exc env e) (ba_tables b1)\<rparr>
      | Ok task \<Rightarrow> b1\<lparr>ba_published := ba_published b1 + 1, ba_sent := ba_sent b1 @ [task],
                      ba_tables := outbox_mark_published scope (om_id m) (oe_clock env (ba_calls b))
                                     (ba_tables b1)\<rparr>)"

definition dispatch_batch :: "outbox_env \<Rightarrow> uuid \<Rightarrow> instant \<Rightarrow> nat \<Rightarrow> 'x batch \<Rightarrow> 'x batch" where
  "dispatch_batch env scope now limit b =
     fold (\<lambda>(m, attempts). dispatch_pending env scope m)
       (outbox_claim_unpublished scope now limit (ba_tables b)) b"

text \<open>\<^verbatim>\<open>TenantOutboxPump.run_once\<close>: one unit of work for each tenant.\<close>

record DispatchCycle =
  dy_tenants :: int
  dy_published :: int
  dy_failed :: int

definition outbox_run_once ::
  "outbox_env \<Rightarrow> (nat \<Rightarrow> instant) \<Rightarrow> uuid list \<Rightarrow> nat \<Rightarrow> 'x tables \<Rightarrow> DispatchCycle \<times> step_task list \<times> 'x tables" where
  "outbox_run_once env start tenant_ids batch_size d =
     (let b = fold (\<lambda>tenant_id b. dispatch_batch env tenant_id (start (ba_calls b)) batch_size b) tenant_ids
                \<lparr>ba_published = 0, ba_failed = 0, ba_sent = [], ba_calls = 0, ba_tables = d\<rparr> in
      (\<lparr>dy_tenants = int (length tenant_ids), dy_published = ba_published b, dy_failed = ba_failed b\<rparr>,
       ba_sent b, ba_tables b))"

end
