(* ===== verification/Service_Invariant.thy ===== *)
theory Service_Invariant
  imports Pipeline_Invariant Reconciliation
begin

text \<open>
  The service as a transition system: messages are submitted, runs are cancelled, workers
  claim steps, renew their leases and settle them with the production hook, the reconciler
  releases expired work, and the outbox is delivered, in any order, with any identifiers,
  clock readings and broker answers. A worker may call the store again with a claim it once
  held. An exception rolls its transaction back and is no step.
\<close>

section \<open>The transitions\<close>

definition chat_of :: "app_db \<Rightarrow> chat_db" where
  "chat_of d = \<lparr>ch_conversations = ap_conversations d, ch_messages = ap_messages d,
                ch_response_runs = ap_response_runs d, ch_work = db.truncate d\<rparr>"

definition with_chat :: "chat_db \<Rightarrow> app_db \<Rightarrow> app_db" where
  "with_chat ch d =
     d\<lparr>ap_conversations := ch_conversations ch, ap_messages := ch_messages ch,
       ap_response_runs := ch_response_runs ch, tbl_runs := tbl_runs (ch_work ch),
       tbl_steps := tbl_steps (ch_work ch), tbl_attempts := tbl_attempts (ch_work ch),
       tbl_events := tbl_events (ch_work ch), tbl_outbox := tbl_outbox (ch_work ch)\<rparr>"

definition on_tables :: "app_db \<Rightarrow> scan_db \<Rightarrow> scan_db" where
  "on_tables d st = st\<lparr>sb_tables := d\<rparr>"

definition claims_of :: "claim_out result \<Rightarrow> ClaimedStep list" where
  "claims_of x = (case x of Ok (c, ev) \<Rightarrow> (case cr_claimed c of Some cl \<Rightarrow> [cl] | None \<Rightarrow> []) | Err e \<Rightarrow> [])"

type_synonym service = "ClaimedStep list \<times> scan_db"

inductive service_step :: "db_env \<Rightarrow> service \<Rightarrow> service \<Rightarrow> bool" for env where
  submit: "submit_message sha (de_iso env) policy ids now cmd (chat_of (sb_tables st)) = (Ok rc, ch)
    \<Longrightarrow> RoutingDecision_wf (sc_routing cmd)
    \<Longrightarrow> service_step env (cl, st) (cl, on_tables (with_chat ch (sb_tables st)) st)"
| cancel: "cancel_run env new_id now tn r (sb_tables st) = (Ok x, d)
    \<Longrightarrow> service_step env (cl, st) (cl, on_tables d st)"
| claim: "store_claim env cfg (WorkflowCompletionCoordinator henv) ids tn si w trace now enow (sb_tables st) = (x, d)
    \<Longrightarrow> refs_ok henv \<Longrightarrow> service_step env (cl, st) (claims_of x @ cl, on_tables d st)"
| renew: "c \<in> set cl \<Longrightarrow> store_renew env cfg now (c, sb_tables st) = (x, c', d)
    \<Longrightarrow> service_step env (cl, st) (c' # cl, on_tables d st)"
| succeed: "c \<in> set cl
    \<Longrightarrow> store_succeed env (WorkflowCompletionCoordinator henv) ids c res trace now enow (sb_tables st) = (Ok x, d)
    \<Longrightarrow> refs_ok henv \<Longrightarrow> ArtifactRef_wf (ex_output_ref res) \<Longrightarrow> service_step env (cl, st) (cl, on_tables d st)"
| fail: "c \<in> set cl
    \<Longrightarrow> store_fail env cfg (WorkflowCompletionCoordinator henv) ids c err trace now enow (sb_tables st) = (Ok x, d)
    \<Longrightarrow> refs_ok henv \<Longrightarrow> service_step env (cl, st) (cl, on_tables d st)"
| seal: "seal_orphaned_model_invocations tn now limit st = Ok (n, st') \<Longrightarrow> service_step env (cl, st) (cl, st')"
| recover: "make_ready (de_conv env) server cand now st = Ok (b, st') \<Longrightarrow> service_step env (cl, st) (cl, st')"
| redelivered: "mark_dispatched cand now st = Ok st' \<Longrightarrow> service_step env (cl, st) (cl, st')"
| deliver: "dispatch_pending oe tn m b = b' \<Longrightarrow> ba_tables b = sb_tables st
    \<Longrightarrow> service_step env (cl, st) (cl, on_tables (ba_tables b') st)"
| clock: "service_step env (cl, st) (cl, on_tables ((sb_tables st)\<lparr>ap_updated_at := u\<rparr>) st)"

section \<open>Leases\<close>

text \<open>A running step has an open attempt, and a worker's claim is of a stored step and attempt.\<close>

definition leased :: "'x tables \<Rightarrow> bool" where
  "leased d \<longleftrightarrow> distinct (map at_id (tbl_attempts d))
     \<and> (\<forall>row \<in> set (tbl_steps d). sp_status row = ''RUNNING''
          \<longrightarrow> (\<exists>a \<in> set (tbl_attempts d). open_attempt (sp_tenant_id row) (sp_id row) a))"

definition held :: "ClaimedStep \<Rightarrow> 'x tables \<Rightarrow> bool" where
  "held claimed d \<longleftrightarrow> genuine claimed d
     \<and> (\<exists>a \<in> set (tbl_attempts d). at_id a = sa_id (cs_attempt claimed)
          \<and> at_step_id a = cx_step_id (cs_context claimed))"

definition service_inv :: "db_env \<Rightarrow> service \<Rightarrow> bool" where
  "service_inv env sv \<longleftrightarrow>
     (case sv of (cl, st) \<Rightarrow> pipelines_inv (de_iso env) (sb_tables st) \<and> leased (sb_tables st)
        \<and> (\<forall>c \<in> set cl. held c (sb_tables st)))"

lemma sb_on_tables [simp]: "sb_tables (on_tables d st) = d"
  by (simp add: on_tables_def)

text \<open>Transitions that leave the steps and the attempts alone.\<close>

lemma leases_same:
  assumes "tbl_steps d' = tbl_steps d" "tbl_attempts d' = tbl_attempts d"
  shows "leased d' = leased d" "held c d' = held c d"
  by (simp_all add: leased_def held_def genuine_def assms)

lemma service_inv_same:
  assumes "service_inv env (cl, st)" "tbl_runs (sb_tables st') = tbl_runs (sb_tables st)"
    "tbl_steps (sb_tables st') = tbl_steps (sb_tables st)" "tbl_attempts (sb_tables st') = tbl_attempts (sb_tables st)"
  shows "service_inv env (cl, st')"
  using assms by (simp add: service_inv_def leases_same [OF assms(3,4)] pipelines_inv_cong [OF assms(2,3)])

text \<open>The rows of a step table after one step has moved.\<close>

lemma moved_rows:
  assumes "moved s0 s d d'" "step_lineage s0 s"
  shows "row \<in> set (tbl_steps d) \<Longrightarrow> \<exists>row' \<in> set (tbl_steps d'). sp_id row' = sp_id row
      \<and> sp_tenant_id row' = sp_tenant_id row \<and> sp_run_id row' = sp_run_id row"
    and "row' \<in> set (tbl_steps d') \<Longrightarrow> row' = step_row s \<or> row' \<in> set (tbl_steps d) - {step_row s0} \<or> sp_status row' = ''READY''"
proof -
  from assms(1) obtain news where steps: "set (tbl_steps d') = insert (step_row s) (set (tbl_steps d) \<union> news - {step_row s0})"
    and "\<forall>row \<in> news. sp_status row = ''READY''" unfolding moved_def by blast
  then show "row' \<in> set (tbl_steps d') \<Longrightarrow> row' = step_row s \<or> row' \<in> set (tbl_steps d) - {step_row s0} \<or> sp_status row' = ''READY''"
    by auto
  assume "row \<in> set (tbl_steps d)"
  then consider "row \<in> set (tbl_steps d')" | "row = step_row s0" by (auto simp: steps)
  then show "\<exists>row' \<in> set (tbl_steps d'). sp_id row' = sp_id row
      \<and> sp_tenant_id row' = sp_tenant_id row \<and> sp_run_id row' = sp_run_id row"
  proof cases
    case 2
    moreover have "step_row s \<in> set (tbl_steps d')" by (simp add: steps)
    ultimately show ?thesis
      using assms(2) by (intro bexI [of _ "step_row s"]) (simp_all add: step_row_def step_lineage_def)
  qed blast
qed

lemma genuine_moved:
  "moved s0 s d d' \<Longrightarrow> step_lineage s0 s \<Longrightarrow> genuine c d \<Longrightarrow> genuine c d'"
  unfolding genuine_def by (metis moved_rows(1))

lemma other_row:
  assumes "work_inv c d" "step_row s0 \<in> set (tbl_steps d)" "row \<in> set (tbl_steps d) - {step_row s0}"
  shows "sp_id row \<noteq> ss_id s0"
proof
  assume "sp_id row = ss_id s0"
  then have "sp_id row = sp_id (step_row s0)" by (simp add: step_row_def)
  moreover have "inj_on sp_id (set (tbl_steps d))" using assms(1) by (simp add: work_inv_iff distinct_map)
  ultimately show False using assms(2,3) by (auto dest: inj_onD)
qed

text \<open>A step that is settled leaves the leases of the other steps open.\<close>

lemma settled_rows_leases:
  assumes work: "work_inv c d" and leased: "leased d" and settled: "settled si d d'"
    and f: "tbl_attempts d' = map f (tbl_attempts d)"
      "\<And>a. a \<in> set (tbl_attempts d) \<Longrightarrow> at_id (f a) = at_id a \<and> at_step_id (f a) = at_step_id a
         \<and> at_tenant_id (f a) = at_tenant_id a \<and> (at_step_id a \<noteq> si \<longrightarrow> f a = a)"
  shows "leased d'" "held cl d \<Longrightarrow> held cl d'"
proof -
  have "map at_id (tbl_attempts d') = map at_id (tbl_attempts d)" using f by simp
  then have distinct: "distinct (map at_id (tbl_attempts d'))" using leased by (simp add: leased_def)
  show "leased d'"
  proof (cases "tbl_steps d' = tbl_steps d \<and> tbl_attempts d' = tbl_attempts d")
    case True
    with leased show ?thesis by (simp add: leases_same(1) [of d' d])
  next
    case False
    with settled obtain s0 s where s: "step_row s0 \<in> set (tbl_steps d)" "ss_id s0 = si" "step_lineage s0 s"
      "ss_status s \<noteq> Step_RUNNING" "moved s0 s d d'" unfolding settled_def by blast
    have "\<exists>a \<in> set (tbl_attempts d'). open_attempt (sp_tenant_id row) (sp_id row) a"
      if row: "row \<in> set (tbl_steps d')" "sp_status row = ''RUNNING''" for row
    proof -
      have "row \<noteq> step_row s" using s(4) row(2) by (cases "ss_status s") (auto simp: step_row_def)
      with moved_rows(2) [OF s(5,3) row(1)] row(2) have old: "row \<in> set (tbl_steps d) - {step_row s0}" by simp
      with leased row(2) obtain a where a: "a \<in> set (tbl_attempts d)" "open_attempt (sp_tenant_id row) (sp_id row) a"
        unfolding leased_def by blast
      have "at_step_id a \<noteq> si" using other_row [OF work s(1) old] a(2) s(2) by (simp add: open_attempt_def)
      then have "f a = a" using a(1) f(2) by blast
      then have "a \<in> set (tbl_attempts d')" using imageI [OF a(1), of f] by (simp add: f(1))
      then show ?thesis using a(2) by blast
    qed
    with distinct show ?thesis by (simp add: leased_def)
  qed
  assume held: "held cl d"
  have "genuine cl d'"
  proof (cases "tbl_steps d' = tbl_steps d \<and> tbl_attempts d' = tbl_attempts d")
    case True
    with held show ?thesis by (simp add: held_def genuine_def)
  next
    case False
    with settled held show ?thesis unfolding settled_def held_def using genuine_moved by blast
  qed
  moreover have "\<exists>a \<in> set (tbl_attempts d'). at_id a = sa_id (cs_attempt cl) \<and> at_step_id a = cx_step_id (cs_context cl)"
    using held f unfolding held_def by force
  ultimately show "held cl d'" by (simp add: held_def)
qed

lemma settled_leases:
  assumes work: "work_inv c d" and leased: "leased d" and settled: "settled si d d'" and closed: "closed_attempt ai d d'"
    and own: "tbl_attempts d' = tbl_attempts d \<or> (\<forall>a \<in> set (tbl_attempts d). at_id a = ai \<longrightarrow> at_step_id a = si)"
  shows "leased d'" "held cl d \<Longrightarrow> held cl d'"
proof -
  obtain f where f: "tbl_attempts d' = map f (tbl_attempts d)"
    "\<And>a. a \<in> set (tbl_attempts d) \<Longrightarrow> at_id (f a) = at_id a \<and> at_step_id (f a) = at_step_id a
       \<and> at_tenant_id (f a) = at_tenant_id a \<and> (at_step_id a \<noteq> si \<longrightarrow> f a = a)"
  proof (cases "tbl_attempts d' = tbl_attempts d")
    case True
    then show ?thesis by (intro that [of id]) simp_all
  next
    case False
    with own closed that show ?thesis unfolding closed_attempt_def by metis
  qed
  from settled_rows_leases [OF work leased settled f] show "leased d'" "held cl d \<Longrightarrow> held cl d'" by blast+
qed

lemma granted_leases:
  assumes work: "work_inv c d" and leased: "leased d" and granted: "granted si x d d'"
  shows "leased d'" "held cl d \<Longrightarrow> held cl d'" "cl \<in> set (claims_of x) \<Longrightarrow> held cl d'"
proof -
  from granted obtain s0 s a where s: "step_row s0 \<in> set (tbl_steps d)" "ss_id s0 = si" "step_lineage s0 s" "moved s0 s d d'"
    and a: "tbl_attempts d' = tbl_attempts d @ [a]" "at_id a \<notin> at_id ` set (tbl_attempts d)"
      "at_tenant_id a = ss_tenant_id s0" "at_step_id a = si" "at_completed_at a = None"
    and cl: "\<And>cl ev claimed. x = Ok (cl, ev) \<Longrightarrow> cr_claimed cl = Some claimed \<Longrightarrow>
              sa_id (cs_attempt claimed) = at_id a \<and> cx_step_id (cs_context claimed) = si
              \<and> cx_tenant_id (cs_context claimed) = ss_tenant_id s0 \<and> cx_run_id (cs_context claimed) = ss_run_id s0"
    unfolding granted_def by blast
  have ids: "sp_id (step_row s0) = si" "sp_tenant_id (step_row s0) = ss_tenant_id s0" "sp_run_id (step_row s0) = ss_run_id s0"
    "sp_id (step_row s) = si" "sp_tenant_id (step_row s) = ss_tenant_id s0"
    using s(2,3) by (simp_all add: step_row_def step_lineage_def)
  have "\<exists>b \<in> set (tbl_attempts d'). open_attempt (sp_tenant_id row) (sp_id row) b"
    if row: "row \<in> set (tbl_steps d')" "sp_status row = ''RUNNING''" for row
  proof (cases "row = step_row s")
    case True
    with a ids show ?thesis by (simp add: open_attempt_def)
  next
    case False
    with moved_rows(2) [OF s(4,3) row(1)] row(2) have "row \<in> set (tbl_steps d)" by auto
    with leased row(2) a(1) show ?thesis by (auto simp: leased_def)
  qed
  with leased a show "leased d'" by (simp add: leased_def)
  show "held cl d \<Longrightarrow> held cl d'" using genuine_moved [OF s(4,3)] a(1) by (auto simp: held_def)
  assume "cl \<in> set (claims_of x)"
  then obtain r ev where "x = Ok (r, ev)" "cr_claimed r = Some cl"
    by (auto simp: claims_of_def split: result.splits option.splits)
  note c = cl [OF this]
  have "\<exists>row \<in> set (tbl_steps d'). sp_id row = cx_step_id (cs_context cl)
      \<and> sp_tenant_id row = cx_tenant_id (cs_context cl) \<and> sp_run_id row = cx_run_id (cs_context cl)"
    using moved_rows(1) [OF s(4,3,1)] c ids by simp
  with c a show "held cl d'" by (simp add: held_def genuine_def)
qed

end
