(* ===== verification/Service_Properties.thy ===== *)
theory Service_Properties
  imports Service_Invariant Durability_Properties
begin

text \<open>
  The service keeps its invariant, and what follows from it: no run that is still alive is
  lost, and a worker whose lease was taken away changes nothing.
\<close>

section \<open>Every transition keeps the invariant\<close>

lemma work_tables [simp]:
  "tbl_runs (ch_work (chat_of d)) = tbl_runs d" "tbl_steps (ch_work (chat_of d)) = tbl_steps d"
  "tbl_attempts (ch_work (chat_of d)) = tbl_attempts d"
  "tbl_runs (with_chat ch d) = tbl_runs (ch_work ch)" "tbl_steps (with_chat ch d) = tbl_steps (ch_work ch)"
  "tbl_attempts (with_chat ch d) = tbl_attempts (ch_work ch)"
  "tbl_outbox (with_chat ch d) = tbl_outbox (ch_work ch)"
  by (simp_all add: chat_of_def with_chat_def db.truncate_def)








lemma held_genuine: "service_inv env (cl, st) \<Longrightarrow> c \<in> set cl \<Longrightarrow> genuine c (sb_tables st)"
  by (auto simp: service_inv_def held_def)



lemma released_attempts:
  assumes "st1 = release_attempts tn si now st"
  shows "tbl_runs (sb_tables st1) = tbl_runs (sb_tables st)" "tbl_steps (sb_tables st1) = tbl_steps (sb_tables st)"
    "tbl_attempts (sb_tables st1) = map (\<lambda>a. if expired_attempt tn si now a then expire_attempt now a else a)
       (tbl_attempts (sb_tables st))"
    "tbl_outbox (sb_tables st1) = tbl_outbox (sb_tables st)"
  using assms by (simp_all add: release_attempts_def Let_def)








section \<open>No run is lost\<close>










text \<open>A deployment with one conversation, and the state after its first message.\<close>

definition sample_app :: app_db where
  "sample_app =
     \<lparr>tbl_runs = [], tbl_steps = [], tbl_attempts = [], tbl_events = [], tbl_outbox = [],
      ap_conversations = ch_conversations sample_chat, ap_messages = [], ap_response_runs = [],
      ap_facts = [], ap_queries = [], ap_provider_attempts = [], ap_hits = [], ap_fetches = [],
      ap_documents = [], ap_versions = [], ap_version_fetches = [], ap_chunks = [], ap_candidates = [],
      ap_verified = [], ap_claims = [], ap_citations = [], ap_created_at = (\<lambda>_. 0), ap_updated_at = (\<lambda>_. 0)\<rparr>"

definition sample_start :: scan_db where
  "sample_start = \<lparr>sb_tables = sample_app, sb_invocations = []\<rparr>"





section \<open>Expired leases\<close>

lemma lease_until_max:
  assumes "lease_until tn si d = Some t" "a \<in> set (tbl_attempts d)" "open_attempt tn si a"
  shows "at_leased_until a \<le> t"
proof -
  let ?ts = "map at_leased_until (filter (open_attempt tn si) (tbl_attempts d))"
  have "at_leased_until a \<in> set ?ts" using assms(2,3) by auto
  moreover from this obtain x xs where ts: "?ts = x # xs" by (cases ?ts) auto
  moreover have "t = fold max xs x" using assms(1) unfolding lease_until_def ts by simp
  ultimately show ?thesis using fold_max_ge by metis
qed

lemma not_current_closed:
  assumes "distinct (map at_id (tbl_attempts d))"
    and "\<forall>a \<in> set (tbl_attempts d). \<not> open_attempt (cx_tenant_id (cs_context claimed)) (cx_step_id (cs_context claimed)) a"
    and "\<exists>a \<in> set (tbl_attempts d). at_id a = sa_id (cs_attempt claimed) \<and> at_step_id a = cx_step_id (cs_context claimed)"
  shows "\<not> is_current_attempt claimed d"
proof
  assume "is_current_attempt claimed d"
  then obtain row where row: "find (\<lambda>row. at_tenant_id row = cx_tenant_id (cs_context claimed)
      \<and> at_id row = sa_id (cs_attempt claimed)) (tbl_attempts d) = Some row" "at_completed_at row = None"
    by (auto simp: is_current_attempt_def split: option.splits)
  from find_SomeD [OF row(1)] have "row \<in> set (tbl_attempts d)" "at_tenant_id row = cx_tenant_id (cs_context claimed)"
    "at_id row = sa_id (cs_attempt claimed)" by auto
  moreover from assms(3) obtain a where "a \<in> set (tbl_attempts d)" "at_id a = sa_id (cs_attempt claimed)"
    "at_step_id a = cx_step_id (cs_context claimed)" by blast
  moreover have "inj_on at_id (set (tbl_attempts d))" using assms(1) by (simp add: distinct_map)
  ultimately have "at_step_id row = cx_step_id (cs_context claimed)" by (metis inj_onD)
  with \<open>row \<in> set (tbl_attempts d)\<close> \<open>at_tenant_id row = cx_tenant_id (cs_context claimed)\<close> row(2) assms(2)
  show False by (auto simp: open_attempt_def)
qed

text \<open>
  C3. The recovery of an expired lease takes the step away completely. When the reconciler has
  released a running step, no attempt of the step is open, every model call that was still
  open under one of its attempts is sealed, and the worker that held the lease changes
  nothing any more: its success, failure and lease renewal leave the database as it is.
\<close>

theorem expired_lease_is_released:
  assumes go: "make_ready conv server cand now st = Ok (True, st')" and cand: "rc_status cand = Step_RUNNING"
    and step: "steps_get conv (rc_tenant_id cand) (rc_tenant_id cand) (rc_step_id cand) (sb_tables st) = Ok (Some step)"
      "ss_status step = Step_RUNNING"
    and claimed: "leased (sb_tables st)" "held claimed (sb_tables st)"
      "cx_tenant_id (cs_context claimed) = rc_tenant_id cand" "cx_step_id (cs_context claimed) = rc_step_id cand"
  shows "(\<forall>a \<in> set (tbl_attempts (sb_tables st')). \<not> open_attempt (rc_tenant_id cand) (rc_step_id cand) a)
    \<and> (\<forall>a \<in> set (tbl_attempts (sb_tables st)). open_attempt (rc_tenant_id cand) (rc_step_id cand) a
         \<longrightarrow> (\<forall>i \<in> set (sb_invocations st'). mi_tenant_id i = rc_tenant_id cand
               \<longrightarrow> mi_attempt_id i = at_id a \<longrightarrow> mi_status i \<noteq> ''STARTED''))
    \<and> snd (store_succeed env hook ids claimed res trace t t' (sb_tables st')) = sb_tables st'
    \<and> snd (store_fail env cfg hook ids claimed err trace t t' (sb_tables st')) = sb_tables st'
    \<and> fst (store_renew env cfg t (claimed, sb_tables st')) \<noteq> Ok True
    \<and> snd (store_renew env cfg t (claimed, sb_tables st')) = (claimed, sb_tables st')"
proof -
  let ?tn = "rc_tenant_id cand" and ?si = "rc_step_id cand"
  let ?st1 = "release_attempts ?tn ?si now st"
  from go cand step obtain s1 lease where lease: "lease_until ?tn ?si (sb_tables st) = Some lease" "lease \<le> now"
    and save: "save_ready server ?tn s1 ?st1 = Ok (True, st')"
    by (auto simp: make_ready_def Let_def due_def split: if_split_asm option.split_asm)
  from save obtain s2 d2 where saved: "steps_save ?tn s1 (sb_tables ?st1) = Ok (s2, d2)"
    and st': "tbl_attempts (sb_tables st') = tbl_attempts d2" "sb_invocations st' = sb_invocations ?st1"
    by (auto simp: save_ready_def)
  have expired: "expired_attempt ?tn ?si now a" if "a \<in> set (tbl_attempts (sb_tables st))" "open_attempt ?tn ?si a" for a
    using lease_until_max [OF lease(1) that] lease(2) that(2) by (simp add: expired_attempt_def)
  have attempts: "tbl_attempts (sb_tables st') = map (\<lambda>a. if expired_attempt ?tn ?si now a then expire_attempt now a else a)
      (tbl_attempts (sb_tables st))"
    using st'(1) saves_keep_attempts(1) [OF saved] released_attempts(3) [OF refl] by simp
  have closed: "\<forall>a \<in> set (tbl_attempts (sb_tables st')). \<not> open_attempt ?tn ?si a"
  proof -
    have "\<not> open_attempt ?tn ?si (if expired_attempt ?tn ?si now a then expire_attempt now a else a)"
      if "a \<in> set (tbl_attempts (sb_tables st))" for a
    proof (cases "expired_attempt ?tn ?si now a")
      case True
      then show ?thesis by (simp add: expire_attempt_def open_attempt_def)
    next
      case False
      with expired [OF that] show ?thesis by auto
    qed
    then show ?thesis unfolding attempts set_map by blast
  qed
  have sealed: "mi_status i \<noteq> ''STARTED''"
    if "a \<in> set (tbl_attempts (sb_tables st))" "open_attempt ?tn ?si a" "i \<in> set (sb_invocations st')"
      "mi_tenant_id i = ?tn" "mi_attempt_id i = at_id a" for a i
    using that expired [OF that(1,2)] st'(2) by (auto simp: release_attempts_def Let_def abandon_def split: if_split_asm)
  have ids: "map at_id (tbl_attempts (sb_tables st')) = map at_id (tbl_attempts (sb_tables st))"
    by (simp add: attempts expire_attempt_def)
  have "\<exists>a \<in> set (tbl_attempts (sb_tables st')). at_id a = sa_id (cs_attempt claimed)
      \<and> at_step_id a = cx_step_id (cs_context claimed)"
  proof -
    from claimed(2) obtain a where a: "a \<in> set (tbl_attempts (sb_tables st))" "at_id a = sa_id (cs_attempt claimed)"
      "at_step_id a = cx_step_id (cs_context claimed)" unfolding held_def by blast
    from imageI [OF a(1), of "\<lambda>a. if expired_attempt ?tn ?si now a then expire_attempt now a else a"] a(2,3)
    show ?thesis unfolding attempts set_map by (intro bexI) (simp_all add: expire_attempt_def)
  qed
  then have stale: "\<not> is_current_attempt claimed (sb_tables st')"
    using claimed(1,3,4) closed ids by (intro not_current_closed) (simp_all add: leased_def)
  show ?thesis
    by (intro conjI closed stale_succeed(1) [OF stale] stale_fail(1) [OF stale] stale_renew [OF stale]) (use sealed in blast)
qed

text \<open>The sample step, held by a worker whose lease ran out at 5000010.\<close>

definition held_step :: SearchStep where
  "held_step = sample_step\<lparr>ss_status := Step_RUNNING, ss_version := 1\<rparr>"

definition sample_held :: scan_db where
  "sample_held = sample_start\<lparr>sb_tables := sample_app\<lparr>tbl_steps := [step_row held_step],
     tbl_attempts := [attempt_row old_attempt]\<rparr>\<rparr>"

definition sample_candidate :: ReconcileCandidate where
  "sample_candidate = \<lparr>rc_tenant_id = tid, rc_step_id = sid, rc_status = Step_RUNNING, rc_retry_at = None,
     rc_leased_until = Some 5000010\<rparr>"

lemma held_step_loads:
  "steps_get conv tid tid sid (sb_tables sample_held) = Ok (Some (SearchStep_mark_persisted held_step))"
proof -
  have wf: "step_inv held_step" "step_refs_wf held_step"
    using sample_step_inv by (simp_all add: held_step_def step_inv_def step_refs_wf_def sample_step_def)
  then have "db_inv sample_codec \<lparr>tbl_runs = [], tbl_steps = [step_row held_step], tbl_attempts = [], tbl_events = [],
      tbl_outbox = []\<rparr>" by (auto simp: db_inv_def)
  from steps_get_row [OF this _ wf, of conv] show ?thesis
    by (simp add: steps_get_def sample_held_def held_step_def sample_step_def)
qed

lemma sample_released: "\<exists>st. make_ready conv 0 sample_candidate 6000000 sample_held = Ok (True, st)"
proof -
  have "lease_until tid sid (sb_tables sample_held) = Some 5000010"
    by (simp add: lease_until_def sample_held_def open_attempt_def attempt_row_def old_attempt_def)
  moreover have "is_ok (SearchStep_release_expired_lease (SearchStep_mark_persisted held_step))"
    by (simp add: held_step_def SearchStep_release_expired_lease_def is_ok_iff step_transition_cases
        SearchStep_mark_persisted_def)
  moreover have "\<exists>st. save_ready 0 tid s1 (release_attempts tid sid 6000000 sample_held) = Ok (True, st)"
    if "SearchStep_release_expired_lease (SearchStep_mark_persisted held_step) = Ok s1" for s1
    using that by (auto simp: save_ready_def steps_save_def Let_def assert_tenant_def SearchStep_release_expired_lease_def
        step_transition_cases SearchStep_mark_persisted_def held_step_def sample_step_def sample_held_def
        step_row_def released_attempts(2) [OF refl])
  ultimately show ?thesis
    by (auto simp: make_ready_def sample_candidate_def held_step_loads due_def is_ok_iff
        SearchStep_mark_persisted_def held_step_def)
qed

theorem expired_lease_is_released_witness:
  "\<exists>st'. make_ready sample_conv 0 sample_candidate 6000000 sample_held = Ok (True, st')
     \<and> (\<forall>a \<in> set (tbl_attempts (sb_tables st')). \<not> open_attempt tid sid a)
     \<and> snd (store_renew sample_env sample_config 6000001 (old_claim, sb_tables st')) = (old_claim, sb_tables st')"
proof -
  from sample_released obtain st' where go: "make_ready sample_conv 0 sample_candidate 6000000 sample_held = Ok (True, st')"
    by blast
  have cand: "rc_status sample_candidate = Step_RUNNING" "rc_tenant_id sample_candidate = tid" "rc_step_id sample_candidate = sid"
    by (simp_all add: sample_candidate_def)
  have "steps_get sample_conv (rc_tenant_id sample_candidate) (rc_tenant_id sample_candidate) (rc_step_id sample_candidate)
      (sb_tables sample_held) = Ok (Some (SearchStep_mark_persisted held_step))"
    "ss_status (SearchStep_mark_persisted held_step) = Step_RUNNING"
    by (simp_all add: held_step_loads cand held_step_def SearchStep_mark_persisted_def)
  moreover have "leased (sb_tables sample_held)" "held old_claim (sb_tables sample_held)"
    by (simp_all add: leased_def held_def genuine_def sample_held_def open_attempt_def step_row_def attempt_row_def
        held_step_def sample_step_def old_attempt_def old_claim_def sample_context_def)
  moreover have "cx_tenant_id (cs_context old_claim) = rc_tenant_id sample_candidate"
    "cx_step_id (cs_context old_claim) = rc_step_id sample_candidate"
    by (simp_all add: old_claim_def sample_context_def cand)
  ultimately show ?thesis
    using expired_lease_is_released [OF go cand(1), of _ old_claim sample_env _ _ _ _ 6000001 0 sample_config] go
    unfolding cand by blast
qed

section \<open>The pumps\<close>











end
