(* ===== verification/Answer.thy ===== *)
theory Answer
  imports Evidence
begin

text \<open>
  Answers: the values of \<^verbatim>\<open>sana/modules/answer/domain.py\<close>, the claims that \<^verbatim>\<open>synthesizer.py\<close> makes
  of a model's proposals, and the final gate of \<^verbatim>\<open>citation_validator.py\<close>. The identifiers drawn
  from the factory are an argument, by the number of the draw. The mapping the validator is
  given may hold objects that are no verified evidence.
\<close>

section \<open>domain.py\<close>

datatype ClaimKind = Kind_FACTUAL | Kind_UNCERTAINTY | Kind_COMMENTARY

datatype ClaimSupport =
    Support_UNSUPPORTED | Support_GROUNDED | Support_VERIFIED | Support_CONFLICTED
  | Support_UNCONFIRMED

fun claim_support_value :: "ClaimSupport \<Rightarrow> string" where
  "claim_support_value Support_UNSUPPORTED = ''UNSUPPORTED''"
| "claim_support_value Support_GROUNDED = ''GROUNDED''"
| "claim_support_value Support_VERIFIED = ''VERIFIED''"
| "claim_support_value Support_CONFLICTED = ''CONFLICTED''"
| "claim_support_value Support_UNCONFIRMED = ''UNCONFIRMED''"

datatype UnsupportedClaimPolicy = Policy_DROP | Policy_WEAKEN | Policy_MARK_UNCONFIRMED

fun unsupported_policy_value :: "UnsupportedClaimPolicy \<Rightarrow> string" where
  "unsupported_policy_value Policy_DROP = ''DROP''"
| "unsupported_policy_value Policy_WEAKEN = ''WEAKEN''"
| "unsupported_policy_value Policy_MARK_UNCONFIRMED = ''MARK_UNCONFIRMED''"

record ProposedClaim =
  pc_claim_key :: string
  pc_text :: utext
  pc_fact_requirement_id :: "uuid option"
  pc_evidence_ids :: "uuid list"
  pc_kind :: ClaimKind

definition ProposedClaim_new ::
  "string \<Rightarrow> utext \<Rightarrow> uuid option \<Rightarrow> uuid list \<Rightarrow> ClaimKind \<Rightarrow> ProposedClaim result" where
  "ProposedClaim_new claim_key text fact_requirement_id evidence_ids kind =
     (if blank claim_key \<or> text_blank text
      then Err (ValueError ''Proposed claim key and text cannot be empty'')
      else if kind = Kind_FACTUAL \<and> fact_requirement_id = None
      then Err (ValueError ''Factual claims require a fact requirement'')
      else Ok \<lparr>pc_claim_key = claim_key, pc_text = text, pc_fact_requirement_id = fact_requirement_id,
               pc_evidence_ids = evidence_ids, pc_kind = kind\<rparr>)"

record AnswerClaim =
  ac_id :: uuid
  ac_tenant_id :: uuid
  ac_run_id :: uuid
  ac_claim_key :: string
  ac_text :: utext
  ac_fact_requirement_id :: "uuid option"
  ac_kind :: ClaimKind
  ac_support :: ClaimSupport
  ac_evidence_ids :: "uuid list"

text \<open>\<^verbatim>\<open>__post_init__\<close>, which \<^verbatim>\<open>replace\<close> runs again.\<close>

definition AnswerClaim_check :: "AnswerClaim \<Rightarrow> AnswerClaim result" where
  "AnswerClaim_check c =
     (if blank (ac_claim_key c) \<or> text_blank (ac_text c)
      then Err (ValueError ''Answer claim key and text cannot be empty'')
      else if ac_kind c = Kind_FACTUAL \<and> ac_fact_requirement_id c = None
      then Err (ValueError ''Factual claims require a fact requirement'')
      else if ac_support c \<in> {Support_GROUNDED, Support_VERIFIED, Support_CONFLICTED}
              \<and> ac_evidence_ids c = []
      then Err (ValueError ''Supported claims require evidence identifiers'')
      else Ok c)"

record Citation =
  ci_id :: uuid
  ci_tenant_id :: uuid
  ci_run_id :: uuid
  ci_answer_claim_id :: uuid
  ci_verified_evidence_id :: uuid
  ci_document_version_id :: uuid
  ci_document_chunk_id :: uuid
  ci_ordinal :: int
  ci_label :: string
  ci_rendered_url :: string
  ci_quote :: utext
  ci_start_offset :: int
  ci_end_offset :: int

definition Citation_check :: "Citation \<Rightarrow> Citation result" where
  "Citation_check c =
     (if ci_ordinal c < 1 \<or> blank (ci_label c) \<or> blank (ci_rendered_url c)
      then Err (ValueError ''Citation ordinal, label and URL are required'')
      else if ci_quote c = [] \<or> ci_start_offset c < 0 \<or> ci_end_offset c \<le> ci_start_offset c
      then Err (ValueError ''Citation quote offsets are invalid'')
      else if ci_end_offset c - ci_start_offset c \<noteq> int (length (ci_quote c))
      then Err (ValueError ''Citation quote offsets do not match quote'')
      else Ok c)"

record DraftAnswer =
  da_tenant_id :: uuid
  da_run_id :: uuid
  da_claims :: "AnswerClaim list"

record ValidationIssue =
  vi_claim_key :: string
  vi_code :: string
  vi_detail :: string

record ValidatedAnswer =
  va_tenant_id :: uuid
  va_run_id :: uuid
  va_claims :: "AnswerClaim list"
  va_citations :: "Citation list"
  va_issues :: "ValidationIssue list"

definition factual_traceability_rate :: "ValidatedAnswer \<Rightarrow> pyfloat" where
  "factual_traceability_rate a =
     (let factual = filter (\<lambda>c. ac_kind c = Kind_FACTUAL) (va_claims a) in
      if factual = [] then 1
      else
        let cited_claims = set (map ci_answer_claim_id (va_citations a)) in
        fl (of_nat (length (filter (\<lambda>c. ac_id c \<in> cited_claims) factual)) / of_nat (length factual)))"

section \<open>synthesizer.py\<close>

definition claim_support :: "CoverageAssessment option \<Rightarrow> uuid list \<Rightarrow> ClaimKind \<Rightarrow> ClaimSupport" where
  "claim_support assessment evidence_ids kind =
     (if kind \<noteq> Kind_FACTUAL then Support_UNSUPPORTED
      else case assessment of
             None \<Rightarrow> Support_UNSUPPORTED
           | Some a \<Rightarrow>
               if evidence_ids = [] then Support_UNSUPPORTED
               else if ca_status a = Cov_VERIFIED then Support_VERIFIED
               else if ca_status a = Cov_PARTIAL then Support_CONFLICTED
               else if ca_status a = Cov_COVERED then Support_GROUNDED
               else Support_UNSUPPORTED)"

definition synthesize_claim ::
  "uuid \<Rightarrow> uuid \<Rightarrow> (uuid, CoverageAssessment) dict \<Rightarrow> uuid \<Rightarrow> ProposedClaim \<Rightarrow> AnswerClaim result" where
  "synthesize_claim tenant_id run_id coverage_by_fact new_id p =
     (let assessment = (case pc_fact_requirement_id p of None \<Rightarrow> None | Some f \<Rightarrow> map_of coverage_by_fact f) in
      if (case assessment of None \<Rightarrow> False | Some a \<Rightarrow> ca_tenant_id a \<noteq> tenant_id \<or> ca_run_id a \<noteq> run_id)
      then Err (ValueError ''Coverage tenant/run does not match draft answer'')
      else
        let allowed = (case assessment of None \<Rightarrow> [] | Some a \<Rightarrow> ca_evidence_ids a);
            evidence_ids = filter (\<lambda>i. i \<in> set allowed) (fromkeys (pc_evidence_ids p)) in
        AnswerClaim_check
          \<lparr>ac_id = new_id, ac_tenant_id = tenant_id, ac_run_id = run_id, ac_claim_key = pc_claim_key p,
           ac_text = pc_text p, ac_fact_requirement_id = pc_fact_requirement_id p, ac_kind = pc_kind p,
           ac_support = claim_support assessment evidence_ids (pc_kind p), ac_evidence_ids = evidence_ids\<rparr>)"

fun synthesize_loop ::
  "uuid \<Rightarrow> uuid \<Rightarrow> (uuid, CoverageAssessment) dict \<Rightarrow> (nat \<Rightarrow> uuid) \<Rightarrow> string list \<Rightarrow> AnswerClaim list
     \<Rightarrow> ProposedClaim list \<Rightarrow> AnswerClaim list result" where
  "synthesize_loop tenant_id run_id coverage ids seen_keys claims [] = Ok claims"
| "synthesize_loop tenant_id run_id coverage ids seen_keys claims (p # ps) =
     (if pc_claim_key p \<in> set seen_keys then Err (ValueError ''Answer claim keys must be unique'')
      else rbind (synthesize_claim tenant_id run_id coverage (ids (length claims)) p) (\<lambda>c.
             synthesize_loop tenant_id run_id coverage ids (pc_claim_key p # seen_keys) (claims @ [c]) ps))"

definition ClaimSynthesizer_synthesize ::
  "(nat \<Rightarrow> uuid) \<Rightarrow> uuid \<Rightarrow> uuid \<Rightarrow> ProposedClaim list \<Rightarrow> (uuid, CoverageAssessment) dict \<Rightarrow> DraftAnswer result" where
  "ClaimSynthesizer_synthesize ids tenant_id run_id proposals coverage_by_fact =
     rbind (synthesize_loop tenant_id run_id coverage_by_fact ids [] [] proposals) (\<lambda>claims.
       Ok \<lparr>da_tenant_id = tenant_id, da_run_id = run_id, da_claims = claims\<rparr>)"

section \<open>citation\_validator.py\<close>

datatype evidence_object = Evidence VerifiedEvidence | Other_Object

definition evidence_fits :: "AnswerClaim \<Rightarrow> uuid \<Rightarrow> VerifiedEvidence \<Rightarrow> bool" where
  "evidence_fits claim i e \<longleftrightarrow>
     ve_id e = i \<and> ve_verdict e = Verdict_ACCEPTED \<and> ve_tenant_id e = ac_tenant_id claim
     \<and> ve_run_id e = ac_run_id claim \<and> Some (ve_fact_requirement_id e) = ac_fact_requirement_id claim"

definition fitting :: "AnswerClaim \<Rightarrow> (uuid, evidence_object) dict \<Rightarrow> uuid \<Rightarrow> VerifiedEvidence option" where
  "fitting claim evidence_by_id i =
     (case map_of evidence_by_id i of
        Some (Evidence e) \<Rightarrow> if evidence_fits claim i e then Some e else None
      | _ \<Rightarrow> None)"

definition valid_evidence :: "AnswerClaim \<Rightarrow> (uuid, evidence_object) dict \<Rightarrow> VerifiedEvidence list" where
  "valid_evidence claim evidence_by_id =
     List.map_filter (fitting claim evidence_by_id) (fromkeys (ac_evidence_ids claim))"

definition validated_support :: "VerifiedEvidence list \<Rightarrow> ClaimSupport" where
  "validated_support evidence =
     (if set (map ve_support_type evidence) = {SUPPORTS, CONTRADICTS} then Support_CONFLICTED
      else if list_ex (\<lambda>i. es_authority (ve_source i) = Auth_OFFICIAL) evidence then Support_VERIFIED
      else if 2 \<le> length (remdups (map (\<lambda>i. es_source_identity (ve_source i))
                    (filter (\<lambda>i. es_authority (ve_source i) = Auth_INDEPENDENT) evidence)))
      then Support_VERIFIED
      else Support_GROUNDED)"

text \<open>The two prefixes, as code points.\<close>

definition unconfirmed_prefix :: utext where
  "unconfirmed_prefix = [23578, 26410, 30830, 35748, 65306]"

definition weaken_prefix :: utext where
  "weaken_prefix =
     [29616, 26377, 26469, 28304, 20165, 25552, 31034, 12289, 23578, 19981, 33021, 30830, 35748, 65306]"

definition handle_unsupported ::
  "AnswerClaim \<Rightarrow> UnsupportedClaimPolicy \<Rightarrow> ValidationIssue list \<Rightarrow> (AnswerClaim option \<times> ValidationIssue list) result" where
  "handle_unsupported claim policy issues =
     (let issues' = issues @ [\<lparr>vi_claim_key = ac_claim_key claim, vi_code = ''unsupported_factual_claim'',
            vi_detail = ''Applied unsupported claim policy: '' @ unsupported_policy_value policy\<rparr>] in
      if policy = Policy_DROP then Ok (None, issues')
      else
        let prefix = (if policy = Policy_MARK_UNCONFIRMED then unconfirmed_prefix else weaken_prefix) in
        rbind (AnswerClaim_check (claim\<lparr>ac_text := prefix @ ac_text claim, ac_kind := Kind_UNCERTAINTY,
                 ac_support := Support_UNCONFIRMED, ac_evidence_ids := []\<rparr>)) (\<lambda>c. Ok (Some c, issues')))"

definition cite ::
  "(nat \<Rightarrow> uuid) \<Rightarrow> DraftAnswer \<Rightarrow> AnswerClaim \<Rightarrow> nat \<Rightarrow> VerifiedEvidence \<Rightarrow> Citation list \<Rightarrow> Citation list result" where
  "cite ids draft claim n e citations =
     rbind (Citation_check
       \<lparr>ci_id = ids (length citations), ci_tenant_id = da_tenant_id draft, ci_run_id = da_run_id draft,
        ci_answer_claim_id = ac_id claim, ci_verified_evidence_id = ve_id e,
        ci_document_version_id = es_document_version_id (ec_source (ve_candidate e)),
        ci_document_chunk_id = es_document_chunk_id (ec_source (ve_candidate e)),
        ci_ordinal = int n + 1, ci_label = ''['' @ nat_str (length citations + 1) @ '']'',
        ci_rendered_url = es_url (ec_source (ve_candidate e)), ci_quote = ec_quote (ve_candidate e),
        ci_start_offset = ec_start_offset (ve_candidate e), ci_end_offset = ec_end_offset (ve_candidate e)\<rparr>)
       (\<lambda>c. Ok (citations @ [c]))"

fun cite_all ::
  "(nat \<Rightarrow> uuid) \<Rightarrow> DraftAnswer \<Rightarrow> AnswerClaim \<Rightarrow> nat \<Rightarrow> VerifiedEvidence list \<Rightarrow> Citation list \<Rightarrow> Citation list result" where
  "cite_all ids draft claim n [] citations = Ok citations"
| "cite_all ids draft claim n (e # es) citations =
     rbind (cite ids draft claim n e citations) (cite_all ids draft claim (Suc n) es)"

definition validate_claim ::
  "(nat \<Rightarrow> uuid) \<Rightarrow> UnsupportedClaimPolicy \<Rightarrow> (uuid, evidence_object) dict \<Rightarrow> DraftAnswer \<Rightarrow> AnswerClaim
     \<Rightarrow> ValidatedAnswer \<Rightarrow> ValidatedAnswer result" where
  "validate_claim ids policy evidence_by_id draft claim a =
     (if ac_tenant_id claim \<noteq> da_tenant_id draft \<or> ac_run_id claim \<noteq> da_run_id draft
      then Err (ValueError ''Claim tenant/run does not match draft answer'')
      else if ac_kind claim \<noteq> Kind_FACTUAL then Ok (a\<lparr>va_claims := va_claims a @ [claim]\<rparr>)
      else
        let valid = valid_evidence claim evidence_by_id;
            invalid_count = int (length (ac_evidence_ids claim)) - int (length valid);
            issues = va_issues a @ (if invalid_count = 0 then []
              else [\<lparr>vi_claim_key = ac_claim_key claim, vi_code = ''invalid_evidence_mapping'',
                     vi_detail = ''Removed '' @ int_str invalid_count @ '' invalid evidence mapping(s)''\<rparr>]) in
        if valid = []
        then rbind (handle_unsupported claim policy issues) (\<lambda>(replacement, issues').
               Ok (a\<lparr>va_claims := va_claims a @ (case replacement of None \<Rightarrow> [] | Some c \<Rightarrow> [c]),
                     va_issues := issues'\<rparr>))
        else
          rbind (AnswerClaim_check (claim\<lparr>ac_evidence_ids := map ve_id valid,
                   ac_support := validated_support valid\<rparr>)) (\<lambda>validated.
          rbind (cite_all ids draft claim 0 valid (va_citations a)) (\<lambda>citations.
            Ok (a\<lparr>va_claims := va_claims a @ [validated], va_citations := citations,
                  va_issues := issues @ (if ac_support validated = ac_support claim then []
                    else [\<lparr>vi_claim_key = ac_claim_key claim, vi_code = ''support_recalculated'',
                           vi_detail = ''Support changed from '' @ claim_support_value (ac_support claim)
                             @ '' to '' @ claim_support_value (ac_support validated)\<rparr>])\<rparr>))))"

fun validate_loop ::
  "(nat \<Rightarrow> uuid) \<Rightarrow> UnsupportedClaimPolicy \<Rightarrow> (uuid, evidence_object) dict \<Rightarrow> DraftAnswer \<Rightarrow> AnswerClaim list
     \<Rightarrow> ValidatedAnswer \<Rightarrow> ValidatedAnswer result" where
  "validate_loop ids policy ev draft [] a = Ok a"
| "validate_loop ids policy ev draft (c # cs) a =
     rbind (validate_claim ids policy ev draft c a) (validate_loop ids policy ev draft cs)"

definition CitationValidator_validate ::
  "(nat \<Rightarrow> uuid) \<Rightarrow> UnsupportedClaimPolicy \<Rightarrow> (uuid, evidence_object) dict \<Rightarrow> DraftAnswer
     \<Rightarrow> ValidatedAnswer result" where
  "CitationValidator_validate ids policy evidence_by_id draft =
     validate_loop ids policy evidence_by_id draft (da_claims draft)
       \<lparr>va_tenant_id = da_tenant_id draft, va_run_id = da_run_id draft, va_claims = [], va_citations = [],
        va_issues = []\<rparr>"

end
