(* ===== verification/Answer_Properties.thy ===== *)
theory Answer_Properties
  imports Answer Evidence_Properties
begin

text \<open>
  What the citation gate promises: every citation goes back to accepted evidence of the same
  tenant, run and fact, every factual claim that is left is cited, and the gate is total on
  well-formed input and idempotent.
\<close>

section \<open>The evidence of a claim\<close>

lemma fitting_Some:
  "fitting claim ev i = Some e \<longleftrightarrow> map_of ev i = Some (Evidence e) \<and> evidence_fits claim i e"
  by (auto simp: fitting_def split: option.splits evidence_object.splits)

lemma set_map_filter: "e \<in> set (List.map_filter f xs) \<longleftrightarrow> (\<exists>i \<in> set xs. f i = Some e)"
  by (induction xs) (auto simp: List.map_filter_simps split: option.splits)

lemma valid_evidence_id: "e \<in> set (valid_evidence claim ev) \<Longrightarrow>
    fitting claim ev (ve_id e) = Some e \<and> ve_id e \<in> set (ac_evidence_ids claim)"
  by (auto simp: valid_evidence_def set_map_filter fitting_Some evidence_fits_def)

lemma map_filter_ids:
  assumes "\<And>i e. f i = Some e \<Longrightarrow> g e = i"
  shows "map g (List.map_filter f xs) = filter (\<lambda>i. f i \<noteq> None) xs"
  using assms by (induction xs) (auto simp: List.map_filter_simps split: option.splits)

lemma distinct_evidence: "distinct (map ve_id (valid_evidence claim ev))"
proof -
  have "map ve_id (valid_evidence claim ev)
      = filter (\<lambda>i. fitting claim ev i \<noteq> None) (fromkeys (ac_evidence_ids claim))"
    unfolding valid_evidence_def by (rule map_filter_ids) (simp add: fitting_Some evidence_fits_def)
  then show ?thesis by simp
qed

text \<open>A validated claim has exactly the evidence it was validated with.\<close>

lemma valid_evidence_again:
  assumes "c' = c\<lparr>ac_evidence_ids := map ve_id (valid_evidence c ev), ac_support := s\<rparr>"
  shows "valid_evidence c' ev = valid_evidence c ev"
proof -
  have eq: "evidence_fits c' = evidence_fits c" by (intro ext) (simp add: assms evidence_fits_def)
  have fits: "fitting c' ev = fitting c ev" by (intro ext) (simp only: fitting_def eq)
  have keys: "fromkeys (ac_evidence_ids c') = map ve_id (valid_evidence c ev)"
    by (simp add: assms fromkeys_distinct distinct_evidence)
  have "List.map_filter (fitting c ev) (map ve_id es) = es" if "\<forall>e \<in> set es. fitting c ev (ve_id e) = Some e" for es
    using that by (induction es) (auto simp: List.map_filter_simps)
  then show ?thesis unfolding valid_evidence_def [of c'] fits keys using valid_evidence_id by blast
qed

lemma validated_support_spec:
  "validated_support es = (if conflicting es then Support_CONFLICTED
     else if l2_sources es then Support_VERIFIED else Support_GROUNDED)"
proof -
  have two: "x = SUPPORTS \<or> x = CONTRADICTS" for x by (cases x) auto
  have both: "A = {SUPPORTS, CONTRADICTS} \<longleftrightarrow> SUPPORTS \<in> A \<and> CONTRADICTS \<in> A" for A using two by blast
  have has: "x \<in> set (map f es) \<longleftrightarrow> (\<exists>i \<in> set es. f i = x)" for x and f :: "VerifiedEvidence \<Rightarrow> SupportType"
    by auto
  have "set (map ve_support_type es) = {SUPPORTS, CONTRADICTS} \<longleftrightarrow> conflicting es"
    unfolding conflicting_def both has ..
  then show ?thesis
    unfolding validated_support_def l2_sources_iff length_remdups_card_conv by simp
qed

section \<open>One claim\<close>

text \<open>A citation of a claim: accepted evidence of the claim's own fact, quoted as it was grounded.\<close>

definition cites :: "(uuid, evidence_object) dict \<Rightarrow> AnswerClaim \<Rightarrow> Citation \<Rightarrow> bool" where
  "cites ev claim c \<longleftrightarrow>
     ci_answer_claim_id c = ac_id claim \<and> ci_tenant_id c = ac_tenant_id claim \<and> ci_run_id c = ac_run_id claim
     \<and> ci_verified_evidence_id c \<in> set (ac_evidence_ids claim)
     \<and> (\<exists>e. map_of ev (ci_verified_evidence_id c) = Some (Evidence e)
          \<and> ve_verdict e = Verdict_ACCEPTED \<and> ve_tenant_id e = ac_tenant_id claim \<and> ve_run_id e = ac_run_id claim
          \<and> Some (ve_fact_requirement_id e) = ac_fact_requirement_id claim
          \<and> ci_document_version_id c = es_document_version_id (ve_source e)
          \<and> ci_document_chunk_id c = es_document_chunk_id (ve_source e)
          \<and> ci_rendered_url c = es_url (ve_source e) \<and> ci_quote c = ec_quote (ve_candidate e)
          \<and> ci_start_offset c = ec_start_offset (ve_candidate e) \<and> ci_end_offset c = ec_end_offset (ve_candidate e))"

definition labelled :: "Citation list \<Rightarrow> bool" where
  "labelled cs \<longleftrightarrow> (\<forall>n < length cs. ci_label (cs ! n) = ''['' @ nat_str (n + 1) @ '']'')"

lemma labelled_snoc: "labelled (cs @ [c]) \<longleftrightarrow> labelled cs \<and> ci_label c = ''['' @ nat_str (length cs + 1) @ '']''"
  by (auto simp: labelled_def nth_append less_Suc_eq)

lemma cite_all_Ok:
  assumes "cite_all ids draft claim n es cs = Ok cs'"
    and "da_tenant_id draft = ac_tenant_id claim" "da_run_id draft = ac_run_id claim"
    and "\<forall>e \<in> set es. fitting claim ev (ve_id e) = Some e \<and> ve_id e \<in> set (ac_evidence_ids claim)"
  shows "\<exists>new. cs' = cs @ new \<and> map ci_verified_evidence_id new = map ve_id es
     \<and> (\<forall>c \<in> set new. cites ev claim c) \<and> (labelled cs \<longrightarrow> labelled cs')"
  using assms
proof (induction es arbitrary: n cs)
  case (Cons e es)
  from Cons.prems(1) obtain c where c: "cite_all ids draft claim (Suc n) es (cs @ [c]) = Ok cs'"
    "cites ev claim c" "ci_label c = ''['' @ nat_str (length cs + 1) @ '']''"
    "ci_verified_evidence_id c = ve_id e"
    using Cons.prems(2-4) by (auto simp: cite_def Citation_check_def cites_def fitting_Some evidence_fits_def split: if_splits)
  from Cons.IH [OF c(1) Cons.prems(2,3)] Cons.prems(4) obtain new where
    "cs' = (cs @ [c]) @ new" "map ci_verified_evidence_id new = map ve_id es" "\<forall>c \<in> set new. cites ev claim c"
    "labelled (cs @ [c]) \<longrightarrow> labelled cs'" by auto
  with c show ?case by (intro exI [of _ "c # new"]) (auto simp: labelled_snoc)
qed simp

lemma cite_all_same:
  assumes "da_tenant_id draft' = da_tenant_id draft" "da_run_id draft' = da_run_id draft" "ac_id claim' = ac_id claim"
  shows "cite_all ids draft' claim' n es cs = cite_all ids draft claim n es cs"
proof -
  have "cite ids draft' claim' = cite ids draft claim"
    by (intro ext) (simp add: cite_def assms)
  then show ?thesis by (induction es arbitrary: n cs) (auto intro: arg_cong2 [where f = rbind])
qed

text \<open>What the gate makes of one claim.\<close>

lemma validate_claim_cases:
  assumes "validate_claim ids policy ev draft claim a = Ok a'"
  obtains (none) "va_claims a' = va_claims a" "va_citations a' = va_citations a"
  | (plain) c where "va_claims a' = va_claims a @ [c]" "va_citations a' = va_citations a" "ac_kind c \<noteq> Kind_FACTUAL"
      "ac_tenant_id c = da_tenant_id draft" "ac_run_id c = da_run_id draft"
  | (cited) c where "va_claims a' = va_claims a @ [c]" "ac_kind c = Kind_FACTUAL" "valid_evidence claim ev \<noteq> []"
      "c = claim\<lparr>ac_evidence_ids := map ve_id (valid_evidence claim ev),
             ac_support := validated_support (valid_evidence claim ev)\<rparr>"
      "AnswerClaim_check c = Ok c" "ac_tenant_id c = da_tenant_id draft" "ac_run_id c = da_run_id draft"
      "cite_all ids draft claim 0 (valid_evidence claim ev) (va_citations a) = Ok (va_citations a')"
proof -
  show thesis
  proof (cases "ac_kind claim = Kind_FACTUAL")
    case False
    with assms plain [of claim] show ?thesis by (auto simp: validate_claim_def split: if_splits)
  next
    case True
    have own: "ac_tenant_id claim = da_tenant_id draft" "ac_run_id claim = da_run_id draft"
      using assms by (auto simp: validate_claim_def split: if_splits)
    show ?thesis
    proof (cases "valid_evidence claim ev = []")
      case True
      with \<open>ac_kind claim = Kind_FACTUAL\<close> assms own none plain show ?thesis
        by (auto simp: validate_claim_def handle_unsupported_def Let_def AnswerClaim_check_def split: if_splits)
    next
      case False
      with True assms own cited show ?thesis
        by (auto simp: validate_claim_def Let_def AnswerClaim_check_def split: if_splits)
    qed
  qed
qed


text \<open>A claim that has passed: its support is what its evidence gives, and all of it is cited.\<close>

definition evidence_support :: "VerifiedEvidence list \<Rightarrow> ClaimSupport" where
  "evidence_support es = (if conflicting es then Support_CONFLICTED
     else if l2_sources es then Support_VERIFIED else Support_GROUNDED)"

definition traced :: "(uuid, evidence_object) dict \<Rightarrow> Citation list \<Rightarrow> AnswerClaim \<Rightarrow> bool" where
  "traced ev cs c \<longleftrightarrow>
     ac_evidence_ids c \<noteq> [] \<and> ac_support c = evidence_support (valid_evidence c ev)
     \<and> (\<forall>i \<in> set (ac_evidence_ids c). \<exists>x \<in> set cs. cites ev c x \<and> ci_verified_evidence_id x = i)"

definition gated :: "(uuid, evidence_object) dict \<Rightarrow> ValidatedAnswer \<Rightarrow> bool" where
  "gated ev a \<longleftrightarrow>
     (\<forall>x \<in> set (va_citations a). \<exists>c \<in> set (va_claims a). ac_kind c = Kind_FACTUAL \<and> cites ev c x)
     \<and> (\<forall>c \<in> set (va_claims a). ac_kind c = Kind_FACTUAL \<longrightarrow> traced ev (va_citations a) c)
     \<and> labelled (va_citations a)"

lemma traced_more: "traced ev cs c \<Longrightarrow> traced ev (cs @ ds) c"
  by (fastforce simp: traced_def)

lemma cited_claim:
  assumes "c = claim\<lparr>ac_evidence_ids := map ve_id (valid_evidence claim ev),
             ac_support := validated_support (valid_evidence claim ev)\<rparr>"
    and "valid_evidence claim ev \<noteq> []" "ac_tenant_id c = da_tenant_id draft" "ac_run_id c = da_run_id draft"
    and "cite_all ids draft claim 0 (valid_evidence claim ev) cs = Ok cs'"
  shows "\<exists>new. cs' = cs @ new \<and> (\<forall>x \<in> set new. cites ev c x) \<and> traced ev cs' c \<and> (labelled cs \<longrightarrow> labelled cs')"
proof -
  have same: "valid_evidence c ev = valid_evidence claim ev" by (rule valid_evidence_again [OF assms(1)])
  have "ac_id c = ac_id claim" by (simp add: assms(1))
  from cite_all_same [OF refl refl this] assms(5)
  have "cite_all ids draft c 0 (valid_evidence c ev) cs = Ok cs'" unfolding same by simp
  from cite_all_Ok [OF this assms(3) [symmetric] assms(4) [symmetric]] valid_evidence_id
  obtain new where new: "cs' = cs @ new" "map ci_verified_evidence_id new = map ve_id (valid_evidence c ev)"
    "\<forall>x \<in> set new. cites ev c x" "labelled cs \<longrightarrow> labelled cs'" by blast
  have ids: "ac_evidence_ids c = map ci_verified_evidence_id new" by (simp add: new(2) same) (simp add: assms(1))
  have "ac_support c = validated_support (valid_evidence c ev)" unfolding same by (simp add: assms(1))
  moreover have "ac_evidence_ids c \<noteq> []" using assms(2) by (simp add: assms(1))
  moreover have "\<exists>x \<in> set cs'. cites ev c x \<and> ci_verified_evidence_id x = i" if "i \<in> set (ac_evidence_ids c)" for i
    using that new(1,3) unfolding ids by auto
  ultimately have "traced ev cs' c" by (simp add: traced_def evidence_support_def validated_support_spec)
  with new show ?thesis by blast
qed

lemma gated_step:
  assumes "validate_claim ids policy ev draft claim a = Ok a'" "gated ev a"
  shows "gated ev a'"
  using assms(1)
proof (cases rule: validate_claim_cases)
  case (cited c)
  from cited_claim [OF cited(4,3,6,7,8)] obtain new where
    "va_citations a' = va_citations a @ new" "\<forall>x \<in> set new. cites ev c x" "traced ev (va_citations a') c"
    "labelled (va_citations a) \<longrightarrow> labelled (va_citations a')" by blast
  with assms(2) cited(1,2) show ?thesis by (fastforce simp: gated_def intro: traced_more)
qed (use assms(2) in \<open>auto simp: gated_def\<close>)

lemma gated_loop: "validate_loop ids policy ev draft cs a = Ok a' \<Longrightarrow> gated ev a \<Longrightarrow> gated ev a'"
  by (induction cs arbitrary: a) (auto intro: gated_step)

lemma all_traced: "gated ev a \<Longrightarrow> factual_traceability_rate a = 1"
proof -
  assume g: "gated ev a"
  have "ac_id c \<in> set (map ci_answer_claim_id (va_citations a))"
    if "c \<in> set (filter (\<lambda>c. ac_kind c = Kind_FACTUAL) (va_claims a))" for c
  proof -
    from that g have "traced ev (va_citations a) c" by (auto simp: gated_def)
    then obtain i x where "x \<in> set (va_citations a)" "cites ev c x"
      unfolding traced_def by (metis list.set_intros(1) neq_Nil_conv)
    then show ?thesis by (force simp: cites_def)
  qed
  then have all: "filter (\<lambda>c. ac_id c \<in> set (map ci_answer_claim_id (va_citations a)))
      (filter (\<lambda>c. ac_kind c = Kind_FACTUAL) (va_claims a)) = filter (\<lambda>c. ac_kind c = Kind_FACTUAL) (va_claims a)"
    by (intro filter_True) blast
  show ?thesis unfolding factual_traceability_rate_def Let_def all by simp
qed

section \<open>The gate again\<close>

lemma validate_loop_append: "validate_loop ids policy ev draft (xs @ ys) a =
    rbind (validate_loop ids policy ev draft xs a) (validate_loop ids policy ev draft ys)"
proof (induction xs arbitrary: a)
  case (Cons x xs)
  then show ?case by (cases "validate_claim ids policy ev draft x a") auto
qed simp

definition again :: "(nat \<Rightarrow> uuid) \<Rightarrow> (uuid, evidence_object) dict \<Rightarrow> DraftAnswer \<Rightarrow> AnswerClaim list \<Rightarrow> Citation list
    \<Rightarrow> Citation list \<Rightarrow> bool" where
  "again ids ev draft claims cs cs' \<longleftrightarrow>
     (\<forall>policy b. va_citations b = cs \<longrightarrow>
        validate_loop ids policy ev draft claims b
          = Ok (b\<lparr>va_claims := va_claims b @ claims, va_citations := cs'\<rparr>))"

lemma again_append: "again ids ev draft xs cs ds \<Longrightarrow> again ids ev draft ys ds es
    \<Longrightarrow> again ids ev draft (xs @ ys) cs es"
  by (auto simp: again_def validate_loop_append)

lemma again_cited:
  assumes c: "c = claim\<lparr>ac_evidence_ids := map ve_id (valid_evidence claim ev),
             ac_support := validated_support (valid_evidence claim ev)\<rparr>"
    and "ac_kind c = Kind_FACTUAL" "valid_evidence claim ev \<noteq> []" "AnswerClaim_check c = Ok c"
    and "ac_tenant_id c = da_tenant_id draft" "ac_run_id c = da_run_id draft"
    and "cite_all ids draft claim 0 (valid_evidence claim ev) cs = Ok cs'"
  shows "again ids ev draft [c] cs cs'"
proof -
  have same: "valid_evidence c ev = valid_evidence claim ev" by (rule valid_evidence_again [OF c])
  have fields: "ac_evidence_ids c = map ve_id (valid_evidence c ev)" "ac_support c = validated_support (valid_evidence c ev)"
    unfolding same by (simp_all add: c)
  have upd: "c\<lparr>ac_evidence_ids := map ve_id (valid_evidence c ev), ac_support := validated_support (valid_evidence c ev)\<rparr> = c"
    unfolding same by (simp add: c)
  have "ac_id c = ac_id claim" by (simp add: c)
  from cite_all_same [OF refl refl this] assms(7)
  have cites: "cite_all ids draft c 0 (valid_evidence c ev) cs = Ok cs'" unfolding same by simp
  have len: "int (length (ac_evidence_ids c)) - int (length (valid_evidence c ev)) = 0" by (simp add: fields)
  have ne: "valid_evidence c ev \<noteq> []" using assms(3) same by simp
  show ?thesis
    unfolding again_def by (simp add: validate_claim_def Let_def assms(2,4-6) cites len ne upd)
qed

lemma again_step:
  assumes "validate_claim ids policy ev draft claim a = Ok a'"
    and "again ids ev draft (va_claims a) [] (va_citations a)"
  shows "again ids ev draft (va_claims a') [] (va_citations a')"
  using assms(1)
proof (cases rule: validate_claim_cases)
  case none
  with assms(2) show ?thesis by simp
next
  case (plain c)
  then have "again ids ev draft [c] (va_citations a) (va_citations a)"
    by (simp add: again_def validate_claim_def)
  with again_append [OF assms(2) this] plain show ?thesis by simp
next
  case (cited c)
  from again_append [OF assms(2) again_cited [OF cited(4,2,3,5-8)]] cited(1) show ?thesis by simp
qed

lemma again_loop:
  "validate_loop ids policy ev draft cs a = Ok a' \<Longrightarrow> again ids ev draft (va_claims a) [] (va_citations a)
    \<Longrightarrow> again ids ev draft (va_claims a') [] (va_citations a')"
  by (induction cs arbitrary: a) (auto intro: again_step)


section \<open>The gate is total on well-formed answers\<close>

text \<open>What the constructors of evidence sources and candidates guarantee of a quotation.\<close>

definition quotable :: "VerifiedEvidence \<Rightarrow> bool" where
  "quotable e \<longleftrightarrow> \<not> blank (es_url (ve_source e)) \<and> ec_quote (ve_candidate e) \<noteq> []
     \<and> 0 \<le> ec_start_offset (ve_candidate e)
     \<and> ec_end_offset (ve_candidate e) = ec_start_offset (ve_candidate e) + int (length (ec_quote (ve_candidate e)))"

lemma label_not_blank: "\<not> blank (CHR ''['' # s)"
  by (simp add: blank_iff py_space_def)

lemma marked_not_blank:
  "\<not> text_blank (unconfirmed_prefix @ t)" "\<not> text_blank (weaken_prefix @ t)"
  by (simp_all add: text_blank_iff text_space_def unconfirmed_prefix_def weaken_prefix_def)

lemma cite_all_total: "\<forall>e \<in> set es. quotable e \<Longrightarrow> \<exists>cs'. cite_all ids draft claim n es cs = Ok cs'"
proof (induction es arbitrary: n cs)
  case (Cons e es)
  from Cons.prems have "quotable e" by simp
  then obtain c where "cite ids draft claim n e cs = Ok (cs @ [c])"
    by (auto simp: quotable_def cite_def Citation_check_def label_not_blank)
  with Cons show ?case by simp
qed simp

lemma validate_claim_total:
  assumes "AnswerClaim_check claim = Ok claim" "ac_tenant_id claim = da_tenant_id draft" "ac_run_id claim = da_run_id draft"
    and "\<forall>e. Evidence e \<in> snd ` set ev \<longrightarrow> quotable e"
  shows "\<exists>a'. validate_claim ids policy ev draft claim a = Ok a'"
proof (cases "valid_evidence claim ev = [] \<or> ac_kind claim \<noteq> Kind_FACTUAL")
  case True
  then show ?thesis using assms(1-3)
    by (auto simp: validate_claim_def Let_def handle_unsupported_def AnswerClaim_check_def marked_not_blank
        split: if_splits)
next
  case False
  have "\<forall>e \<in> set (valid_evidence claim ev). quotable e"
    using assms(4) valid_evidence_id [of _ claim ev] map_of_SomeD [of ev] by (force simp: fitting_Some)
  from cite_all_total [OF this] obtain cs where
    "cite_all ids draft claim 0 (valid_evidence claim ev) (va_citations a) = Ok cs" by blast
  moreover have "AnswerClaim_check (claim\<lparr>ac_evidence_ids := map ve_id (valid_evidence claim ev), ac_support := s\<rparr>)
      = Ok (claim\<lparr>ac_evidence_ids := map ve_id (valid_evidence claim ev), ac_support := s\<rparr>)" for s
    using assms(1) False by (auto simp: AnswerClaim_check_def split: if_splits)
  ultimately show ?thesis using assms(2,3) False by (simp add: validate_claim_def Let_def)
qed

lemma validate_loop_total:
  assumes "\<forall>c \<in> set cs. AnswerClaim_check c = Ok c \<and> ac_tenant_id c = da_tenant_id draft \<and> ac_run_id c = da_run_id draft"
    and "\<forall>e. Evidence e \<in> snd ` set ev \<longrightarrow> quotable e"
  shows "\<exists>a'. validate_loop ids policy ev draft cs a = Ok a'"
  using assms(1)
proof (induction cs arbitrary: a)
  case (Cons c cs)
  from Cons.prems validate_claim_total [OF _ _ _ assms(2), of c draft ids policy a] obtain a' where
    "validate_claim ids policy ev draft c a = Ok a'" by auto
  with Cons show ?case by simp
qed simp

lemma AnswerClaim_check_Ok: "AnswerClaim_check k = Ok c \<Longrightarrow>
    AnswerClaim_check c = Ok c \<and> ac_tenant_id c = ac_tenant_id k \<and> ac_run_id c = ac_run_id k"
  by (auto simp: AnswerClaim_check_def split: if_splits)

lemma synthesize_claim_checked:
  "synthesize_claim tn r cov i p = Ok c \<Longrightarrow> AnswerClaim_check c = Ok c \<and> ac_tenant_id c = tn \<and> ac_run_id c = r"
  unfolding synthesize_claim_def Let_def
  by (split if_split_asm) (simp, drule AnswerClaim_check_Ok, simp)

lemma validate_loop_draft:
  assumes "da_tenant_id d' = da_tenant_id d" "da_run_id d' = da_run_id d"
  shows "validate_loop ids policy ev d' cs a = validate_loop ids policy ev d cs a"
proof -
  have "cite_all ids d' claim n es xs = cite_all ids d claim n es xs" for claim n es xs
    by (rule cite_all_same [OF assms refl])
  then have "validate_claim ids policy ev d' = validate_claim ids policy ev d"
    unfolding validate_claim_def assms by presburger
  then show ?thesis by (induction cs arbitrary: a) (auto intro: arg_cong2 [where f = rbind])
qed

lemma validate_loop_owner:
  "validate_loop ids policy ev draft cs a = Ok a' \<Longrightarrow> va_tenant_id a' = va_tenant_id a \<and> va_run_id a' = va_run_id a"
proof (induction cs arbitrary: a)
  case (Cons c cs)
  then obtain b where b: "validate_claim ids policy ev draft c a = Ok b" "validate_loop ids policy ev draft cs b = Ok a'"
    by auto
  from b(1) have "va_tenant_id b = va_tenant_id a \<and> va_run_id b = va_run_id a"
    unfolding validate_claim_def Let_def by (auto split: if_split_asm)
  with Cons.IH [OF b(2)] show ?case by simp
qed simp

lemma synthesize_loop_checked:
  "synthesize_loop tn r cov ids seen claims ps = Ok claims' \<Longrightarrow>
    \<forall>c \<in> set claims. AnswerClaim_check c = Ok c \<and> ac_tenant_id c = tn \<and> ac_run_id c = r \<Longrightarrow>
    \<forall>c \<in> set claims'. AnswerClaim_check c = Ok c \<and> ac_tenant_id c = tn \<and> ac_run_id c = r"
proof (induction ps arbitrary: seen claims)
  case (Cons p ps)
  from Cons.prems(1) obtain c seen' where c: "synthesize_claim tn r cov (ids (length claims)) p = Ok c"
    "synthesize_loop tn r cov ids seen' (claims @ [c]) ps = Ok claims'" by (auto split: if_splits)
  from synthesize_claim_checked [OF c(1)] have "AnswerClaim_check c = Ok c \<and> ac_tenant_id c = tn \<and> ac_run_id c = r" .
  with Cons.IH [OF c(2)] Cons.prems(2) show ?case by auto
qed simp

section \<open>A sample answer\<close>

definition quoted_evidence :: "uuid \<Rightarrow> EvidenceVerdict \<Rightarrow> VerifiedEvidence" where
  "quoted_evidence i v =
     \<lparr>ve_id = i,
      ve_candidate = \<lparr>ec_id = 40, ec_tenant_id = tid, ec_run_id = rid, ec_fact_requirement_id = 5,
        ec_source = \<lparr>es_document_id = 22, es_document_version_id = 21, es_document_chunk_id = 24,
          es_url = ''https://postgresql.org'', es_source_identity = ''postgresql.org'', es_authority = Auth_OFFICIAL\<rparr>,
        ec_quote = sample_quote, ec_quote_hash = sample_sha sample_quote, ec_support_type = SUPPORTS,
        ec_candidate_score = 1, ec_start_offset = 0, ec_end_offset = int (length sample_quote), ec_level = L1_GROUNDED\<rparr>,
      ve_verdict = v, ve_confidence = 1, ve_reason_codes = [], ve_verifier_version = ''v1'', ve_verified_at = 0,
      ve_level = L1_GROUNDED\<rparr>"

text \<open>An accepted and a rejected evidence, and an object of another type.\<close>

definition answer_evidence :: "(uuid, evidence_object) dict" where
  "answer_evidence =
     [(41, Evidence (quoted_evidence 41 Verdict_ACCEPTED)), (42, Evidence (quoted_evidence 42 Verdict_REJECTED)),
      (43, Other_Object)]"

text \<open>A factual claim that names the three of them.\<close>

definition answer_claim :: AnswerClaim where
  "answer_claim =
     \<lparr>ac_id = 50, ac_tenant_id = tid, ac_run_id = rid, ac_claim_key = ''a'', ac_text = sample_quote,
      ac_fact_requirement_id = Some 5, ac_kind = Kind_FACTUAL, ac_support = Support_GROUNDED,
      ac_evidence_ids = [41, 42, 43]\<rparr>"

lemma answer_claim_evidence: "valid_evidence answer_claim answer_evidence = [quoted_evidence 41 Verdict_ACCEPTED]"
  by (simp add: valid_evidence_def answer_claim_def answer_evidence_def fitting_def evidence_fits_def
      quoted_evidence_def List.map_filter_simps)

lemma answer_claim_validated:
  "\<exists>a. CitationValidator_validate (\<lambda>n. 60 + of_nat n) Policy_DROP answer_evidence
       \<lparr>da_tenant_id = tid, da_run_id = rid, da_claims = [answer_claim]\<rparr> = Ok a
     \<and> map ci_verified_evidence_id (va_citations a) = [41] \<and> length (va_claims a) = 1"
proof -
  have "\<not> blank ''a''" "\<not> text_blank sample_quote" "sample_quote \<noteq> []" "\<not> blank ''https://postgresql.org''" by code_simp+
  then show ?thesis
    unfolding CitationValidator_validate_def
    by (simp add: validate_claim_def answer_claim_evidence Let_def cite_def Citation_check_def label_not_blank
        AnswerClaim_check_def)
       (simp add: answer_claim_def quoted_evidence_def label_not_blank)
qed

definition answer_coverage :: "(uuid, CoverageAssessment) dict" where
  "answer_coverage =
     [(5, \<lparr>ca_tenant_id = tid, ca_run_id = rid, ca_fact_requirement_id = 5, ca_fact_key = ''k'', ca_status = Cov_COVERED,
           ca_level = Some L1_GROUNDED, ca_evidence_ids = [41, 42, 43], ca_supporting_ids = [41],
           ca_contradicting_ids = [], ca_reason_codes = [], ca_discovery_count = 0,
           ca_requires_research_upgrade = False\<rparr>)]"

text \<open>A claim with good and bad evidence, and one with bad evidence only.\<close>

definition answer_proposals :: "ProposedClaim list" where
  "answer_proposals =
     [\<lparr>pc_claim_key = ''a'', pc_text = sample_quote, pc_fact_requirement_id = Some 5,
        pc_evidence_ids = [41, 42, 43, 44], pc_kind = Kind_FACTUAL\<rparr>,
      \<lparr>pc_claim_key = ''b'', pc_text = sample_quote, pc_fact_requirement_id = Some 5,
        pc_evidence_ids = [42], pc_kind = Kind_FACTUAL\<rparr>]"

definition answer_draft :: "DraftAnswer result" where
  "answer_draft = ClaimSynthesizer_synthesize (\<lambda>n. 50 + of_nat n) tid rid answer_proposals answer_coverage"

lemma answer_evidence_quotable: "\<forall>e. Evidence e \<in> snd ` set answer_evidence \<longrightarrow> quotable e"
  by (auto simp: answer_evidence_def quoted_evidence_def quotable_def sample_quote_def ascii_text_def
      blank_iff py_space_def)

section \<open>Properties\<close>

text \<open>
  C16. Only accepted grounded evidence produces citations. Every citation of a validated answer
  belongs to a factual claim of that answer and quotes, with its offsets, document version and
  URL, an accepted evidence of the claim's own tenant, run and fact; every factual claim that is
  left cites each evidence it names and has the support that exactly this evidence gives
  (conflicted, verified by an official or two independent sources, else grounded); the labels
  count up from [1], and the traceability rate is exactly 1, whatever the model proposed and
  whatever objects the evidence mapping holds.
\<close>

theorem citations_are_traceable:
  assumes "CitationValidator_validate ids policy ev draft = Ok a"
  shows "(\<forall>x \<in> set (va_citations a). \<exists>c \<in> set (va_claims a). ac_kind c = Kind_FACTUAL \<and> cites ev c x)
    \<and> (\<forall>c \<in> set (va_claims a). ac_kind c = Kind_FACTUAL \<longrightarrow> traced ev (va_citations a) c)
    \<and> labelled (va_citations a)
    \<and> factual_traceability_rate a = 1"
proof -
  have "gated ev a"
    by (rule gated_loop [OF assms [unfolded CitationValidator_validate_def]]) (simp add: gated_def labelled_def)
  with all_traced [OF this] show ?thesis by (simp add: gated_def)
qed

theorem citations_are_traceable_witness:
  "\<exists>a. CitationValidator_validate (\<lambda>n. 60 + of_nat n) Policy_DROP answer_evidence
       \<lparr>da_tenant_id = tid, da_run_id = rid, da_claims = [answer_claim]\<rparr> = Ok a
     \<and> map ci_verified_evidence_id (va_citations a) = [41] \<and> length (va_claims a) = 1
     \<and> factual_traceability_rate a = 1"
proof -
  from answer_claim_validated obtain a where a: "CitationValidator_validate (\<lambda>n. 60 + of_nat n) Policy_DROP
       answer_evidence \<lparr>da_tenant_id = tid, da_run_id = rid, da_claims = [answer_claim]\<rparr> = Ok a"
    "map ci_verified_evidence_id (va_citations a) = [41]" "length (va_claims a) = 1" by (elim exE conjE)
  have "factual_traceability_rate a = 1" using citations_are_traceable [OF a(1)] by (elim conjE)
  with a show ?thesis by (intro exI [of _ a] conjI)
qed

text \<open>
  C32. Whatever claims the synthesizer accepts, the citation gate terminates without an error on
  evidence with well-formed quotations, and it is idempotent: validating the validated claims
  again, under any policy, keeps every claim and every citation and reports no issue.
\<close>

theorem validation_total_and_idempotent:
  assumes "ClaimSynthesizer_synthesize new_ids tn r proposals coverage = Ok draft"
    and "\<forall>e. Evidence e \<in> snd ` set ev \<longrightarrow> quotable e"
  shows "\<exists>a. CitationValidator_validate ids policy ev draft = Ok a
    \<and> CitationValidator_validate ids policy' ev (draft\<lparr>da_claims := va_claims a\<rparr>) = Ok (a\<lparr>va_issues := []\<rparr>)"
proof -
  let ?a = "\<lparr>va_tenant_id = tn, va_run_id = r, va_claims = [], va_citations = [], va_issues = []\<rparr>"
  from assms(1) have d: "da_tenant_id draft = tn" "da_run_id draft = r"
    and s: "synthesize_loop tn r coverage new_ids [] [] proposals = Ok (da_claims draft)"
    by (auto simp: ClaimSynthesizer_synthesize_def)
  from synthesize_loop_checked [OF s] d
  have "\<forall>c \<in> set (da_claims draft). AnswerClaim_check c = Ok c \<and> ac_tenant_id c = da_tenant_id draft
      \<and> ac_run_id c = da_run_id draft" by simp
  from validate_loop_total [OF this assms(2)] obtain a where
    a: "validate_loop ids policy ev draft (da_claims draft) ?a = Ok a" by blast
  have "again ids ev draft (va_claims a) [] (va_citations a)"
    by (rule again_loop [OF a]) (simp add: again_def)
  moreover have "va_tenant_id a = tn" "va_run_id a = r" using validate_loop_owner [OF a] by simp_all
  ultimately have "validate_loop ids policy' ev draft (va_claims a) ?a = Ok (a\<lparr>va_issues := []\<rparr>)"
    by (simp add: again_def)
  then have "validate_loop ids policy' ev (draft\<lparr>da_claims := va_claims a\<rparr>) (va_claims a) ?a = Ok (a\<lparr>va_issues := []\<rparr>)"
    using validate_loop_draft [of "draft\<lparr>da_claims := va_claims a\<rparr>" draft] by simp
  with a d show ?thesis by (simp add: CitationValidator_validate_def)
qed

theorem validation_total_and_idempotent_witness:
  "\<exists>draft a. answer_draft = Ok draft
     \<and> CitationValidator_validate (\<lambda>n. 60 + of_nat n) Policy_WEAKEN answer_evidence draft = Ok a
     \<and> CitationValidator_validate (\<lambda>n. 60 + of_nat n) Policy_DROP answer_evidence (draft\<lparr>da_claims := va_claims a\<rparr>)
         = Ok (a\<lparr>va_issues := []\<rparr>)"
proof -
  have "is_ok answer_draft" by code_simp
  then obtain draft where d: "answer_draft = Ok draft" by (auto simp: is_ok_iff)
  from validation_total_and_idempotent [OF d [unfolded answer_draft_def] answer_evidence_quotable] d
  show ?thesis by blast
qed

end
