(* ===== verification/Spec2Isabelle.thy ===== *)
theory Spec2Isabelle
  imports Lifecycle_Properties Workflow_Properties Research_Properties Evidence_Properties
    Durability_Properties Conversation_Properties Campaign_Properties Campaign_Lease_Properties
    Service_Properties Answer_Properties
begin

text \<open>
  \<^bold>\<open>A model of the Sana search service.\<close> Sana answers a chat message by a durable search: the
  API stores the message and a search run, workers execute the steps of the run (ROUTE, PLAN,
  DISCOVERY, SELECT, FETCH, EXTRACT, VERIFY, SYNTHESIZE) under leases and budgets, and a shadow
  campaign replays recorded cases against a budget of model calls. All state is in PostgreSQL;
  workers may crash, repeat or race.

  \<^bold>\<open>Parts, sources and theories\<close> (sources below \<^verbatim>\<open>src/sana\<close>).
  \<^item> \<^emph>\<open>Language.\<close> \<open>Sana_Prelude\<close> (results, JSON, strings, UUIDs, dictionaries), \<open>Py_Float\<close>
    (doubles with correct rounding, \<^verbatim>\<open>timedelta\<close>), \<open>Py_Decimal\<close> (the \<^verbatim>\<open>decimal\<close> operations).
  \<^item> \<^emph>\<open>Shared kernel\<close> \<^verbatim>\<open>modules/shared\<close>, \<^verbatim>\<open>orchestration/transitions.py\<close>: \<open>Shared_Kernel\<close>.
  \<^item> \<^emph>\<open>Orchestration\<close> \<^verbatim>\<open>modules/orchestration\<close>: \<open>Orchestration_Domain\<close> (\<^verbatim>\<open>domain.py\<close>),
    \<open>Budget_Policy\<close> (\<^verbatim>\<open>policy.py\<close>), \<open>Lease_Recovery\<close> (\<^verbatim>\<open>lease.py\<close>, \<^verbatim>\<open>reconciler.py\<close>, \<^verbatim>\<open>outbox.py\<close>,
    \<^verbatim>\<open>events.py\<close>), \<open>Search_Workflow\<close>, \<open>Workflow_Graph\<close> and \<open>Workflow_Schedule\<close>
    (\<^verbatim>\<open>search_workflow.py\<close>: ledger, graph, scheduler), \<open>Research_Workflow\<close>.
  \<^item> \<^emph>\<open>Persistence and execution:\<close> \<open>Sql_Repositories\<close> (\<^verbatim>\<open>orchestration/repository.py\<close>,
    \<^verbatim>\<open>platform/db/repositories.py\<close>), \<open>Step_Execution\<close> with \<open>Step_Execution_Proofs\<close>
    (\<^verbatim>\<open>step_handlers\<close>, \<^verbatim>\<open>executor.py\<close>, \<^verbatim>\<open>app/sql_step_execution.py\<close>), \<open>Search_Tables\<close>
    (\<^verbatim>\<open>platform/db/models/search.py\<close>), \<open>Workflow_Completion\<close> with \<open>Workflow_Completion_Proofs\<close>
    (\<^verbatim>\<open>app/workflow_completion.py\<close>).
  \<^item> \<^emph>\<open>Conversations\<close> \<^verbatim>\<open>modules/conversation\<close>, \<^verbatim>\<open>app/api/services.py\<close>: \<open>Conversation\<close>.
  \<^item> \<^emph>\<open>Content and evidence\<close> \<^verbatim>\<open>modules/content\<close>, \<^verbatim>\<open>modules/evidence\<close>: \<open>Content\<close>, \<open>Evidence\<close>.
  \<^item> \<^emph>\<open>Planning\<close> \<^verbatim>\<open>modules/search_planning\<close>: \<open>Planning_Domain\<close>, \<open>Query_Planning\<close>.
  \<^item> \<^emph>\<open>Shadow campaigns\<close> \<^verbatim>\<open>modules/shadow_campaign\<close>, \<^verbatim>\<open>platform/db/shadow_*.py\<close>:
    \<open>Campaign_Domain\<close>, \<open>Campaign_Budget\<close>, \<open>Campaign_Store\<close>, \<open>Campaign_Execution\<close>, and the
    proofs \<open>Campaign_Ledger\<close>, \<open>Campaign_Steps\<close>, \<open>Campaign_Refinement\<close>.
  The properties are in the theories \<open>*_Properties\<close>, applied to the values of \<open>Sana_Samples\<close> and
  \<open>Campaign_Samples\<close>.
\<close>

end
